(* ===== verification/Prelude.thy ===== *)
theory Prelude
  imports Main "HOL-Library.Word"
begin

text \<open>
  Shared vocabulary of the development: the fixed-width integer types of the C++ code, byte
  buffers (\<open>std::vector<uint8_t>\<close>), reading and overwriting a range of a buffer, the bytes
  of a machine word, and the collections of rules the component theories use.  Nothing here is
  specific to ELF or PowerPC.
\<close>

unbundle bit_operations_syntax

type_synonym u8 = "8 word"
type_synonym u16 = "16 word"
type_synonym u32 = "32 word"
type_synonym u64 = "64 word"

text \<open>\<open>int16_t\<close> and \<open>int32_t\<close> are the same words read with \<open>sint\<close>.\<close>

type_synonym i16 = "16 word"
type_synonym i32 = "32 word"

type_synonym bytes = "u8 list"

named_theorems layout_simps \<open>offsets and lengths of on-disk structures\<close>
named_theorems encode_simps \<open>bit fields of instruction words\<close>

section \<open>Ranges of a buffer\<close>

definition slice :: "nat \<Rightarrow> nat \<Rightarrow> 'a list \<Rightarrow> 'a list" where
  "slice off n xs = take n (drop off xs)"

definition put_at :: "nat \<Rightarrow> 'a list \<Rightarrow> 'a list \<Rightarrow> 'a list" where
  "put_at off ys xs = take off xs @ ys @ drop (off + length ys) xs"

lemma length_slice [simp]: "length (slice off n xs) = min n (length xs - off)"
  by (simp add: slice_def)

lemma slice_zero [simp]: "slice off 0 xs = []"
  by (simp add: slice_def)

lemma slice_full [simp]: "length xs \<le> n \<Longrightarrow> slice 0 n xs = xs"
  by (simp add: slice_def)

lemma nth_slice [simp]:
  "i < n \<Longrightarrow> off + i < length xs \<Longrightarrow> slice off n xs ! i = xs ! (off + i)"
  by (simp add: slice_def)

lemma slice_join: "b = a + n \<Longrightarrow> slice a n xs @ slice b m xs = slice a (n + m) xs"
  by (simp add: slice_def take_add add.commute [of n a])

lemma slice_skip: "length xs \<le> k \<Longrightarrow> slice k n (xs @ ys) = slice (k - length xs) n ys"
  by (simp add: slice_def)

lemma slice_hit: "length xs = n \<Longrightarrow> slice 0 n (xs @ ys) = xs"
  by (simp add: slice_def)

lemma slice_inside: "k + n \<le> length xs \<Longrightarrow> slice k n (xs @ ys) = slice k n xs"
  by (simp add: slice_def)

lemma slice_slice: "j + m \<le> n \<Longrightarrow> slice j m (slice k n xs) = slice (k + j) m xs"
  by (simp add: slice_def take_drop drop_drop min_def add.commute add.left_commute)

lemma slice_eqI:
  assumes "length xs = length ys"
    and "\<And>i. off \<le> i \<Longrightarrow> i < off + n \<Longrightarrow> i < length xs \<Longrightarrow> xs ! i = ys ! i"
  shows "slice off n xs = slice off n ys"
  using assms by (intro nth_equalityI) (auto simp: slice_def)

lemma length_put_at [simp]:
  "off + length ys \<le> length xs \<Longrightarrow> length (put_at off ys xs) = length xs"
  by (simp add: put_at_def)

lemma put_at_empty [simp]: "put_at off [] xs = xs"
  by (simp add: put_at_def)

lemma nth_put_at:
  assumes "off + length ys \<le> length xs" "i < length xs"
  shows "put_at off ys xs ! i = (if off \<le> i \<and> i < off + length ys then ys ! (i - off) else xs ! i)"
  using assms by (auto simp: put_at_def nth_append min_def)

lemma slice_put_at_same:
  "off \<le> length xs \<Longrightarrow> length ys = n \<Longrightarrow> slice off n (put_at off ys xs) = ys"
  by (simp add: slice_def put_at_def)

lemma slice_put_at_disjoint:
  assumes "off \<le> length xs" "k + n \<le> off \<or> off + length ys \<le> k"
  shows "slice k n (put_at off ys xs) = slice k n xs"
  using assms by (auto simp: slice_def put_at_def min_def drop_take)

lemma put_at_slice: "off + n \<le> length xs \<Longrightarrow> put_at off (slice off n xs) xs = xs"
  by (intro nth_equalityI) (auto simp: nth_put_at min_def)

lemma put_at_append:
  "off + length ys \<le> length xs \<Longrightarrow> put_at off ys (xs @ zs) = put_at off ys xs @ zs"
  by (simp add: put_at_def)

lemma put_at_end: "put_at (length xs) ys (xs @ zs) = xs @ ys @ drop (length ys) zs"
  by (simp add: put_at_def)

section \<open>Buffers of machine size\<close>

text \<open>
  \<open>vsize\<close> is \<open>std::vector::size()\<close> as a 64-bit \<open>size_t\<close>.  A vector's size is below
  \<open>2 ^ 63\<close> (its \<open>max_size\<close>); lemmas that depend on it assume \<open>length xs < 2 ^ 64\<close>.
\<close>

definition vsize :: "'a list \<Rightarrow> u64" where
  "vsize xs = of_nat (length xs)"

lemma unat_vsize [simp]: "length xs < 2 ^ 64 \<Longrightarrow> unat (vsize xs) = length xs"
  by (simp add: vsize_def unat_of_nat take_bit_nat_eq_self)

lemma unat_Suc_below: "(i :: 'a::len word) < n \<Longrightarrow> unat (i + 1) = Suc (unat i)"
proof -
  assume "i < n"
  then have "Suc (unat i) < 2 ^ LENGTH('a)"
    by (meson Suc_leI le_less_trans unsigned_less word_less_nat_alt)
  then show ?thesis by (simp add: unat_word_ariths)
qed

lemma unat_ucast_up:
  "LENGTH('a) \<le> LENGTH('b) \<Longrightarrow> unat (ucast (w :: 'a::len word) :: 'b::len word) = unat w"
  by (simp add: unsigned_ucast_eq take_bit_nat_eq_self_iff)
    (meson less_le_trans one_le_numeral power_increasing unsigned_less)

lemma unat_ucast_wide [simp]:
  "unat (ucast (w :: u16) :: u64) = unat w" "unat (ucast (w :: u16) :: u32) = unat w"
  "unat (ucast (v :: u32) :: u64) = unat v"
  by (simp_all add: unat_ucast_up)

section \<open>Bytes of a word\<close>

definition le_bytes :: "nat \<Rightarrow> 'a::len word \<Rightarrow> bytes" where
  "le_bytes n w = map (\<lambda>k. ucast (drop_bit (8 * k) w)) [0..<n]"

fun le_word :: "bytes \<Rightarrow> 'a::len word" where
  "le_word [] = 0"
| "le_word (b # bs) = push_bit 8 (le_word bs) OR ucast b"

lemma length_le_bytes [simp]: "length (le_bytes n w) = n"
  by (simp add: le_bytes_def)

lemma bit_le_word:
  "bit (le_word bs :: 'a::len word) i \<longleftrightarrow>
     i < LENGTH('a) \<and> i div 8 < length bs \<and> bit (bs ! (i div 8)) (i mod 8)"
proof (induction bs arbitrary: i)
  case Nil
  then show ?case by simp
next
  case (Cons b bs)
  show ?case
  proof (cases "i < 8")
    case True
    then show ?thesis by (auto simp: bit_simps)
  next
    case False
    then have "i div 8 = Suc ((i - 8) div 8)" "(i - 8) mod 8 = i mod 8"
      by linarith (use False in \<open>simp add: mod_if\<close>)
    moreover have "\<not> bit b i" using False by (auto dest: bit_imp_le_length)
    ultimately show ?thesis using False Cons.IH [of "i - 8"]
      by (auto simp: bit_simps)
  qed
qed

lemma le_word_le_bytes [simp]:
  fixes w :: "'a::len word"
  assumes "8 * n = LENGTH('a)"
  shows "le_word (le_bytes n w) = w"
proof (rule bit_word_eqI)
  fix i assume "i < LENGTH('a)"
  then have "i div 8 < n" using assms by linarith
  then show "bit (le_word (le_bytes n w) :: 'a word) i = bit w i"
    using \<open>i < LENGTH('a)\<close> by (simp add: bit_le_word le_bytes_def bit_simps)
qed

lemma le_bytes_le_word [simp]:
  assumes "8 * n = LENGTH('a::len)" "length bs = n"
  shows "le_bytes n (le_word bs :: 'a word) = bs"
proof (intro nth_equalityI)
  show "length (le_bytes n (le_word bs :: 'a word)) = length bs" using assms by simp
next
  fix k assume "k < length (le_bytes n (le_word bs :: 'a word))"
  then have k: "k < n" by simp
  show "le_bytes n (le_word bs :: 'a word) ! k = bs ! k"
  proof (rule bit_word_eqI)
    fix i assume "i < LENGTH(8)"
    then have i: "i < 8" by simp
    then have "(i + 8 * k) div 8 = k" "(i + 8 * k) mod 8 = i" "i + 8 * k < LENGTH('a)"
      using k assms by auto
    then show "bit (le_bytes n (le_word bs :: 'a word) ! k) i = bit (bs ! k) i"
      using k i assms by (simp add: le_bytes_def bit_simps bit_le_word add.commute)
  qed
qed

text \<open>Big-endian bytes are the same bytes, most significant first.\<close>

definition be_bytes :: "nat \<Rightarrow> 'a::len word \<Rightarrow> bytes" where
  "be_bytes n w = rev (le_bytes n w)"

definition be_word :: "bytes \<Rightarrow> 'a::len word" where
  "be_word bs = le_word (rev bs)"

lemma length_be_bytes [simp]: "length (be_bytes n w) = n"
  by (simp add: be_bytes_def)

lemma be_word_be_bytes [simp]:
  "8 * n = LENGTH('a) \<Longrightarrow> be_word (be_bytes n w) = (w :: 'a::len word)"
  by (simp add: be_word_def be_bytes_def)

lemma be_bytes_be_word [simp]:
  "8 * n = LENGTH('a) \<Longrightarrow> length bs = n \<Longrightarrow> be_bytes n (be_word bs :: 'a::len word) = bs"
  by (simp add: be_word_def be_bytes_def)

end
