(* ===== verification/ElfErrors.thy ===== *)
theory ElfErrors
  imports Prelude
begin

text \<open>
  The error values of \<open>libelf/include/elf/errors.hpp\<close> and the C++ library text formatting the
  messages are built with.  \<open>Result<T, Error>\<close> is a two-way variant: \<open>Inl\<close> carries the
  error, \<open>Inr\<close> the value.  Second half: \<open>std::to_string\<close>, the \<open>%x\<close> family of
  \<open>snprintf\<close> and left-justified padding, with the proof that the digits read back.
\<close>

section \<open>Typed errors\<close>

datatype error_code =
    TruncatedFile | BadMagic | UnsupportedClass | UnsupportedDataEncoding
  | InconsistentHeaderSize | OffsetOutOfBounds | IndexOutOfBounds | IoError
  | AlreadyPatched | Unsupported | InvalidArgument | RelocationFailed

record error =
  code :: error_code
  message :: string

definition make_error :: "error_code \<Rightarrow> string \<Rightarrow> error" where
  "make_error c msg = \<lparr>code = c, message = msg\<rparr>"

lemma make_error_sel [simp]: "code (make_error c msg) = c" "message (make_error c msg) = msg"
  by (simp_all add: make_error_def)

type_synonym 'a result = "error + 'a"

definition result_ok :: "'a result \<Rightarrow> bool" where
  "result_ok r = (\<not> isl r)"

definition result_value_or :: "'a result \<Rightarrow> 'a \<Rightarrow> 'a" where
  "result_value_or r fallback = (case r of Inr v \<Rightarrow> v | Inl _ \<Rightarrow> fallback)"

definition ok_unit :: "unit result" where
  "ok_unit = Inr ()"

text \<open>\<open>if (!r.ok()) return r.error(); ... r.value() ...\<close>\<close>

definition result_bind :: "'e + 'a \<Rightarrow> ('a \<Rightarrow> 'e + 'b) \<Rightarrow> 'e + 'b" where
  "result_bind r f = (case r of Inl e \<Rightarrow> Inl e | Inr v \<Rightarrow> f v)"

lemma result_bind_simps [simp]:
  "result_bind (Inl e) f = Inl e" "result_bind (Inr v) f = f v"
  by (simp_all add: result_bind_def)

lemma result_bind_eq_Inr [simp]:
  "result_bind r f = Inr y \<longleftrightarrow> (\<exists>v. r = Inr v \<and> f v = Inr y)"
  by (cases r) simp_all

lemma result_bind_eq_Inl:
  "result_bind r f = Inl e \<longleftrightarrow> r = Inl e \<or> (\<exists>v. r = Inr v \<and> f v = Inl e)"
  by (cases r) auto

section \<open>Numbers as text\<close>

fun digits :: "nat \<Rightarrow> nat \<Rightarrow> nat list" where
  "digits b n = (if n < b \<or> b < 2 then [n] else digits b (n div b) @ [n mod b])"

declare digits.simps [simp del]

definition digit_char :: "nat \<Rightarrow> char" where
  "digit_char d = (if d < 10 then char_of (48 + d) else char_of (87 + d))"

definition to_string :: "nat \<Rightarrow> string" where
  "to_string n = map digit_char (digits 10 n)"

definition hex_digits :: "nat \<Rightarrow> string" where
  "hex_digits n = map digit_char (digits 16 n)"

text \<open>\<open>%-Ns\<close>: pad on the right to at least \<open>n\<close> characters.\<close>

definition pad_right :: "nat \<Rightarrow> string \<Rightarrow> string" where
  "pad_right n s = s @ replicate (n - length s) CHR '' ''"

text \<open>\<open>snprintf(buf, size, ...)\<close> keeps at most \<open>size - 1\<close> characters.\<close>

definition snprintf_to :: "nat \<Rightarrow> string \<Rightarrow> string" where
  "snprintf_to bufsize s = take (bufsize - 1) s"

lemma digits_bound: "2 \<le> b \<Longrightarrow> d \<in> set (digits b n) \<Longrightarrow> d < b"
proof (induction b n rule: digits.induct)
  case (1 b n)
  then show ?case by (subst (asm) (2) digits.simps) (auto split: if_splits)
qed

definition read_digits :: "nat \<Rightarrow> nat list \<Rightarrow> nat" where
  "read_digits b ds = foldl (\<lambda>acc d. acc * b + d) 0 ds"

lemma read_digits_digits: "2 \<le> b \<Longrightarrow> read_digits b (digits b n) = n"
proof (induction b n rule: digits.induct)
  case (1 b n)
  then show ?case by (subst digits.simps) (simp add: read_digits_def)
qed

lemma length_digits: "2 \<le> b \<Longrightarrow> 0 < k \<Longrightarrow> n < b ^ k \<Longrightarrow> length (digits b n) \<le> k"
proof (induction k arbitrary: n)
  case 0
  then show ?case by simp
next
  case (Suc k)
  show ?case
  proof (cases "n < b")
    case True
    then show ?thesis by (subst digits.simps) simp
  next
    case False
    then have "0 < k" using Suc.prems by (cases k) auto
    moreover have "n div b < b ^ k" using Suc.prems by (simp add: less_mult_imp_div_less mult.commute)
    ultimately show ?thesis using Suc.IH [of "n div b"] Suc.prems
      by (subst digits.simps) auto
  qed
qed

definition char_digit :: "char \<Rightarrow> nat" where
  "char_digit c = (let k = of_char c in if k < 58 then k - 48 else k - 87)"

lemma char_digit_digit_char: "d < 16 \<Longrightarrow> char_digit (digit_char d) = d"
  by (simp add: char_digit_def digit_char_def Let_def)

lemma map_char_digit:
  assumes "\<And>d. d \<in> set ds \<Longrightarrow> d < 16"
  shows "map char_digit (map digit_char ds) = ds"
  using assms by (induction ds) (simp_all add: char_digit_digit_char)

lemma read_to_string: "read_digits 10 (map char_digit (to_string n)) = n"
proof -
  have "map char_digit (to_string n) = digits 10 n"
    unfolding to_string_def by (rule map_char_digit) (use digits_bound [of 10] in fastforce)
  then show ?thesis by (simp add: read_digits_digits)
qed

lemma read_hex_digits: "read_digits 16 (map char_digit (hex_digits n)) = n"
proof -
  have "map char_digit (hex_digits n) = digits 16 n"
    unfolding hex_digits_def by (rule map_char_digit) (use digits_bound [of 16] in fastforce)
  then show ?thesis by (simp add: read_digits_digits)
qed

lemma length_hex_digits: "0 < k \<Longrightarrow> n < 16 ^ k \<Longrightarrow> length (hex_digits n) \<le> k"
  by (simp add: hex_digits_def length_digits)

lemma snprintf_to_id: "length s < bufsize \<Longrightarrow> snprintf_to bufsize s = s"
  by (simp add: snprintf_to_def)

end
