(* ===== verification/Endian.thy ===== *)
theory Endian
  imports ElfErrors
begin

text \<open>
  \<open>libelf/include/elf/endian.hpp\<close>: the byte-swapping functions and \<open>Endianed<T, Order>\<close>, the
  scalar every multi-byte field of an on-disk structure is typed as.  The locale
  \<open>endian_scalar\<close> states what the library needs of a byte swap (it reverses the bytes of the
  word); it is interpreted on the three swaps of the code.
\<close>

section \<open>The code\<close>

datatype endian = Little | Big

definition byteswap16 :: "u16 \<Rightarrow> u16" where
  "byteswap16 v = ucast (drop_bit 8 (ucast v :: i32) OR push_bit 8 (ucast v :: i32))"

definition byteswap32 :: "u32 \<Rightarrow> u32" where
  "byteswap32 v =
     push_bit 24 (v AND 0x000000FF) OR push_bit 8 (v AND 0x0000FF00) OR
     drop_bit 8 (v AND 0x00FF0000) OR drop_bit 24 (v AND 0xFF000000)"

definition byteswap64 :: "u64 \<Rightarrow> u64" where
  "byteswap64 v =
     push_bit 32 (ucast (byteswap32 (ucast (v AND 0xFFFFFFFF)))) OR
     ucast (byteswap32 (ucast (drop_bit 32 v)))"

definition host_is_little_endian :: bool where
  "host_is_little_endian = ((0x0001 :: i32) = ucast (1 :: u16))"

text \<open>
  \<open>Endianed\<close> holds \<open>storage_\<close>, a \<open>T\<close> in the host's own representation; \<open>Order\<close> is its
  template argument and \<open>bs\<close> the specialisation of \<open>byteswap<T>\<close>.
\<close>

datatype 'w endianed = Endianed (storage: 'w)

definition needs_swap :: "endian \<Rightarrow> bool" where
  "needs_swap order = ((order = Little) \<noteq> host_is_little_endian)"

definition endianed_get :: "('w \<Rightarrow> 'w) \<Rightarrow> endian \<Rightarrow> 'w endianed \<Rightarrow> 'w" where
  "endianed_get bs order e = (if needs_swap order then bs (storage e) else storage e)"

definition endianed_set :: "('w \<Rightarrow> 'w) \<Rightarrow> endian \<Rightarrow> 'w \<Rightarrow> 'w endianed" where
  "endianed_set bs order host_value =
     Endianed (if needs_swap order then bs host_value else host_value)"

abbreviation get16 :: "endian \<Rightarrow> u16 endianed \<Rightarrow> u16" where "get16 \<equiv> endianed_get byteswap16"
abbreviation get32 :: "endian \<Rightarrow> u32 endianed \<Rightarrow> u32" where "get32 \<equiv> endianed_get byteswap32"
abbreviation get64 :: "endian \<Rightarrow> u64 endianed \<Rightarrow> u64" where "get64 \<equiv> endianed_get byteswap64"
abbreviation set16 :: "endian \<Rightarrow> u16 \<Rightarrow> u16 endianed" where "set16 \<equiv> endianed_set byteswap16"
abbreviation set32 :: "endian \<Rightarrow> u32 \<Rightarrow> u32 endianed" where "set32 \<equiv> endianed_set byteswap32"
abbreviation set64 :: "endian \<Rightarrow> u64 \<Rightarrow> u64 endianed" where "set64 \<equiv> endianed_set byteswap64"

section \<open>Bytes in memory and in the file\<close>

text \<open>
  The value of a run of bytes in a given byte order: with the host's order this is what
  \<open>memcpy\<close> into an integer gives, with the file's order what the ELF specification says the
  field means.
\<close>

definition word_in_order :: "endian \<Rightarrow> bytes \<Rightarrow> 'a::len word" where
  "word_in_order order bs = (case order of Little \<Rightarrow> le_word bs | Big \<Rightarrow> be_word bs)"

definition bytes_in_order :: "endian \<Rightarrow> nat \<Rightarrow> 'a::len word \<Rightarrow> bytes" where
  "bytes_in_order order n w = (case order of Little \<Rightarrow> le_bytes n w | Big \<Rightarrow> be_bytes n w)"

fun other_order :: "endian \<Rightarrow> endian" where
  "other_order Little = Big"
| "other_order Big = Little"

text \<open>The two orders can be enumerated, so that a claim about both is checked case by case.\<close>

instantiation endian :: enum
begin

definition enum_endian :: "endian list" where "enum_endian = [Little, Big]"
definition enum_all_endian :: "(endian \<Rightarrow> bool) \<Rightarrow> bool" where
  "enum_all_endian P = (P Little \<and> P Big)"
definition enum_ex_endian :: "(endian \<Rightarrow> bool) \<Rightarrow> bool" where
  "enum_ex_endian P = (P Little \<or> P Big)"

instance
proof
  show univ: "(UNIV :: endian set) = set enum_class.enum"
    by (auto simp: enum_endian_def intro: endian.exhaust)
  show "distinct (enum_class.enum :: endian list)" by (simp add: enum_endian_def)
  show "enum_class.enum_all P = Ball UNIV P" for P :: "endian \<Rightarrow> bool"
    unfolding univ by (simp add: enum_endian_def enum_all_endian_def)
  show "enum_class.enum_ex P = Bex UNIV P" for P :: "endian \<Rightarrow> bool"
    unfolding univ by (simp add: enum_endian_def enum_ex_endian_def)
qed

end

lemma other_order_swaps: "\<forall>order. other_order (other_order order) = order \<and> other_order order \<noteq> order"
  by code_simp

section \<open>What a byte swap has to satisfy\<close>

lemma host_is_little_endian [simp]: host_is_little_endian
  by (simp add: host_is_little_endian_def)

lemma needs_swap_iff [simp]: "needs_swap order \<longleftrightarrow> order = Big"
  by (cases order) (simp_all add: needs_swap_def)

locale endian_scalar =
  fixes width :: nat and bs :: "'a::len word \<Rightarrow> 'a word"
  assumes width: "8 * width = LENGTH('a)"
    and swap_bytes: "le_bytes width (bs w) = rev (le_bytes width w)"
begin

lemma swap_eq: "bs w = be_word (le_bytes width w)"
proof -
  have "le_word (le_bytes width (bs w)) = (le_word (rev (le_bytes width w)) :: 'a word)"
    by (simp only: swap_bytes)
  then show ?thesis using width by (simp add: be_word_def)
qed

lemma swap_swap [simp]: "bs (bs w) = w"
proof -
  have "le_word (le_bytes width (bs (bs w))) = (le_word (le_bytes width w) :: 'a word)"
    by (simp only: swap_bytes rev_rev_ident)
  then show ?thesis using width by simp
qed

lemma get_set [simp]: "endianed_get bs order (endianed_set bs order w) = w"
  by (simp add: endianed_get_def endianed_set_def)

lemma set_get [simp]: "endianed_set bs order (endianed_get bs order e) = e"
  by (cases e) (simp add: endianed_get_def endianed_set_def)

lemma get_loaded:
  assumes "length raw = width"
  shows "endianed_get bs order (Endianed (word_in_order host raw)) =
         word_in_order (if host = Little then order else other_order order) raw"
  using assms width swap_eq [of "le_word raw"] swap_eq [of "be_word raw"]
  by (cases host; cases order)
     (simp_all add: endianed_get_def word_in_order_def be_word_def)

lemma get_le_word:
  "length raw = width \<Longrightarrow> endianed_get bs order (Endianed (le_word raw)) = word_in_order order raw"
  using get_loaded [of raw order Little] by (simp add: word_in_order_def)

lemma stored_set: "le_bytes width (storage (endianed_set bs order w)) = bytes_in_order order width w"
  by (cases order) (simp_all add: endianed_set_def bytes_in_order_def be_bytes_def swap_bytes)

end

section \<open>The three swaps satisfy it\<close>

lemma byteswap32_masks:
  "byteswap32 v =
     push_bit 24 (v AND mask 8) OR push_bit 8 (v AND push_bit 8 (mask 8)) OR
     drop_bit 8 (v AND push_bit 16 (mask 8)) OR drop_bit 24 (v AND push_bit 24 (mask 8))"
  by (simp add: byteswap32_def mask_eq_exp_minus_1)

lemma byteswap16_bytes: "le_bytes 2 (byteswap16 v) = rev (le_bytes 2 v)"
proof -
  have "ucast (byteswap16 v) = (ucast (drop_bit 8 v) :: u8)"
       "ucast (drop_bit 8 (byteswap16 v)) = (ucast v :: u8)"
    by (rule bit_word_eqI; auto simp: byteswap16_def bit_simps dest: bit_imp_le_length)+
  then show ?thesis by (simp add: le_bytes_def upt_rec)
qed

lemma byteswap32_bytes: "le_bytes 4 (byteswap32 v) = rev (le_bytes 4 v)"
proof -
  have "ucast (byteswap32 v) = (ucast (drop_bit 24 v) :: u8)"
       "ucast (drop_bit 8 (byteswap32 v)) = (ucast (drop_bit 16 v) :: u8)"
       "ucast (drop_bit 16 (byteswap32 v)) = (ucast (drop_bit 8 v) :: u8)"
       "ucast (drop_bit 24 (byteswap32 v)) = (ucast v :: u8)"
    by (rule bit_word_eqI; auto simp: byteswap32_masks bit_simps)+
  then show ?thesis by (simp add: le_bytes_def upt_rec)
qed

lemma le_bytes_64_halves:
  fixes w :: u64
  shows "le_bytes 8 w = le_bytes 4 (ucast w :: u32) @ le_bytes 4 (ucast (drop_bit 32 w) :: u32)"
proof -
  have "ucast (drop_bit k w) = (ucast (drop_bit k (ucast w :: u32)) :: u8)" if "k \<le> 24" for k
    using that by (intro bit_word_eqI) (auto simp: bit_simps)
  moreover have "ucast (drop_bit (32 + k) w) = (ucast (drop_bit k (ucast (drop_bit 32 w) :: u32)) :: u8)"
    if "k \<le> 24" for k
    using that by (intro bit_word_eqI) (auto simp: bit_simps ac_simps)
  from this [of 0] this [of 8] this [of 16] this [of 24] calculation [of 0] calculation [of 8]
    calculation [of 16] calculation [of 24]
  show ?thesis by (simp add: le_bytes_def upt_rec)
qed

lemma byteswap64_bytes: "le_bytes 8 (byteswap64 v) = rev (le_bytes 8 v)"
proof -
  have "ucast (byteswap64 v) = byteswap32 (ucast (drop_bit 32 v))"
    by (rule bit_word_eqI) (auto simp: byteswap64_def bit_simps dest: bit_imp_le_length)
  moreover have "ucast (drop_bit 32 (byteswap64 v)) = byteswap32 (ucast (v AND mask 32))"
    by (rule bit_word_eqI) (auto simp: byteswap64_def bit_simps mask_eq_exp_minus_1
        dest: bit_imp_le_length)
  moreover have "ucast (v AND mask 32) = (ucast v :: u32)"
    by (rule bit_word_eqI) (auto simp: bit_simps)
  ultimately show ?thesis by (simp add: le_bytes_64_halves byteswap32_bytes)
qed

interpretation sw16: endian_scalar 2 byteswap16
  by unfold_locales (simp_all add: byteswap16_bytes)

interpretation sw32: endian_scalar 4 byteswap32
  by unfold_locales (simp_all add: byteswap32_bytes)

interpretation sw64: endian_scalar 8 byteswap64
  by unfold_locales (simp_all add: byteswap64_bytes)

lemmas endianed_read = sw16.get_le_word sw32.get_le_word sw64.get_le_word
lemmas endianed_write = sw16.stored_set sw32.stored_set sw64.stored_set

end
