(* ===== verification/ElfTypes.thy ===== *)
theory ElfTypes
  imports Endian
begin

text \<open>
  \<open>libelf/include/elf/types.hpp\<close>: the constants and the on-disk structures of ELF32 and ELF64,
  with the bytes a \<open>memcpy\<close> moves between a structure and the file.  The host is
  little-endian, as \<open>host_is_little_endian\<close> says it is, so a field's \<open>storage_\<close> is the
  little-endian reading of its bytes.  The second half packs what \<open>ElfFile<Is64, E>\<close> uses of
  its three structures (\<open>std::conditional_t<Is64, ...>\<close>) into one record of operations, and
  states their laws as the locale \<open>elf_layout\<close>, interpreted on both classes and byte orders.
\<close>

section \<open>Constants\<close>

definition EI_MAG0 :: nat where "EI_MAG0 = 0"
definition EI_MAG1 :: nat where "EI_MAG1 = 1"
definition EI_MAG2 :: nat where "EI_MAG2 = 2"
definition EI_MAG3 :: nat where "EI_MAG3 = 3"
definition EI_CLASS :: nat where "EI_CLASS = 4"
definition EI_DATA :: nat where "EI_DATA = 5"
definition EI_VERSION :: nat where "EI_VERSION = 6"
definition EI_OSABI :: nat where "EI_OSABI = 7"
definition EI_ABIVERSION :: nat where "EI_ABIVERSION = 8"
definition EI_PAD :: nat where "EI_PAD = 9"
definition EI_NIDENT :: nat where "EI_NIDENT = 16"

definition ELFMAG0 :: u8 where "ELFMAG0 = 0x7F"
definition ELFMAG1 :: u8 where "ELFMAG1 = of_char CHR ''E''"
definition ELFMAG2 :: u8 where "ELFMAG2 = of_char CHR ''L''"
definition ELFMAG3 :: u8 where "ELFMAG3 = of_char CHR ''F''"

definition ELFCLASSNONE :: u8 where "ELFCLASSNONE = 0"
definition ELFCLASS32 :: u8 where "ELFCLASS32 = 1"
definition ELFCLASS64 :: u8 where "ELFCLASS64 = 2"
definition ELFDATANONE :: u8 where "ELFDATANONE = 0"
definition ELFDATA2LSB :: u8 where "ELFDATA2LSB = 1"
definition ELFDATA2MSB :: u8 where "ELFDATA2MSB = 2"

definition ET_NONE :: u16 where "ET_NONE = 0"
definition ET_REL :: u16 where "ET_REL = 1"
definition ET_EXEC :: u16 where "ET_EXEC = 2"
definition ET_DYN :: u16 where "ET_DYN = 3"
definition ET_CORE :: u16 where "ET_CORE = 4"

definition EM_PPC64 :: u16 where "EM_PPC64 = 21"

definition PT_NULL :: u32 where "PT_NULL = 0"
definition PT_LOAD :: u32 where "PT_LOAD = 1"
definition PT_DYNAMIC :: u32 where "PT_DYNAMIC = 2"
definition PT_INTERP :: u32 where "PT_INTERP = 3"
definition PT_NOTE :: u32 where "PT_NOTE = 4"

definition PF_X :: u32 where "PF_X = 0x1"
definition PF_W :: u32 where "PF_W = 0x2"
definition PF_R :: u32 where "PF_R = 0x4"

definition SHT_NULL :: u32 where "SHT_NULL = 0"
definition SHT_PROGBITS :: u32 where "SHT_PROGBITS = 1"
definition SHT_SYMTAB :: u32 where "SHT_SYMTAB = 2"
definition SHT_STRTAB :: u32 where "SHT_STRTAB = 3"
definition SHT_NOBITS :: u32 where "SHT_NOBITS = 8"

lemmas ident_index_defs [layout_simps] =
  EI_MAG0_def EI_MAG1_def EI_MAG2_def EI_MAG3_def EI_CLASS_def EI_DATA_def
  EI_VERSION_def EI_OSABI_def EI_ABIVERSION_def EI_PAD_def EI_NIDENT_def

lemmas elf_const_defs =
  ELFMAG0_def ELFMAG1_def ELFMAG2_def ELFMAG3_def ELFCLASS32_def ELFCLASS64_def
  ELFDATA2LSB_def ELFDATA2MSB_def EM_PPC64_def PT_NULL_def PT_LOAD_def PT_DYNAMIC_def
  PT_INTERP_def PT_NOTE_def PF_X_def PF_W_def PF_R_def ELFCLASSNONE_def ELFDATANONE_def
  ET_NONE_def ET_REL_def ET_EXEC_def ET_DYN_def ET_CORE_def
  SHT_NULL_def SHT_PROGBITS_def SHT_SYMTAB_def SHT_STRTAB_def SHT_NOBITS_def

section \<open>Structures\<close>

record Elf32_Ehdr =
  e_ident32 :: bytes
  e_type32 :: "u16 endianed"
  e_machine32 :: "u16 endianed"
  e_version32 :: "u32 endianed"
  e_entry32 :: "u32 endianed"
  e_phoff32 :: "u32 endianed"
  e_shoff32 :: "u32 endianed"
  e_flags32 :: "u32 endianed"
  e_ehsize32 :: "u16 endianed"
  e_phentsize32 :: "u16 endianed"
  e_phnum32 :: "u16 endianed"
  e_shentsize32 :: "u16 endianed"
  e_shnum32 :: "u16 endianed"
  e_shstrndx32 :: "u16 endianed"

record Elf32_Phdr =
  p_type32 :: "u32 endianed"
  p_offset32 :: "u32 endianed"
  p_vaddr32 :: "u32 endianed"
  p_paddr32 :: "u32 endianed"
  p_filesz32 :: "u32 endianed"
  p_memsz32 :: "u32 endianed"
  p_flags32 :: "u32 endianed"
  p_align32 :: "u32 endianed"

record Elf32_Shdr =
  sh_name32 :: "u32 endianed"
  sh_type32 :: "u32 endianed"
  sh_flags32 :: "u32 endianed"
  sh_addr32 :: "u32 endianed"
  sh_offset32 :: "u32 endianed"
  sh_size32 :: "u32 endianed"
  sh_link32 :: "u32 endianed"
  sh_info32 :: "u32 endianed"
  sh_addralign32 :: "u32 endianed"
  sh_entsize32 :: "u32 endianed"

record Elf64_Ehdr =
  e_ident64 :: bytes
  e_type64 :: "u16 endianed"
  e_machine64 :: "u16 endianed"
  e_version64 :: "u32 endianed"
  e_entry64 :: "u64 endianed"
  e_phoff64 :: "u64 endianed"
  e_shoff64 :: "u64 endianed"
  e_flags64 :: "u32 endianed"
  e_ehsize64 :: "u16 endianed"
  e_phentsize64 :: "u16 endianed"
  e_phnum64 :: "u16 endianed"
  e_shentsize64 :: "u16 endianed"
  e_shnum64 :: "u16 endianed"
  e_shstrndx64 :: "u16 endianed"

record Elf64_Phdr =
  p_type64 :: "u32 endianed"
  p_flags64 :: "u32 endianed"
  p_offset64 :: "u64 endianed"
  p_vaddr64 :: "u64 endianed"
  p_paddr64 :: "u64 endianed"
  p_filesz64 :: "u64 endianed"
  p_memsz64 :: "u64 endianed"
  p_align64 :: "u64 endianed"

record Elf64_Shdr =
  sh_name64 :: "u32 endianed"
  sh_type64 :: "u32 endianed"
  sh_flags64 :: "u64 endianed"
  sh_addr64 :: "u64 endianed"
  sh_offset64 :: "u64 endianed"
  sh_size64 :: "u64 endianed"
  sh_link64 :: "u32 endianed"
  sh_info64 :: "u32 endianed"
  sh_addralign64 :: "u64 endianed"
  sh_entsize64 :: "u64 endianed"
section \<open>Copying a structure from and to the file\<close>

definition load16 :: "nat \<Rightarrow> bytes \<Rightarrow> u16 endianed" where
  "load16 off bs = Endianed (le_word (slice off 2 bs))"

definition load32 :: "nat \<Rightarrow> bytes \<Rightarrow> u32 endianed" where
  "load32 off bs = Endianed (le_word (slice off 4 bs))"

definition load64 :: "nat \<Rightarrow> bytes \<Rightarrow> u64 endianed" where
  "load64 off bs = Endianed (le_word (slice off 8 bs))"

definition store16 :: "u16 endianed \<Rightarrow> bytes" where "store16 e = le_bytes 2 (storage e)"
definition store32 :: "u32 endianed \<Rightarrow> bytes" where "store32 e = le_bytes 4 (storage e)"
definition store64 :: "u64 endianed \<Rightarrow> bytes" where "store64 e = le_bytes 8 (storage e)"

lemma length_store [simp]:
  "length (store16 a) = 2" "length (store32 b) = 4" "length (store64 c) = 8"
  by (simp_all add: store16_def store32_def store64_def)

lemma store_load [simp]:
  "k + 2 \<le> length bs \<Longrightarrow> store16 (load16 k bs) = slice k 2 bs"
  "k + 4 \<le> length bs \<Longrightarrow> store32 (load32 k bs) = slice k 4 bs"
  "k + 8 \<le> length bs \<Longrightarrow> store64 (load64 k bs) = slice k 8 bs"
  by (simp_all add: store16_def load16_def store32_def load32_def store64_def load64_def)

lemma load_skip:
  "length xs \<le> k \<Longrightarrow> load16 k (xs @ ys) = load16 (k - length xs) ys"
  "length xs \<le> k \<Longrightarrow> load32 k (xs @ ys) = load32 (k - length xs) ys"
  "length xs \<le> k \<Longrightarrow> load64 k (xs @ ys) = load64 (k - length xs) ys"
  by (simp_all add: load16_def load32_def load64_def slice_skip)

lemma load_hit [simp]:
  "load16 0 (store16 a @ ys) = a" "load32 0 (store32 b @ ys) = b" "load64 0 (store64 c @ ys) = c"
  "load16 0 (store16 a) = a" "load32 0 (store32 b) = b" "load64 0 (store64 c) = c"
  by (simp_all add: load16_def load32_def load64_def store16_def store32_def store64_def slice_hit)

definition Elf32_Ehdr_load :: "bytes \<Rightarrow> Elf32_Ehdr" where
  "Elf32_Ehdr_load bs = \<lparr>
     e_ident32 = slice 0 16 bs, e_type32 = load16 16 bs, e_machine32 = load16 18 bs,
     e_version32 = load32 20 bs, e_entry32 = load32 24 bs, e_phoff32 = load32 28 bs,
     e_shoff32 = load32 32 bs, e_flags32 = load32 36 bs, e_ehsize32 = load16 40 bs,
     e_phentsize32 = load16 42 bs, e_phnum32 = load16 44 bs, e_shentsize32 = load16 46 bs,
     e_shnum32 = load16 48 bs, e_shstrndx32 = load16 50 bs \<rparr>"

definition Elf32_Ehdr_store :: "Elf32_Ehdr \<Rightarrow> bytes" where
  "Elf32_Ehdr_store h =
     e_ident32 h @ store16 (e_type32 h) @ store16 (e_machine32 h) @
     store32 (e_version32 h) @ store32 (e_entry32 h) @ store32 (e_phoff32 h) @
     store32 (e_shoff32 h) @ store32 (e_flags32 h) @ store16 (e_ehsize32 h) @
     store16 (e_phentsize32 h) @ store16 (e_phnum32 h) @ store16 (e_shentsize32 h) @
     store16 (e_shnum32 h) @ store16 (e_shstrndx32 h)"

definition Elf32_Phdr_load :: "bytes \<Rightarrow> Elf32_Phdr" where
  "Elf32_Phdr_load bs = \<lparr>
     p_type32 = load32 0 bs, p_offset32 = load32 4 bs, p_vaddr32 = load32 8 bs,
     p_paddr32 = load32 12 bs, p_filesz32 = load32 16 bs, p_memsz32 = load32 20 bs,
     p_flags32 = load32 24 bs, p_align32 = load32 28 bs \<rparr>"

definition Elf32_Phdr_store :: "Elf32_Phdr \<Rightarrow> bytes" where
  "Elf32_Phdr_store h =
     store32 (p_type32 h) @ store32 (p_offset32 h) @ store32 (p_vaddr32 h) @
     store32 (p_paddr32 h) @ store32 (p_filesz32 h) @ store32 (p_memsz32 h) @
     store32 (p_flags32 h) @ store32 (p_align32 h)"

definition Elf32_Shdr_load :: "bytes \<Rightarrow> Elf32_Shdr" where
  "Elf32_Shdr_load bs = \<lparr>
     sh_name32 = load32 0 bs, sh_type32 = load32 4 bs, sh_flags32 = load32 8 bs,
     sh_addr32 = load32 12 bs, sh_offset32 = load32 16 bs, sh_size32 = load32 20 bs,
     sh_link32 = load32 24 bs, sh_info32 = load32 28 bs, sh_addralign32 = load32 32 bs,
     sh_entsize32 = load32 36 bs \<rparr>"

definition Elf32_Shdr_store :: "Elf32_Shdr \<Rightarrow> bytes" where
  "Elf32_Shdr_store h =
     store32 (sh_name32 h) @ store32 (sh_type32 h) @ store32 (sh_flags32 h) @
     store32 (sh_addr32 h) @ store32 (sh_offset32 h) @ store32 (sh_size32 h) @
     store32 (sh_link32 h) @ store32 (sh_info32 h) @ store32 (sh_addralign32 h) @
     store32 (sh_entsize32 h)"

definition Elf64_Ehdr_load :: "bytes \<Rightarrow> Elf64_Ehdr" where
  "Elf64_Ehdr_load bs = \<lparr>
     e_ident64 = slice 0 16 bs, e_type64 = load16 16 bs, e_machine64 = load16 18 bs,
     e_version64 = load32 20 bs, e_entry64 = load64 24 bs, e_phoff64 = load64 32 bs,
     e_shoff64 = load64 40 bs, e_flags64 = load32 48 bs, e_ehsize64 = load16 52 bs,
     e_phentsize64 = load16 54 bs, e_phnum64 = load16 56 bs, e_shentsize64 = load16 58 bs,
     e_shnum64 = load16 60 bs, e_shstrndx64 = load16 62 bs \<rparr>"

definition Elf64_Ehdr_store :: "Elf64_Ehdr \<Rightarrow> bytes" where
  "Elf64_Ehdr_store h =
     e_ident64 h @ store16 (e_type64 h) @ store16 (e_machine64 h) @
     store32 (e_version64 h) @ store64 (e_entry64 h) @ store64 (e_phoff64 h) @
     store64 (e_shoff64 h) @ store32 (e_flags64 h) @ store16 (e_ehsize64 h) @
     store16 (e_phentsize64 h) @ store16 (e_phnum64 h) @ store16 (e_shentsize64 h) @
     store16 (e_shnum64 h) @ store16 (e_shstrndx64 h)"

definition Elf64_Phdr_load :: "bytes \<Rightarrow> Elf64_Phdr" where
  "Elf64_Phdr_load bs = \<lparr>
     p_type64 = load32 0 bs, p_flags64 = load32 4 bs, p_offset64 = load64 8 bs,
     p_vaddr64 = load64 16 bs, p_paddr64 = load64 24 bs, p_filesz64 = load64 32 bs,
     p_memsz64 = load64 40 bs, p_align64 = load64 48 bs \<rparr>"

definition Elf64_Phdr_store :: "Elf64_Phdr \<Rightarrow> bytes" where
  "Elf64_Phdr_store h =
     store32 (p_type64 h) @ store32 (p_flags64 h) @ store64 (p_offset64 h) @
     store64 (p_vaddr64 h) @ store64 (p_paddr64 h) @ store64 (p_filesz64 h) @
     store64 (p_memsz64 h) @ store64 (p_align64 h)"

definition Elf64_Shdr_load :: "bytes \<Rightarrow> Elf64_Shdr" where
  "Elf64_Shdr_load bs = \<lparr>
     sh_name64 = load32 0 bs, sh_type64 = load32 4 bs, sh_flags64 = load64 8 bs,
     sh_addr64 = load64 16 bs, sh_offset64 = load64 24 bs, sh_size64 = load64 32 bs,
     sh_link64 = load32 40 bs, sh_info64 = load32 44 bs, sh_addralign64 = load64 48 bs,
     sh_entsize64 = load64 56 bs \<rparr>"

definition Elf64_Shdr_store :: "Elf64_Shdr \<Rightarrow> bytes" where
  "Elf64_Shdr_store h =
     store32 (sh_name64 h) @ store32 (sh_type64 h) @ store64 (sh_flags64 h) @
     store64 (sh_addr64 h) @ store64 (sh_offset64 h) @ store64 (sh_size64 h) @
     store32 (sh_link64 h) @ store32 (sh_info64 h) @ store64 (sh_addralign64 h) @
     store64 (sh_entsize64 h)"
lemmas struct_load_defs =
  Elf32_Ehdr_load_def Elf32_Phdr_load_def Elf32_Shdr_load_def
  Elf64_Ehdr_load_def Elf64_Phdr_load_def Elf64_Shdr_load_def

lemmas struct_store_defs =
  Elf32_Ehdr_store_def Elf32_Phdr_store_def Elf32_Shdr_store_def
  Elf64_Ehdr_store_def Elf64_Phdr_store_def Elf64_Shdr_store_def

text \<open>The \<open>static_assert\<close>s on the structure sizes.\<close>

lemma struct_sizes:
  "length (e_ident32 h32) = 16 \<Longrightarrow> length (Elf32_Ehdr_store h32) = 52"
  "length (Elf32_Phdr_store p32) = 32" "length (Elf32_Shdr_store s32) = 40"
  "length (e_ident64 h64) = 16 \<Longrightarrow> length (Elf64_Ehdr_store h64) = 64"
  "length (Elf64_Phdr_store p64) = 56" "length (Elf64_Shdr_store s64) = 64"
  by (simp_all add: struct_store_defs)

lemma ehdr_store_load:
  "length bs = 52 \<Longrightarrow> Elf32_Ehdr_store (Elf32_Ehdr_load bs) = bs"
  "length bs = 64 \<Longrightarrow> Elf64_Ehdr_store (Elf64_Ehdr_load bs) = bs"
  by (simp_all add: struct_store_defs struct_load_defs slice_join)

lemma phdr_store_load:
  "length bs = 32 \<Longrightarrow> Elf32_Phdr_store (Elf32_Phdr_load bs) = bs"
  "length bs = 56 \<Longrightarrow> Elf64_Phdr_store (Elf64_Phdr_load bs) = bs"
  by (simp_all add: struct_store_defs struct_load_defs slice_join)

lemma shdr_store_load:
  "length bs = 40 \<Longrightarrow> Elf32_Shdr_store (Elf32_Shdr_load bs) = bs"
  "length bs = 64 \<Longrightarrow> Elf64_Shdr_store (Elf64_Shdr_load bs) = bs"
  by (simp_all add: struct_store_defs struct_load_defs slice_join)

lemma ehdr_load_store:
  "length (e_ident32 h32) = 16 \<Longrightarrow> Elf32_Ehdr_load (Elf32_Ehdr_store h32) = h32"
  "length (e_ident64 h64) = 16 \<Longrightarrow> Elf64_Ehdr_load (Elf64_Ehdr_store h64) = h64"
  by (simp_all add: struct_store_defs struct_load_defs load_skip slice_hit)

lemma phdr_load_store:
  "Elf32_Phdr_load (Elf32_Phdr_store p32) = p32"
  "Elf64_Phdr_load (Elf64_Phdr_store p64) = p64"
  by (simp_all add: struct_store_defs struct_load_defs load_skip)

lemma shdr_load_store:
  "Elf32_Shdr_load (Elf32_Shdr_store s32) = s32"
  "Elf64_Shdr_load (Elf64_Shdr_store s64) = s64"
  by (simp_all add: struct_store_defs struct_load_defs load_skip)

end
