(* ===== verification/ElfLayout.thy ===== *)
theory ElfLayout
  imports ElfTypes
begin

text \<open>
  The template arguments \<open>Is64\<close> and \<open>E\<close> of \<open>ElfFile\<close> select three structures
  (\<open>libelf/include/elf/file.hpp\<close>, lines 58 to 63) and with them how each field is read and
  written.  A value of type \<open>layout\<close> is that selection: the operations \<open>ElfFile\<close> uses of
  \<open>Ehdr\<close>, \<open>Phdr\<close> and \<open>Shdr\<close>, with C++'s implicit conversions between \<open>uint64_t\<close> and the
  field's width.  \<open>Elf32\<close> and \<open>Elf64\<close> are the two selections for a byte order \<open>E\<close>.  The
  locale \<open>elf_layout\<close> is the contract between the structures and \<open>ElfFile\<close>.
\<close>

section \<open>The operations selected by the template arguments\<close>

record ('eh, 'ph, 'sh) layout =
  expected_class :: u8
  expected_data :: u8
  ehdr_size :: nat
  phdr_size :: nat
  shdr_size :: nat
  ehdr_load :: "bytes \<Rightarrow> 'eh"
  ehdr_store :: "'eh \<Rightarrow> bytes"
  phdr_load :: "bytes \<Rightarrow> 'ph"
  phdr_store :: "'ph \<Rightarrow> bytes"
  shdr_load :: "bytes \<Rightarrow> 'sh"
  shdr_store :: "'sh \<Rightarrow> bytes"
  e_ident :: "'eh \<Rightarrow> bytes"
  e_ehsize :: "'eh \<Rightarrow> u16"
  e_phentsize :: "'eh \<Rightarrow> u16"
  e_phnum :: "'eh \<Rightarrow> u16"
  e_shentsize :: "'eh \<Rightarrow> u16"
  e_shnum :: "'eh \<Rightarrow> u16"
  e_shstrndx :: "'eh \<Rightarrow> u16"
  e_entry :: "'eh \<Rightarrow> u64"
  e_phoff :: "'eh \<Rightarrow> u64"
  e_shoff :: "'eh \<Rightarrow> u64"
  set_e_entry :: "u64 \<Rightarrow> 'eh \<Rightarrow> 'eh"
  set_e_phoff :: "u64 \<Rightarrow> 'eh \<Rightarrow> 'eh"
  set_e_phnum :: "u16 \<Rightarrow> 'eh \<Rightarrow> 'eh"
  p_type :: "'ph \<Rightarrow> u32"
  p_offset :: "'ph \<Rightarrow> u64"
  p_vaddr :: "'ph \<Rightarrow> u64"
  p_filesz :: "'ph \<Rightarrow> u64"
  p_memsz :: "'ph \<Rightarrow> u64"
  make_phdr :: "u32 \<Rightarrow> u32 \<Rightarrow> u64 \<Rightarrow> u64 \<Rightarrow> u64 \<Rightarrow> u64 \<Rightarrow> u64 \<Rightarrow> u64 \<Rightarrow> 'ph"

definition expectedClass :: "bool \<Rightarrow> u8" where
  "expectedClass is64 = (if is64 then ELFCLASS64 else ELFCLASS32)"

definition expectedData :: "endian \<Rightarrow> u8" where
  "expectedData E = (if E = Big then ELFDATA2MSB else ELFDATA2LSB)"

definition Elf32 :: "endian \<Rightarrow> (Elf32_Ehdr, Elf32_Phdr, Elf32_Shdr) layout" where
  "Elf32 E = \<lparr>
     expected_class = expectedClass False, expected_data = expectedData E,
     ehdr_size = 52, phdr_size = 32, shdr_size = 40,
     ehdr_load = Elf32_Ehdr_load, ehdr_store = Elf32_Ehdr_store,
     phdr_load = Elf32_Phdr_load, phdr_store = Elf32_Phdr_store,
     shdr_load = Elf32_Shdr_load, shdr_store = Elf32_Shdr_store,
     e_ident = e_ident32,
     e_ehsize = (\<lambda>h. get16 E (e_ehsize32 h)), e_phentsize = (\<lambda>h. get16 E (e_phentsize32 h)),
     e_phnum = (\<lambda>h. get16 E (e_phnum32 h)), e_shentsize = (\<lambda>h. get16 E (e_shentsize32 h)),
     e_shnum = (\<lambda>h. get16 E (e_shnum32 h)), e_shstrndx = (\<lambda>h. get16 E (e_shstrndx32 h)),
     e_entry = (\<lambda>h. ucast (get32 E (e_entry32 h))),
     e_phoff = (\<lambda>h. ucast (get32 E (e_phoff32 h))),
     e_shoff = (\<lambda>h. ucast (get32 E (e_shoff32 h))),
     set_e_entry = (\<lambda>v h. h\<lparr>e_entry32 := set32 E (ucast v)\<rparr>),
     set_e_phoff = (\<lambda>v h. h\<lparr>e_phoff32 := set32 E (ucast v)\<rparr>),
     set_e_phnum = (\<lambda>v h. h\<lparr>e_phnum32 := set16 E v\<rparr>),
     p_type = (\<lambda>p. get32 E (p_type32 p)),
     p_offset = (\<lambda>p. ucast (get32 E (p_offset32 p))),
     p_vaddr = (\<lambda>p. ucast (get32 E (p_vaddr32 p))),
     p_filesz = (\<lambda>p. ucast (get32 E (p_filesz32 p))),
     p_memsz = (\<lambda>p. ucast (get32 E (p_memsz32 p))),
     make_phdr = (\<lambda>ty fl off va pa fs ms al. \<lparr>
       p_type32 = set32 E ty, p_offset32 = set32 E (ucast off), p_vaddr32 = set32 E (ucast va),
       p_paddr32 = set32 E (ucast pa), p_filesz32 = set32 E (ucast fs),
       p_memsz32 = set32 E (ucast ms), p_flags32 = set32 E fl,
       p_align32 = set32 E (ucast al) \<rparr>) \<rparr>"

definition Elf64 :: "endian \<Rightarrow> (Elf64_Ehdr, Elf64_Phdr, Elf64_Shdr) layout" where
  "Elf64 E = \<lparr>
     expected_class = expectedClass True, expected_data = expectedData E,
     ehdr_size = 64, phdr_size = 56, shdr_size = 64,
     ehdr_load = Elf64_Ehdr_load, ehdr_store = Elf64_Ehdr_store,
     phdr_load = Elf64_Phdr_load, phdr_store = Elf64_Phdr_store,
     shdr_load = Elf64_Shdr_load, shdr_store = Elf64_Shdr_store,
     e_ident = e_ident64,
     e_ehsize = (\<lambda>h. get16 E (e_ehsize64 h)), e_phentsize = (\<lambda>h. get16 E (e_phentsize64 h)),
     e_phnum = (\<lambda>h. get16 E (e_phnum64 h)), e_shentsize = (\<lambda>h. get16 E (e_shentsize64 h)),
     e_shnum = (\<lambda>h. get16 E (e_shnum64 h)), e_shstrndx = (\<lambda>h. get16 E (e_shstrndx64 h)),
     e_entry = (\<lambda>h. get64 E (e_entry64 h)), e_phoff = (\<lambda>h. get64 E (e_phoff64 h)),
     e_shoff = (\<lambda>h. get64 E (e_shoff64 h)),
     set_e_entry = (\<lambda>v h. h\<lparr>e_entry64 := set64 E v\<rparr>),
     set_e_phoff = (\<lambda>v h. h\<lparr>e_phoff64 := set64 E v\<rparr>),
     set_e_phnum = (\<lambda>v h. h\<lparr>e_phnum64 := set16 E v\<rparr>),
     p_type = (\<lambda>p. get32 E (p_type64 p)),
     p_offset = (\<lambda>p. get64 E (p_offset64 p)), p_vaddr = (\<lambda>p. get64 E (p_vaddr64 p)),
     p_filesz = (\<lambda>p. get64 E (p_filesz64 p)), p_memsz = (\<lambda>p. get64 E (p_memsz64 p)),
     make_phdr = (\<lambda>ty fl off va pa fs ms al. \<lparr>
       p_type64 = set32 E ty, p_flags64 = set32 E fl, p_offset64 = set64 E off,
       p_vaddr64 = set64 E va, p_paddr64 = set64 E pa, p_filesz64 = set64 E fs,
       p_memsz64 = set64 E ms, p_align64 = set64 E al \<rparr>) \<rparr>"

section \<open>The contract\<close>

text \<open>
  A header value stands for a structure when its \<open>e_ident\<close> has 16 bytes; \<open>lim\<close> bounds the
  addresses and offsets the class can hold without truncation.
\<close>

locale elf_layout =
  fixes K :: "('eh, 'ph, 'sh) layout" and lim :: nat
  assumes ehdr_size: "16 \<le> ehdr_size K" "ehdr_size K \<le> 64"
    and phdr_size: "0 < phdr_size K" "phdr_size K \<le> 64"
    and shdr_size: "0 < shdr_size K" "shdr_size K \<le> 64"
    and lim: "lim \<le> 2 ^ 64"
    and ehdr_store_load: "length bs = ehdr_size K \<Longrightarrow> ehdr_store K (ehdr_load K bs) = bs"
    and ehdr_load_store: "length (e_ident K h) = 16 \<Longrightarrow> ehdr_load K (ehdr_store K h) = h"
    and length_ehdr_store: "length (e_ident K h) = 16 \<Longrightarrow> length (ehdr_store K h) = ehdr_size K"
    and phdr_store_load: "length bs = phdr_size K \<Longrightarrow> phdr_store K (phdr_load K bs) = bs"
    and phdr_load_store: "phdr_load K (phdr_store K p) = p"
    and length_phdr_store: "length (phdr_store K p) = phdr_size K"
    and shdr_store_load: "length bs = shdr_size K \<Longrightarrow> shdr_store K (shdr_load K bs) = bs"
    and shdr_load_store: "shdr_load K (shdr_store K s) = s"
    and length_shdr_store: "length (shdr_store K s) = shdr_size K"
    and ident_load: "length bs = ehdr_size K \<Longrightarrow> e_ident K (ehdr_load K bs) = take 16 bs"
    and set_entry: "unat v < lim \<Longrightarrow> e_entry K (set_e_entry K v h) = v"
      "e_ident K (set_e_entry K v h) = e_ident K h"
      "e_ehsize K (set_e_entry K v h) = e_ehsize K h"
      "e_phentsize K (set_e_entry K v h) = e_phentsize K h"
      "e_phnum K (set_e_entry K v h) = e_phnum K h"
      "e_shentsize K (set_e_entry K v h) = e_shentsize K h"
      "e_shnum K (set_e_entry K v h) = e_shnum K h"
      "e_shstrndx K (set_e_entry K v h) = e_shstrndx K h"
      "e_phoff K (set_e_entry K v h) = e_phoff K h"
      "e_shoff K (set_e_entry K v h) = e_shoff K h"
    and set_phoff: "unat v < lim \<Longrightarrow> e_phoff K (set_e_phoff K v h) = v"
      "e_ident K (set_e_phoff K v h) = e_ident K h"
      "e_ehsize K (set_e_phoff K v h) = e_ehsize K h"
      "e_phentsize K (set_e_phoff K v h) = e_phentsize K h"
      "e_phnum K (set_e_phoff K v h) = e_phnum K h"
      "e_shentsize K (set_e_phoff K v h) = e_shentsize K h"
      "e_shnum K (set_e_phoff K v h) = e_shnum K h"
      "e_shstrndx K (set_e_phoff K v h) = e_shstrndx K h"
      "e_entry K (set_e_phoff K v h) = e_entry K h"
      "e_shoff K (set_e_phoff K v h) = e_shoff K h"
    and set_phnum: "e_phnum K (set_e_phnum K n h) = n"
      "e_ident K (set_e_phnum K n h) = e_ident K h"
      "e_ehsize K (set_e_phnum K n h) = e_ehsize K h"
      "e_phentsize K (set_e_phnum K n h) = e_phentsize K h"
      "e_phoff K (set_e_phnum K n h) = e_phoff K h"
      "e_shentsize K (set_e_phnum K n h) = e_shentsize K h"
      "e_shnum K (set_e_phnum K n h) = e_shnum K h"
      "e_shstrndx K (set_e_phnum K n h) = e_shstrndx K h"
      "e_entry K (set_e_phnum K n h) = e_entry K h"
      "e_shoff K (set_e_phnum K n h) = e_shoff K h"
    and made_phdr: "p_type K (make_phdr K ty fl off va pa fs ms al) = ty"
      "unat off < lim \<Longrightarrow> p_offset K (make_phdr K ty fl off va pa fs ms al) = off"
      "unat va < lim \<Longrightarrow> p_vaddr K (make_phdr K ty fl off va pa fs ms al) = va"
      "unat fs < lim \<Longrightarrow> p_filesz K (make_phdr K ty fl off va pa fs ms al) = fs"
      "unat ms < lim \<Longrightarrow> p_memsz K (make_phdr K ty fl off va pa fs ms al) = ms"
begin

lemma length_ident_load:
  "length bs = ehdr_size K \<Longrightarrow> length (e_ident K (ehdr_load K bs)) = 16"
  using ehdr_size by (simp add: ident_load)

lemmas header_laws = set_entry set_phoff set_phnum

end

section \<open>Both classes and both byte orders satisfy it\<close>

lemma ucast_32_64: "unat v < 2 ^ 32 \<Longrightarrow> ucast (ucast v :: u32) = (v :: u64)"
  by (simp add: word_unat_eq_iff unsigned_ucast_eq unsigned_take_bit_eq take_bit_nat_eq_self)

lemma ident_of_load:
  "length bs = 52 \<Longrightarrow> e_ident32 (Elf32_Ehdr_load bs) = take 16 bs"
  "length bs = 64 \<Longrightarrow> e_ident64 (Elf64_Ehdr_load bs) = take 16 bs"
  by (simp_all add: struct_load_defs slice_def)

interpretation elf32: elf_layout "Elf32 E" "2 ^ 32" for E
  by unfold_locales
    (simp_all add: Elf32_def ident_of_load ehdr_store_load ehdr_load_store
      phdr_store_load phdr_load_store shdr_store_load shdr_load_store struct_sizes ucast_32_64)

interpretation elf64: elf_layout "Elf64 E" "2 ^ 64" for E
  by unfold_locales
    (simp_all add: Elf64_def ident_of_load ehdr_store_load ehdr_load_store
      phdr_store_load phdr_load_store shdr_store_load shdr_load_store struct_sizes)

end
