(* ===== verification/ElfFile.thy ===== *)
theory ElfFile
  imports ElfLayout
begin

text \<open>
  \<open>libelf/include/elf/file.hpp\<close>: bounds-checked reads, \<open>ElfFile<Is64, E>\<close> (parse, the accessors,
  the mutators, serialize) and \<open>parseAny\<close>.  The template arguments are the \<open>layout\<close> argument
  \<open>K\<close>.  An operation that changes \<open>*this\<close> returns the new object; a write outside the buffer
  (undefined behaviour in C++) is \<open>None\<close>, and the lemmas show it does not occur.
\<close>

section \<open>The code\<close>

subsection \<open>Bounds-checked reads\<close>

definition regionFits :: "u64 \<Rightarrow> u64 \<Rightarrow> u64 \<Rightarrow> u64 \<Rightarrow> bool" where
  "regionFits bufferSize offset count elemSize =
     (if count \<noteq> 0 \<and> elemSize > (0xFFFFFFFFFFFFFFFF div count) then False
      else let span = count * elemSize in
        if offset > bufferSize then False
        else if span > bufferSize - offset then False
        else True)"

definition readStruct :: "nat \<Rightarrow> (bytes \<Rightarrow> 'a) \<Rightarrow> bytes \<Rightarrow> u64 \<Rightarrow> 'a result" where
  "readStruct sz ld bs offset =
     (if offset > vsize bs \<or> vsize bs - offset < of_nat sz then
        Inl (make_error TruncatedFile
          (''need '' @ to_string sz @ '' bytes at offset 0x'' @
           snprintf_to 32 (hex_digits (unat offset)) @ '', but file is only '' @
           to_string (length bs) @ '' bytes''))
      else Inr (ld (slice (unat offset) sz bs)))"

text \<open>The two loops of \<open>parse\<close> that fill \<open>phdrs\<close> and \<open>shdrs\<close>, with their \<open>uint16_t\<close> counter.\<close>

function readTable ::
  "nat \<Rightarrow> (bytes \<Rightarrow> 'a) \<Rightarrow> bytes \<Rightarrow> u64 \<Rightarrow> u16 \<Rightarrow> u16 \<Rightarrow> 'a list \<Rightarrow> 'a list result" where
  "readTable sz ld bs base n i acc =
     (if i < n then
        result_bind (readStruct sz ld bs (base + ucast i * of_nat sz))
          (\<lambda>r. readTable sz ld bs base n (i + 1) (acc @ [r]))
      else Inr acc)"
  by pat_completeness auto

termination readTable
  by (relation "measure (\<lambda>(sz, ld, bs, base, n, i, acc). unat n - unat i)")
    (auto simp: unat_Suc_below word_less_nat_alt)

declare readTable.simps [simp del]

subsection \<open>The parsed file\<close>

record ('eh, 'ph, 'sh) elf_file =
  header :: 'eh
  segments :: "'ph list"
  sections :: "'sh list"
  raw :: bytes

definition parse :: "('eh, 'ph, 'sh) layout \<Rightarrow> bytes \<Rightarrow> ('eh, 'ph, 'sh) elf_file result" where
  "parse K bs =
     result_bind (readStruct (ehdr_size K) (ehdr_load K) bs 0) (\<lambda>hdr.
     if e_ident K hdr ! EI_MAG0 \<noteq> ELFMAG0 \<or> e_ident K hdr ! EI_MAG1 \<noteq> ELFMAG1 \<or>
        e_ident K hdr ! EI_MAG2 \<noteq> ELFMAG2 \<or> e_ident K hdr ! EI_MAG3 \<noteq> ELFMAG3
     then Inl (make_error BadMagic ''missing 0x7F 'E' 'L' 'F' magic'')
     else if e_ident K hdr ! EI_CLASS \<noteq> expected_class K
     then Inl (make_error UnsupportedClass
       ''EI_CLASS byte does not match the requested ElfFile<Is64> instantiation'')
     else if e_ident K hdr ! EI_DATA \<noteq> expected_data K
     then Inl (make_error UnsupportedDataEncoding
       ''EI_DATA byte does not match the requested ElfFile<E> instantiation'')
     else if unat (e_ehsize K hdr) \<noteq> ehdr_size K
     then Inl (make_error InconsistentHeaderSize
       (''e_ehsize ('' @ to_string (unat (e_ehsize K hdr)) @ '') != sizeof(Ehdr) ('' @
        to_string (ehdr_size K) @ '')''))
     else if e_phnum K hdr > 0 \<and> unat (e_phentsize K hdr) \<noteq> phdr_size K
     then Inl (make_error InconsistentHeaderSize ''e_phentsize does not match sizeof(Phdr)'')
     else if e_shnum K hdr > 0 \<and> unat (e_shentsize K hdr) \<noteq> shdr_size K
     then Inl (make_error InconsistentHeaderSize ''e_shentsize does not match sizeof(Shdr)'')
     else if \<not> regionFits (vsize bs) (e_phoff K hdr) (ucast (e_phnum K hdr)) (of_nat (phdr_size K))
     then Inl (make_error OffsetOutOfBounds ''program header table falls outside the file'')
     else if \<not> regionFits (vsize bs) (e_shoff K hdr) (ucast (e_shnum K hdr)) (of_nat (shdr_size K))
     then Inl (make_error OffsetOutOfBounds ''section header table falls outside the file'')
     else result_bind (readTable (phdr_size K) (phdr_load K) bs (e_phoff K hdr) (e_phnum K hdr) 0 [])
       (\<lambda>phdrs. result_bind
          (readTable (shdr_size K) (shdr_load K) bs (e_shoff K hdr) (e_shnum K hdr) 0 [])
       (\<lambda>shdrs.
     if e_shnum K hdr > 0 \<and> e_shstrndx K hdr \<ge> e_shnum K hdr
     then Inl (make_error IndexOutOfBounds ''e_shstrndx >= e_shnum'')
     else Inr \<lparr>header = hdr, segments = phdrs, sections = shdrs, raw = bs\<rparr>)))"

subsection \<open>Accessors and mutators\<close>

definition entry :: "('eh, 'ph, 'sh) layout \<Rightarrow> ('eh, 'ph, 'sh) elf_file \<Rightarrow> u64" where
  "entry K f = e_entry K (header f)"

definition setEntry ::
  "('eh, 'ph, 'sh) layout \<Rightarrow> u64 \<Rightarrow> ('eh, 'ph, 'sh) elf_file \<Rightarrow> ('eh, 'ph, 'sh) elf_file" where
  "setEntry K addr f = f\<lparr>header := set_e_entry K addr (header f)\<rparr>"

definition patchBytesAt ::
  "u64 \<Rightarrow> bytes \<Rightarrow> ('eh, 'ph, 'sh) elf_file \<Rightarrow> ('eh, 'ph, 'sh) elf_file result" where
  "patchBytesAt offset newBytes f =
     (if \<not> regionFits (vsize (raw f)) offset (vsize newBytes) 1 then
        Inl (make_error OffsetOutOfBounds ''patch region falls outside the current file'')
      else Inr (f\<lparr>raw := put_at (unat offset) newBytes (raw f)\<rparr>))"

definition addLoadSegment ::
  "('eh, 'ph, 'sh) layout \<Rightarrow> u64 \<Rightarrow> bytes \<Rightarrow> u32 \<Rightarrow> u64 \<Rightarrow> ('eh, 'ph, 'sh) elf_file \<Rightarrow>
   ('eh, 'ph, 'sh) elf_file result" where
  "addLoadSegment K vaddr data flags align f =
     (let newOffset = vsize (raw f);
          raw' = raw f @ data;
          ph = make_phdr K PT_LOAD flags newOffset vaddr vaddr (vsize data) (vsize data) align;
          phdrs' = segments f @ [ph];
          hdr = set_e_phoff K (vsize raw') (set_e_phnum K (of_nat (length phdrs')) (header f))
      in Inr (f\<lparr>header := hdr, segments := phdrs', raw := raw'\<rparr>))"

definition readAt :: "u64 \<Rightarrow> u64 \<Rightarrow> ('eh, 'ph, 'sh) elf_file \<Rightarrow> bytes result" where
  "readAt offset len f =
     (if \<not> regionFits (vsize (raw f)) offset len 1 then
        Inl (make_error OffsetOutOfBounds
          (''requested read of '' @ to_string (unat len) @ '' bytes at offset 0x'' @
           snprintf_to 32 (hex_digits (unat offset)) @ '' falls outside the file''))
      else Inr (slice (unat offset) (unat len) (raw f)))"

fun searchSegments ::
  "('eh, 'ph, 'sh) layout \<Rightarrow> u64 \<Rightarrow> u64 \<Rightarrow> 'ph list \<Rightarrow> u64 result" where
  "searchSegments K rawSize vaddr [] =
     Inl (make_error OffsetOutOfBounds
       ''virtual address not found in any file-backed PT_LOAD segment'')"
| "searchSegments K rawSize vaddr (ph # phs) =
     (if p_type K ph \<noteq> PT_LOAD then searchSegments K rawSize vaddr phs
      else let vstart = p_vaddr K ph;
               vend = vstart + p_filesz K ph in
        if vaddr \<ge> vstart \<and> vaddr < vend then
          (let delta = vaddr - vstart;
               offset = p_offset K ph + delta in
           if offset > rawSize then
             Inl (make_error OffsetOutOfBounds ''computed file offset for vaddr exceeds file size'')
           else Inr offset)
        else searchSegments K rawSize vaddr phs)"

definition vaddrToFileOffset ::
  "('eh, 'ph, 'sh) layout \<Rightarrow> u64 \<Rightarrow> ('eh, 'ph, 'sh) elf_file \<Rightarrow> u64 result" where
  "vaddrToFileOffset K vaddr f = searchSegments K (vsize (raw f)) vaddr (segments f)"

definition segmentData ::
  "('eh, 'ph, 'sh) layout \<Rightarrow> u64 \<Rightarrow> ('eh, 'ph, 'sh) elf_file \<Rightarrow> bytes result" where
  "segmentData K index f =
     (if index \<ge> vsize (segments f) then
        Inl (make_error IndexOutOfBounds ''segment index out of range'')
      else let ph = segments f ! unat index in
        if \<not> regionFits (vsize (raw f)) (p_offset K ph) (p_filesz K ph) 1 then
          Inl (make_error OffsetOutOfBounds ''segment data falls outside the file'')
        else Inr (slice (unat (p_offset K ph)) (unat (p_filesz K ph)) (raw f)))"

subsection \<open>Serialization\<close>

definition ensureCapacity :: "bytes \<Rightarrow> u64 \<Rightarrow> bytes" where
  "ensureCapacity buf requiredSize =
     (if requiredSize > vsize buf then buf @ replicate (unat requiredSize - length buf) 0 else buf)"

text \<open>\<open>obj\<close> is the object representation of \<open>value\<close>, \<open>sizeof(T)\<close> bytes long.\<close>

definition writeStruct :: "bytes \<Rightarrow> u64 \<Rightarrow> bytes \<Rightarrow> bytes option" where
  "writeStruct buf offset obj =
     (let buf' = ensureCapacity buf (offset + vsize obj) in
      if unat offset + length obj \<le> length buf' then Some (put_at (unat offset) obj buf') else None)"

fun writeTable :: "bytes \<Rightarrow> u64 \<Rightarrow> nat \<Rightarrow> u64 \<Rightarrow> bytes list \<Rightarrow> bytes option" where
  "writeTable buf offset sz i [] = Some buf"
| "writeTable buf offset sz i (obj # objs) =
     Option.bind (writeStruct buf (offset + i * of_nat sz) obj)
       (\<lambda>buf'. writeTable buf' offset sz (i + 1) objs)"

definition serialize :: "('eh, 'ph, 'sh) layout \<Rightarrow> ('eh, 'ph, 'sh) elf_file \<Rightarrow> bytes option" where
  "serialize K f =
     Option.bind (writeStruct (raw f) 0 (ehdr_store K (header f))) (\<lambda>out.
     Option.bind (writeTable out (e_phoff K (header f)) (phdr_size K) 0
                    (map (phdr_store K) (segments f)))
       (\<lambda>out. writeTable out (e_shoff K (header f)) (shdr_size K) 0
                    (map (shdr_store K) (sections f))))"

subsection \<open>Any class, any byte order\<close>

type_synonym elf32_file = "(Elf32_Ehdr, Elf32_Phdr, Elf32_Shdr) elf_file"
type_synonym elf64_file = "(Elf64_Ehdr, Elf64_Phdr, Elf64_Shdr) elf_file"

datatype any_elf =
    AnyElf32LE elf32_file | AnyElf32BE elf32_file | AnyElf64LE elf64_file | AnyElf64BE elf64_file

definition parseAny :: "bytes \<Rightarrow> any_elf result" where
  "parseAny bs =
     (if length bs < EI_NIDENT then
        Inl (make_error TruncatedFile ''file smaller than e_ident (16 bytes)'')
      else if bs ! EI_MAG0 \<noteq> ELFMAG0 \<or> bs ! EI_MAG1 \<noteq> ELFMAG1 \<or>
              bs ! EI_MAG2 \<noteq> ELFMAG2 \<or> bs ! EI_MAG3 \<noteq> ELFMAG3 then
        Inl (make_error BadMagic ''missing 0x7F 'E' 'L' 'F' magic'')
      else let elfClass = bs ! EI_CLASS; elfData = bs ! EI_DATA in
      if elfClass \<noteq> ELFCLASS32 \<and> elfClass \<noteq> ELFCLASS64 then
        Inl (make_error UnsupportedClass ''EI_CLASS is neither ELFCLASS32 nor ELFCLASS64'')
      else if elfData \<noteq> ELFDATA2LSB \<and> elfData \<noteq> ELFDATA2MSB then
        Inl (make_error UnsupportedDataEncoding ''EI_DATA is neither ELFDATA2LSB nor ELFDATA2MSB'')
      else if elfClass = ELFCLASS32 \<and> elfData = ELFDATA2LSB then
        result_bind (parse (Elf32 Little) bs) (\<lambda>f. Inr (AnyElf32LE f))
      else if elfClass = ELFCLASS32 \<and> elfData = ELFDATA2MSB then
        result_bind (parse (Elf32 Big) bs) (\<lambda>f. Inr (AnyElf32BE f))
      else if elfClass = ELFCLASS64 \<and> elfData = ELFDATA2LSB then
        result_bind (parse (Elf64 Little) bs) (\<lambda>f. Inr (AnyElf64LE f))
      else result_bind (parse (Elf64 Big) bs) (\<lambda>f. Inr (AnyElf64BE f)))"

text \<open>\<open>std::visit\<close> with \<open>serialize\<close>.\<close>

definition serializeAny :: "any_elf \<Rightarrow> bytes option" where
  "serializeAny a =
     (case a of AnyElf32LE f \<Rightarrow> serialize (Elf32 Little) f | AnyElf32BE f \<Rightarrow> serialize (Elf32 Big) f
      | AnyElf64LE f \<Rightarrow> serialize (Elf64 Little) f | AnyElf64BE f \<Rightarrow> serialize (Elf64 Big) f)"

end
