(* ===== verification/ElfFileInv.thy ===== *)
theory ElfFileInv
  imports ElfFileLemmas
begin

text \<open>
  The contract of \<open>ElfFile\<close>, for both classes and byte orders: \<open>header_defect\<close> is the first
  check a file fails, in unbounded arithmetic and without the reading loops; \<open>parsed_elf\<close> is the
  object a sound file parses to; \<open>file_inv\<close> is the invariant \<open>parse\<close> establishes and every
  mutator keeps; serializing a parsed file gives its bytes back, and reparsing what a file with the
  invariant serializes to gives the same header and tables back.
\<close>

section \<open>What a parse returns\<close>

definition table_at :: "nat \<Rightarrow> (bytes \<Rightarrow> 'a) \<Rightarrow> bytes \<Rightarrow> nat \<Rightarrow> nat \<Rightarrow> 'a list" where
  "table_at sz ld bs off n = map (\<lambda>k. ld (slice (off + k * sz) sz bs)) [0..<n]"

definition ident_matches :: "('eh, 'ph, 'sh) layout \<Rightarrow> bytes \<Rightarrow> bool" where
  "ident_matches K ident \<longleftrightarrow>
     ident ! 0 = 0x7F \<and> ident ! 1 = of_char CHR ''E'' \<and> ident ! 2 = of_char CHR ''L'' \<and>
     ident ! 3 = of_char CHR ''F'' \<and> ident ! 4 = expected_class K \<and> ident ! 5 = expected_data K"

definition header_defect :: "('eh, 'ph, 'sh) layout \<Rightarrow> bytes \<Rightarrow> error_code option" where
  "header_defect K bs =
     (if length bs < ehdr_size K then Some TruncatedFile else
      let h = ehdr_load K (take (ehdr_size K) bs) in
      if take 4 bs \<noteq> [0x7F, of_char CHR ''E'', of_char CHR ''L'', of_char CHR ''F''] then Some BadMagic
      else if bs ! 4 \<noteq> expected_class K then Some UnsupportedClass
      else if bs ! 5 \<noteq> expected_data K then Some UnsupportedDataEncoding
      else if unat (e_ehsize K h) \<noteq> ehdr_size K \<or>
              unat (e_phnum K h) > 0 \<and> unat (e_phentsize K h) \<noteq> phdr_size K \<or>
              unat (e_shnum K h) > 0 \<and> unat (e_shentsize K h) \<noteq> shdr_size K
      then Some InconsistentHeaderSize
      else if unat (e_phoff K h) + unat (e_phnum K h) * phdr_size K > length bs \<or>
              unat (e_shoff K h) + unat (e_shnum K h) * shdr_size K > length bs
      then Some OffsetOutOfBounds
      else if unat (e_shnum K h) > 0 \<and> unat (e_shstrndx K h) \<ge> unat (e_shnum K h)
      then Some IndexOutOfBounds
      else None)"

definition parsed_elf :: "('eh, 'ph, 'sh) layout \<Rightarrow> bytes \<Rightarrow> ('eh, 'ph, 'sh) elf_file" where
  "parsed_elf K bs =
     (let h = ehdr_load K (take (ehdr_size K) bs) in
      \<lparr>header = h,
       segments = table_at (phdr_size K) (phdr_load K) bs (unat (e_phoff K h)) (unat (e_phnum K h)),
       sections = table_at (shdr_size K) (shdr_load K) bs (unat (e_shoff K h)) (unat (e_shnum K h)),
       raw = bs\<rparr>)"

lemma table_at_store:
  assumes "\<And>xs. length xs = sz \<Longrightarrow> st (ld xs) = xs" "off + n * sz \<le> length bs"
  shows "concat (map st (table_at sz ld bs off n)) = slice off (n * sz) bs"
proof -
  have "map st (table_at sz ld bs off n) = map (\<lambda>k. slice (off + k * sz) sz bs) [0..<n]"
    unfolding table_at_def map_map
  proof (rule map_cong [OF refl])
    fix k assume "k \<in> set [0..<n]"
    then have "Suc k * sz \<le> n * sz" by (intro mult_le_mono1) simp
    then show "(st \<circ> (\<lambda>k. ld (slice (off + k * sz) sz bs))) k = slice (off + k * sz) sz bs"
      using assms by simp
  qed
  then show ?thesis using assms(2) by (simp add: concat_slices)
qed

lemma length_table_at [simp]: "length (table_at sz ld bs off n) = n"
  by (simp add: table_at_def)

lemma table_at_of_store:
  assumes "\<And>x. ld (st x) = x" "\<And>x. length (st x) = sz"
    and "slice off (length xs * sz) bs = concat (map st xs)"
  shows "table_at sz ld bs off (length xs) = xs"
proof (rule nth_equalityI)
  fix k assume "k < length (table_at sz ld bs off (length xs))"
  then have k: "k < length xs" by simp
  have "Suc k * sz \<le> length xs * sz" using k by (intro mult_le_mono1) simp
  then have "slice (off + k * sz) sz bs = slice (k * sz) sz (slice off (length xs * sz) bs)"
    by (simp add: slice_slice)
  also have "\<dots> = slice (k * sz) sz (concat (map st xs))" by (simp only: assms(3))
  also have "\<dots> = st (xs ! k)" using k
  proof (induction xs arbitrary: k)
    case (Cons x xs)
    show ?case
    proof (cases k)
      case 0
      then show ?thesis using assms(2) by (simp add: slice_hit)
    next
      case (Suc j)
      then show ?thesis using Cons assms(2) by (simp add: slice_skip)
    qed
  qed simp
  finally show "table_at sz ld bs off (length xs) ! k = xs ! k"
    using k by (simp add: table_at_def assms(1))
qed simp

lemma take_4_eq:
  "4 \<le> length xs \<Longrightarrow> take 4 xs = [a, b, c, d] \<longleftrightarrow> xs ! 0 = a \<and> xs ! 1 = b \<and> xs ! 2 = c \<and> xs ! 3 = d"
  by (simp add: list_eq_iff_nth_eq numeral_eq_Suc less_Suc_eq_0_disj) (auto simp: less_Suc_eq)

section \<open>The class invariant\<close>

definition table_bounds :: "('eh, 'ph, 'sh) layout \<Rightarrow> ('eh, 'ph, 'sh) elf_file \<Rightarrow> bool" where
  "table_bounds K f \<longleftrightarrow>
     unat (e_phoff K (header f)) \<le> length (raw f) \<and>
     unat (e_shoff K (header f)) + length (sections f) * shdr_size K \<le> length (raw f)"

definition counts_match :: "('eh, 'ph, 'sh) layout \<Rightarrow> ('eh, 'ph, 'sh) elf_file \<Rightarrow> bool" where
  "counts_match K f \<longleftrightarrow>
     unat (e_phnum K (header f)) = length (segments f) \<and>
     unat (e_shnum K (header f)) = length (sections f) \<and>
     (segments f \<noteq> [] \<longrightarrow> unat (e_phentsize K (header f)) = phdr_size K) \<and>
     (sections f \<noteq> [] \<longrightarrow> unat (e_shentsize K (header f)) = shdr_size K \<and>
        e_shstrndx K (header f) < e_shnum K (header f))"

definition file_inv :: "('eh, 'ph, 'sh) layout \<Rightarrow> ('eh, 'ph, 'sh) elf_file \<Rightarrow> bool" where
  "file_inv K f \<longleftrightarrow>
     length (e_ident K (header f)) = 16 \<and> ident_matches K (e_ident K (header f)) \<and>
     unat (e_ehsize K (header f)) = ehdr_size K \<and> ehdr_size K \<le> length (raw f) \<and>
     length (raw f) < 2 ^ 63 \<and> table_bounds K f \<and> counts_match K f"

text \<open>
  The header, the program header table and the section header table lie apart (empty tables
  aside), so that writing one leaves the others alone.
\<close>

definition tables_apart :: "('eh, 'ph, 'sh) layout \<Rightarrow> ('eh, 'ph, 'sh) elf_file \<Rightarrow> bool" where
  "tables_apart K f \<longleftrightarrow>
     (let po = unat (e_phoff K (header f)); pn = length (segments f) * phdr_size K;
          so = unat (e_shoff K (header f)); sn = length (sections f) * shdr_size K in
      (segments f \<noteq> [] \<longrightarrow> ehdr_size K \<le> po) \<and> (sections f \<noteq> [] \<longrightarrow> ehdr_size K \<le> so) \<and>
      (segments f \<noteq> [] \<longrightarrow> sections f \<noteq> [] \<longrightarrow> po + pn \<le> so \<or> so + sn \<le> po))"

section \<open>Parsing and serializing, for every layout\<close>

context elf_layout
begin

lemma sizes_lt: "ehdr_size K < 2 ^ 64" "phdr_size K < 2 ^ 64" "shdr_size K < 2 ^ 64"
  using ehdr_size phdr_size shdr_size by auto

lemma unat_sizes [simp]:
  "unat (of_nat (phdr_size K) :: u64) = phdr_size K" "unat (of_nat (shdr_size K) :: u64) = shdr_size K"
  using sizes_lt by (simp_all add: unat_of_nat take_bit_nat_eq_self)

lemma ident_at:
  assumes "ehdr_size K \<le> length bs" "k < 16"
  shows "e_ident K (ehdr_load K (take (ehdr_size K) bs)) ! k = bs ! k"
  using assms ehdr_size by (simp add: ident_load)

lemma read_tables:
  assumes "length bs < 2 ^ 64"
    and "unat (e_phoff K h) + unat (e_phnum K h) * phdr_size K \<le> length bs"
    and "unat (e_shoff K h) + unat (e_shnum K h) * shdr_size K \<le> length bs"
  shows "readTable (phdr_size K) (phdr_load K) bs (e_phoff K h) (e_phnum K h) 0 [] =
      Inr (table_at (phdr_size K) (phdr_load K) bs (unat (e_phoff K h)) (unat (e_phnum K h)))"
    and "readTable (shdr_size K) (shdr_load K) bs (e_shoff K h) (e_shnum K h) 0 [] =
      Inr (table_at (shdr_size K) (shdr_load K) bs (unat (e_shoff K h)) (unat (e_shnum K h)))"
  using assms sizes_lt by (simp_all add: readTable_eq table_at_def)

lemma header_read:
  "ehdr_size K \<le> length bs \<Longrightarrow> length bs < 2 ^ 64 \<Longrightarrow>
   readStruct (ehdr_size K) (ehdr_load K) bs 0 = Inr (ehdr_load K (take (ehdr_size K) bs))"
  using sizes_lt by (simp add: readStruct_eq slice_def)

lemma parse_sound_header:
  assumes "length bs < 2 ^ 64" "ehdr_size K \<le> length bs"
  shows "case header_defect K bs of
      None \<Rightarrow> parse K bs = Inr (parsed_elf K bs)
    | Some c \<Rightarrow> (\<exists>e. parse K bs = Inl e \<and> code e = c)"
  using assms ehdr_size
  by (auto simp: header_defect_def parse_def header_read ident_at regionFits_arith take_4_eq
      ident_index_defs elf_const_defs word_less_nat_alt word_le_nat_alt read_tables parsed_elf_def
      Let_def not_less)

lemma parse_eq:
  assumes "length bs < 2 ^ 64"
  shows "case header_defect K bs of
      None \<Rightarrow> parse K bs = Inr (parsed_elf K bs)
    | Some c \<Rightarrow> (\<exists>e. parse K bs = Inl e \<and> code e = c)"
proof (cases "ehdr_size K \<le> length bs")
  case True
  with assms show ?thesis by (rule parse_sound_header)
next
  case False
  then obtain e where "readStruct (ehdr_size K) (ehdr_load K) bs 0 = Inl e" "code e = TruncatedFile"
    using readStruct_short [of bs "ehdr_size K" 0] assms sizes_lt by fastforce
  then show ?thesis using False by (simp add: header_defect_def parse_def)
qed

lemma parse_Inr:
  "length bs < 2 ^ 64 \<Longrightarrow> parse K bs = Inr f \<longleftrightarrow> header_defect K bs = None \<and> f = parsed_elf K bs"
  using parse_eq [of bs] by (auto split: option.splits)

lemma length_phdr_stores: "length (concat (map (phdr_store K) ps)) = length ps * phdr_size K"
  by (induction ps) (simp_all add: length_phdr_store)

lemma length_shdr_stores: "length (concat (map (shdr_store K) ss)) = length ss * shdr_size K"
  by (induction ss) (simp_all add: length_shdr_store)

lemmas length_stores = length_phdr_stores length_shdr_stores

lemma write_segments:
  assumes "unat off \<le> length buf" "unat off + length ps * phdr_size K < 2 ^ 64" "length buf < 2 ^ 64"
  shows "writeTable buf off (phdr_size K) 0 (map (phdr_store K) ps) =
    Some (put_at (unat off) (concat (map (phdr_store K) ps)) buf)"
proof -
  have "writeTable buf off (phdr_size K) 0 (map (phdr_store K) ps) =
      Some (put_at (unat off + unat (0 :: u64) * phdr_size K) (concat (map (phdr_store K) ps)) buf)"
    by (rule writeTable_eq) (use assms phdr_size in \<open>auto simp: length_phdr_store\<close>)
  then show ?thesis by simp
qed

lemma write_sections:
  assumes "unat off \<le> length buf" "unat off + length ss * shdr_size K < 2 ^ 64" "length buf < 2 ^ 64"
  shows "writeTable buf off (shdr_size K) 0 (map (shdr_store K) ss) =
    Some (put_at (unat off) (concat (map (shdr_store K) ss)) buf)"
proof -
  have "writeTable buf off (shdr_size K) 0 (map (shdr_store K) ss) =
      Some (put_at (unat off + unat (0 :: u64) * shdr_size K) (concat (map (shdr_store K) ss)) buf)"
    by (rule writeTable_eq) (use assms shdr_size in \<open>auto simp: length_shdr_store\<close>)
  then show ?thesis by simp
qed

lemma serialize_writes:
  assumes "length (e_ident K (header f)) = 16" "ehdr_size K \<le> length (raw f)" "length (raw f) < 2 ^ 64"
    and "unat (e_phoff K (header f)) \<le> length (raw f)"
    and "unat (e_phoff K (header f)) + length (segments f) * phdr_size K < 2 ^ 64"
    and "unat (e_shoff K (header f)) + length (sections f) * shdr_size K \<le> length (raw f)"
  shows "serialize K f =
    Some (put_at (unat (e_shoff K (header f))) (concat (map (shdr_store K) (sections f)))
      (put_at (unat (e_phoff K (header f))) (concat (map (phdr_store K) (segments f)))
        (put_at 0 (ehdr_store K (header f)) (raw f))))"
proof -
  let ?h = "header f"
  let ?b0 = "put_at 0 (ehdr_store K ?h) (raw f)"
  let ?b1 = "put_at (unat (e_phoff K ?h)) (concat (map (phdr_store K) (segments f))) ?b0"
  have l0: "length ?b0 = length (raw f)" using assms by (simp add: length_ehdr_store)
  have l1: "length ?b1 = max (length (raw f)) (unat (e_phoff K ?h) + length (segments f) * phdr_size K)"
    using assms l0 by (simp add: length_put_at_grow length_stores)
  have "writeStruct (raw f) 0 (ehdr_store K ?h) = Some ?b0"
    using assms writeStruct_eq [of 0 "raw f" "ehdr_store K ?h"] by (simp add: length_ehdr_store)
  moreover have "writeTable ?b0 (e_phoff K ?h) (phdr_size K) 0 (map (phdr_store K) (segments f)) = Some ?b1"
    using assms l0 by (intro write_segments) simp_all
  moreover have "writeTable ?b1 (e_shoff K ?h) (shdr_size K) 0 (map (shdr_store K) (sections f)) =
      Some (put_at (unat (e_shoff K ?h)) (concat (map (shdr_store K) (sections f))) ?b1)"
    using assms l1 by (intro write_sections) simp_all
  ultimately show ?thesis by (simp add: serialize_def)
qed

lemma defect_None_bounds:
  assumes "header_defect K bs = None"
  shows "ehdr_size K \<le> length bs"
    and "unat (e_phoff K (header (parsed_elf K bs))) + unat (e_phnum K (header (parsed_elf K bs))) * phdr_size K \<le> length bs"
    and "unat (e_shoff K (header (parsed_elf K bs))) + unat (e_shnum K (header (parsed_elf K bs))) * shdr_size K \<le> length bs"
  using assms by (auto simp: header_defect_def parsed_elf_def Let_def not_less split: if_splits)

lemma serialize_parsed:
  assumes "length bs < 2 ^ 64" "header_defect K bs = None"
  shows "serialize K (parsed_elf K bs) = Some bs"
proof -
  note bounds = defect_None_bounds [OF assms(2)]
  let ?f = "parsed_elf K bs"
  let ?h = "header ?f"
  have h: "?h = ehdr_load K (take (ehdr_size K) bs)" and raw: "raw ?f = bs"
    by (simp_all add: parsed_elf_def Let_def)
  have segs: "segments ?f = table_at (phdr_size K) (phdr_load K) bs (unat (e_phoff K ?h)) (unat (e_phnum K ?h))"
    and secs: "sections ?f = table_at (shdr_size K) (shdr_load K) bs (unat (e_shoff K ?h)) (unat (e_shnum K ?h))"
    by (simp_all add: parsed_elf_def Let_def)
  have id: "length (e_ident K ?h) = 16" using bounds(1) h by (simp add: length_ident_load)
  have "ehdr_store K ?h = slice 0 (ehdr_size K) bs"
    using bounds(1) h by (simp add: ehdr_store_load slice_def)
  moreover have "concat (map (phdr_store K) (segments ?f)) =
      slice (unat (e_phoff K ?h)) (unat (e_phnum K ?h) * phdr_size K) bs"
    unfolding segs using bounds(2) by (intro table_at_store phdr_store_load)
  moreover have "concat (map (shdr_store K) (sections ?f)) =
      slice (unat (e_shoff K ?h)) (unat (e_shnum K ?h) * shdr_size K) bs"
    unfolding secs using bounds(3) by (intro table_at_store shdr_store_load)
  ultimately show ?thesis
    using serialize_writes [of ?f] bounds assms(1) id raw segs secs
    by (simp add: put_at_slice)
qed

lemma parsed_inv:
  assumes "length bs < 2 ^ 63" "header_defect K bs = None"
  shows "file_inv K (parsed_elf K bs)"
proof -
  note bounds = defect_None_bounds [OF assms(2)]
  have "length (e_ident K (ehdr_load K (take (ehdr_size K) bs))) = 16"
    using bounds(1) by (simp add: length_ident_load)
  moreover have "ident_matches K (e_ident K (ehdr_load K (take (ehdr_size K) bs)))"
    using assms(2) bounds(1) ehdr_size
    by (auto simp: header_defect_def ident_matches_def ident_at take_4_eq Let_def split: if_splits)
  ultimately show ?thesis
    using assms bounds
    by (auto simp: file_inv_def table_bounds_def counts_match_def parsed_elf_def header_defect_def
        Let_def table_at_def word_less_nat_alt not_less split: if_splits)
qed

lemma setEntry_inv: "file_inv K f \<Longrightarrow> file_inv K (setEntry K addr f)"
  by (simp add: file_inv_def table_bounds_def counts_match_def setEntry_def set_entry)

lemma patchBytesAt_Inr:
  assumes "length (raw f) < 2 ^ 64" "length newBytes < 2 ^ 64"
  shows "patchBytesAt offset newBytes f = Inr g \<longleftrightarrow>
    unat offset + length newBytes \<le> length (raw f) \<and>
    g = f\<lparr>raw := put_at (unat offset) newBytes (raw f)\<rparr>"
  using assms by (auto simp: patchBytesAt_def regionFits_arith)

lemma patchBytesAt_inv:
  assumes "file_inv K f" "length newBytes < 2 ^ 64" "patchBytesAt offset newBytes f = Inr g"
  shows "file_inv K g"
proof -
  have "length (raw f) < 2 ^ 64" using assms(1) by (simp add: file_inv_def)
  then show ?thesis using assms
    by (auto simp: patchBytesAt_Inr file_inv_def table_bounds_def counts_match_def)
qed

lemma addLoadSegment_inv:
  assumes "file_inv K f" "length (raw f) + length data < 2 ^ 63" "length (raw f) + length data < lim"
    and "length (segments f) < 65535" "unat (e_phentsize K (header f)) = phdr_size K"
    and "addLoadSegment K vaddr data flags align f = Inr g"
  shows "file_inv K g"
proof -
  have "unat (of_nat (Suc (length (segments f))) :: u16) = Suc (length (segments f))"
    using assms(4) by (simp only: unat_of_nat) (simp add: take_bit_nat_eq_self)
  moreover have "unat (vsize (raw f @ data)) = length (raw f) + length data"
    using assms(2) by simp
  ultimately show ?thesis using assms
    by (auto simp: addLoadSegment_def Let_def file_inv_def table_bounds_def counts_match_def
        set_phoff set_phnum)
qed

lemma addLoadSegment_apart:
  assumes "file_inv K f" "length (raw f) + length data < 2 ^ 63" "length (raw f) + length data < lim"
    and "sections f \<noteq> [] \<longrightarrow> ehdr_size K \<le> unat (e_shoff K (header f))"
    and "addLoadSegment K vaddr data flags align f = Inr g"
  shows "tables_apart K g"
  using assms by (auto simp: addLoadSegment_def Let_def file_inv_def table_bounds_def tables_apart_def
      set_phoff set_phnum)

lemma serialize_inv:
  assumes "file_inv K f"
  shows "serialize K f =
    Some (put_at (unat (e_shoff K (header f))) (concat (map (shdr_store K) (sections f)))
      (put_at (unat (e_phoff K (header f))) (concat (map (phdr_store K) (segments f)))
        (put_at 0 (ehdr_store K (header f)) (raw f))))"
proof (rule serialize_writes)
  have "length (segments f) < 65536"
    using assms unsigned_less [of "e_phnum K (header f)", where ?'a = nat]
    by (simp add: file_inv_def counts_match_def)
  then have "length (segments f) * phdr_size K \<le> 65536 * 64"
    using phdr_size by (intro mult_le_mono) simp_all
  then show "unat (e_phoff K (header f)) + length (segments f) * phdr_size K < 2 ^ 64"
    using assms by (simp add: file_inv_def table_bounds_def)
qed (use assms in \<open>simp_all add: file_inv_def table_bounds_def\<close>)

text \<open>
  Where the header and the two tables end up in the output, and that everything else is copied.
\<close>

lemma serialize_regions:
  assumes "file_inv K f" "tables_apart K f" "serialize K f = Some out"
  shows "slice 0 (ehdr_size K) out = ehdr_store K (header f)"
    and "slice (unat (e_phoff K (header f))) (length (segments f) * phdr_size K) out =
      concat (map (phdr_store K) (segments f))"
    and "slice (unat (e_shoff K (header f))) (length (sections f) * shdr_size K) out =
      concat (map (shdr_store K) (sections f))"
    and "length out =
      max (length (raw f)) (unat (e_phoff K (header f)) + length (segments f) * phdr_size K)"
proof -
  let ?h = "header f"
  let ?po = "unat (e_phoff K ?h)" and ?so = "unat (e_shoff K ?h)"
  let ?ph = "concat (map (phdr_store K) (segments f))"
  let ?sh = "concat (map (shdr_store K) (sections f))"
  let ?b0 = "put_at 0 (ehdr_store K ?h) (raw f)"
  let ?b1 = "put_at ?po ?ph ?b0"
  have out: "out = put_at ?so ?sh ?b1" using serialize_inv [OF assms(1)] assms(3) by simp
  have hdr: "length (ehdr_store K ?h) = ehdr_size K" "ehdr_size K \<le> length (raw f)"
    "?po \<le> length (raw f)" "?so + length (sections f) * shdr_size K \<le> length (raw f)"
    using assms(1) by (simp_all add: file_inv_def table_bounds_def length_ehdr_store)
  have b0: "length ?b0 = length (raw f)" using hdr by simp
  have b1: "length ?b1 = max (length (raw f)) (?po + length (segments f) * phdr_size K)"
    using hdr b0 by (simp add: length_put_at_grow length_stores)
  have apart: "segments f = [] \<or> ehdr_size K \<le> ?po" "sections f = [] \<or> ehdr_size K \<le> ?so"
    "segments f = [] \<or> sections f = [] \<or> ?po + length (segments f) * phdr_size K \<le> ?so \<or>
       ?so + length (sections f) * shdr_size K \<le> ?po"
    using assms(2) by (auto simp: tables_apart_def Let_def)
  have "slice 0 (ehdr_size K) ?b0 = ehdr_store K ?h" using hdr by (simp add: slice_put_at_same)
  moreover have "slice 0 (ehdr_size K) ?b1 = slice 0 (ehdr_size K) ?b0"
    using apart hdr b0 by (cases "segments f = []") (auto intro: slice_put_at_disjoint)
  moreover have "slice 0 (ehdr_size K) out = slice 0 (ehdr_size K) ?b1"
    using apart hdr b1 out by (cases "sections f = []") (auto intro: slice_put_at_disjoint)
  ultimately show "slice 0 (ehdr_size K) out = ehdr_store K ?h" by simp
  have ph: "slice ?po (length (segments f) * phdr_size K) ?b1 = ?ph"
    using hdr b0 by (simp add: slice_put_at_same length_stores)
  have "slice ?po (length (segments f) * phdr_size K) out = slice ?po (length (segments f) * phdr_size K) ?b1"
    using apart hdr b1 out
    by (cases "sections f = []"; cases "segments f = []")
      (auto intro!: slice_put_at_disjoint simp: length_stores)
  then show "slice ?po (length (segments f) * phdr_size K) out = ?ph" using ph by simp
  show "slice ?so (length (sections f) * shdr_size K) out = ?sh"
    using hdr b1 out by (simp add: slice_put_at_same length_stores)
  show "length out = max (length (raw f)) (?po + length (segments f) * phdr_size K)"
    using out hdr b1 by (simp add: length_put_at_grow length_stores)
qed

lemma serialize_frame:
  assumes "file_inv K f" "serialize K f = Some out" "ehdr_size K \<le> k" "k + n \<le> length (raw f)"
    and "k + n \<le> unat (e_phoff K (header f)) \<or>
      unat (e_phoff K (header f)) + length (segments f) * phdr_size K \<le> k"
    and "k + n \<le> unat (e_shoff K (header f)) \<or>
      unat (e_shoff K (header f)) + length (sections f) * shdr_size K \<le> k"
  shows "slice k n out = slice k n (raw f)"
proof -
  have hdr: "length (ehdr_store K (header f)) = ehdr_size K" "ehdr_size K \<le> length (raw f)"
    "unat (e_phoff K (header f)) \<le> length (raw f)"
    "unat (e_shoff K (header f)) + length (sections f) * shdr_size K \<le> length (raw f)"
    using assms(1) by (simp_all add: file_inv_def table_bounds_def length_ehdr_store)
  then have "length (put_at 0 (ehdr_store K (header f)) (raw f)) = length (raw f)" by simp
  then show ?thesis using serialize_inv [OF assms(1)] assms hdr
    by (simp add: slice_put_at_disjoint length_stores length_put_at_grow)
qed

lemma reparse:
  assumes "file_inv K f" "tables_apart K f" "serialize K f = Some out" "length out < 2 ^ 64"
  shows "parse K out = Inr (f\<lparr>raw := out\<rparr>)"
proof -
  note regions = serialize_regions [OF assms(1-3)]
  have inv: "length (e_ident K (header f)) = 16" "ident_matches K (e_ident K (header f))"
    "unat (e_ehsize K (header f)) = ehdr_size K" "ehdr_size K \<le> length (raw f)"
    "table_bounds K f" "counts_match K f"
    using assms(1) by (simp_all add: file_inv_def)
  have fits: "ehdr_size K \<le> length out" using regions(4) inv(4) by simp
  have h: "ehdr_load K (take (ehdr_size K) out) = header f"
    using regions(1) inv(1) by (simp add: slice_def ehdr_load_store)
  have ident: "out ! k = e_ident K (header f) ! k" if "k < 16" for k
    using ident_at [OF fits that] h by simp
  have magic: "take 4 out = [0x7F, of_char CHR ''E'', of_char CHR ''L'', of_char CHR ''F'']"
    "out ! 4 = expected_class K" "out ! 5 = expected_data K"
    using inv(2) fits ehdr_size by (simp_all add: take_4_eq ident ident_matches_def)
  have "header_defect K out = None"
    using fits magic inv regions(4)
    by (auto simp: header_defect_def h table_bounds_def counts_match_def word_less_nat_alt not_less)
  moreover have "parsed_elf K out = f\<lparr>raw := out\<rparr>"
    using inv(6) regions(2,3)
      table_at_of_store [of "phdr_load K" "phdr_store K" "phdr_size K"
        "unat (e_phoff K (header f))" "segments f" out]
      table_at_of_store [of "shdr_load K" "shdr_store K" "shdr_size K"
        "unat (e_shoff K (header f))" "sections f" out]
    by (simp add: parsed_elf_def h counts_match_def phdr_load_store length_phdr_store
        shdr_load_store length_shdr_store)
  ultimately show ?thesis using assms(4) by (simp add: parse_Inr)
qed

end

end
