(* ===== verification/ElfQueries.thy ===== *)
theory ElfQueries
  imports ElfFileInv
begin

text \<open>
  The read side of \<open>ElfFile\<close>: what \<open>readAt\<close>, \<open>segmentData\<close> and \<open>vaddrToFileOffset\<close> return,
  what a patch changes, and that adding a segment at the end of the table does not disturb an
  address that resolved before.
\<close>

section \<open>Byte ranges\<close>

lemma readAt_eq:
  assumes "length (raw f) < 2 ^ 64"
  shows "readAt off n f =
    (if unat off + unat n \<le> length (raw f) then Inr (slice (unat off) (unat n) (raw f))
     else Inl (make_error OffsetOutOfBounds
       (''requested read of '' @ to_string (unat n) @ '' bytes at offset 0x'' @
        hex_digits (unat off) @ '' falls outside the file'')))"
proof -
  have "unat off < 16 ^ 16" using unsigned_less [of off, where ?'a = nat] by simp
  then have "length (hex_digits (unat off)) \<le> 16" by (intro length_hex_digits) simp_all
  then have "snprintf_to 32 (hex_digits (unat off)) = hex_digits (unat off)"
    by (intro snprintf_to_id) simp
  then show ?thesis using assms by (simp add: readAt_def regionFits_arith)
qed

lemma readAt_Inr:
  "length (raw f) < 2 ^ 64 \<Longrightarrow> readAt off n f = Inr bs \<longleftrightarrow>
   unat off + unat n \<le> length (raw f) \<and> bs = slice (unat off) (unat n) (raw f)"
  by (auto simp: readAt_eq)

lemma segmentData_Inr:
  assumes "length (raw f) < 2 ^ 64" "length (segments f) < 2 ^ 64"
  shows "segmentData K k f = Inr bs \<longleftrightarrow>
    unat k < length (segments f) \<and>
    (let ph = segments f ! unat k in
     unat (p_offset K ph) + unat (p_filesz K ph) \<le> length (raw f) \<and>
     bs = slice (unat (p_offset K ph)) (unat (p_filesz K ph)) (raw f))"
  using assms by (auto simp: segmentData_def Let_def regionFits_arith word_le_nat_alt not_le)

lemma patch_readAt:
  assumes "length (raw f) < 2 ^ 64" "length bs < 2 ^ 64" "patchBytesAt off bs f = Inr g"
  shows "readAt off (vsize bs) g = Inr bs"
    and "\<And>k n :: u64. unat k + unat n \<le> unat off \<or> unat off + length bs \<le> unat k \<Longrightarrow>
      readAt k n g = readAt k n f"
    and "header g = header f" "segments g = segments f" "sections g = sections f"
    and "length (raw g) = length (raw f)"
proof -
  have g: "g = f\<lparr>raw := put_at (unat off) bs (raw f)\<rparr>" and fits: "unat off + length bs \<le> length (raw f)"
    using assms by (auto simp: patchBytesAt_def regionFits_arith split: if_splits)
  then show len: "length (raw g) = length (raw f)" by simp
  show "header g = header f" "segments g = segments f" "sections g = sections f" using g by simp_all
  show "readAt off (vsize bs) g = Inr bs"
    using assms fits g by (simp add: readAt_eq slice_put_at_same)
  fix k n :: u64 assume "unat k + unat n \<le> unat off \<or> unat off + length bs \<le> unat k"
  then show "readAt k n g = readAt k n f"
    using assms fits g by (simp add: readAt_eq slice_put_at_disjoint)
qed

section \<open>Addresses\<close>

text \<open>\<open>covers K a ph\<close>: the \<open>PT_LOAD\<close> segment \<open>ph\<close> backs address \<open>a\<close> with file bytes.\<close>

definition covers :: "('eh, 'ph, 'sh) layout \<Rightarrow> u64 \<Rightarrow> 'ph \<Rightarrow> bool" where
  "covers K a ph \<longleftrightarrow> p_type K ph = PT_LOAD \<and> p_vaddr K ph \<le> a \<and> a < p_vaddr K ph + p_filesz K ph"

lemma searchSegments_find:
  "searchSegments K n a phs =
     (case find (covers K a) phs of
        None \<Rightarrow> Inl (make_error OffsetOutOfBounds
          ''virtual address not found in any file-backed PT_LOAD segment'')
      | Some ph \<Rightarrow>
          if p_offset K ph + (a - p_vaddr K ph) > n then
            Inl (make_error OffsetOutOfBounds ''computed file offset for vaddr exceeds file size'')
          else Inr (p_offset K ph + (a - p_vaddr K ph)))"
  by (induction phs) (auto simp: covers_def Let_def)

lemma vaddrToFileOffset_Inr:
  "vaddrToFileOffset K a f = Inr off \<longleftrightarrow>
   (\<exists>ph. find (covers K a) (segments f) = Some ph \<and> off = p_offset K ph + (a - p_vaddr K ph) \<and>
      off \<le> vsize (raw f))"
  by (auto simp: vaddrToFileOffset_def searchSegments_find split: option.splits)

lemma find_append_Some: "find P xs = Some x \<Longrightarrow> find P (xs @ ys) = Some x"
  by (induction xs) auto

lemma vaddrToFileOffset_add:
  assumes "vaddrToFileOffset K a f = Inr off" "addLoadSegment K vaddr data flags align f = Inr g"
    and "length (raw f) + length data < 2 ^ 64"
  shows "vaddrToFileOffset K a g = Inr off"
proof -
  have "vsize (raw f) \<le> vsize (raw g)"
    using assms(2,3) by (auto simp: addLoadSegment_def Let_def word_le_nat_alt)
  then show ?thesis using assms(1,2)
    by (auto simp: vaddrToFileOffset_Inr addLoadSegment_def Let_def find_append_Some)
qed

lemma find_SomeD: "find P xs = Some x \<Longrightarrow> x \<in> set xs \<and> P x"
  by (induction xs) (auto split: if_splits)

text \<open>The segment backs the address with file bytes, in unbounded arithmetic.\<close>

definition backs :: "('eh, 'ph, 'sh) layout \<Rightarrow> u64 \<Rightarrow> 'ph \<Rightarrow> bool" where
  "backs K a ph \<longleftrightarrow> p_type K ph = PT_LOAD \<and> unat (p_vaddr K ph) \<le> unat a \<and>
     unat a < unat (p_vaddr K ph) + unat (p_filesz K ph)"

lemma covers_iff:
  assumes "p_type K ph = PT_LOAD \<longrightarrow> unat (p_vaddr K ph) + unat (p_filesz K ph) < 2 ^ 64"
  shows "covers K a ph \<longleftrightarrow> backs K a ph"
proof (cases "p_type K ph = PT_LOAD")
  case True
  then have "unat (p_vaddr K ph + p_filesz K ph) = unat (p_vaddr K ph) + unat (p_filesz K ph)"
    using assms by (subst unat_word_ariths) simp
  then show ?thesis by (simp add: covers_def backs_def word_le_nat_alt word_less_nat_alt)
qed (simp add: covers_def backs_def)

lemma find_None_iff_all: "find P xs = None \<longleftrightarrow> (\<forall>x\<in>set xs. \<not> P x)"
  by (induction xs) auto

text \<open>
  In a segment whose address range and file range do not wrap around, the offset is the one the
  ELF specification gives.
\<close>

lemma covers_offset:
  assumes "covers K a ph" "unat (p_vaddr K ph) + unat (p_filesz K ph) < 2 ^ 64"
    and "unat (p_offset K ph) + unat (p_filesz K ph) \<le> n" "n < 2 ^ 64"
  shows "unat (p_vaddr K ph) \<le> unat a" "unat a < unat (p_vaddr K ph) + unat (p_filesz K ph)"
    and "unat (p_offset K ph + (a - p_vaddr K ph)) = unat (p_offset K ph) + (unat a - unat (p_vaddr K ph))"
proof -
  have "unat (p_vaddr K ph + p_filesz K ph) = unat (p_vaddr K ph) + unat (p_filesz K ph)"
    using assms(2) by (subst unat_word_ariths) simp
  then show a: "unat (p_vaddr K ph) \<le> unat a" "unat a < unat (p_vaddr K ph) + unat (p_filesz K ph)"
    using assms(1) by (simp_all add: covers_def word_le_nat_alt word_less_nat_alt)
  have "unat (a - p_vaddr K ph) = unat a - unat (p_vaddr K ph)"
    using a(1) by (intro unat_sub) (simp add: word_le_nat_alt)
  moreover from this a assms(3,4) have "unat (p_offset K ph) + unat (a - p_vaddr K ph) < 2 ^ 64" by linarith
  ultimately show "unat (p_offset K ph + (a - p_vaddr K ph)) =
      unat (p_offset K ph) + (unat a - unat (p_vaddr K ph))"
    by (subst unat_word_ariths) simp
qed


section \<open>The fields of the headers\<close>

text \<open>Where the fields the library uses lie in the file, and in which byte order they are read.\<close>

lemma elf64_ehdr_read:
  assumes "length bs = 64"
  shows "e_entry (Elf64 E) (ehdr_load (Elf64 E) bs) = word_in_order E (slice 24 8 bs)"
    "e_phoff (Elf64 E) (ehdr_load (Elf64 E) bs) = word_in_order E (slice 32 8 bs)"
    "e_shoff (Elf64 E) (ehdr_load (Elf64 E) bs) = word_in_order E (slice 40 8 bs)"
    "e_ehsize (Elf64 E) (ehdr_load (Elf64 E) bs) = word_in_order E (slice 52 2 bs)"
    "e_phentsize (Elf64 E) (ehdr_load (Elf64 E) bs) = word_in_order E (slice 54 2 bs)"
    "e_phnum (Elf64 E) (ehdr_load (Elf64 E) bs) = word_in_order E (slice 56 2 bs)"
    "e_shentsize (Elf64 E) (ehdr_load (Elf64 E) bs) = word_in_order E (slice 58 2 bs)"
    "e_shnum (Elf64 E) (ehdr_load (Elf64 E) bs) = word_in_order E (slice 60 2 bs)"
    "e_shstrndx (Elf64 E) (ehdr_load (Elf64 E) bs) = word_in_order E (slice 62 2 bs)"
    "get16 E (e_machine64 (ehdr_load (Elf64 E) bs)) = word_in_order E (slice 18 2 bs)"
  using assms
  by (simp_all add: Elf64_def Elf64_Ehdr_load_def load16_def load64_def endianed_read)

lemma elf64_phdr_read:
  assumes "length bs = 56"
  shows "p_type (Elf64 E) (phdr_load (Elf64 E) bs) = word_in_order E (slice 0 4 bs)"
    "p_offset (Elf64 E) (phdr_load (Elf64 E) bs) = word_in_order E (slice 8 8 bs)"
    "p_vaddr (Elf64 E) (phdr_load (Elf64 E) bs) = word_in_order E (slice 16 8 bs)"
    "p_filesz (Elf64 E) (phdr_load (Elf64 E) bs) = word_in_order E (slice 32 8 bs)"
    "p_memsz (Elf64 E) (phdr_load (Elf64 E) bs) = word_in_order E (slice 40 8 bs)"
  using assms
  by (simp_all add: Elf64_def Elf64_Phdr_load_def load32_def load64_def endianed_read)

lemma elf32_ehdr_read:
  assumes "length bs = 52"
  shows "e_entry (Elf32 E) (ehdr_load (Elf32 E) bs) = ucast (word_in_order E (slice 24 4 bs) :: u32)"
    "e_phoff (Elf32 E) (ehdr_load (Elf32 E) bs) = ucast (word_in_order E (slice 28 4 bs) :: u32)"
    "e_shoff (Elf32 E) (ehdr_load (Elf32 E) bs) = ucast (word_in_order E (slice 32 4 bs) :: u32)"
    "e_ehsize (Elf32 E) (ehdr_load (Elf32 E) bs) = word_in_order E (slice 40 2 bs)"
    "e_phentsize (Elf32 E) (ehdr_load (Elf32 E) bs) = word_in_order E (slice 42 2 bs)"
    "e_phnum (Elf32 E) (ehdr_load (Elf32 E) bs) = word_in_order E (slice 44 2 bs)"
    "e_shentsize (Elf32 E) (ehdr_load (Elf32 E) bs) = word_in_order E (slice 46 2 bs)"
    "e_shnum (Elf32 E) (ehdr_load (Elf32 E) bs) = word_in_order E (slice 48 2 bs)"
    "e_shstrndx (Elf32 E) (ehdr_load (Elf32 E) bs) = word_in_order E (slice 50 2 bs)"
  using assms
  by (simp_all add: Elf32_def Elf32_Ehdr_load_def load16_def load32_def endianed_read)

end
