(* ===== verification/ElfEdits.thy ===== *)
theory ElfEdits
  imports ElfQueries
begin

text \<open>
  The files a program can hold: parsed from bytes and then changed by any sequence of the
  mutators of \<open>ElfFile\<close>, as an inductive relation, with the class invariant by rule induction.
  A segment is only added while the counter in the header has room, the header's entry size is in
  place and the file stays below \<open>lim\<close>, the offsets the class can hold (\<open>addLoadSegment\<close> checks
  none of these).
\<close>

inductive edited :: "('eh, 'ph, 'sh) layout \<Rightarrow> nat \<Rightarrow> ('eh, 'ph, 'sh) elf_file \<Rightarrow> bool" for K lim where
  edited_parse: "length bs < 2 ^ 63 \<Longrightarrow> parse K bs = Inr f \<Longrightarrow> edited K lim f"
| edited_entry: "edited K lim f \<Longrightarrow> edited K lim (setEntry K addr f)"
| edited_patch:
    "edited K lim f \<Longrightarrow> length bs < 2 ^ 64 \<Longrightarrow> patchBytesAt off bs f = Inr g \<Longrightarrow> edited K lim g"
| edited_segment:
    "edited K lim f \<Longrightarrow> length (raw f) + length data < 2 ^ 63 \<Longrightarrow> length (raw f) + length data < lim \<Longrightarrow>
     length (segments f) < 65535 \<Longrightarrow> unat (e_phentsize K (header f)) = phdr_size K \<Longrightarrow>
     addLoadSegment K vaddr data flags align f = Inr g \<Longrightarrow> edited K lim g"

lemma put_at_grows: "length xs \<le> length (put_at off ys xs)"
  by (simp add: put_at_def)

text \<open>
  What adding a segment is to do: its data and its address are there, every earlier segment keeps the
  data it had, the entry point and the sections are untouched.
\<close>

definition segment_added ::
  "('eh, 'ph, 'sh) layout \<Rightarrow> u64 \<Rightarrow> bytes \<Rightarrow> ('eh, 'ph, 'sh) elf_file \<Rightarrow> ('eh, 'ph, 'sh) elf_file \<Rightarrow> bool" where
  "segment_added K vaddr data f g \<longleftrightarrow>
     segmentData K (vsize (segments f)) g = Inr data \<and>
     p_vaddr K (segments g ! length (segments f)) = vaddr \<and>
     length (segments g) = Suc (length (segments f)) \<and> sections g = sections f \<and> entry K g = entry K f \<and>
     (\<forall>k bs. segmentData K k f = Inr bs \<longrightarrow> segmentData K k g = Inr bs)"

text \<open>For every layout: the invariant holds along every sequence, so serializing stays in its buffer.\<close>

context elf_layout
begin

lemma edited_inv: "edited K lim f \<Longrightarrow> file_inv K f"
proof (induction rule: edited.induct)
  case (edited_parse bs f)
  then have "length bs < 2 ^ 64" by simp
  then have "header_defect K bs = None" "f = parsed_elf K bs"
    using edited_parse.hyps(2) parse_Inr by blast+
  then show ?case using edited_parse.hyps(1) parsed_inv by blast
next
  case (edited_entry f addr)
  then show ?case by (intro setEntry_inv)
next
  case (edited_patch f bs off g)
  show ?case using edited_patch.IH edited_patch.hyps(2,3) by (rule patchBytesAt_inv)
next
  case (edited_segment f data vaddr flags align g)
  show ?case using edited_segment.IH edited_segment.hyps(2-6) by (rule addLoadSegment_inv)
qed

lemma serialize_grows:
  assumes "file_inv K f"
  shows "\<exists>out. serialize K f = Some out \<and> length (raw f) \<le> length out"
proof -
  have three: "length xs \<le> length (put_at i as (put_at j bs (put_at k cs xs)))" for i j k as bs cs and xs :: bytes
    using put_at_grows [of xs k cs] put_at_grows [of "put_at k cs xs" j bs]
      put_at_grows [of "put_at j bs (put_at k cs xs)" i as] by linarith
  then show ?thesis by (simp only: serialize_inv [OF assms] option.inject) blast
qed

lemma edited_serializes:
  assumes "edited K lim f"
  shows "file_inv K f \<and> (\<exists>out. serialize K f = Some out \<and> length (raw f) \<le> length out)"
  using edited_inv [OF assms] serialize_grows by blast

text \<open>The added segment reads back, in both classes, as long as its place can be written down.\<close>

lemma segment_is_added:
  assumes "length (raw f) + length data < lim" "unat vaddr < lim" "length (segments f) < 65535"
    and "addLoadSegment K vaddr data flags align f = Inr g"
  shows "segment_added K vaddr data f g"
proof -
  have lens: "length (raw f) + length data < 2 ^ 64" "length (raw f) < 2 ^ 64" "length data < 2 ^ 64"
    using assms(1) lim by simp_all
  have keep: "slice k n (raw f @ data) = slice k n (raw f)" if "k + n \<le> length (raw f)" for k n
    using that by (simp add: slice_def)
  define ph where "ph = make_phdr K PT_LOAD flags (vsize (raw f)) vaddr vaddr (vsize data) (vsize data) align"
  have ph: "p_offset K ph = vsize (raw f)" "p_filesz K ph = vsize data" "p_vaddr K ph = vaddr"
    unfolding ph_def using assms(1,2) lens by (simp_all add: made_phdr)
  have g: "segments g = segments f @ [ph]" "raw g = raw f @ data" "sections g = sections f"
    "entry K g = entry K f"
    using assms(4) by (auto simp: addLoadSegment_def Let_def ph_def entry_def header_laws)
  have "segmentData K (vsize (segments f)) g = Inr data"
    using assms(3) lens g ph by (subst segmentData_Inr) (simp_all add: slice_def)
  moreover have "segmentData K k g = Inr bs" if "segmentData K k f = Inr bs" for k bs
    using that assms(3) lens g by (auto simp: segmentData_Inr Let_def nth_append keep)
  ultimately show ?thesis using g ph by (simp add: segment_added_def nth_append)
qed

lemma phentsize_defect:
  assumes "take (ehdr_size K) out = ehdr_store K h" "ehdr_size K \<le> length out"
    and "length (e_ident K h) = 16" "ident_matches K (e_ident K h)"
    and "unat (e_ehsize K h) = ehdr_size K" "0 < unat (e_phnum K h)" "unat (e_phentsize K h) \<noteq> phdr_size K"
  shows "header_defect K out = Some InconsistentHeaderSize"
proof -
  have load: "ehdr_load K (take (ehdr_size K) out) = h" using assms(1,3) by (simp add: ehdr_load_store)
  have ident: "out ! k = e_ident K h ! k" if "k < 16" for k
    using ident_at [OF assms(2) that] load by simp
  have "4 \<le> length out" using assms(2) ehdr_size by simp
  then have "take 4 out = [0x7F, of_char CHR ''E'', of_char CHR ''L'', of_char CHR ''F'']"
    "out ! 4 = expected_class K" "out ! 5 = expected_data K"
    using assms(4) ident by (simp_all add: take_4_eq ident_matches_def)
  then show ?thesis using assms(2,5-7) load by (simp add: header_defect_def Let_def)
qed

text \<open>\<open>addLoadSegment\<close> leaves the size of a program header in the ELF header as it is.\<close>

lemma added_segment_rejected:
  assumes "file_inv K f" "segments f = []" "unat (e_phentsize K (header f)) \<noteq> phdr_size K"
    and "sections f \<noteq> [] \<longrightarrow> ehdr_size K \<le> unat (e_shoff K (header f))"
    and "length (raw f) + length data < lim" "length (raw f) + length data < 2 ^ 62"
    and "addLoadSegment K vaddr data flags align f = Inr g"
  shows "\<exists>out e. serialize K g = Some out \<and> parse K out = Inl e \<and> code e = InconsistentHeaderSize"
proof -
  let ?h = "header g" and ?so = "unat (e_shoff K (header f))"
  have inv: "length (e_ident K (header f)) = 16" "ident_matches K (e_ident K (header f))"
    "unat (e_ehsize K (header f)) = ehdr_size K" "ehdr_size K \<le> length (raw f)"
    "?so + length (sections f) * shdr_size K \<le> length (raw f)"
    using assms(1) by (simp_all add: file_inv_def table_bounds_def)
  obtain ph where g: "segments g = [ph]" "raw g = raw f @ data" "sections g = sections f"
    and h: "?h = set_e_phoff K (vsize (raw f @ data)) (set_e_phnum K 1 (header f))"
    using assms(2,7) by (auto simp: addLoadSegment_def Let_def)
  have po: "unat (e_phoff K ?h) = length (raw f) + length data"
    using assms(5,6) unfolding h by (subst set_phoff(1)) simp_all
  note hdr = h set_phoff(2-) set_phnum
  let ?b0 = "put_at 0 (ehdr_store K ?h) (raw g)"
  let ?b1 = "put_at (unat (e_phoff K ?h)) (concat (map (phdr_store K) (segments g))) ?b0"
  let ?out = "put_at (unat (e_shoff K ?h)) (concat (map (shdr_store K) (sections g))) ?b1"
  have ser: "serialize K g = Some ?out"
    by (rule serialize_writes) (use inv assms(6) phdr_size g po in \<open>simp_all add: hdr\<close>)
  have len: "length (ehdr_store K ?h) = ehdr_size K" using inv by (simp add: hdr length_ehdr_store)
  have b0: "length ?b0 = length (raw f) + length data" using len inv g by simp
  have b1: "length ?b1 = length (raw f) + length data + phdr_size K"
    using b0 po g by (simp add: length_put_at_grow length_phdr_store)
  have out_len: "length ?out = length (raw f) + length data + phdr_size K"
    using b1 inv g by (simp add: hdr length_stores)
  have "slice 0 (ehdr_size K) ?out = slice 0 (ehdr_size K) ?b1"
    using assms(4) b1 inv g by (cases "sections f = []") (auto simp: hdr length_stores intro: slice_put_at_disjoint)
  also have "\<dots> = slice 0 (ehdr_size K) ?b0" using b0 po inv by (simp add: slice_put_at_disjoint)
  also have "\<dots> = ehdr_store K ?h" using len by (simp add: slice_put_at_same)
  finally have take: "take (ehdr_size K) ?out = ehdr_store K ?h" by (simp add: slice_def)
  have "header_defect K ?out = Some InconsistentHeaderSize"
    by (rule phentsize_defect [OF take]) (use inv assms(3) out_len in \<open>simp_all add: hdr\<close>)
  moreover have "length ?out < 2 ^ 64" using out_len assms(6) phdr_size by simp
  ultimately show ?thesis using ser parse_eq [of ?out] by auto
qed

end

end
