(* ===== verification/ElfProperties.thy ===== *)
theory ElfProperties
  imports ElfEdits
begin

text \<open>
  The properties of the ELF library (\<open>libelf\<close>), stated over the model of its code and
  instantiated on small files: a bare 64-bit header and the byte orders.
\<close>

section \<open>Examples\<close>

text \<open>A big-endian ELF64 file that is its header only; \<open>n\<close> is the low byte of \<open>e_phentsize\<close>.\<close>

definition bare_header :: "u8 \<Rightarrow> bytes" where
  "bare_header n =
     [0x7F, 0x45, 0x4C, 0x46, 2, 2, 1, 0x66, 0, 0, 0, 0, 0, 0, 0, 0,
      0, 2, 0, 21, 0, 0, 0, 1, 0, 0, 0, 0, 0, 1, 0, 0,
      0, 0, 0, 0, 0, 0, 0, 0, 0, 0, 0, 0, 0, 0, 0, 0,
      0, 0, 0, 0, 0, 64, 0, n, 0, 0, 0, 0, 0, 0, 0, 0]"

definition bare_file :: "u8 \<Rightarrow> elf64_file" where
  "bare_file n = parsed_elf (Elf64 Big) (bare_header n)"

lemma elf64_sizes [simp]:
  "ehdr_size (Elf64 E) = 64" "phdr_size (Elf64 E) = 56" "shdr_size (Elf64 E) = 64"
  by (simp_all add: Elf64_def)

lemma elf32_sizes: "ehdr_size (Elf32 E) = 52" "phdr_size (Elf32 E) = 32" "shdr_size (Elf32 E) = 40"
  by (simp_all add: Elf32_def)

lemma elf64_expected [simp]:
  "expected_class (Elf64 E) = ELFCLASS64" "expected_data (Elf64 Big) = ELFDATA2MSB"
  by (simp_all add: Elf64_def expectedClass_def expectedData_def)

lemma bare_length [simp]: "length (bare_header n) = 64" "take 64 (bare_header n) = bare_header n"
  by (simp_all add: bare_header_def)

lemma bare_read:
  "e_phoff (Elf64 Big) (ehdr_load (Elf64 Big) (bare_header n)) = 0"
  "e_shoff (Elf64 Big) (ehdr_load (Elf64 Big) (bare_header n)) = 0"
  "e_ehsize (Elf64 Big) (ehdr_load (Elf64 Big) (bare_header n)) = 64"
  "e_phentsize (Elf64 Big) (ehdr_load (Elf64 Big) (bare_header n)) = ucast n"
  "e_phnum (Elf64 Big) (ehdr_load (Elf64 Big) (bare_header n)) = 0"
  "e_shnum (Elf64 Big) (ehdr_load (Elf64 Big) (bare_header n)) = 0"
  by (subst elf64_ehdr_read; simp add: bare_header_def slice_def be_word_def word_in_order_def)+

lemma bare_defect: "header_defect (Elf64 Big) (bare_header n) = None"
proof -
  have "take 4 (bare_header n) = [0x7F, of_char CHR ''E'', of_char CHR ''L'', of_char CHR ''F'']"
    "bare_header n ! 4 = ELFCLASS64" "bare_header n ! 5 = ELFDATA2MSB"
    by (simp_all add: bare_header_def elf_const_defs)
  then show ?thesis by (simp add: header_defect_def Let_def bare_read)
qed

lemma bare_file_parts:
  "header (bare_file n) = ehdr_load (Elf64 Big) (bare_header n)" "segments (bare_file n) = []"
  "sections (bare_file n) = []" "raw (bare_file n) = bare_header n"
  by (simp_all add: bare_file_def parsed_elf_def Let_def bare_read table_at_def)

lemma bare_inv: "file_inv (Elf64 Big) (bare_file n)"
  unfolding bare_file_def by (rule elf64.parsed_inv) (simp_all add: bare_defect)

lemma bare_apart: "tables_apart (Elf64 Big) (bare_file n)"
  by (simp add: tables_apart_def bare_file_parts)

lemma bare_serialize: "serialize (Elf64 Big) (bare_file n) = Some (bare_header n)"
  unfolding bare_file_def by (rule elf64.serialize_parsed) (simp_all add: bare_defect)

section \<open>Properties\<close>

text \<open>
  C20. Parsing is complete and exact, for both classes and byte orders: \<open>parse\<close> reports the first
  defect of the header (in unbounded arithmetic: table ends are not reduced modulo the word size)
  and otherwise returns the file whose tables are read entry by entry.
\<close>

theorem parse_spec:
  assumes "length bs < 2 ^ 64"
  shows "(case header_defect (Elf64 E) bs of
        None \<Rightarrow> parse (Elf64 E) bs = Inr (parsed_elf (Elf64 E) bs)
      | Some c \<Rightarrow> (\<exists>e. parse (Elf64 E) bs = Inl e \<and> code e = c)) \<and>
    (case header_defect (Elf32 E) bs of
        None \<Rightarrow> parse (Elf32 E) bs = Inr (parsed_elf (Elf32 E) bs)
      | Some c \<Rightarrow> (\<exists>e. parse (Elf32 E) bs = Inl e \<and> code e = c))"
  using elf64.parse_eq [OF assms] elf32.parse_eq [OF assms] by blast

theorem parse_spec_witness:
  "parse (Elf64 Big) (bare_header 56) = Inr (bare_file 56)"
  using parse_spec [of "bare_header 56" Big] by (simp add: bare_defect bare_file_def)

text \<open>
  C21. Round trip: serializing a parsed file, whatever its class and byte order, gives back exactly
  the bytes that were parsed.
\<close>

theorem parse_serialize:
  assumes "length bs < 2 ^ 64" "parseAny bs = Inr a"
  shows "serializeAny a = Some bs"
  using assms
  by (auto simp: parseAny_def serializeAny_def Let_def elf64.parse_Inr elf32.parse_Inr
      elf64.serialize_parsed elf32.serialize_parsed split: if_splits)

lemma bare_parseAny: "parseAny (bare_header n) = Inr (AnyElf64BE (bare_file n))"
proof -
  have "parse (Elf64 Big) (bare_header n) = Inr (bare_file n)"
    by (subst elf64.parse_Inr) (simp_all add: bare_defect bare_file_def)
  then show ?thesis by (simp add: parseAny_def Let_def bare_header_def ident_index_defs elf_const_defs)
qed

theorem parse_serialize_witness:
  "serializeAny (AnyElf64BE (bare_file 56)) = Some (bare_header 56)"
  by (rule parse_serialize [OF _ bare_parseAny]) simp

text \<open>
  C22. Whatever sequence of mutations produced it, a file that satisfies the class invariant and
  whose tables do not overlap is written to bytes that parse to the same header, segments and
  sections.
\<close>

theorem serialize_reparse:
  "(file_inv (Elf32 E) f \<and> tables_apart (Elf32 E) f \<and> serialize (Elf32 E) f = Some out \<and>
      length out < 2 ^ 64 \<longrightarrow> parse (Elf32 E) out = Inr (f\<lparr>raw := out\<rparr>)) \<and>
   (file_inv (Elf64 E) g \<and> tables_apart (Elf64 E) g \<and> serialize (Elf64 E) g = Some out \<and>
      length out < 2 ^ 64 \<longrightarrow> parse (Elf64 E) out = Inr (g\<lparr>raw := out\<rparr>))"
  using elf32.reparse elf64.reparse by blast

theorem serialize_reparse_witness:
  "parse (Elf64 Big) (bare_header 56) = Inr (bare_file 56\<lparr>raw := bare_header 56\<rparr>)"
  using serialize_reparse [where E = Big and g = "bare_file 56" and out = "bare_header 56"]
    bare_inv bare_apart bare_serialize by simp

text \<open>
  C23. Every file that can be reached by parsing and then any sequence of \<open>setEntry\<close>, \<open>patchBytesAt\<close>
  and \<open>addLoadSegment\<close> satisfies the class invariant, and serializing it never writes outside the
  output buffer, for both classes and both byte orders, provided that whenever a segment is added
  there are fewer than 65535, \<open>e_phentsize\<close> is the size of a program header, and the file stays below
  \<open>2 ^ 63\<close> bytes and within what the offset fields of its class can hold. (\<open>addLoadSegment\<close> checks none
  of these; C39 is what happens without the second.)
\<close>

theorem edited_files:
  "(edited (Elf32 E) (2 ^ 32) f \<longrightarrow>
      file_inv (Elf32 E) f \<and> (\<exists>out. serialize (Elf32 E) f = Some out \<and> length (raw f) \<le> length out)) \<and>
   (edited (Elf64 E) (2 ^ 64) g \<longrightarrow>
      file_inv (Elf64 E) g \<and> (\<exists>out. serialize (Elf64 E) g = Some out \<and> length (raw g) \<le> length out))"
  using elf32.edited_serializes elf64.edited_serializes by blast

theorem edited_files_witness:
  "\<exists>g out. addLoadSegment (Elf64 Big) 0x1000 [1, 2] 5 16 (setEntry (Elf64 Big) 7 (bare_file 56)) = Inr g \<and>
     serialize (Elf64 Big) g = Some out \<and> 66 \<le> length out"
proof -
  have "edited (Elf64 Big) (2 ^ 64) (bare_file 56)"
    by (rule edited_parse [of "bare_header 56"])
      (simp_all add: elf64.parse_Inr bare_defect bare_file_def)
  then have e: "edited (Elf64 Big) (2 ^ 64) (setEntry (Elf64 Big) 7 (bare_file 56))" by (rule edited_entry)
  obtain g where g: "addLoadSegment (Elf64 Big) 0x1000 [1, 2] 5 16 (setEntry (Elf64 Big) 7 (bare_file 56)) = Inr g"
    by (simp add: addLoadSegment_def Let_def)
  have "edited (Elf64 Big) (2 ^ 64) g"
    using e _ _ _ _ g
    by (rule edited_segment) (simp_all add: setEntry_def bare_file_parts bare_read elf64.header_laws)
  moreover have "length (raw g) = 66"
    using g by (auto simp: addLoadSegment_def Let_def setEntry_def bare_file_parts)
  ultimately show ?thesis using edited_files [where E = Big and g = g] g by auto
qed

text \<open>
  C24. An added segment is there, in both classes: its data reads back, every earlier segment still has
  the data it had, the entry point and the sections are untouched. (There must be fewer
  than 65535 segments before, and in a 32-bit file the address and the end of the file must fit into
  32 bits; the code checks neither.)
\<close>

theorem added_segment_reads_back:
  assumes "addLoadSegment (Elf32 E) vaddr data flags align f = Inr f'"
    and "addLoadSegment (Elf64 E) vaddr data flags align g = Inr g'"
  shows "(length (raw f) + length data < 2 ^ 32 \<and> unat vaddr < 2 ^ 32 \<and> length (segments f) < 65535 \<longrightarrow>
      segment_added (Elf32 E) vaddr data f f') \<and>
    (length (raw g) + length data < 2 ^ 64 \<and> length (segments g) < 65535 \<longrightarrow>
      segment_added (Elf64 E) vaddr data g g')"
proof -
  have "unat vaddr < 2 ^ 64" using unsigned_less [of vaddr, where ?'a = nat] by simp
  then show ?thesis using elf32.segment_is_added [OF _ _ _ assms(1)] elf64.segment_is_added [OF _ _ _ assms(2)] by blast
qed

theorem added_segment_reads_back_witness:
  "\<exists>g. addLoadSegment (Elf64 Big) 0x1000 [1, 2, 3] 5 16 (bare_file 56) = Inr g \<and>
     segmentData (Elf64 Big) 0 g = Inr [1, 2, 3]"
proof -
  have added: "\<exists>g. addLoadSegment K 0x1000 [1, 2, 3] 5 16 f = Inr g"
    for K :: "('eh, 'ph, 'sh) layout" and f by (simp add: addLoadSegment_def Let_def)
  obtain g where g: "addLoadSegment (Elf64 Big) 0x1000 [1, 2, 3] 5 16 (bare_file 56) = Inr g" using added by blast
  obtain h where "addLoadSegment (Elf32 Big) 0x1000 [1, 2, 3] 5 16
      (parsed_elf (Elf32 Big) []) = Inr h" using added by blast
  from added_segment_reads_back [OF this g] have "segment_added (Elf64 Big) 0x1000 [1, 2, 3] (bare_file 56) g"
    by (simp add: bare_file_parts)
  then show ?thesis using g by (auto simp: segment_added_def bare_file_parts vsize_def)
qed

text \<open>
  C25. A patch writes exactly its bytes: they read back at the patched offset, every read that does
  not overlap them returns what it did before, and nothing else of the file changes.
\<close>

theorem patch_reads_back:
  assumes "length (raw f) < 2 ^ 64" "length bs < 2 ^ 64" "patchBytesAt off bs f = Inr g"
  shows "readAt off (vsize bs) g = Inr bs \<and>
    (\<forall>k n. unat k + unat n \<le> unat off \<or> unat off + length bs \<le> unat k \<longrightarrow> readAt k n g = readAt k n f) \<and>
    header g = header f \<and> segments g = segments f \<and> sections g = sections f \<and>
    length (raw g) = length (raw f)"
  using patch_readAt [OF assms] by blast

theorem patch_reads_back_witness:
  "\<exists>g. patchBytesAt 62 [5, 6] (bare_file 56) = Inr g \<and> readAt 62 2 g = Inr [5, 6]"
proof -
  obtain g where g: "patchBytesAt 62 [5, 6] (bare_file 56) = Inr g"
    by (simp add: patchBytesAt_def regionFits_arith bare_file_parts)
  have "readAt 62 (vsize [5, 6 :: u8]) g = Inr [5, 6]"
    using patch_reads_back [OF _ _ g] by (simp add: bare_file_parts)
  then show ?thesis using g by (auto simp: vsize_def)
qed


text \<open>
  C26. Address translation is sound and complete, for every class and byte order: in a file whose \<open>PT_LOAD\<close> segments lie inside
  the address space and the file, an address resolves exactly when such a segment backs it with
  file bytes, and then to the byte of that segment, inside the file.
\<close>

theorem address_lookup:
  assumes "length (raw f) < 2 ^ 64"
    and "\<forall>ph\<in>set (segments f). p_type K ph = PT_LOAD \<longrightarrow>
      unat (p_vaddr K ph) + unat (p_filesz K ph) < 2 ^ 64 \<and>
      unat (p_offset K ph) + unat (p_filesz K ph) \<le> length (raw f)"
  shows "((\<exists>off. vaddrToFileOffset K a f = Inr off) \<longleftrightarrow> (\<exists>ph\<in>set (segments f). backs K a ph)) \<and>
    (\<forall>off. vaddrToFileOffset K a f = Inr off \<longrightarrow>
      (\<exists>ph\<in>set (segments f). backs K a ph \<and> unat off < length (raw f) \<and>
         unat off = unat (p_offset K ph) + (unat a - unat (p_vaddr K ph))))"
proof -
  have backs: "covers K a ph \<longleftrightarrow> backs K a ph" if "ph \<in> set (segments f)" for ph
    using covers_iff [of K ph a] assms(2) that by auto
  have found: "\<exists>off. off = p_offset K ph + (a - p_vaddr K ph) \<and> off \<le> vsize (raw f) \<and> unat off < length (raw f) \<and>
      unat off = unat (p_offset K ph) + (unat a - unat (p_vaddr K ph))"
    if ph: "ph \<in> set (segments f)" "covers K a ph" for ph
  proof -
    have lim: "unat (p_vaddr K ph) + unat (p_filesz K ph) < 2 ^ 64"
      "unat (p_offset K ph) + unat (p_filesz K ph) \<le> length (raw f)"
      using assms(2) ph by (auto simp: covers_def)
    note c = covers_offset [OF ph(2) lim assms(1)]
    have "unat (p_offset K ph + (a - p_vaddr K ph)) < length (raw f)"
      unfolding c(3) using c(1,2) lim(2) by linarith
    then show ?thesis using c(3) assms(1) by (simp add: word_le_nat_alt)
  qed
  show ?thesis
  proof (cases "find (covers K a) (segments f)")
    case None
    then show ?thesis using backs
      by (auto simp: find_None_iff_all vaddrToFileOffset_Inr dest: find_SomeD)
  next
    case (Some ph)
    then have ph: "ph \<in> set (segments f)" "covers K a ph" by (simp_all add: find_SomeD)
    then have "backs K a ph" using backs by blast
    then show ?thesis using Some ph(1) found [OF ph] by (auto simp: vaddrToFileOffset_Inr)
  qed
qed

theorem address_lookup_witness:
  "\<exists>g off. addLoadSegment (Elf64 Big) 0x1000 [1, 2, 3] 5 16 (bare_file 56) = Inr g \<and>
     vaddrToFileOffset (Elf64 Big) 0x1001 g = Inr off \<and> unat off < 67"
proof -
  obtain g where g: "addLoadSegment (Elf64 Big) 0x1000 [1, 2, 3] 5 16 (bare_file 56) = Inr g"
    by (simp add: addLoadSegment_def Let_def)
  define ph where "ph = make_phdr (Elf64 Big) PT_LOAD 5 64 0x1000 0x1000 3 3 16"
  have fields: "p_type (Elf64 Big) ph = PT_LOAD" "p_vaddr (Elf64 Big) ph = 0x1000"
    "p_filesz (Elf64 Big) ph = 3" "p_offset (Elf64 Big) ph = 64"
    unfolding ph_def by (rule elf64.made_phdr; simp)+
  have parts: "segments g = [ph]" "raw g = bare_header 56 @ [1, 2, 3]"
    using g by (auto simp: addLoadSegment_def Let_def ph_def bare_file_parts vsize_def)
  have "(\<exists>off. vaddrToFileOffset (Elf64 Big) 0x1001 g = Inr off) \<and>
      (\<forall>off. vaddrToFileOffset (Elf64 Big) 0x1001 g = Inr off \<longrightarrow> unat off < 67)"
    using address_lookup [of g "Elf64 Big" "0x1001"] by (auto simp: parts fields backs_def)
  then show ?thesis using g by blast
qed

text \<open>
  The bounds check is exact: it accepts a table of \<open>count\<close> entries exactly when its last byte,
  computed without wrap-around, lies inside the buffer.
\<close>

theorem region_fits_exact:
  "regionFits bufferSize offset count elemSize \<longleftrightarrow>
     unat offset + unat count * unat elemSize \<le> unat bufferSize"
  by (rule regionFits_arith)

text \<open>
  An \<open>Endianed\<close> field means what the file's byte order says: reading it gives the number the
  bytes in the file spell in that order, and assigning it stores the bytes of the new value in that
  order, for the three widths.
\<close>

theorem fields_in_file_order:
  assumes "k + 8 \<le> length bs"
  shows "get16 E (load16 k bs) = word_in_order E (slice k 2 bs) \<and>
    get32 E (load32 k bs) = word_in_order E (slice k 4 bs) \<and>
    get64 E (load64 k bs) = word_in_order E (slice k 8 bs) \<and>
    store16 (set16 E v) = bytes_in_order E 2 v \<and> store32 (set32 E w) = bytes_in_order E 4 w \<and>
    store64 (set64 E x) = bytes_in_order E 8 x"
  using assms
  by (simp add: load16_def load32_def load64_def endianed_read store16_def store32_def store64_def
      endianed_write)

theorem fields_in_file_order_witness:
  "get32 Big (load32 0 [0, 0, 1, 2, 0, 0, 0, 0]) = 0x102"
  using fields_in_file_order [of 0 "[0, 0, 1, 2, 0, 0, 0, 0]" Big]
  by (simp add: word_in_order_def be_word_def slice_def)

text \<open>
  C38. The header structures have the layout of the ELF specification: every field of the three
  structures, of both classes, is read from its offset in the file and in the file's byte order, by
  the accessors the library uses where it uses the field.
\<close>

theorem header_fields_at_spec_offsets:
  assumes "length h64 = 64" "length p64 = 56" "length s64 = 64"
    and "length h32 = 52" "length p32 = 32" "length s32 = 40"
  shows "(let v = ehdr_load (Elf64 E) h64 in
      e_ident (Elf64 E) v = slice 0 16 h64 \<and> get16 E (e_type64 v) = word_in_order E (slice 16 2 h64) \<and>
      get16 E (e_machine64 v) = word_in_order E (slice 18 2 h64) \<and>
      get32 E (e_version64 v) = word_in_order E (slice 20 4 h64) \<and>
      e_entry (Elf64 E) v = word_in_order E (slice 24 8 h64) \<and>
      e_phoff (Elf64 E) v = word_in_order E (slice 32 8 h64) \<and>
      e_shoff (Elf64 E) v = word_in_order E (slice 40 8 h64) \<and>
      get32 E (e_flags64 v) = word_in_order E (slice 48 4 h64) \<and>
      e_ehsize (Elf64 E) v = word_in_order E (slice 52 2 h64) \<and>
      e_phentsize (Elf64 E) v = word_in_order E (slice 54 2 h64) \<and>
      e_phnum (Elf64 E) v = word_in_order E (slice 56 2 h64) \<and>
      e_shentsize (Elf64 E) v = word_in_order E (slice 58 2 h64) \<and>
      e_shnum (Elf64 E) v = word_in_order E (slice 60 2 h64) \<and>
      e_shstrndx (Elf64 E) v = word_in_order E (slice 62 2 h64)) \<and>
    (let v = phdr_load (Elf64 E) p64 in
      p_type (Elf64 E) v = word_in_order E (slice 0 4 p64) \<and>
      get32 E (p_flags64 v) = word_in_order E (slice 4 4 p64) \<and>
      p_offset (Elf64 E) v = word_in_order E (slice 8 8 p64) \<and>
      p_vaddr (Elf64 E) v = word_in_order E (slice 16 8 p64) \<and>
      get64 E (p_paddr64 v) = word_in_order E (slice 24 8 p64) \<and>
      p_filesz (Elf64 E) v = word_in_order E (slice 32 8 p64) \<and>
      p_memsz (Elf64 E) v = word_in_order E (slice 40 8 p64) \<and>
      get64 E (p_align64 v) = word_in_order E (slice 48 8 p64)) \<and>
    (let v = shdr_load (Elf64 E) s64 in
      get32 E (sh_name64 v) = word_in_order E (slice 0 4 s64) \<and>
      get32 E (sh_type64 v) = word_in_order E (slice 4 4 s64) \<and>
      get64 E (sh_flags64 v) = word_in_order E (slice 8 8 s64) \<and>
      get64 E (sh_addr64 v) = word_in_order E (slice 16 8 s64) \<and>
      get64 E (sh_offset64 v) = word_in_order E (slice 24 8 s64) \<and>
      get64 E (sh_size64 v) = word_in_order E (slice 32 8 s64) \<and>
      get32 E (sh_link64 v) = word_in_order E (slice 40 4 s64) \<and>
      get32 E (sh_info64 v) = word_in_order E (slice 44 4 s64) \<and>
      get64 E (sh_addralign64 v) = word_in_order E (slice 48 8 s64) \<and>
      get64 E (sh_entsize64 v) = word_in_order E (slice 56 8 s64)) \<and>
    (let v = ehdr_load (Elf32 E) h32 in
      e_ident (Elf32 E) v = slice 0 16 h32 \<and> get16 E (e_type32 v) = word_in_order E (slice 16 2 h32) \<and>
      get16 E (e_machine32 v) = word_in_order E (slice 18 2 h32) \<and>
      get32 E (e_version32 v) = word_in_order E (slice 20 4 h32) \<and>
      e_entry (Elf32 E) v = ucast (word_in_order E (slice 24 4 h32) :: u32) \<and>
      e_phoff (Elf32 E) v = ucast (word_in_order E (slice 28 4 h32) :: u32) \<and>
      e_shoff (Elf32 E) v = ucast (word_in_order E (slice 32 4 h32) :: u32) \<and>
      get32 E (e_flags32 v) = word_in_order E (slice 36 4 h32) \<and>
      e_ehsize (Elf32 E) v = word_in_order E (slice 40 2 h32) \<and>
      e_phentsize (Elf32 E) v = word_in_order E (slice 42 2 h32) \<and>
      e_phnum (Elf32 E) v = word_in_order E (slice 44 2 h32) \<and>
      e_shentsize (Elf32 E) v = word_in_order E (slice 46 2 h32) \<and>
      e_shnum (Elf32 E) v = word_in_order E (slice 48 2 h32) \<and>
      e_shstrndx (Elf32 E) v = word_in_order E (slice 50 2 h32)) \<and>
    (let v = phdr_load (Elf32 E) p32 in
      p_type (Elf32 E) v = word_in_order E (slice 0 4 p32) \<and>
      p_offset (Elf32 E) v = ucast (word_in_order E (slice 4 4 p32) :: u32) \<and>
      p_vaddr (Elf32 E) v = ucast (word_in_order E (slice 8 4 p32) :: u32) \<and>
      get32 E (p_paddr32 v) = word_in_order E (slice 12 4 p32) \<and>
      p_filesz (Elf32 E) v = ucast (word_in_order E (slice 16 4 p32) :: u32) \<and>
      p_memsz (Elf32 E) v = ucast (word_in_order E (slice 20 4 p32) :: u32) \<and>
      get32 E (p_flags32 v) = word_in_order E (slice 24 4 p32) \<and>
      get32 E (p_align32 v) = word_in_order E (slice 28 4 p32)) \<and>
    (let v = shdr_load (Elf32 E) s32 in
      get32 E (sh_name32 v) = word_in_order E (slice 0 4 s32) \<and>
      get32 E (sh_type32 v) = word_in_order E (slice 4 4 s32) \<and>
      get32 E (sh_flags32 v) = word_in_order E (slice 8 4 s32) \<and>
      get32 E (sh_addr32 v) = word_in_order E (slice 12 4 s32) \<and>
      get32 E (sh_offset32 v) = word_in_order E (slice 16 4 s32) \<and>
      get32 E (sh_size32 v) = word_in_order E (slice 20 4 s32) \<and>
      get32 E (sh_link32 v) = word_in_order E (slice 24 4 s32) \<and>
      get32 E (sh_info32 v) = word_in_order E (slice 28 4 s32) \<and>
      get32 E (sh_addralign32 v) = word_in_order E (slice 32 4 s32) \<and>
      get32 E (sh_entsize32 v) = word_in_order E (slice 36 4 s32))"
  using assms
  by (simp add: Let_def Elf64_def Elf32_def struct_load_defs load16_def load32_def load64_def endianed_read)

theorem header_fields_at_spec_offsets_witness:
  "e_entry (Elf64 Big) (ehdr_load (Elf64 Big) (bare_header 56)) = 0x10000"
proof -
  have "e_entry (Elf64 Big) (ehdr_load (Elf64 Big) (bare_header 56)) =
      word_in_order Big (slice 24 8 (bare_header 56))"
    using header_fields_at_spec_offsets [of "bare_header 56" "replicate 56 0" "replicate 64 0" "replicate 52 0"
        "replicate 32 0" "replicate 40 0" Big] by (simp add: Let_def)
  then show ?thesis by (simp add: bare_header_def slice_def word_in_order_def be_word_def)
qed

text \<open>
  The host's byte order is not detected: \<open>host_is_little_endian\<close> is true on every host, so on a
  big-endian host (where \<open>memcpy\<close> into an integer yields the bytes' big-endian value) a big-endian
  field reads back swapped.
\<close>

theorem big_endian_host_misreads:
  "host_is_little_endian \<and>
   get16 Big (Endianed (word_in_order Big [0x12, 0x34])) = 0x3412 \<and>
   (word_in_order Big [0x12, 0x34] :: u16) = 0x1234"
  by (simp add: endianed_get_def word_in_order_def be_word_def byteswap16_def)

text \<open>
  C39. \<open>addLoadSegment\<close> does not fill in \<open>e_phentsize\<close>: for both classes and byte orders, adding a
  segment to a file without program headers, parsed or with the class invariant, whose \<open>e_phentsize\<close> is not the size of a program header
  (which \<open>parse\<close> accepts) and serializing it yields a file that \<open>parse\<close> rejects as inconsistent. The
  section header table, if there is one, must lie behind the ELF header, and the file must stay
  within what the offset fields can hold.
\<close>

theorem added_segment_unparseable:
  assumes "addLoadSegment (Elf32 E) vaddr data flags align f = Inr f'"
    and "addLoadSegment (Elf64 E) vaddr data flags align g = Inr g'"
  shows "(file_inv (Elf32 E) f \<and> segments f = [] \<and> unat (e_phentsize (Elf32 E) (header f)) \<noteq> 32 \<and>
      (sections f \<noteq> [] \<longrightarrow> 52 \<le> unat (e_shoff (Elf32 E) (header f))) \<and>
      length (raw f) + length data < 2 ^ 32 \<longrightarrow>
      (\<exists>out e. serialize (Elf32 E) f' = Some out \<and> parse (Elf32 E) out = Inl e \<and>
         code e = InconsistentHeaderSize)) \<and>
    (file_inv (Elf64 E) g \<and> segments g = [] \<and> unat (e_phentsize (Elf64 E) (header g)) \<noteq> 56 \<and>
      (sections g \<noteq> [] \<longrightarrow> 64 \<le> unat (e_shoff (Elf64 E) (header g))) \<and>
      length (raw g) + length data < 2 ^ 62 \<longrightarrow>
      (\<exists>out e. serialize (Elf64 E) g' = Some out \<and> parse (Elf64 E) out = Inl e \<and>
         code e = InconsistentHeaderSize))"
  using elf32.added_segment_rejected [OF _ _ _ _ _ _ assms(1)]
    elf64.added_segment_rejected [OF _ _ _ _ _ _ assms(2)] by (simp add: elf32_sizes)

theorem added_segment_unparseable_witness:
  "\<exists>g out e. addLoadSegment (Elf64 Big) 0x1000 [1, 2, 3] 5 16 (bare_file 0) = Inr g \<and>
     serialize (Elf64 Big) g = Some out \<and> parse (Elf64 Big) out = Inl e"
proof -
  have added: "\<exists>g. addLoadSegment K 0x1000 [1, 2, 3] 5 16 f = Inr g"
    for K :: "('eh, 'ph, 'sh) layout" and f by (simp add: addLoadSegment_def Let_def)
  obtain g where g: "addLoadSegment (Elf64 Big) 0x1000 [1, 2, 3] 5 16 (bare_file 0) = Inr g" using added by blast
  obtain h where h: "addLoadSegment (Elf32 Big) 0x1000 [1, 2, 3] 5 16 (parsed_elf (Elf32 Big) []) = Inr h"
    using added by blast
  from added_segment_unparseable [OF h g] show ?thesis
    using g bare_inv by (simp add: bare_file_parts bare_read) blast
qed

text \<open>The counter in the header wraps at the 65536th segment.\<close>

theorem segment_count_wraps:
  assumes "length (segments f) = 65535" "addLoadSegment (Elf64 E) vaddr data flags align f = Inr g"
  shows "e_phnum (Elf64 E) (header g) = 0 \<and> length (segments g) = 65536"
  using assms by (auto simp: addLoadSegment_def Let_def elf64.header_laws)

theorem segment_count_wraps_witness:
  "\<exists>g. addLoadSegment (Elf64 Big) 0 [] 5 16
       (bare_file 56\<lparr>segments := replicate 65535 (make_phdr (Elf64 Big) PT_LOAD 5 0 0 0 0 0 0)\<rparr>) = Inr g \<and>
     e_phnum (Elf64 Big) (header g) = 0"
proof -
  let ?f = "bare_file 56\<lparr>segments := replicate 65535 (make_phdr (Elf64 Big) PT_LOAD 5 0 0 0 0 0 0)\<rparr>"
  obtain g where g: "addLoadSegment (Elf64 Big) 0 [] 5 16 ?f = Inr g"
    by (simp add: addLoadSegment_def Let_def)
  have "length (segments ?f) = 65535" by simp
  from segment_count_wraps [OF this g] show ?thesis using g by blast
qed

lemma bij_store:
  assumes "\<And>h. P h \<Longrightarrow> length (st h) = n" "\<And>h. P h \<Longrightarrow> ld (st h) = h"
    and "\<And>bs. length bs = n \<Longrightarrow> st (ld bs) = bs" "\<And>bs. length bs = n \<Longrightarrow> P (ld bs)"
  shows "bij_betw st {h. P h} {bs. length bs = n}"
  using assms by (intro bij_betw_byWitness [where f' = ld]) auto

text \<open>
  C31. The six structures have the sizes the file format prescribes and no padding: storing is a
  bijection between the values of a structure (with 16 bytes of \<open>e_ident\<close>) and the byte strings
  of its size.
\<close>

theorem structs_have_no_padding:
  "(ehdr_size (Elf32 E), phdr_size (Elf32 E), shdr_size (Elf32 E)) = (52, 32, 40) \<and>
   (ehdr_size (Elf64 E), phdr_size (Elf64 E), shdr_size (Elf64 E)) = (64, 56, 64) \<and>
   bij_betw Elf32_Ehdr_store {h. length (e_ident32 h) = EI_NIDENT} {bs. length bs = 52} \<and>
   bij_betw Elf32_Phdr_store {p. True} {bs. length bs = 32} \<and>
   bij_betw Elf32_Shdr_store {s. True} {bs. length bs = 40} \<and>
   bij_betw Elf64_Ehdr_store {h. length (e_ident64 h) = EI_NIDENT} {bs. length bs = 64} \<and>
   bij_betw Elf64_Phdr_store {p. True} {bs. length bs = 56} \<and>
   bij_betw Elf64_Shdr_store {s. True} {bs. length bs = 64}"
proof (intro conjI)
  show "bij_betw Elf32_Ehdr_store {h. length (e_ident32 h) = EI_NIDENT} {bs. length bs = 52}"
    by (rule bij_store [where ld = Elf32_Ehdr_load])
      (simp_all add: struct_sizes ehdr_store_load ehdr_load_store ident_of_load EI_NIDENT_def)
  show "bij_betw Elf64_Ehdr_store {h. length (e_ident64 h) = EI_NIDENT} {bs. length bs = 64}"
    by (rule bij_store [where ld = Elf64_Ehdr_load])
      (simp_all add: struct_sizes ehdr_store_load ehdr_load_store ident_of_load EI_NIDENT_def)
  show "bij_betw Elf32_Phdr_store {p. True} {bs. length bs = 32}"
    by (rule bij_store [where ld = Elf32_Phdr_load])
      (simp_all add: struct_sizes phdr_store_load phdr_load_store)
  show "bij_betw Elf32_Shdr_store {s. True} {bs. length bs = 40}"
    by (rule bij_store [where ld = Elf32_Shdr_load])
      (simp_all add: struct_sizes shdr_store_load shdr_load_store)
  show "bij_betw Elf64_Phdr_store {p. True} {bs. length bs = 56}"
    by (rule bij_store [where ld = Elf64_Phdr_load])
      (simp_all add: struct_sizes phdr_store_load phdr_load_store)
  show "bij_betw Elf64_Shdr_store {s. True} {bs. length bs = 64}"
    by (rule bij_store [where ld = Elf64_Shdr_load])
      (simp_all add: struct_sizes shdr_store_load shdr_load_store)
qed (simp_all add: Elf32_def Elf64_def)

end
