(* ===== verification/PpcEncode.thy ===== *)
theory PpcEncode
  imports Prelude "HOL-Library.Signed_Division"
begin

text \<open>
  \<open>ppc/include/ppc/encode.hpp\<close>: the instruction encoders.  An instruction is a 32-bit word; an
  encoder that throws \<open>std::invalid_argument\<close> returns \<open>Inl\<close> of the exception's text.  The second
  half shows the bit fields of an encoded word: every encoder builds an opcode, two register
  fields and a low half (\<open>ppc_word\<close>).
\<close>

section \<open>The code\<close>

type_synonym instruction = u32
type_synonym 'a throws = "string + 'a"

definition SPR_LR :: u32 where "SPR_LR = 8"
definition SPR_CTR :: u32 where "SPR_CTR = 9"

definition bits :: "u32 \<Rightarrow> nat \<Rightarrow> u32" where
  "bits v width = v AND (if width \<ge> 32 then 0xFFFFFFFF else push_bit width 1 - 1)"

definition encodeSprField :: "u32 \<Rightarrow> u32" where
  "encodeSprField sprNumber =
     (let lo5 = sprNumber AND 0x1F; hi5 = drop_bit 5 sprNumber AND 0x1F in push_bit 5 lo5 OR hi5)"

definition encodeAddi :: "u32 \<Rightarrow> u32 \<Rightarrow> i16 \<Rightarrow> instruction" where
  "encodeAddi rd ra simm =
     push_bit 26 (bits 14 6) OR push_bit 21 (bits rd 5) OR push_bit 16 (bits ra 5) OR
     bits (ucast simm) 16"

definition encodeLi :: "u32 \<Rightarrow> i16 \<Rightarrow> instruction" where
  "encodeLi rd simm = encodeAddi rd 0 simm"

definition encodeAddis :: "u32 \<Rightarrow> u32 \<Rightarrow> i16 \<Rightarrow> instruction" where
  "encodeAddis rd ra simm =
     push_bit 26 (bits 15 6) OR push_bit 21 (bits rd 5) OR push_bit 16 (bits ra 5) OR
     bits (ucast simm) 16"

definition encodeLis :: "u32 \<Rightarrow> i16 \<Rightarrow> instruction" where
  "encodeLis rd simm = encodeAddis rd 0 simm"

definition encodeOri :: "u32 \<Rightarrow> u32 \<Rightarrow> u16 \<Rightarrow> instruction" where
  "encodeOri ra rs uimm =
     push_bit 26 (bits 24 6) OR push_bit 21 (bits rs 5) OR push_bit 16 (bits ra 5) OR
     bits (ucast uimm) 16"

definition encodeMtspr :: "u32 \<Rightarrow> u32 \<Rightarrow> instruction" where
  "encodeMtspr rs sprNumber =
     push_bit 26 (bits 31 6) OR push_bit 21 (bits rs 5) OR
     push_bit 11 (bits (encodeSprField sprNumber) 10) OR push_bit 1 (bits 467 10)"

definition encodeMfspr :: "u32 \<Rightarrow> u32 \<Rightarrow> instruction" where
  "encodeMfspr rt sprNumber =
     push_bit 26 (bits 31 6) OR push_bit 21 (bits rt 5) OR
     push_bit 11 (bits (encodeSprField sprNumber) 10) OR push_bit 1 (bits 339 10)"

definition encodeMtlr :: "u32 \<Rightarrow> instruction" where "encodeMtlr rs = encodeMtspr rs SPR_LR"
definition encodeMflr :: "u32 \<Rightarrow> instruction" where "encodeMflr rt = encodeMfspr rt SPR_LR"
definition encodeMtctrSpr :: "u32 \<Rightarrow> instruction" where "encodeMtctrSpr rs = encodeMtspr rs SPR_CTR"
definition encodeMfctr :: "u32 \<Rightarrow> instruction" where "encodeMfctr rt = encodeMfspr rt SPR_CTR"

definition encodeStdForm :: "u32 \<Rightarrow> u32 \<Rightarrow> u32 \<Rightarrow> u32 \<Rightarrow> i32 \<Rightarrow> instruction throws" where
  "encodeStdForm primaryOpcode xo rsOrRt ra d =
     (if sint d smod 4 \<noteq> 0 then Inl ''std/ld displacement must be a multiple of 4''
      else let kMax = (2 ^ 13 - 1) * 4; kMin = - (2 ^ 13) * 4 in
      if sint d > kMax \<or> sint d < kMin then
        Inl ''std/ld displacement out of range for the 14-bit DS field''
      else let ds14 = bits (word_of_int (sint d sdiv 4)) 14 in
        Inr (push_bit 26 (bits primaryOpcode 6) OR push_bit 21 (bits rsOrRt 5) OR
             push_bit 16 (bits ra 5) OR push_bit 2 ds14 OR bits xo 2))"

definition encodeStd :: "u32 \<Rightarrow> u32 \<Rightarrow> i32 \<Rightarrow> instruction throws" where
  "encodeStd rs ra d = encodeStdForm 62 0 rs ra d"
definition encodeStdu :: "u32 \<Rightarrow> u32 \<Rightarrow> i32 \<Rightarrow> instruction throws" where
  "encodeStdu rs ra d = encodeStdForm 62 1 rs ra d"
definition encodeLd :: "u32 \<Rightarrow> u32 \<Rightarrow> i32 \<Rightarrow> instruction throws" where
  "encodeLd rt ra d = encodeStdForm 58 0 rt ra d"
definition encodeLdu :: "u32 \<Rightarrow> u32 \<Rightarrow> i32 \<Rightarrow> instruction throws" where
  "encodeLdu rt ra d = encodeStdForm 58 1 rt ra d"

definition encodeRldicl :: "u32 \<Rightarrow> u32 \<Rightarrow> u32 \<Rightarrow> u32 \<Rightarrow> bool \<Rightarrow> instruction" where
  "encodeRldicl ra rs sh6 mb6 rc =
     (let shLo5 = sh6 AND 0x1F; shHi1 = drop_bit 5 sh6 AND 0x1 in
      push_bit 26 (bits 30 6) OR push_bit 21 (bits rs 5) OR push_bit 16 (bits ra 5) OR
      push_bit 11 (bits shLo5 5) OR push_bit 5 (bits mb6 6) OR push_bit 2 (bits 0 3) OR
      push_bit 1 (bits shHi1 1) OR (if rc then 1 else 0))"

definition encodeClrldi :: "u32 \<Rightarrow> u32 \<Rightarrow> u32 \<Rightarrow> instruction" where
  "encodeClrldi ra rs n = encodeRldicl ra rs 0 n False"

definition encodeMtctr :: "u32 \<Rightarrow> instruction" where "encodeMtctr rs = encodeMtspr rs SPR_CTR"

definition encodeBctr :: instruction where
  "encodeBctr =
     (let BO_ALWAYS = 20 in
      push_bit 26 (bits 19 6) OR push_bit 21 (bits BO_ALWAYS 5) OR push_bit 16 (bits 0 5) OR
      push_bit 11 (bits 0 5) OR push_bit 1 (bits 528 10))"

definition encodeBranch :: "i32 \<Rightarrow> bool \<Rightarrow> bool \<Rightarrow> instruction throws" where
  "encodeBranch target absolute link =
     (if sint target smod 4 \<noteq> 0 then Inl ''branch target must be 4-byte aligned''
      else let kMaxBytes = 2 ^ 25 - 4; kMinBytes = - (2 ^ 25) in
      if sint target > kMaxBytes \<or> sint target < kMinBytes then
        Inl ''branch target out of range for a direct b/ba instruction''
      else let li = bits target 26 AND 0xFFFFFFFC in
        Inr (push_bit 26 (bits 18 6) OR li OR (if absolute then 0x2 else 0) OR
             (if link then 0x1 else 0)))"

definition encodeBranchConditional ::
  "u32 \<Rightarrow> u32 \<Rightarrow> i32 \<Rightarrow> bool \<Rightarrow> bool \<Rightarrow> instruction throws" where
  "encodeBranchConditional bo bi target absolute link =
     (if sint target smod 4 \<noteq> 0 then Inl ''branch target must be 4-byte aligned''
      else let kMaxBytes = 2 ^ 15 - 4; kMinBytes = - (2 ^ 15) in
      if sint target > kMaxBytes \<or> sint target < kMinBytes then
        Inl ''branch target out of range for a bc/bca instruction's 14-bit BD field''
      else let bd = bits target 16 AND 0xFFFC in
        Inr (push_bit 26 (bits 16 6) OR push_bit 21 (bits bo 5) OR push_bit 16 (bits bi 5) OR bd OR
             (if absolute then 0x2 else 0) OR (if link then 0x1 else 0)))"

definition loadImmediate32 :: "u32 \<Rightarrow> u32 \<Rightarrow> instruction list" where
  "loadImmediate32 reg v =
     (let hi = ucast (drop_bit 16 v AND 0xFFFF) :: i16; lo = ucast (v AND 0xFFFF) :: u16 in
      [encodeLis reg hi, encodeOri reg reg lo, encodeClrldi reg reg 32])"

text \<open>\<open>scratchReg\<close> defaults to 12.\<close>

definition makeAbsoluteJump :: "u32 \<Rightarrow> u32 \<Rightarrow> instruction list" where
  "makeAbsoluteJump targetAddress scratchReg =
     (let load = loadImmediate32 scratchReg targetAddress in
      [load ! 0, load ! 1, load ! 2, encodeMtctr scratchReg, encodeBctr])"

section \<open>Bit fields of an encoded word\<close>

definition ppc_word :: "u32 \<Rightarrow> u32 \<Rightarrow> u32 \<Rightarrow> u32 \<Rightarrow> u32" where
  "ppc_word op a b lo =
     push_bit 26 (take_bit 6 op) OR push_bit 21 (take_bit 5 a) OR push_bit 16 (take_bit 5 b) OR
     take_bit 16 lo"

lemma and_mask_consts [encode_simps]:
  "x AND 0x1 = take_bit 1 x" "x AND 0x1F = take_bit 5 x" "x AND 0x3F = take_bit 6 x"
  "x AND 0x3FF = take_bit 10 x" "x AND 0xFFFF = take_bit 16 x"
  for x :: "'a::len word"
  by (simp_all add: take_bit_eq_mask mask_eq_exp_minus_1)

lemma bits_take_bit [encode_simps]: "width \<le> 32 \<Longrightarrow> bits v width = take_bit width v"
proof (cases "width = 32")
  case True
  then show ?thesis by (simp add: bits_def take_bit_eq_mask mask_eq_exp_minus_1)
next
  case False
  assume "width \<le> 32"
  then show ?thesis using False
    by (simp add: bits_def push_bit_eq_mult flip: mask_eq_exp_minus_1 take_bit_eq_mask)
qed

lemma ppc_word_opcode [encode_simps]: "drop_bit 26 (ppc_word op a b lo) = take_bit 6 op"
  by (rule bit_word_eqI) (auto simp: ppc_word_def bit_simps)

lemma ppc_word_fields [encode_simps]:
  "take_bit 5 (drop_bit 21 (ppc_word op a b lo)) = take_bit 5 a"
  "take_bit 5 (drop_bit 16 (ppc_word op a b lo)) = take_bit 5 b"
  "take_bit 16 (ppc_word op a b lo) = take_bit 16 lo"
  by (rule bit_word_eqI; auto simp: ppc_word_def bit_simps)+

lemma ppc_word_collapse: "ppc_word (drop_bit 26 w) (drop_bit 21 w) (drop_bit 16 w) w = w"
proof (rule bit_word_eqI)
  fix n assume "n < LENGTH(32)"
  consider "n < 16" | "16 \<le> n" "n < 21" | "21 \<le> n" "n < 26" | "26 \<le> n" by linarith
  then show "bit (ppc_word (drop_bit 26 w) (drop_bit 21 w) (drop_bit 16 w) w) n = bit w n"
    using \<open>n < LENGTH(32)\<close> by cases (auto simp: ppc_word_def bit_simps)
qed

text \<open>Each encoder as a \<open>ppc_word\<close>.\<close>

lemma encodeAddi_word: "encodeAddi rd ra simm = ppc_word 14 rd ra (ucast simm)"
  by (simp add: encodeAddi_def ppc_word_def bits_take_bit)

lemma encodeAddis_word: "encodeAddis rd ra simm = ppc_word 15 rd ra (ucast simm)"
  by (simp add: encodeAddis_def ppc_word_def bits_take_bit)

lemma encodeOri_word: "encodeOri ra rs uimm = ppc_word 24 rs ra (ucast uimm)"
  by (simp add: encodeOri_def ppc_word_def bits_take_bit)

lemma spr_field:
  "take_bit 10 (encodeSprField spr) = push_bit 5 (take_bit 5 spr) OR take_bit 5 (drop_bit 5 spr)"
  by (rule bit_word_eqI) (auto simp: encodeSprField_def Let_def and_mask_consts bit_simps)

lemma encodeMtspr_word:
  "encodeMtspr rs spr = ppc_word 31 rs spr (push_bit 11 (take_bit 5 (drop_bit 5 spr)) OR 934)"
proof -
  have "take_bit 10 (467 :: u32) = 467" "push_bit 1 (467 :: u32) = 934" by simp_all
  moreover have "push_bit 11 (take_bit 10 (encodeSprField spr)) OR 934 =
      push_bit 16 (take_bit 5 spr) OR take_bit 16 (push_bit 11 (take_bit 5 (drop_bit 5 spr)) OR 934)"
    unfolding spr_field by (rule bit_word_eqI) (auto simp: bit_simps dest: bit_imp_le_length)
  ultimately show ?thesis
    by (simp add: encodeMtspr_def ppc_word_def bits_take_bit or.assoc)
qed

lemma encodeMfspr_word:
  "encodeMfspr rt spr = ppc_word 31 rt spr (push_bit 11 (take_bit 5 (drop_bit 5 spr)) OR 678)"
proof -
  have "take_bit 10 (339 :: u32) = 339" "push_bit 1 (339 :: u32) = 678" by simp_all
  moreover have "push_bit 11 (take_bit 10 (encodeSprField spr)) OR 678 =
      push_bit 16 (take_bit 5 spr) OR take_bit 16 (push_bit 11 (take_bit 5 (drop_bit 5 spr)) OR 678)"
    unfolding spr_field by (rule bit_word_eqI) (auto simp: bit_simps dest: bit_imp_le_length)
  ultimately show ?thesis
    by (simp add: encodeMfspr_def ppc_word_def bits_take_bit or.assoc)
qed

lemma take_one_bit [encode_simps]: "take_bit 1 (drop_bit n w) = of_bool (bit w n)"
  for w :: "'a::len word"
  by (simp add: bit_iff_odd_drop_bit mod_2_eq_odd)

lemma bit_push_of_bool: "bit (push_bit k (of_bool b) :: 'a::len word) n \<longleftrightarrow> b \<and> n = k \<and> k < LENGTH('a)"
  by (auto simp: bit_push_bit_iff bit_1_iff)

lemma encodeRldicl_word:
  "encodeRldicl ra rs sh6 mb6 rc =
     ppc_word 30 rs ra (push_bit 11 (take_bit 5 sh6) OR push_bit 5 (take_bit 6 mb6) OR
       push_bit 1 (of_bool (bit sh6 5)) OR of_bool rc)"
proof -
  let ?lo = "push_bit 11 (take_bit 5 sh6) OR push_bit 5 (take_bit 6 mb6) OR
      push_bit 1 (of_bool (bit sh6 5)) OR of_bool rc"
  have "bit ?lo n \<Longrightarrow> n < 16" for n
    by (auto simp only: bit_or_iff bit_push_of_bool) (auto simp: bit_simps)
  then have "take_bit 16 ?lo = ?lo"
    by (intro bit_word_eqI) (auto simp only: bit_take_bit_iff)
  moreover have "take_bit 1 (of_bool (bit sh6 5) :: u32) = of_bool (bit sh6 5)" by simp
  moreover have "(if rc then 1 else 0) = (of_bool rc :: u32)" by simp
  ultimately show ?thesis
    unfolding encodeRldicl_def ppc_word_def Let_def and_mask_consts take_one_bit
    by (simp only: bits_take_bit or.assoc) (simp add: or.assoc)
qed

lemma encodeBctr_word: "encodeBctr = 0x4E800420"
  by (simp add: encodeBctr_def bits_def)

text \<open>A displacement that is a multiple of 4 loses nothing when its two low bits are dropped.\<close>

lemma smod4_iff: "(k :: int) smod 4 = 0 \<longleftrightarrow> 4 dvd k"
  by (simp add: signed_modulo_int_def sgn_if mod_eq_0_iff_dvd)

lemma sdiv4_dvd: "4 dvd (k :: int) \<Longrightarrow> k sdiv 4 = k div 4"
  by (auto simp: signed_divide_int_def sgn_if elim!: dvdE)

lemma low_bits_clear:
  fixes d :: i32
  assumes "4 dvd sint d" "n < 2"
  shows "\<not> bit d n"
proof -
  have "take_bit 2 (sint d) = 0" using assms(1) by (simp add: take_bit_eq_mod)
  then have "\<not> bit (take_bit 2 (sint d)) n" by simp
  then show ?thesis using assms(2) by (simp add: bit_simps)
qed

lemma quarter_shift:
  fixes d :: i32
  assumes "4 dvd sint d"
  shows "push_bit 2 (take_bit 14 (word_of_int (sint d sdiv 4))) = take_bit 16 d"
proof (rule bit_word_eqI)
  fix n assume n: "n < LENGTH(32)"
  have w: "word_of_int (sint d sdiv 4) = (word_of_int (drop_bit 2 (sint d)) :: u32)"
    using assms by (simp add: sdiv4_dvd drop_bit_eq_div)
  show "bit (push_bit 2 (take_bit 14 (word_of_int (sint d sdiv 4) :: u32))) n = bit (take_bit 16 d) n"
  proof (cases "n < 2")
    case True
    then show ?thesis using low_bits_clear [OF assms True] by (simp add: bit_simps)
  next
    case False
    then obtain m where "n = m + 2" by (metis add.commute le_Suc_ex not_less)
    then show ?thesis using n by (auto simp: w bit_simps min_def)
  qed
qed

definition ds_ok :: "i32 \<Rightarrow> bool" where
  "ds_ok d \<longleftrightarrow> 4 dvd sint d \<and> - 32768 \<le> sint d \<and> sint d \<le> 32764"

lemma encodeStdForm_eq:
  "encodeStdForm op xo rs ra d =
     (if ds_ok d then Inr (ppc_word op rs ra (d OR take_bit 2 xo)) else
      Inl (if 4 dvd sint d then ''std/ld displacement out of range for the 14-bit DS field''
           else ''std/ld displacement must be a multiple of 4''))"
proof (cases "ds_ok d")
  case True
  then have "4 dvd sint d" by (simp add: ds_ok_def)
  then have "push_bit 26 (take_bit 6 op) OR push_bit 21 (take_bit 5 rs) OR push_bit 16 (take_bit 5 ra) OR
      push_bit 2 (take_bit 14 (word_of_int (sint d sdiv 4))) OR take_bit 2 xo =
      ppc_word op rs ra (d OR take_bit 2 xo)"
    by (simp add: ppc_word_def quarter_shift or.assoc)
  then show ?thesis using True
    by (simp add: encodeStdForm_def bits_take_bit smod4_iff ds_ok_def Let_def)
next
  case False
  then show ?thesis by (auto simp: encodeStdForm_def smod4_iff ds_ok_def Let_def not_le)
qed

text \<open>The direct branches.\<close>

definition b_ok :: "i32 \<Rightarrow> bool" where
  "b_ok t \<longleftrightarrow> 4 dvd sint t \<and> - 33554432 \<le> sint t \<and> sint t \<le> 33554428"

definition bc_ok :: "i32 \<Rightarrow> bool" where
  "bc_ok t \<longleftrightarrow> 4 dvd sint t \<and> - 32768 \<le> sint t \<and> sint t \<le> 32764"

lemma and_not_3: "x AND 0xFFFFFFFC = x AND NOT (mask 2)" "x AND 0xFFFC = take_bit 16 (x AND NOT (mask 2))"
  for x :: u32
proof -
  have "(0xFFFFFFFC :: u32) = NOT (mask 2)" by (simp add: mask_eq_exp_minus_1)
  then show "x AND 0xFFFFFFFC = x AND NOT (mask 2)" by (simp only:)
  have "(0xFFFC :: u32) = mask 16 AND NOT (mask 2)" by (simp add: mask_eq_exp_minus_1)
  then show "x AND 0xFFFC = take_bit 16 (x AND NOT (mask 2))"
    by (simp only: take_bit_eq_mask ac_simps)
qed

lemma clear_low_bits:
  assumes "4 dvd sint t"
  shows "take_bit k t AND 0xFFFFFFFC = take_bit k (t :: i32)"
    and "take_bit 16 t AND 0xFFFC = take_bit 16 (t :: i32)"
  unfolding and_not_3
  by (rule bit_word_eqI; auto simp: bit_and_iff bit_not_iff bit_mask_iff bit_take_bit_iff
      dest: low_bits_clear [OF assms])+

lemma encodeBranch_eq:
  "encodeBranch t aa lk =
     (if b_ok t then Inr (push_bit 26 18 OR take_bit 26 t OR push_bit 1 (of_bool aa) OR of_bool lk) else
      Inl (if 4 dvd sint t then ''branch target out of range for a direct b/ba instruction''
           else ''branch target must be 4-byte aligned''))"
  by (auto simp: encodeBranch_def b_ok_def smod4_iff bits_take_bit clear_low_bits Let_def not_le)

lemma encodeBranchConditional_eq:
  "encodeBranchConditional bo bi t aa lk =
     (if bc_ok t then Inr (ppc_word 16 bo bi (t OR push_bit 1 (of_bool aa) OR of_bool lk)) else
      Inl (if 4 dvd sint t then ''branch target out of range for a bc/bca instruction's 14-bit BD field''
           else ''branch target must be 4-byte aligned''))"
  by (auto simp: encodeBranchConditional_def bc_ok_def smod4_iff bits_take_bit clear_low_bits
      ppc_word_def Let_def not_le or.assoc)

end
