(* ===== verification/PpcDecode.thy ===== *)
theory PpcDecode
  imports PpcEncode
begin

text \<open>
  \<open>ppc/include/ppc/decode.hpp\<close>: classifying an instruction word as a branch, and re-encoding a
  relative branch for a new address.
\<close>

section \<open>The code\<close>

datatype branch_kind =
  NotABranch | DirectRelative | DirectAbsolute | ToLinkRegister | ToCountRegister

record decoded_branch =
  kind :: branch_kind
  link :: bool
  isConditionalForm :: bool
  bo :: u32
  bi :: u32
  displacement :: i32
  absoluteTarget :: u32

definition default_branch :: decoded_branch where
  "default_branch = \<lparr>kind = NotABranch, link = False, isConditionalForm = False, bo = 0, bi = 0,
     displacement = 0, absoluteTarget = 0\<rparr>"

definition signExtend :: "u32 \<Rightarrow> nat \<Rightarrow> i32" where
  "signExtend v bitWidth = (let signBit = push_bit (bitWidth - 1) 1 in (v XOR signBit) - signBit)"

definition classify :: "instruction \<Rightarrow> decoded_branch" where
  "classify instr =
     (let opcode = drop_bit 26 instr AND 0x3F in
      if opcode = 18 then
        let aa = (instr AND 0x2 \<noteq> 0); lk = (instr AND 0x1 \<noteq> 0);
            liRaw = instr AND 0x03FFFFFC; li = signExtend liRaw 26;
            res = default_branch\<lparr>link := lk\<rparr> in
        if aa then res\<lparr>kind := DirectAbsolute, absoluteTarget := li\<rparr>
        else res\<lparr>kind := DirectRelative, displacement := li\<rparr>
      else if opcode = 16 then
        let aa = (instr AND 0x2 \<noteq> 0); lk = (instr AND 0x1 \<noteq> 0);
            vbo = drop_bit 21 instr AND 0x1F; vbi = drop_bit 16 instr AND 0x1F;
            bdRaw = instr AND 0x0000FFFC; bd = signExtend bdRaw 16;
            res = default_branch\<lparr>link := lk, isConditionalForm := True, bo := vbo, bi := vbi\<rparr> in
        if aa then res\<lparr>kind := DirectAbsolute, absoluteTarget := bd\<rparr>
        else res\<lparr>kind := DirectRelative, displacement := bd\<rparr>
      else if opcode = 19 then
        let xo = drop_bit 1 instr AND 0x3FF; lk = (instr AND 0x1 \<noteq> 0) in
        if xo = 16 then default_branch\<lparr>kind := ToLinkRegister, link := lk\<rparr>
        else if xo = 528 then default_branch\<lparr>kind := ToCountRegister, link := lk\<rparr>
        else default_branch
      else default_branch)"

definition INT32_MIN :: int where "INT32_MIN = - (2 ^ 31)"
definition INT32_MAX :: int where "INT32_MAX = 2 ^ 31 - 1"

text \<open>\<open>catch (const std::invalid_argument&) { return std::nullopt; }\<close>\<close>

definition catch_invalid :: "'a throws \<Rightarrow> 'a option" where
  "catch_invalid r = (case r of Inl _ \<Rightarrow> None | Inr i \<Rightarrow> Some i)"

definition relocateBranch :: "decoded_branch \<Rightarrow> u32 \<Rightarrow> u32 \<Rightarrow> instruction option" where
  "relocateBranch branch originalAddr newAddr =
     (if kind branch \<noteq> DirectRelative then None
      else let originalTarget = originalAddr + displacement branch;
               newDisplacement = uint originalTarget - uint newAddr in
        if newDisplacement < INT32_MIN \<or> newDisplacement > INT32_MAX then None
        else if isConditionalForm branch then
          catch_invalid (encodeBranchConditional (bo branch) (bi branch)
            (word_of_int newDisplacement) False (link branch))
        else catch_invalid (encodeBranch (word_of_int newDisplacement) False (link branch)))"

section \<open>Sign extension and the branch fields\<close>

lemma signExtend_eq:
  assumes "take_bit (Suc n) v = v" "Suc n \<le> 32"
  shows "signExtend v (Suc n) = signed_take_bit n v"
proof (cases "bit v n")
  case False
  then have "v AND push_bit n 1 = 0"
    by (intro bit_word_eqI) (auto simp: bit_simps bit_1_iff)
  then have "v XOR push_bit n 1 = v + push_bit n 1" by (simp add: disjunctive_add_eq_xor)
  then show ?thesis using False assms(1)
    by (simp add: signExtend_def Let_def signed_take_bit_eq_take_bit_minus)
next
  case True
  let ?s = "push_bit n 1 :: u32"
  have "(v XOR ?s) AND ?s = 0"
    using True by (intro bit_word_eqI) (auto simp: bit_simps bit_1_iff)
  then have "(v XOR ?s) + ?s = (v XOR ?s) XOR ?s" by (rule disjunctive_add_eq_xor)
  then have "v XOR ?s = v - ?s" by (simp add: xor.assoc eq_diff_eq)
  then show ?thesis using True assms(1)
    by (simp add: signExtend_def Let_def signed_take_bit_eq_take_bit_minus push_bit_eq_mult)
qed

lemma and_bit_tests [encode_simps]:
  "x AND 0x2 \<noteq> 0 \<longleftrightarrow> bit x 1" "x AND 0x1 \<noteq> 0 \<longleftrightarrow> bit x 0" for x :: u32
  using bit_iff_and_push_bit_not_eq_0 [of x 1] bit_iff_and_push_bit_not_eq_0 [of x 0] by simp_all

lemma and_field_masks [encode_simps]:
  "x AND 0x03FFFFFC = take_bit 26 (x AND NOT (mask 2))" for x :: u32
proof -
  have "(0x03FFFFFC :: u32) = mask 26 AND NOT (mask 2)" by (simp add: mask_eq_exp_minus_1)
  then show ?thesis by (simp only: take_bit_eq_mask ac_simps)
qed

lemma signExtend_fields:
  "signExtend (x AND 0x03FFFFFC) 26 = signed_take_bit 25 (x AND NOT (mask 2))"
  "signExtend (x AND 0xFFFC) 16 = signed_take_bit 15 (x AND NOT (mask 2))"
proof -
  have sx: "signExtend (take_bit (Suc n) y) (Suc n) = signed_take_bit n y" if "Suc n \<le> 32" for n and y :: u32
    using that by (simp add: signExtend_eq signed_take_bit_take_bit)
  have "signExtend (take_bit 26 y) 26 = signed_take_bit 25 y"
    "signExtend (take_bit 16 y) 16 = signed_take_bit 15 y" for y
    using sx [of 25 y] sx [of 15 y] by simp_all
  then show "signExtend (x AND 0x03FFFFFC) 26 = signed_take_bit 25 (x AND NOT (mask 2))"
    "signExtend (x AND 0xFFFC) 16 = signed_take_bit 15 (x AND NOT (mask 2))"
    by (simp_all only: and_field_masks and_not_3)
qed

lemma signed_take_bit_small:
  fixes t :: i32
  assumes "- (2 ^ n) \<le> sint t" "sint t < 2 ^ n"
  shows "signed_take_bit n t = t"
proof (rule bit_word_eqI)
  fix k assume k: "k < LENGTH(32)"
  have "signed_take_bit n (sint t) = sint t" using assms by (simp add: signed_take_bit_int_eq_self)
  then have "bit (signed_take_bit n (sint t)) k = bit (sint t) k" by simp
  then have "bit (sint t) (min k n) = bit (sint t) k" by (simp add: bit_signed_take_bit_iff min.commute)
  then show "bit (signed_take_bit n t) k = bit t k"
    using k by (simp add: bit_signed_take_bit_iff bit_sint_iff min_def split: if_splits)
qed

section \<open>Classifying what the encoders produce\<close>

lemma b_ok_fields: "b_ok t \<Longrightarrow> signed_take_bit 25 t = t" "bc_ok t \<Longrightarrow> signed_take_bit 15 t = t"
  by (simp_all add: b_ok_def bc_ok_def signed_take_bit_small)

lemma branch_word_fields:
  fixes t :: i32 and aa lk :: bool
  assumes "4 dvd sint t"
  defines "w \<equiv> push_bit 26 18 OR take_bit 26 t OR push_bit 1 (of_bool aa) OR of_bool lk"
  shows "drop_bit 26 w = 18" "bit w 1 = aa" "bit w 0 = lk"
    and "signed_take_bit 25 (w AND NOT (mask 2)) = signed_take_bit 25 t"
proof -
  note low = low_bits_clear [OF assms(1)]
  then have low_ge: "bit t n \<Longrightarrow> 2 \<le> n" for n using not_less by blast
  have bit_w: "bit w n = (n < 32 \<and> (26 \<le> n \<and> bit (18 :: u32) (n - 26) \<or> n < 26 \<and> bit t n \<or> aa \<and> n = 1 \<or> lk \<and> n = 0))" for n
    unfolding w_def bit_or_iff bit_push_of_bool
    unfolding bit_push_bit_iff bit_take_bit_iff bit_of_bool_iff
    by (auto dest: bit_imp_le_length)
  have "bit (18 :: u32) n \<Longrightarrow> n < 6" for n using bit_take_bit_iff [of 6 "18 :: u32" n] by simp
  then show "drop_bit 26 w = 18"
    by (intro bit_word_eqI) (auto simp: bit_drop_bit_eq bit_w dest: bit_imp_le_length)
  show "bit w 1 = aa" "bit w 0 = lk" using low [of 1] low [of 0] by (auto simp: bit_w)
  show "signed_take_bit 25 (w AND NOT (mask 2)) = signed_take_bit 25 t"
    by (rule bit_word_eqI)
      (auto simp: bit_signed_take_bit_iff bit_w bit_simps min_def not_less dest: low_ge split: if_splits)
qed

end
