(* ===== verification/PpcMachine.thy ===== *)
theory PpcMachine
  imports PpcDecode
begin

text \<open>
  What the encoded instructions mean: a decoder and an interpreter for the part of the PowerPC
  ISA (Book I, 64-bit mode) that the injected code is made of.  It is the specification the
  encoders of \<open>PpcEncode\<close> and the code generators of the other theories are checked against; it
  models no code of the repository.  Instructions outside the subset decode to \<open>Other\<close> and do
  not execute.  \<open>Sc\<close> is the system call of level 0, the one that enters the operating system, and
  \<open>lv2\<close> is what it does, an argument of the interpreter.
\<close>

section \<open>Instructions\<close>

type_synonym reg = "5 word"

datatype ppc_op =
    Addi reg reg i16 | Addis reg reg i16 | Ori reg reg u16
  | Rldicl reg reg "6 word" "6 word"
  | Mtspr "10 word" reg | Mfspr reg "10 word"
  | Std reg reg i16 | Stdu reg reg i16 | Ld reg reg i16 | Ldu reg reg i16
  | Branch "26 word" bool bool
  | BranchCond "5 word" "5 word" i16 bool bool
  | Bclr "5 word" "5 word" bool | Bcctr "5 word" "5 word" bool
  | Sc
  | Other u32

text \<open>
  The fields of a word, by the ISA's layout.  Two of them are stored in pieces: the number of a
  special-purpose register with its two halves exchanged, and the 6-bit shift and mask amounts of
  the MD-form with their high bit apart (\<open>sh\<close>: bits 16 to 20 and bit 30; \<open>mb\<close>: bits 21 to 25
  and then bit 26, so the last bit of the \<open>mb\<close> field is the most significant one).
\<close>

definition spr_of :: "u32 \<Rightarrow> 10 word" where
  "spr_of w = ucast (take_bit 5 (drop_bit 16 w) OR push_bit 5 (take_bit 5 (drop_bit 11 w)))"

definition sh_of :: "u32 \<Rightarrow> 6 word" where
  "sh_of w = ucast (take_bit 5 (drop_bit 11 w) OR push_bit 5 (of_bool (bit w 1)))"

definition mb_of :: "u32 \<Rightarrow> 6 word" where
  "mb_of w = ucast (take_bit 5 (drop_bit 6 w) OR push_bit 5 (of_bool (bit w 5)))"

definition xo10_of :: "u32 \<Rightarrow> u32" where "xo10_of w = take_bit 10 (drop_bit 1 w)"
definition xo3_of :: "u32 \<Rightarrow> u32" where "xo3_of w = take_bit 3 (drop_bit 2 w)"
definition xo2_of :: "u32 \<Rightarrow> u32" where "xo2_of w = take_bit 2 w"
definition lev_of :: "u32 \<Rightarrow> u32" where "lev_of w = take_bit 7 (drop_bit 5 w)"

definition decode_op :: "u32 \<Rightarrow> ppc_op" where
  "decode_op w =
     (let op = drop_bit 26 w;
          a = ucast (take_bit 5 (drop_bit 21 w)); b = ucast (take_bit 5 (drop_bit 16 w));
          lo = ucast (take_bit 16 w);
          lo4 = ucast (take_bit 16 w AND NOT (mask 2));
          xo = xo10_of w in
      if op = 14 then Addi a b lo
      else if op = 15 then Addis a b lo
      else if op = 16 then BranchCond a b lo4 (bit w 1) (bit w 0)
      else if op = 17 \<and> bit w 1 \<and> lev_of w = 0 then Sc
      else if op = 18 then Branch (ucast (w AND NOT (mask 2))) (bit w 1) (bit w 0)
      else if op = 19 \<and> xo = 16 then Bclr a b (bit w 0)
      else if op = 19 \<and> xo = 528 then Bcctr a b (bit w 0)
      else if op = 24 then Ori b a lo
      else if op = 30 \<and> xo3_of w = 0 \<and> \<not> bit w 0 then
        Rldicl b a (sh_of w) (mb_of w)
      else if op = 31 \<and> xo = 467 then Mtspr (spr_of w) a
      else if op = 31 \<and> xo = 339 then Mfspr a (spr_of w)
      else if op = 58 \<and> xo2_of w = 0 then Ld a b lo4
      else if op = 58 \<and> xo2_of w = 1 then Ldu a b lo4
      else if op = 62 \<and> xo2_of w = 0 then Std a b lo4
      else if op = 62 \<and> xo2_of w = 1 then Stdu a b lo4
      else Other w)"

section \<open>The processor\<close>

record cpu =
  gpr :: "reg \<Rightarrow> u64"
  lr :: u64
  ctr :: u64
  cr :: u32
  pc :: u64
  mem :: "u64 \<Rightarrow> u8"

definition read64 :: "(u64 \<Rightarrow> u8) \<Rightarrow> u64 \<Rightarrow> u64" where
  "read64 m a = be_word (map (\<lambda>i. m (a + of_nat i)) [0..<8])"

definition write64 :: "(u64 \<Rightarrow> u8) \<Rightarrow> u64 \<Rightarrow> u64 \<Rightarrow> (u64 \<Rightarrow> u8)" where
  "write64 m a v = (\<lambda>x. if unat (x - a) < 8 then be_bytes 8 v ! unat (x - a) else m x)"

definition base_of :: "cpu \<Rightarrow> reg \<Rightarrow> u64" where
  "base_of s ra = (if ra = 0 then 0 else gpr s ra)"

definition set_gpr :: "reg \<Rightarrow> u64 \<Rightarrow> cpu \<Rightarrow> cpu" where
  "set_gpr r v s = s\<lparr>gpr := (gpr s)(r := v)\<rparr>"

definition next_pc :: "cpu \<Rightarrow> cpu" where
  "next_pc s = s\<lparr>pc := pc s + 4\<rparr>"

text \<open>The count register after, and the outcome of, a conditional branch; BO's bits from the left.\<close>

definition bo_ctr :: "5 word \<Rightarrow> cpu \<Rightarrow> u64" where
  "bo_ctr BO s = (if bit BO 2 then ctr s else ctr s - 1)"

definition bo_taken :: "5 word \<Rightarrow> 5 word \<Rightarrow> cpu \<Rightarrow> bool" where
  "bo_taken BO BI s \<longleftrightarrow>
     (bit BO 2 \<or> (bo_ctr BO s \<noteq> 0) \<noteq> bit BO 1) \<and>
     (bit BO 4 \<or> bit (cr s) (31 - unat BI) = bit BO 3)"

definition branch_to :: "bool \<Rightarrow> bool \<Rightarrow> u64 \<Rightarrow> cpu \<Rightarrow> cpu" where
  "branch_to taken lk target s =
     s\<lparr>pc := (if taken then target else pc s + 4), lr := (if lk then pc s + 4 else lr s)\<rparr>"

fun exec_op :: "(cpu \<Rightarrow> cpu) \<Rightarrow> ppc_op \<Rightarrow> cpu \<Rightarrow> cpu option" where
  "exec_op lv2 (Addi rt ra si) s = Some (next_pc (set_gpr rt (base_of s ra + scast si) s))"
| "exec_op lv2 (Addis rt ra si) s =
     Some (next_pc (set_gpr rt (base_of s ra + push_bit 16 (scast si)) s))"
| "exec_op lv2 (Ori ra rs ui) s = Some (next_pc (set_gpr ra (gpr s rs OR ucast ui) s))"
| "exec_op lv2 (Rldicl ra rs sh mb) s =
     Some (next_pc (set_gpr ra (word_rotl (unat sh) (gpr s rs) AND mask (64 - unat mb)) s))"
| "exec_op lv2 (Mtspr spr rs) s =
     (if spr = 8 then Some (next_pc (s\<lparr>lr := gpr s rs\<rparr>))
      else if spr = 9 then Some (next_pc (s\<lparr>ctr := gpr s rs\<rparr>)) else None)"
| "exec_op lv2 (Mfspr rt spr) s =
     (if spr = 8 then Some (next_pc (set_gpr rt (lr s) s))
      else if spr = 9 then Some (next_pc (set_gpr rt (ctr s) s)) else None)"
| "exec_op lv2 (Std rs ra d) s =
     Some (next_pc (s\<lparr>mem := write64 (mem s) (base_of s ra + scast d) (gpr s rs)\<rparr>))"
| "exec_op lv2 (Stdu rs ra d) s =
     (if ra = 0 then None
      else let ea = gpr s ra + scast d in
        Some (next_pc (set_gpr ra ea (s\<lparr>mem := write64 (mem s) ea (gpr s rs)\<rparr>))))"
| "exec_op lv2 (Ld rt ra d) s =
     Some (next_pc (set_gpr rt (read64 (mem s) (base_of s ra + scast d)) s))"
| "exec_op lv2 (Ldu rt ra d) s =
     (if ra = 0 \<or> ra = rt then None
      else let ea = gpr s ra + scast d in
        Some (next_pc (set_gpr ra ea (set_gpr rt (read64 (mem s) ea) s))))"
| "exec_op lv2 (Branch li aa lk) s =
     Some (branch_to True lk (if aa then scast li else pc s + scast li) s)"
| "exec_op lv2 (BranchCond BO BI bd aa lk) s =
     Some ((branch_to (bo_taken BO BI s) lk (if aa then scast bd else pc s + scast bd) s)
       \<lparr>ctr := bo_ctr BO s\<rparr>)"
| "exec_op lv2 (Bclr BO BI lk) s =
     Some ((branch_to (bo_taken BO BI s) lk (lr s AND NOT (mask 2)) s)\<lparr>ctr := bo_ctr BO s\<rparr>)"
| "exec_op lv2 (Bcctr BO BI lk) s =
     (if bit BO 2 then Some (branch_to (bo_taken BO BI s) lk (ctr s AND NOT (mask 2)) s) else None)"
| "exec_op lv2 Sc s = Some (lv2 (next_pc s))"
| "exec_op lv2 (Other w) s = None"

definition exec :: "(cpu \<Rightarrow> cpu) \<Rightarrow> u32 \<Rightarrow> cpu \<Rightarrow> cpu option" where
  "exec lv2 w = exec_op lv2 (decode_op w)"

text \<open>\<open>img\<close> is the program image: the instruction word at an address, if there is one.\<close>

definition step :: "(cpu \<Rightarrow> cpu) \<Rightarrow> (u64 \<Rightarrow> u32 option) \<Rightarrow> cpu \<Rightarrow> cpu option" where
  "step lv2 img s = Option.bind (img (pc s)) (\<lambda>w. exec lv2 w s)"

fun run :: "(cpu \<Rightarrow> cpu) \<Rightarrow> (u64 \<Rightarrow> u32 option) \<Rightarrow> nat \<Rightarrow> cpu \<Rightarrow> cpu option" where
  "run lv2 img 0 s = Some s"
| "run lv2 img (Suc n) s = Option.bind (step lv2 img s) (run lv2 img n)"

definition code_at :: "(u64 \<Rightarrow> u32 option) \<Rightarrow> u64 \<Rightarrow> u32 list \<Rightarrow> bool" where
  "code_at img a ws \<longleftrightarrow> (\<forall>i<length ws. img (a + 4 * of_nat i) = Some (ws ! i))"

text \<open>Executing a list in order, as long as each instruction falls through to the next.\<close>

fun exec_seq :: "(cpu \<Rightarrow> cpu) \<Rightarrow> u32 list \<Rightarrow> cpu \<Rightarrow> cpu option" where
  "exec_seq lv2 [] s = Some s"
| "exec_seq lv2 (w # ws) s =
     Option.bind (exec lv2 w s)
       (\<lambda>t. if pc t = pc s + 4 then exec_seq lv2 ws t else None)"

lemma run_add: "run lv2 img (m + n) s = Option.bind (run lv2 img m s) (run lv2 img n)"
  by (induction m arbitrary: s) (auto split: bind_split)

lemma code_at_Cons: "code_at img a (w # ws) \<longleftrightarrow> img a = Some w \<and> code_at img (a + 4) ws"
  by (auto simp: code_at_def less_Suc_eq_0_disj algebra_simps)

lemma code_at_append:
  "code_at img a (us @ ws) \<longleftrightarrow> code_at img a us \<and> code_at img (a + 4 * of_nat (length us)) ws"
proof (induction us arbitrary: a)
  case Nil
  then show ?case by (simp add: code_at_def)
next
  case (Cons u us)
  then show ?case by (simp add: code_at_Cons algebra_simps)
qed

lemma run_exec_seq:
  "code_at img (pc s) ws \<Longrightarrow> exec_seq lv2 ws s = Some t \<Longrightarrow>
   run lv2 img (length ws) s = Some t \<and> pc t = pc s + 4 * of_nat (length ws)"
proof (induction ws arbitrary: s)
  case (Cons w ws)
  from Cons.prems(2) obtain u where u: "exec lv2 w s = Some u" "pc u = pc s + 4"
    "exec_seq lv2 ws u = Some t"
    by (auto simp: bind_eq_Some_conv split: if_splits)
  then have "step lv2 img s = Some u" using Cons.prems(1) by (simp add: step_def code_at_Cons)
  then show ?case using Cons.IH [of u] Cons.prems(1) u
    by (simp add: code_at_Cons algebra_simps)
qed simp

lemma exec_seq_append:
  "exec_seq lv2 (us @ ws) s = Option.bind (exec_seq lv2 us s) (exec_seq lv2 ws)"
  by (induction us arbitrary: s) (auto split: bind_split)

section \<open>Memory\<close>

lemma read_write_same: "read64 (write64 m a v) a = v"
proof -
  have "map (\<lambda>i. write64 m a v (a + of_nat i)) [0..<8] = be_bytes 8 v"
    by (rule nth_equalityI) (simp_all add: write64_def unat_of_nat take_bit_nat_eq_self)
  then show ?thesis by (simp add: read64_def)
qed

lemma read_write_apart:
  assumes "8 \<le> unat (b - a)" "8 \<le> unat (a - b)"
  shows "read64 (write64 m a v) b = read64 m b"
proof -
  have "write64 m a v (b + of_nat i) = m (b + of_nat i)" if "i < 8" for i
  proof -
    have "\<not> unat (b + of_nat i - a) < 8"
    proof
      assume lt: "unat (b + of_nat i - a) < 8"
      let ?d = "b + of_nat i - a"
      have i: "unat (of_nat i :: u64) = i" using that by (simp add: unat_of_nat take_bit_nat_eq_self)
      show False
      proof (cases "i \<le> unat ?d")
        case True
        then have "(of_nat i :: u64) \<le> ?d" using i by (simp add: word_le_nat_alt)
        from unat_sub [OF this] i have "unat (?d - of_nat i) = unat ?d - i" by (simp only:)
        moreover have "?d - of_nat i = b - a" by simp
        ultimately have "unat (b - a) = unat ?d - i" by (simp only:)
        then show False using lt assms(1) by simp
      next
        case False
        then have "?d \<le> (of_nat i :: u64)" using i by (simp add: word_le_nat_alt)
        from unat_sub [OF this] i have "unat (of_nat i - ?d) = i - unat ?d" by (simp only:)
        moreover have "of_nat i - ?d = a - b" by simp
        ultimately have "unat (a - b) = i - unat ?d" by (simp only:)
        then show False using that assms(2) by simp
      qed
    qed
    then show ?thesis by (simp add: write64_def)
  qed
  then have "map (\<lambda>i. write64 m a v (b + of_nat i)) [0..<8] = map (\<lambda>i. m (b + of_nat i)) [0..<8]"
    by (intro map_cong) simp_all
  then show ?thesis by (simp only: read64_def)
qed

lemma write64_outside: "8 \<le> unat (x - a) \<Longrightarrow> write64 m a v x = m x"
  by (simp add: write64_def)

end
