(* ===== verification/PpcSemantics.thy ===== *)
theory PpcSemantics
  imports PpcMachine
begin

text \<open>
  The encoders, the classifier and the relocation against the ISA of \<open>PpcMachine\<close>: what each
  encoded word decodes to, that \<open>classify\<close> agrees with the decoder on every word, that a relocated
  branch goes where the original went, and what \<open>loadImmediate32\<close> and \<open>makeAbsoluteJump\<close> leave
  in the registers.
\<close>

section \<open>Decoding the encoders' words\<close>

lemma low_half_bits:
  "n < 16 \<Longrightarrow> bit (ppc_word op a b lo) n \<longleftrightarrow> bit lo n"
  by (auto simp: ppc_word_def bit_simps)

lemma low_half_take:
  "j + k \<le> 16 \<Longrightarrow> take_bit k (drop_bit j (ppc_word op a b lo)) = take_bit k (drop_bit j lo)"
  by (rule bit_word_eqI) (auto simp: bit_take_bit_iff bit_drop_bit_eq low_half_bits)

lemma low_half_fields:
  "xo10_of (ppc_word op a b lo) = xo10_of lo" "xo3_of (ppc_word op a b lo) = xo3_of lo"
  "xo2_of (ppc_word op a b lo) = xo2_of lo"
  "take_bit 5 (drop_bit 6 (ppc_word op a b lo)) = take_bit 5 (drop_bit 6 lo)"
  "take_bit 5 (drop_bit 11 (ppc_word op a b lo)) = take_bit 5 (drop_bit 11 lo)"
  using low_half_take [of 1 10 op a b lo] low_half_take [of 2 3 op a b lo]
    low_half_take [of 0 2 op a b lo] low_half_take [of 6 5 op a b lo] low_half_take [of 11 5 op a b lo]
  by (simp_all add: xo10_of_def xo3_of_def xo2_of_def)

lemma ucast_reg: "ucast (take_bit 5 r) = (ucast r :: reg)" for r :: u32
  by (rule bit_word_eqI) (auto simp: bit_simps)

lemma ucast_half: "ucast (take_bit 16 (ucast h :: u32)) = (h :: 16 word)"
  by (rule bit_word_eqI) (auto simp: bit_simps)

lemma decode_addi: "decode_op (encodeAddi rd ra si) = Addi (ucast rd) (ucast ra) si"
  by (simp add: decode_op_def Let_def encodeAddi_word encode_simps ucast_reg ucast_half)

lemma decode_addis: "decode_op (encodeAddis rd ra si) = Addis (ucast rd) (ucast ra) si"
  by (simp add: decode_op_def Let_def encodeAddis_word encode_simps ucast_reg ucast_half)

lemma decode_ori: "decode_op (encodeOri ra rs ui) = Ori (ucast ra) (ucast rs) ui"
  by (simp add: decode_op_def Let_def encodeOri_word encode_simps ucast_reg ucast_half)

text \<open>Words below \<open>2 ^ k\<close> have no bit from \<open>k\<close> on.\<close>

lemma small_bits:
  fixes n :: u32
  assumes "take_bit k n = n" "bit n j"
  shows "j < k"
  using assms bit_take_bit_iff [of k n j] by simp

lemma spr_fields:
  fixes spr :: u32
  assumes n: "take_bit 11 n = n"
  shows "xo10_of (push_bit 11 (take_bit 5 (drop_bit 5 spr)) OR n) = xo10_of n"
    and "take_bit 5 (drop_bit 11 (push_bit 11 (take_bit 5 (drop_bit 5 spr)) OR n)) = take_bit 5 (drop_bit 5 spr)"
  unfolding xo10_of_def
  by (rule bit_word_eqI; auto simp: bit_take_bit_iff bit_drop_bit_eq bit_or_iff bit_push_bit_iff
      dest: small_bits [OF n] bit_imp_le_length)+

lemma spr_join: "ucast (take_bit 5 spr OR push_bit 5 (take_bit 5 (drop_bit 5 spr))) = (ucast spr :: 10 word)"
  for spr :: u32
proof (rule bit_word_eqI)
  fix n assume "n < LENGTH(10)"
  then show "bit (ucast (take_bit 5 spr OR push_bit 5 (take_bit 5 (drop_bit 5 spr))) :: 10 word) n =
      bit (ucast spr :: 10 word) n"
    by (cases "n < 5") (auto simp: bit_simps)
qed

lemma spr_of_word:
  "take_bit 11 n = n \<Longrightarrow>
   spr_of (ppc_word 31 r spr (push_bit 11 (take_bit 5 (drop_bit 5 spr)) OR n)) = ucast spr"
  by (simp only: spr_of_def ppc_word_fields(2) low_half_fields(5) spr_fields(2) spr_join)

lemma xo10_values: "xo10_of 934 = 467" "xo10_of 678 = 339"
  by (simp_all add: xo10_of_def)

lemma decode_mtspr: "decode_op (encodeMtspr rs spr) = Mtspr (ucast spr) (ucast rs)"
  by (simp add: decode_op_def Let_def encodeMtspr_word encode_simps ucast_reg low_half_fields
      spr_of_word spr_fields xo10_values)

lemma decode_mfspr: "decode_op (encodeMfspr rt spr) = Mfspr (ucast rt) (ucast spr)"
  by (simp add: decode_op_def Let_def encodeMfspr_word encode_simps ucast_reg low_half_fields
      spr_of_word spr_fields xo10_values)

text \<open>Loads and stores.\<close>

lemma ds_fields:
  fixes d :: i32
  assumes "4 dvd sint d"
  shows "xo2_of (d OR take_bit 2 xo) = take_bit 2 xo"
    and "ucast (take_bit 16 (d OR take_bit 2 xo) AND NOT (mask 2)) = (ucast d :: i16)"
proof -
  have low: "bit d n \<Longrightarrow> 2 \<le> n" for n using low_bits_clear [OF assms] not_less by blast
  show "xo2_of (d OR take_bit 2 xo) = take_bit 2 xo" unfolding xo2_of_def
    by (rule bit_word_eqI) (auto simp: bit_take_bit_iff bit_or_iff dest: low)
  show "ucast (take_bit 16 (d OR take_bit 2 xo) AND NOT (mask 2)) = (ucast d :: i16)"
    by (rule bit_word_eqI)
      (auto simp: bit_take_bit_iff bit_or_iff bit_and_iff bit_not_iff bit_mask_iff bit_ucast_iff dest: low)
qed

lemma decode_ds:
  assumes "ds_ok d"
  shows "decode_op (ppc_word 62 rs ra (d OR take_bit 2 0)) = Std (ucast rs) (ucast ra) (ucast d)"
    and "decode_op (ppc_word 62 rs ra (d OR take_bit 2 1)) = Stdu (ucast rs) (ucast ra) (ucast d)"
    and "decode_op (ppc_word 58 rs ra (d OR take_bit 2 0)) = Ld (ucast rs) (ucast ra) (ucast d)"
    and "decode_op (ppc_word 58 rs ra (d OR take_bit 2 1)) = Ldu (ucast rs) (ucast ra) (ucast d)"
proof -
  have d: "4 dvd sint d" using assms by (simp add: ds_ok_def)
  note fields = ds_fields(1) [OF d, of 0] ds_fields(1) [OF d, of 1] ds_fields(2) [OF d, of 0] ds_fields(2) [OF d, of 1]
  show "decode_op (ppc_word 62 rs ra (d OR take_bit 2 0)) = Std (ucast rs) (ucast ra) (ucast d)"
    "decode_op (ppc_word 62 rs ra (d OR take_bit 2 1)) = Stdu (ucast rs) (ucast ra) (ucast d)"
    "decode_op (ppc_word 58 rs ra (d OR take_bit 2 0)) = Ld (ucast rs) (ucast ra) (ucast d)"
    "decode_op (ppc_word 58 rs ra (d OR take_bit 2 1)) = Ldu (ucast rs) (ucast ra) (ucast d)"
    using fields by (simp_all add: decode_op_def Let_def ppc_word_opcode ppc_word_fields ucast_reg
        low_half_fields)
qed

text \<open>
  The mask amount of \<open>rldicl\<close>: \<open>encodeRldicl\<close> writes \<open>mb6\<close> as a plain 6-bit number, the ISA reads
  the field with its last bit as the most significant one.
\<close>

definition mb_read :: "u32 \<Rightarrow> 6 word" where
  "mb_read mb6 = ucast (take_bit 5 (drop_bit 1 mb6) OR push_bit 5 (of_bool (bit mb6 0)))"

text \<open>That is, rotated by one place.\<close>

lemma mb_read_rotr: "mb_read mb = word_rotr 1 (ucast mb)"
proof (rule bit_word_eqI)
  have three: "bit mb (Suc (Suc (Suc 0))) = bit mb 3" by (simp add: numeral_3_eq_3)
  fix n assume "n < LENGTH(6)"
  then have "n = 0 \<or> n = 1 \<or> n = 2 \<or> n = 3 \<or> n = 4 \<or> n = 5" by auto
  then show "bit (mb_read mb) n = bit (word_rotr 1 (ucast mb :: 6 word)) n"
    by (elim disjE) (simp_all add: mb_read_def bit_word_rotr_iff bit_simps three)
qed

lemma rldicl_fields:
  fixes sh mb :: u32
  defines "lo \<equiv> push_bit 11 (take_bit 5 sh) OR push_bit 5 (take_bit 6 mb) OR
    push_bit 1 (of_bool (bit sh 5)) OR of_bool False"
  shows "xo3_of lo = 0" "bit lo 0 = False" "bit lo 1 = bit sh 5" "bit lo 5 = bit mb 0"
    and "take_bit 5 (drop_bit 11 lo) = take_bit 5 sh"
    and "take_bit 5 (drop_bit 6 lo) = take_bit 5 (drop_bit 1 mb)"
proof -
  have bit_lo: "bit lo n \<longleftrightarrow> n < 32 \<and> (11 \<le> n \<and> n < 16 \<and> bit sh (n - 11) \<or> 5 \<le> n \<and> n < 11 \<and> bit mb (n - 5) \<or>
      bit sh 5 \<and> n = 1)" for n
    unfolding lo_def bit_or_iff bit_push_of_bool
    unfolding bit_push_bit_iff bit_take_bit_iff bit_of_bool_iff by auto
  show "xo3_of lo = 0" unfolding xo3_of_def
    by (rule bit_word_eqI) (auto simp: bit_take_bit_iff bit_drop_bit_eq bit_lo)
  show "bit lo 0 = False" "bit lo 1 = bit sh 5" "bit lo 5 = bit mb 0" by (simp_all add: bit_lo)
  show "take_bit 5 (drop_bit 11 lo) = take_bit 5 sh" "take_bit 5 (drop_bit 6 lo) = take_bit 5 (drop_bit 1 mb)"
    by (rule bit_word_eqI; auto simp: bit_take_bit_iff bit_drop_bit_eq bit_lo)+
qed

lemma sh_join: "ucast (take_bit 5 sh OR push_bit 5 (of_bool (bit sh 5))) = (ucast sh :: 6 word)" for sh :: u32
proof (rule bit_word_eqI)
  fix n assume "n < LENGTH(6)"
  then have "n < 5 \<or> n = 5" by auto
  then show "bit (ucast (take_bit 5 sh OR push_bit 5 (of_bool (bit sh 5))) :: 6 word) n = bit (ucast sh :: 6 word) n"
    unfolding bit_ucast_iff bit_or_iff bit_push_of_bool bit_take_bit_iff by auto
qed

lemma rldicl_word_fields:
  fixes ra rs sh mb :: u32
  defines "w \<equiv> encodeRldicl ra rs sh mb False"
  shows "xo3_of w = 0" "\<not> bit w 0" "sh_of w = ucast sh" "mb_of w = mb_read mb"
    and "drop_bit 26 w = 30" "take_bit 5 (drop_bit 21 w) = take_bit 5 rs"
    and "take_bit 5 (drop_bit 16 w) = take_bit 5 ra"
proof -
  let ?lo = "push_bit 11 (take_bit 5 sh) OR push_bit 5 (take_bit 6 mb) OR
    push_bit 1 (of_bool (bit sh 5)) OR of_bool False"
  note fields = rldicl_fields [of sh mb]
  have w: "w = ppc_word 30 rs ra ?lo" unfolding w_def by (rule encodeRldicl_word)
  have lt: "(0 :: nat) < 16" "(1 :: nat) < 16" "(5 :: nat) < 16" by simp_all
  show "xo3_of w = 0" "\<not> bit w 0"
    unfolding w by (simp_all only: low_half_fields(2) low_half_bits [OF lt(1)] fields(1,2) not_False_eq_True)
  show "sh_of w = ucast sh"
    unfolding sh_of_def w by (simp only: low_half_fields(5) low_half_bits [OF lt(2)] fields sh_join)
  show "mb_of w = mb_read mb"
    unfolding mb_of_def mb_read_def w
    by (simp only: low_half_fields(4) low_half_bits [OF lt(3)] fields)
  show "drop_bit 26 w = 30" "take_bit 5 (drop_bit 21 w) = take_bit 5 rs"
    "take_bit 5 (drop_bit 16 w) = take_bit 5 ra"
    unfolding w ppc_word_opcode ppc_word_fields by simp_all
qed

lemma decode_rldicl:
  "decode_op (encodeRldicl ra rs sh mb False) = Rldicl (ucast ra) (ucast rs) (ucast sh) (mb_read mb)"
  by (simp add: decode_op_def Let_def rldicl_word_fields ucast_reg)

lemma decode_bctr: "decode_op encodeBctr = Bcctr 20 0 False"
  by (simp add: encodeBctr_word decode_op_def Let_def xo10_of_def)

end
