(* ===== verification/PpcBranch.thy ===== *)
theory PpcBranch
  imports PpcSemantics
begin

text \<open>
  Branches: \<open>classify\<close> against the ISA's decoder on every word, the words the branch encoders
  return, and the relocation of a relative branch.
\<close>

section \<open>The classifier and the decoder\<close>

text \<open>What the classifier should return for a decoded operation.\<close>

definition as_branch :: "ppc_op \<Rightarrow> decoded_branch" where
  "as_branch i =
     (case i of
        Branch li aa lk \<Rightarrow>
          (if aa then default_branch\<lparr>kind := DirectAbsolute, link := lk, absoluteTarget := scast li\<rparr>
           else default_branch\<lparr>kind := DirectRelative, link := lk, displacement := scast li\<rparr>)
      | BranchCond BO BI bd aa lk \<Rightarrow>
          (let c = default_branch\<lparr>link := lk, isConditionalForm := True, bo := ucast BO, bi := ucast BI\<rparr> in
           if aa then c\<lparr>kind := DirectAbsolute, absoluteTarget := scast bd\<rparr>
           else c\<lparr>kind := DirectRelative, displacement := scast bd\<rparr>)
      | Bclr BO BI lk \<Rightarrow> default_branch\<lparr>kind := ToLinkRegister, link := lk\<rparr>
      | Bcctr BO BI lk \<Rightarrow> default_branch\<lparr>kind := ToCountRegister, link := lk\<rparr>
      | _ \<Rightarrow> default_branch)"

lemma scast_ucast_26: "scast (ucast x :: 26 word) = signed_take_bit 25 x" for x :: u32
  by (rule bit_word_eqI) (auto simp: bit_simps min_def)

lemma scast_ucast_16: "scast (ucast x :: 16 word) = signed_take_bit 15 x" for x :: u32
  by (rule bit_word_eqI) (auto simp: bit_simps min_def)

lemma ucast_ucast_5: "ucast (ucast (take_bit 5 x) :: 5 word) = take_bit 5 x" for x :: u32
  by (rule bit_word_eqI) (auto simp: bit_simps)

lemma opcode_small: "take_bit 6 (drop_bit 26 w) = drop_bit 26 w" for w :: u32
  by (rule bit_word_eqI) (auto simp: bit_simps dest: bit_imp_le_length)

lemma scast_lo4:
  "scast (ucast (take_bit 16 w AND NOT (mask 2)) :: 16 word) = signed_take_bit 15 (w AND NOT (mask 2))"
  for w :: u32
  unfolding scast_ucast_16
  by (rule bit_word_eqI) (auto simp: bit_signed_take_bit_iff bit_and_iff bit_take_bit_iff min_def)

lemma classify_decode: "classify w = as_branch (decode_op w)"
proof -
  have cond: "drop_bit 26 w = 16 \<Longrightarrow> classify w = as_branch (decode_op w)"
    unfolding classify_def Let_def and_bit_tests signExtend_fields
    unfolding and_mask_consts opcode_small
    by (simp add: decode_op_def as_branch_def Let_def scast_lo4 ucast_ucast_5 default_branch_def)
  have dir: "drop_bit 26 w = 18 \<Longrightarrow> classify w = as_branch (decode_op w)"
    unfolding classify_def Let_def and_bit_tests signExtend_fields
    unfolding and_mask_consts opcode_small
    by (simp add: decode_op_def as_branch_def Let_def scast_ucast_26 default_branch_def)
  have reg: "drop_bit 26 w = 19 \<Longrightarrow> classify w = as_branch (decode_op w)"
    unfolding classify_def Let_def and_bit_tests
    unfolding and_mask_consts opcode_small xo10_of_def [symmetric]
    by (simp add: decode_op_def as_branch_def Let_def default_branch_def)
  have none: "drop_bit 26 w \<noteq> 16 \<Longrightarrow> drop_bit 26 w \<noteq> 18 \<Longrightarrow> drop_bit 26 w \<noteq> 19 \<Longrightarrow>
      classify w = as_branch (decode_op w)"
    unfolding classify_def Let_def and_mask_consts opcode_small
    by (simp add: decode_op_def as_branch_def Let_def default_branch_def)
  show ?thesis using cond dir reg none by blast
qed

section \<open>The words the branch encoders return\<close>

lemma ucast_26_eq:
  fixes x y :: u32
  assumes "signed_take_bit 25 x = signed_take_bit 25 y"
  shows "(ucast x :: 26 word) = ucast y"
proof (rule bit_word_eqI)
  fix n assume n: "n < LENGTH(26)"
  then have "min n 25 = n" "min 25 n = n" by auto
  then show "bit (ucast x :: 26 word) n = bit (ucast y :: 26 word) n"
    using n arg_cong [OF assms, of "\<lambda>v. bit v n"]
    by (simp add: bit_signed_take_bit_iff bit_ucast_iff)
qed

lemma decode_encodeBranch:
  assumes "encodeBranch t aa lk = Inr w"
  shows "b_ok t" "decode_op w = Branch (ucast t) aa lk"
proof -
  show "b_ok t" using assms by (auto simp: encodeBranch_eq split: if_splits)
  then have t: "4 dvd sint t" by (simp add: b_ok_def)
  have w: "w = push_bit 26 18 OR take_bit 26 t OR push_bit 1 (of_bool aa) OR of_bool lk"
    using assms \<open>b_ok t\<close> by (simp add: encodeBranch_eq)
  note fields = branch_word_fields [OF t, where aa = aa and lk = lk, folded w]
  from fields(4) have "ucast (w AND NOT (mask 2)) = (ucast t :: 26 word)" by (rule ucast_26_eq)
  then show "decode_op w = Branch (ucast t) aa lk" using fields(1-3) by (simp add: decode_op_def Let_def)
qed

lemma bc_low_half:
  fixes t :: i32 and aa lk :: bool
  assumes "4 dvd sint t"
  defines "lo \<equiv> t OR push_bit 1 (of_bool aa) OR of_bool lk"
  shows "bit lo 1 = aa" "bit lo 0 = lk" "ucast (take_bit 16 lo AND NOT (mask 2)) = (ucast t :: 16 word)"
proof -
  note low = low_bits_clear [OF assms(1)]
  then have low_ge: "bit t n \<Longrightarrow> 2 \<le> n" for n using not_less by blast
  have bit_lo: "bit lo n = (bit t n \<or> aa \<and> n = 1 \<or> lk \<and> n = 0)" for n
    unfolding lo_def bit_or_iff bit_push_of_bool bit_of_bool_iff by auto
  show "bit lo 1 = aa" "bit lo 0 = lk" using low [of 1] low [of 0] by (auto simp: bit_lo)
  show "ucast (take_bit 16 lo AND NOT (mask 2)) = (ucast t :: 16 word)"
    by (rule bit_word_eqI)
      (auto simp: bit_ucast_iff bit_and_iff bit_take_bit_iff bit_not_iff bit_mask_iff bit_lo dest: low_ge)
qed

lemma decode_encodeBranchConditional:
  assumes "encodeBranchConditional BO BI t aa lk = Inr w"
  shows "bc_ok t" "decode_op w = BranchCond (ucast BO) (ucast BI) (ucast t) aa lk"
proof -
  let ?lo = "t OR push_bit 1 (of_bool aa) OR of_bool lk"
  show "bc_ok t" using assms by (auto simp: encodeBranchConditional_eq split: if_splits)
  then have t: "4 dvd sint t" by (simp add: bc_ok_def)
  have w: "w = ppc_word 16 BO BI ?lo" using assms \<open>bc_ok t\<close> by (simp add: encodeBranchConditional_eq)
  note fields = bc_low_half [OF t, where aa = aa and lk = lk]
  have lt: "(0 :: nat) < 16" "(1 :: nat) < 16" by simp_all
  have "bit w 1 = aa" "bit w 0 = lk" "ucast (take_bit 16 w AND NOT (mask 2)) = (ucast t :: 16 word)"
    unfolding w by (simp_all only: low_half_bits [OF lt(1)] low_half_bits [OF lt(2)] ppc_word_fields fields)
  moreover have "drop_bit 26 w = 16" "take_bit 5 (drop_bit 21 w) = take_bit 5 BO"
    "take_bit 5 (drop_bit 16 w) = take_bit 5 BI"
    unfolding w ppc_word_opcode ppc_word_fields by simp_all
  ultimately show "decode_op w = BranchCond (ucast BO) (ucast BI) (ucast t) aa lk" by (simp add: decode_op_def Let_def ucast_reg)
qed

section \<open>The contract of a direct branch encoder\<close>

text \<open>
  \<open>encodeBranch\<close> and \<open>encodeBranchConditional\<close> keep one contract: \<open>enc\<close> takes a target, the
  absolute bit and the link bit; it reaches \<open>reach\<close> bytes back, refuses a target further away
  with \<open>far\<close>, and otherwise returns the word of the operation \<open>op\<close>.
\<close>

locale direct_branch =
  fixes enc :: "i32 \<Rightarrow> bool \<Rightarrow> bool \<Rightarrow> instruction throws" and reach :: int and far :: string
    and op :: "i32 \<Rightarrow> bool \<Rightarrow> bool \<Rightarrow> ppc_op" and cond :: bool
  assumes accepts: "4 dvd sint t \<Longrightarrow> - reach \<le> sint t \<Longrightarrow> sint t \<le> reach - 4 \<Longrightarrow> \<exists>w. enc t aa lk = Inr w"
    and refuses: "\<not> (4 dvd sint t \<and> - reach \<le> sint t \<and> sint t \<le> reach - 4) \<Longrightarrow>
      enc t aa lk = Inl (if 4 dvd sint t then far else ''branch target must be 4-byte aligned'')"
    and decodes: "enc t aa lk = Inr w \<Longrightarrow> decode_op w = op t aa lk"
    and form: "link (as_branch (op t aa lk)) = lk" "isConditionalForm (as_branch (op t aa lk)) = cond"
      "kind (as_branch (op t aa lk)) = (if aa then DirectAbsolute else DirectRelative)"
    and target: "4 dvd sint t \<Longrightarrow> - reach \<le> sint t \<Longrightarrow> sint t \<le> reach - 4 \<Longrightarrow>
      (if aa then absoluteTarget (as_branch (op t aa lk)) else displacement (as_branch (op t aa lk))) = t"
begin

lemma encodes:
  "if 4 dvd sint t \<and> - reach \<le> sint t \<and> sint t \<le> reach - 4
   then \<exists>w. enc t aa lk = Inr w \<and> decode_op w = op t aa lk \<and>
     link (classify w) = lk \<and> isConditionalForm (classify w) = cond \<and>
     (if aa then kind (classify w) = DirectAbsolute \<and> absoluteTarget (classify w) = t
      else kind (classify w) = DirectRelative \<and> displacement (classify w) = t)
   else enc t aa lk = Inl (if 4 dvd sint t then far else ''branch target must be 4-byte aligned'')"
proof (cases "4 dvd sint t \<and> - reach \<le> sint t \<and> sint t \<le> reach - 4")
  case True
  then obtain w where w: "enc t aa lk = Inr w" using accepts by blast
  have "classify w = as_branch (op t aa lk)" unfolding classify_decode decodes [OF w] ..
  then show ?thesis using True w decodes [OF w] form [of t aa lk] target [of t aa lk] by auto
qed (use refuses in auto)

end

interpretation branch: direct_branch encodeBranch "2 ^ 25"
    "''branch target out of range for a direct b/ba instruction''" "\<lambda>t. Branch (ucast t)" False
proof unfold_locales
  show "decode_op w = Branch (ucast t) aa lk" if "encodeBranch t aa lk = Inr w" for t aa lk w
    using that by (rule decode_encodeBranch(2))
  fix t :: i32 and aa lk
  show "(if aa then absoluteTarget (as_branch (Branch (ucast t) aa lk))
      else displacement (as_branch (Branch (ucast t) aa lk))) = t"
    if "4 dvd sint t" "- (2 ^ 25) \<le> sint t" "sint t \<le> 2 ^ 25 - 4"
    using that by (simp add: as_branch_def scast_ucast_26 b_ok_fields b_ok_def)
qed (auto simp: encodeBranch_eq b_ok_def as_branch_def default_branch_def)

interpretation branch_cond: direct_branch "encodeBranchConditional BO BI" "2 ^ 15"
    "''branch target out of range for a bc/bca instruction's 14-bit BD field''"
    "\<lambda>t. BranchCond (ucast BO) (ucast BI) (ucast t)" True for BO BI :: u32
proof unfold_locales
  show "decode_op w = BranchCond (ucast BO) (ucast BI) (ucast t) aa lk"
    if "encodeBranchConditional BO BI t aa lk = Inr w" for t aa lk w
    using that by (rule decode_encodeBranchConditional(2))
  fix t :: i32 and aa lk
  show "(if aa then absoluteTarget (as_branch (BranchCond (ucast BO) (ucast BI) (ucast t) aa lk))
      else displacement (as_branch (BranchCond (ucast BO) (ucast BI) (ucast t) aa lk))) = t"
    if "4 dvd sint t" "- (2 ^ 15) \<le> sint t" "sint t \<le> 2 ^ 15 - 4"
    using that by (simp add: as_branch_def scast_ucast_16 b_ok_fields bc_ok_def Let_def)
qed (auto simp: encodeBranchConditional_eq bc_ok_def as_branch_def default_branch_def Let_def)

section \<open>Relocating a relative branch\<close>

text \<open>The distance the relocated branch has to cover, and whether its form can cover it.\<close>

definition new_distance :: "decoded_branch \<Rightarrow> u32 \<Rightarrow> u32 \<Rightarrow> int" where
  "new_distance b originalAddr newAddr = uint (originalAddr + displacement b) - uint newAddr"

definition distance_fits :: "decoded_branch \<Rightarrow> int \<Rightarrow> bool" where
  "distance_fits b d \<longleftrightarrow> 4 dvd d \<and>
     (if isConditionalForm b then - 32768 \<le> d \<and> d \<le> 32764 else - 33554432 \<le> d \<and> d \<le> 33554428)"

lemma sint_of_int32: "INT32_MIN \<le> d \<Longrightarrow> d \<le> INT32_MAX \<Longrightarrow> sint (word_of_int d :: i32) = d"
  by (simp add: INT32_MIN_def INT32_MAX_def sint_sbintrunc' signed_take_bit_int_eq_self)

lemma relocateBranch_eq:
  "relocateBranch b oa na =
     (if kind b = DirectRelative \<and> distance_fits b (new_distance b oa na) then
        (let t = word_of_int (new_distance b oa na) in
         Some (if isConditionalForm b
           then ppc_word 16 (bo b) (bi b) (t OR push_bit 1 (of_bool False) OR of_bool (link b))
           else push_bit 26 18 OR take_bit 26 t OR push_bit 1 (of_bool False) OR of_bool (link b)))
      else None)"
proof -
  let ?d = "new_distance b oa na"
  have out: "\<not> (INT32_MIN \<le> ?d \<and> ?d \<le> INT32_MAX) \<Longrightarrow> \<not> distance_fits b ?d"
    by (auto simp: distance_fits_def INT32_MIN_def INT32_MAX_def split: if_splits)
  show ?thesis
  proof (cases "INT32_MIN \<le> ?d \<and> ?d \<le> INT32_MAX")
    case True
    then have "sint (word_of_int ?d :: i32) = ?d" by (simp add: sint_of_int32)
    then have "b_ok (word_of_int ?d) = (4 dvd ?d \<and> - 33554432 \<le> ?d \<and> ?d \<le> 33554428)"
      "bc_ok (word_of_int ?d) = (4 dvd ?d \<and> - 32768 \<le> ?d \<and> ?d \<le> 32764)"
      by (simp_all add: b_ok_def bc_ok_def)
    then show ?thesis using True
      by (auto simp: relocateBranch_def new_distance_def [symmetric] encodeBranch_eq
          encodeBranchConditional_eq catch_invalid_def distance_fits_def Let_def)
  next
    case False
    then show ?thesis using out
      by (auto simp: relocateBranch_def new_distance_def [symmetric] Let_def)
  qed
qed


lemma scast_up:
  "(scast (x :: 26 word) :: u64) = scast (scast x :: i32)"
  "(scast (y :: 16 word) :: u64) = scast (scast y :: i32)"
  by (rule bit_word_eqI; auto simp: bit_simps min_def)+

lemma scast_branch_field:
  "b_ok t \<Longrightarrow> (scast (ucast t :: 26 word) :: u64) = scast t"
  "bc_ok t \<Longrightarrow> (scast (ucast t :: 16 word) :: u64) = scast t"
  by (simp_all add: scast_up scast_ucast_26 scast_ucast_16 b_ok_fields)

lemma ucast_ucast_reg: "ucast (ucast r :: u32) = (r :: reg)"
  by (rule bit_word_eqI) (auto simp: bit_simps)

text \<open>The branch operation with its displacement replaced.\<close>

definition redirected :: "ppc_op \<Rightarrow> i32 \<Rightarrow> ppc_op" where
  "redirected i t =
     (case i of
        Branch li aa lk \<Rightarrow> Branch (ucast t) aa lk
      | BranchCond BO BI bd aa lk \<Rightarrow> BranchCond BO BI (ucast t) aa lk
      | _ \<Rightarrow> i)"

lemma direct_relative_cases:
  assumes "kind (as_branch i) = DirectRelative"
  obtains (uncond) li lk where "i = Branch li False lk"
    | (cond) BO BI bd lk where "i = BranchCond BO BI bd False lk"
  using assms by (cases i) (auto simp: as_branch_def default_branch_def Let_def split: if_splits)

lemma relocated_word:
  assumes "relocateBranch (classify w) oa na = Some w'"
  defines "d \<equiv> new_distance (classify w) oa na"
  shows "decode_op w' = redirected (decode_op w) (word_of_int d)"
    and "sint (word_of_int d :: i32) = d" and "kind (classify w) = DirectRelative"
    and "if isConditionalForm (classify w) then bc_ok (word_of_int d) else b_ok (word_of_int d)"
proof -
  let ?b = "classify w" and ?t = "word_of_int d :: i32"
  have fits: "kind ?b = DirectRelative" "distance_fits ?b d"
    using assms by (auto simp: relocateBranch_eq split: if_splits)
  then show "kind (classify w) = DirectRelative" by simp
  have "INT32_MIN \<le> d" "d \<le> INT32_MAX"
    using fits(2) by (auto simp: distance_fits_def INT32_MIN_def INT32_MAX_def split: if_splits)
  then show sint: "sint ?t = d" by (rule sint_of_int32)
  show ok: "if isConditionalForm ?b then bc_ok ?t else b_ok ?t"
    using fits(2) sint by (auto simp: distance_fits_def b_ok_def bc_ok_def)
  have w': "w' = (if isConditionalForm ?b
      then ppc_word 16 (bo ?b) (bi ?b) (?t OR push_bit 1 (of_bool False) OR of_bool (link ?b))
      else push_bit 26 18 OR take_bit 26 ?t OR push_bit 1 (of_bool False) OR of_bool (link ?b))"
    using assms fits by (auto simp: relocateBranch_eq Let_def)
  from fits(1) have "kind (as_branch (decode_op w)) = DirectRelative" by (simp add: classify_decode)
  then show "decode_op w' = redirected (decode_op w) ?t"
  proof (cases rule: direct_relative_cases)
    case (uncond li lk)
    then have b: "\<not> isConditionalForm ?b" "link ?b = lk"
      by (simp_all add: classify_decode as_branch_def default_branch_def)
    then have "encodeBranch ?t False lk = Inr w'" using ok w' by (simp add: encodeBranch_eq)
    then show ?thesis using uncond by (simp add: decode_encodeBranch redirected_def)
  next
    case (cond BO BI bd lk)
    then have b: "isConditionalForm ?b" "link ?b = lk" "bo ?b = ucast BO" "bi ?b = ucast BI"
      by (simp_all add: classify_decode as_branch_def default_branch_def Let_def)
    then have "encodeBranchConditional (ucast BO) (ucast BI) ?t False lk = Inr w'"
      using ok w' by (simp add: encodeBranchConditional_eq)
    then show ?thesis using cond
      by (simp add: decode_encodeBranchConditional redirected_def ucast_ucast_reg)
  qed
qed

definition branch_taken :: "ppc_op \<Rightarrow> cpu \<Rightarrow> bool" where
  "branch_taken i s = (case i of BranchCond BO BI bd aa lk \<Rightarrow> bo_taken BO BI s | _ \<Rightarrow> True)"

lemma no_wrap_target:
  fixes oa na :: u32 and d :: i32
  assumes "0 \<le> uint oa + sint d" "uint oa + sint d < 2 ^ 32"
    and "sint (e :: i32) = uint (oa + d) - uint na"
  shows "(ucast na :: u64) + scast e = ucast oa + scast d"
proof -
  have "uint (oa + d) = uint oa + sint d"
  proof -
    have "oa + d = word_of_int (uint oa + sint d)" by simp
    then show ?thesis using assms(1,2)
      by (simp only: uint_word_of_int_eq) (simp add: take_bit_int_eq_self)
  qed
  then have "uint na + sint e = uint oa + sint d" using assms(3) by simp
  moreover have "ucast na + scast e = (of_int (uint na + sint e) :: u64)"
    "ucast oa + scast d = (of_int (uint oa + sint d) :: u64)"
    by simp_all
  ultimately show ?thesis by (simp only:)
qed


text \<open>
  The relocated branch executed at the new address does what the original does at the old one:
  the same registers, counter and condition, the same target if taken, and otherwise (and in the
  link register) the instruction after itself.
\<close>

lemma relocated_exec:
  assumes rel: "relocateBranch (classify w) oa na = Some w'"
    and wrap: "0 \<le> uint oa + sint (displacement (classify w))"
      "uint oa + sint (displacement (classify w)) < 2 ^ 32"
    and old: "exec lv2 w (s\<lparr>pc := ucast oa\<rparr>) = Some t"
  shows "exec lv2 w' (s\<lparr>pc := ucast na\<rparr>) =
    Some (t\<lparr>pc := (if branch_taken (decode_op w) s then pc t else ucast na + 4),
            lr := (if link (classify w) then ucast na + 4 else lr t)\<rparr>)"
proof -
  let ?d = "displacement (classify w)"
  let ?e = "word_of_int (new_distance (classify w) oa na) :: i32"
  note w' = relocated_word [OF rel]
  have target: "(ucast na :: u64) + scast ?e = ucast oa + scast ?d"
    by (rule no_wrap_target [OF wrap]) (simp add: w'(2), simp add: new_distance_def)
  from w'(3) have "kind (as_branch (decode_op w)) = DirectRelative" by (simp add: classify_decode)
  then show ?thesis
  proof (cases rule: direct_relative_cases)
    case (uncond li lk)
    then have b: "\<not> isConditionalForm (classify w)" "link (classify w) = lk" "?d = scast li"
      by (simp_all add: classify_decode as_branch_def default_branch_def)
    then have "(scast (ucast ?e :: 26 word) :: u64) = scast ?e" using w'(4) by (simp add: scast_branch_field)
    then show ?thesis using old target b uncond
      by (auto simp: exec_def w'(1) redirected_def branch_to_def branch_taken_def scast_up)
  next
    case (cond BO BI bd lk)
    then have b: "isConditionalForm (classify w)" "link (classify w) = lk" "?d = scast bd"
      by (simp_all add: classify_decode as_branch_def default_branch_def Let_def)
    then have "(scast (ucast ?e :: 16 word) :: u64) = scast ?e" using w'(4) by (simp add: scast_branch_field)
    then show ?thesis using old target b cond
      by (auto simp: exec_def w'(1) redirected_def branch_to_def branch_taken_def scast_up
          bo_taken_def bo_ctr_def)
  qed
qed

end
