(* ===== verification/PpcJump.thy ===== *)
theory PpcJump
  imports PpcBranch
begin

text \<open>
  Executing what \<open>encode.hpp\<close> assembles: one law per encoder, then the value \<open>loadImmediate32\<close>
  leaves in its register and the address \<open>makeAbsoluteJump\<close> reaches.
\<close>

section \<open>One law per encoder\<close>

named_theorems exec_simps

lemma exec_addi [exec_simps]:
  "exec lv2 (encodeAddi rd ra si) s =
     Some (next_pc (set_gpr (ucast rd) (base_of s (ucast ra) + scast si) s))"
  by (simp add: exec_def decode_addi)

lemma exec_li [exec_simps]:
  "exec lv2 (encodeLi rd si) s = Some (next_pc (set_gpr (ucast rd) (scast si) s))"
  by (simp add: encodeLi_def exec_addi base_of_def)

lemma exec_lis [exec_simps]:
  "exec lv2 (encodeLis rd si) s = Some (next_pc (set_gpr (ucast rd) (push_bit 16 (scast si)) s))"
  by (simp add: encodeLis_def exec_def decode_addis base_of_def)

lemma exec_ori [exec_simps]:
  "exec lv2 (encodeOri ra rs ui) s =
     Some (next_pc (set_gpr (ucast ra) (gpr s (ucast rs) OR ucast ui) s))"
  by (simp add: exec_def decode_ori)

lemma mb_read_32: "mb_read 32 = 16"
  by (simp add: mb_read_def)

lemma rotl_0: "word_rotl 0 x = x" for x :: u64
  by (rule bit_word_eqI) (simp add: bit_word_rotl_iff)

lemma exec_clrldi_32 [exec_simps]:
  "exec lv2 (encodeClrldi ra rs 32) s =
     Some (next_pc (set_gpr (ucast ra) (gpr s (ucast rs) AND mask 48) s))"
  by (simp add: encodeClrldi_def exec_def decode_rldicl mb_read_32 rotl_0)

lemma exec_mflr [exec_simps]: "exec lv2 (encodeMflr r) s = Some (next_pc (set_gpr (ucast r) (lr s) s))"
  by (simp add: encodeMflr_def SPR_LR_def exec_def decode_mfspr)

lemma exec_mtlr [exec_simps]: "exec lv2 (encodeMtlr r) s = Some (next_pc (s\<lparr>lr := gpr s (ucast r)\<rparr>))"
  by (simp add: encodeMtlr_def SPR_LR_def exec_def decode_mtspr)

lemma exec_mfctr [exec_simps]: "exec lv2 (encodeMfctr r) s = Some (next_pc (set_gpr (ucast r) (ctr s) s))"
  by (simp add: encodeMfctr_def SPR_CTR_def exec_def decode_mfspr)

lemma exec_mtctr [exec_simps]: "exec lv2 (encodeMtctr r) s = Some (next_pc (s\<lparr>ctr := gpr s (ucast r)\<rparr>))"
  by (simp add: encodeMtctr_def SPR_CTR_def exec_def decode_mtspr)

lemma exec_bctr: "exec lv2 encodeBctr s = Some (s\<lparr>pc := ctr s AND NOT (mask 2)\<rparr>)"
proof -
  have "bit (20 :: 5 word) 2" "bit (20 :: 5 word) 4" by simp_all
  then show ?thesis by (simp add: exec_def decode_bctr branch_to_def bo_taken_def)
qed

lemma decode_std_forms:
  assumes "encodeStd rs ra d = Inr w" shows "decode_op w = Std (ucast rs) (ucast ra) (ucast d)" "ds_ok d"
  using assms by (auto simp: encodeStd_def encodeStdForm_eq decode_ds [simplified] split: if_splits)

lemma decode_stdu_form:
  assumes "encodeStdu rs ra d = Inr w" shows "decode_op w = Stdu (ucast rs) (ucast ra) (ucast d)" "ds_ok d"
  using assms by (auto simp: encodeStdu_def encodeStdForm_eq decode_ds [simplified] split: if_splits)

lemma decode_ld_form:
  assumes "encodeLd rs ra d = Inr w" shows "decode_op w = Ld (ucast rs) (ucast ra) (ucast d)" "ds_ok d"
  using assms by (auto simp: encodeLd_def encodeStdForm_eq decode_ds [simplified] split: if_splits)

lemma decode_ldu_form:
  assumes "encodeLdu rs ra d = Inr w" shows "decode_op w = Ldu (ucast rs) (ucast ra) (ucast d)" "ds_ok d"
  using assms by (auto simp: encodeLdu_def encodeStdForm_eq decode_ds [simplified] split: if_splits)

section \<open>Loading a 32-bit constant\<close>

lemma hi_lo_join:
  "push_bit 16 (scast (ucast (drop_bit 16 v AND 0xFFFF) :: i16)) OR ucast (ucast (v AND 0xFFFF) :: u16) =
   (scast v :: u64)" for v :: u32
  unfolding and_mask_consts
proof (rule bit_word_eqI)
  fix n assume "n < LENGTH(64)"
  then show "bit (push_bit 16 (scast (ucast (take_bit 16 (drop_bit 16 v)) :: i16)) OR
      ucast (ucast (take_bit 16 v) :: u16) :: u64) n = bit (scast v :: u64) n"
    by (cases "n < 16") (auto simp: bit_simps min_def not_less)
qed

lemma exec_loadImmediate32:
  "exec_seq lv2 (loadImmediate32 r v) s =
     Some (s\<lparr>gpr := (gpr s)(ucast r := scast v AND mask 48), pc := pc s + 12\<rparr>)"
  by (simp add: loadImmediate32_def Let_def exec_simps next_pc_def set_gpr_def hi_lo_join)

text \<open>The value is the constant itself exactly when its top bit is clear.\<close>

lemma loaded_low: "\<not> bit v 31 \<Longrightarrow> scast v AND mask 48 = (ucast v :: u64)" for v :: u32
proof (rule bit_word_eqI)
  assume top: "\<not> bit v 31"
  fix n assume "n < LENGTH(64)"
  have "bit v n \<Longrightarrow> n < 32" by (auto dest: bit_imp_le_length)
  then show "bit (scast v AND mask 48 :: u64) n = bit (ucast v :: u64) n"
    using top \<open>n < LENGTH(64)\<close> by (cases n "31 :: nat" rule: linorder_cases) (auto simp: bit_simps min_def)
qed

lemma loaded_high:
  assumes "bit (v :: u32) 31"
  shows "scast v AND mask 48 = (ucast v OR push_bit 32 (mask 16) :: u64)"
proof (rule bit_word_eqI)
  fix n assume "n < LENGTH(64)"
  have "n < 32 \<Longrightarrow> min n 31 = n" by simp
  then show "bit (scast v AND mask 48 :: u64) n = bit (ucast v OR push_bit 32 (mask 16) :: u64) n"
    using assms \<open>n < LENGTH(64)\<close>
    by (cases n "31 :: nat" rule: linorder_cases)
      (auto simp: bit_simps min_def dest: bit_imp_le_length split: if_splits)
qed

lemma top_bit_iff: "bit v 31 \<longleftrightarrow> 2 ^ 31 \<le> unat v" for v :: u32
proof -
  have "bit v 31 \<longleftrightarrow> bit (unat v) 31" by (simp add: bit_simps)
  then have "bit v 31 \<longleftrightarrow> odd (unat v div 2 ^ 31)" by (simp add: bit_iff_odd)
  moreover have "unat v < 2 ^ 32" using unsigned_less [of v, where ?'a = nat] by simp
  then have "2 ^ 31 \<le> unat v \<Longrightarrow> unat v div 2 ^ 31 = 1" by (intro div_nat_eqI) simp_all
  ultimately show ?thesis by (cases "2 ^ 31 \<le> unat v") auto
qed

section \<open>The absolute jump\<close>

lemma run_seq_then:
  assumes "code_at img (pc s) (us @ [w])" "exec_seq lv2 us s = Some t" "exec lv2 w t = Some u"
  shows "run lv2 img (Suc (length us)) s = Some u"
proof -
  have us: "code_at img (pc s) us" "img (pc s + 4 * of_nat (length us)) = Some w"
    using assms(1) by (simp_all add: code_at_append code_at_Cons)
  from run_exec_seq [OF us(1) assms(2)]
  have t: "run lv2 img (length us) s = Some t" "pc t = pc s + 4 * of_nat (length us)" by simp_all
  have "step lv2 img t = Some u" using us(2) t(2) assms(3) by (simp add: step_def)
  then have "run lv2 img (length us + 1) s = Some u" using t(1) by (simp only: run_add) simp
  then show ?thesis by simp
qed

lemma makeAbsoluteJump_eq:
  "makeAbsoluteJump v r = loadImmediate32 r v @ [encodeMtctr r, encodeBctr]"
  by (simp add: makeAbsoluteJump_def loadImmediate32_def Let_def)

lemma run_makeAbsoluteJump:
  assumes "code_at img (pc s) (makeAbsoluteJump v r)"
  shows "run lv2 img 5 s =
    Some (s\<lparr>gpr := (gpr s)(ucast r := scast v AND mask 48), ctr := scast v AND mask 48,
            pc := (scast v AND mask 48) AND NOT (mask 2)\<rparr>)"
proof -
  let ?us = "loadImmediate32 r v @ [encodeMtctr r]"
  let ?s4 = "s\<lparr>gpr := (gpr s)(ucast r := scast v AND mask 48), ctr := scast v AND mask 48, pc := pc s + 16\<rparr>"
  have "code_at img (pc s) (?us @ [encodeBctr])" using assms by (simp add: makeAbsoluteJump_eq)
  moreover have "exec_seq lv2 ?us s = Some ?s4"
    by (simp add: exec_seq_append exec_loadImmediate32 exec_simps next_pc_def)
  moreover have "exec lv2 encodeBctr ?s4 = Some (?s4\<lparr>pc := (scast v AND mask 48) AND NOT (mask 2)\<rparr>)"
    by (simp add: exec_bctr)
  ultimately have "run lv2 img (Suc (length ?us)) s =
      Some (?s4\<lparr>pc := (scast v AND mask 48) AND NOT (mask 2)\<rparr>)"
    by (rule run_seq_then)
  moreover have "Suc (length ?us) = 5" by (simp add: loadImmediate32_def Let_def)
  ultimately have "run lv2 img 5 s = Some (?s4\<lparr>pc := (scast v AND mask 48) AND NOT (mask 2)\<rparr>)"
    by (simp only:)
  then show ?thesis by simp
qed

end
