(* ===== verification/Syscalls.thy ===== *)
theory Syscalls
  imports PpcJump
begin

text \<open>
  \<open>ps3patch/syscalls.hpp\<close>: the instruction sequence that loads and starts a module through the
  LV2 system calls 480 and 481, with what it hands to the kernel when it runs.
\<close>

section \<open>The code\<close>

definition SYS_PRX_LOAD_MODULE :: u32 where "SYS_PRX_LOAD_MODULE = 480"
definition SYS_PRX_START_MODULE :: u32 where "SYS_PRX_START_MODULE = 481"
definition SYSCALL_SEQUENCE_INSTR_COUNT :: nat where "SYSCALL_SEQUENCE_INSTR_COUNT = 14"

definition REG_SYSCALL_NUMBER_DEFAULT :: u32 where "REG_SYSCALL_NUMBER_DEFAULT = 11"
definition REG_ARG0 :: u32 where "REG_ARG0 = 3"
definition REG_ARG1 :: u32 where "REG_ARG1 = 4"
definition REG_ARG2 :: u32 where "REG_ARG2 = 5"
definition REG_ARG3 :: u32 where "REG_ARG3 = 6"
definition REG_ARG4 :: u32 where "REG_ARG4 = 7"
definition REG_ARG5 :: u32 where "REG_ARG5 = 8"
definition REG_RETURN :: u32 where "REG_RETURN = 3"

lemmas syscall_const_defs =
  SYS_PRX_LOAD_MODULE_def SYS_PRX_START_MODULE_def REG_SYSCALL_NUMBER_DEFAULT_def REG_ARG0_def
  REG_ARG1_def REG_ARG2_def REG_ARG3_def REG_ARG4_def REG_ARG5_def REG_RETURN_def

definition encodeSc :: instruction where
  "encodeSc = push_bit 26 17 OR push_bit 5 0 OR push_bit 1 1"

definition makeSyscallTrap :: "u32 \<Rightarrow> u32 \<Rightarrow> instruction list" where
  "makeSyscallTrap syscallNumber syscallNumberReg =
     [encodeLi syscallNumberReg (ucast syscallNumber), encodeSc]"

definition makeLoadModuleCall :: "u32 \<Rightarrow> instruction list" where
  "makeLoadModuleCall pathAddress =
     loadImmediate32 REG_ARG0 pathAddress @ [encodeLi REG_ARG1 0] @ [encodeLi REG_ARG2 0] @
     makeSyscallTrap SYS_PRX_LOAD_MODULE REG_SYSCALL_NUMBER_DEFAULT"

definition makeStartModuleCall :: "instruction list" where
  "makeStartModuleCall =
     [encodeLi REG_ARG1 0, encodeLi REG_ARG2 0, encodeLi REG_ARG3 0, encodeLi REG_ARG4 0,
      encodeLi REG_ARG5 0] @
     makeSyscallTrap SYS_PRX_START_MODULE REG_SYSCALL_NUMBER_DEFAULT"

definition makeLoadAndStartModule :: "u32 \<Rightarrow> instruction list" where
  "makeLoadAndStartModule pathAddress = makeLoadModuleCall pathAddress @ makeStartModuleCall"

section \<open>What runs\<close>

lemma length_loadImmediate32 [simp]: "length (loadImmediate32 r v) = 3"
  by (simp add: loadImmediate32_def Let_def)

lemma length_makeLoadAndStartModule [simp]:
  "length (makeLoadAndStartModule p) = SYSCALL_SEQUENCE_INSTR_COUNT"
  by (simp add: makeLoadAndStartModule_def makeLoadModuleCall_def makeStartModuleCall_def
      makeSyscallTrap_def SYSCALL_SEQUENCE_INSTR_COUNT_def)

lemma exec_sc [exec_simps]: "exec lv2 encodeSc s = Some (lv2 (next_pc s))"
  by (simp add: exec_def encodeSc_def decode_op_def lev_of_def)

text \<open>
  The machine state the kernel is entered with: the syscall number in r11, the arguments from r3
  on, the program counter past the \<open>sc\<close>.
\<close>

definition load_call :: "u64 \<Rightarrow> cpu \<Rightarrow> cpu" where
  "load_call path s =
     s\<lparr>gpr := (gpr s)(3 := path, 4 := 0, 5 := 0, 11 := 480), pc := pc s + 28\<rparr>"

definition start_call :: "cpu \<Rightarrow> cpu" where
  "start_call s =
     s\<lparr>gpr := (gpr s)(4 := 0, 5 := 0, 6 := 0, 7 := 0, 8 := 0, 11 := 481), pc := pc s + 28\<rparr>"

text \<open>The kernel returns to the instruction after the \<open>sc\<close>.\<close>

definition lv2_returns :: "(cpu \<Rightarrow> cpu) \<Rightarrow> bool" where
  "lv2_returns lv2 \<longleftrightarrow> (\<forall>s. pc (lv2 s) = pc s)"

lemma exec_makeLoadModuleCall:
  assumes "lv2_returns lv2"
  shows "exec_seq lv2 (makeLoadModuleCall p) s = Some (lv2 (load_call (scast p AND mask 48) s))"
  using assms
  by (simp add: makeLoadModuleCall_def makeSyscallTrap_def syscall_const_defs exec_seq_append
      exec_loadImmediate32 exec_simps next_pc_def set_gpr_def load_call_def lv2_returns_def add.commute [of 28])

lemma exec_makeStartModuleCall:
  assumes "lv2_returns lv2"
  shows "exec_seq lv2 makeStartModuleCall s = Some (lv2 (start_call s))"
  using assms
  by (simp add: makeStartModuleCall_def makeSyscallTrap_def syscall_const_defs
      exec_simps next_pc_def set_gpr_def start_call_def lv2_returns_def add.commute [of 28])

lemma exec_makeLoadAndStartModule:
  assumes "lv2_returns lv2"
  shows "exec_seq lv2 (makeLoadAndStartModule p) s =
    Some (lv2 (start_call (lv2 (load_call (scast p AND mask 48) s))))"
  by (simp add: makeLoadAndStartModule_def exec_seq_append exec_makeLoadModuleCall [OF assms]
      exec_makeStartModuleCall [OF assms])

end
