(* ===== verification/PpcProperties.thy ===== *)
theory PpcProperties
  imports Syscalls
begin

text \<open>
  The properties of the PowerPC library (\<open>ppc\<close>): the encoders, the classifier and the relocation
  against the instruction set of \<open>PpcMachine\<close>.
\<close>

text \<open>
  C17. A relocated relative branch behaves at its new address as the original did at the old one:
  same target when taken, same condition, same counter; the instruction after itself when not taken
  and in the link register. (For a target inside the 32-bit address space.)
\<close>

theorem relocated_branch_runs:
  assumes "relocateBranch (classify w) originalAddr newAddr = Some w'"
    and "0 \<le> uint originalAddr + sint (displacement (classify w))"
    and "uint originalAddr + sint (displacement (classify w)) < 2 ^ 32"
    and "exec lv2 w (s\<lparr>pc := ucast originalAddr\<rparr>) = Some t"
  shows "exec lv2 w' (s\<lparr>pc := ucast newAddr\<rparr>) =
    Some (t\<lparr>pc := (if branch_taken (decode_op w) s then pc t else ucast newAddr + 4),
            lr := (if link (classify w) then ucast newAddr + 4 else lr t)\<rparr>)"
  using assms by (rule relocated_exec)

lemma ex_branch_op: "decode_op 0x48000010 = Branch 16 False False"
  by (simp add: decode_op_def Let_def mask_eq_exp_minus_1)

lemma ex_branch: "classify 0x48000010 = default_branch\<lparr>kind := DirectRelative, displacement := 16\<rparr>"
  by (simp add: classify_decode ex_branch_op as_branch_def default_branch_def)

lemma ex_branch_moved:
  "relocateBranch (classify 0x48000010) 0x10008 0x20008 = Some 0x4BFF0010"
  by (simp add: relocateBranch_eq ex_branch new_distance_def distance_fits_def default_branch_def Let_def
      take_bit_eq_mask mask_eq_exp_minus_1)

theorem relocated_branch_runs_witness:
  "\<exists>s. exec (\<lambda>s. s) 0x4BFF0010 (s\<lparr>pc := 0x20008\<rparr>) = Some (s\<lparr>pc := 0x10018\<rparr>)"
proof -
  define s :: cpu where "s = \<lparr>gpr = (\<lambda>_. 0), lr = 0, ctr = 0, cr = 0, pc = 0, mem = (\<lambda>_. 0)\<rparr>"
  have "exec (\<lambda>s. s) 0x48000010 (s\<lparr>pc := ucast (0x10008 :: u32)\<rparr>) = Some (s\<lparr>pc := 0x10018\<rparr>)"
    by (simp add: exec_def ex_branch_op branch_to_def s_def)
  from relocated_branch_runs [OF ex_branch_moved _ _ this]
  have "exec (\<lambda>s. s) 0x4BFF0010 (s\<lparr>pc := 0x20008\<rparr>) = Some (s\<lparr>pc := 0x10018\<rparr>)"
    by (simp add: ex_branch ex_branch_op branch_taken_def default_branch_def s_def)
  then show ?thesis by blast
qed

text \<open>
  C18. Relocation refuses exactly what it must: a word that is not a relative branch, or one whose
  corrected displacement is not a multiple of four or does not fit the field of its form.
\<close>

theorem relocation_domain:
  "relocateBranch b originalAddr newAddr = None \<longleftrightarrow>
     kind b \<noteq> DirectRelative \<or> \<not> distance_fits b (new_distance b originalAddr newAddr)"
  by (simp add: relocateBranch_eq Let_def)

theorem relocation_domain_witness:
  "relocateBranch (default_branch\<lparr>kind := DirectRelative, displacement := 0\<rparr>) 0x10000000 0 = None"
  using relocation_domain [of "default_branch\<lparr>kind := DirectRelative, displacement := 0\<rparr>" "0x10000000" 0]
  by (simp add: distance_fits_def new_distance_def default_branch_def)

text \<open>
  C19. The classifier agrees with the instruction set on all \<open>2 ^ 32\<close> words: it returns a branch of
  the right kind, condition, link bit and sign-extended displacement or target exactly when the word
  decodes to that branch.
\<close>

theorem classify_is_isa: "classify w = as_branch (decode_op w)"
  by (rule classify_decode)

text \<open>
  C32. The encoders without a range check produce, for every operand, the word of the instruction they
  are named after, with these operands (the system call with level 0), except for \<open>rldicl\<close> and
  \<open>clrldi\<close>: there the processor reads the mask amount with its six bits rotated, the last one
  first. (The record form of \<open>rldicl\<close>, which nothing uses, is not covered.)
\<close>

theorem encoders_decode:
  "decode_op (encodeAddi rd ra si) = Addi (ucast rd) (ucast ra) si \<and>
   decode_op (encodeLi rd si) = Addi (ucast rd) 0 si \<and>
   decode_op (encodeAddis rd ra si) = Addis (ucast rd) (ucast ra) si \<and>
   decode_op (encodeLis rd si) = Addis (ucast rd) 0 si \<and>
   decode_op (encodeOri ra rs ui) = Ori (ucast ra) (ucast rs) ui \<and>
   decode_op (encodeMtspr rs spr) = Mtspr (ucast spr) (ucast rs) \<and>
   decode_op (encodeMfspr rd spr) = Mfspr (ucast rd) (ucast spr) \<and>
   decode_op (encodeMtlr rs) = Mtspr 8 (ucast rs) \<and> decode_op (encodeMflr rd) = Mfspr (ucast rd) 8 \<and>
   decode_op (encodeMtctr rs) = Mtspr 9 (ucast rs) \<and> decode_op (encodeMfctr rd) = Mfspr (ucast rd) 9 \<and>
   decode_op (encodeMtctrSpr rs) = Mtspr 9 (ucast rs) \<and>
   decode_op encodeBctr = Bcctr 20 0 False \<and> decode_op encodeSc = Sc \<and>
   decode_op (encodeRldicl ra rs sh mb False) =
     Rldicl (ucast ra) (ucast rs) (ucast sh) (word_rotr 1 (ucast mb)) \<and>
   decode_op (encodeClrldi ra rs n) = Rldicl (ucast ra) (ucast rs) 0 (word_rotr 1 (ucast n))"
  by (simp add: decode_rldicl encodeClrldi_def mb_read_rotr encodeMtctrSpr_def decode_addi decode_addis decode_ori decode_mtspr decode_mfspr decode_bctr
      encodeLi_def encodeLis_def encodeMtlr_def encodeMflr_def encodeMtctr_def encodeMfctr_def
      SPR_LR_def SPR_CTR_def)
    (simp add: encodeSc_def decode_op_def lev_of_def)

text \<open>
  C33. The four DS-form encoders: a displacement that is a multiple of 4 in the signed 16-bit range is
  encoded exactly, any other is refused with the message for its defect.
\<close>

theorem ds_encoders:
  "if 4 dvd sint d \<and> - 32768 \<le> sint d \<and> sint d \<le> 32764 then
     (\<exists>w. encodeStd rs ra d = Inr w \<and> decode_op w = Std (ucast rs) (ucast ra) (ucast d)) \<and>
     (\<exists>w. encodeStdu rs ra d = Inr w \<and> decode_op w = Stdu (ucast rs) (ucast ra) (ucast d)) \<and>
     (\<exists>w. encodeLd rs ra d = Inr w \<and> decode_op w = Ld (ucast rs) (ucast ra) (ucast d)) \<and>
     (\<exists>w. encodeLdu rs ra d = Inr w \<and> decode_op w = Ldu (ucast rs) (ucast ra) (ucast d)) \<and>
     sint (ucast d :: i16) = sint d
   else
     (let e = if 4 dvd sint d then ''std/ld displacement out of range for the 14-bit DS field''
        else ''std/ld displacement must be a multiple of 4'' in
      encodeStd rs ra d = Inl e \<and> encodeStdu rs ra d = Inl e \<and>
      encodeLd rs ra d = Inl e \<and> encodeLdu rs ra d = Inl e)"
proof (cases "ds_ok d")
  case True
  have "signed_take_bit 15 (sint d) = sint d"
    using True by (simp add: ds_ok_def signed_take_bit_int_eq_self)
  moreover have "sint (ucast d :: i16) = signed_take_bit 15 (sint d)"
  proof (rule bit_eqI)
    fix n
    show "bit (sint (ucast d :: i16)) n = bit (signed_take_bit 15 (sint d)) n"
      by (cases n "15 :: nat" rule: linorder_cases)
        (simp_all add: bit_sint_iff bit_signed_take_bit_iff bit_ucast_iff min_def)
  qed
  ultimately have "sint (ucast d :: i16) = sint d" by simp
  then show ?thesis using True
    by (simp add: ds_ok_def [symmetric] encodeStd_def encodeStdu_def encodeLd_def encodeLdu_def
        encodeStdForm_eq decode_ds [simplified])
next
  case False
  then show ?thesis
    by (simp add: ds_ok_def [symmetric] encodeStd_def encodeStdu_def encodeLd_def encodeLdu_def
        encodeStdForm_eq)
qed


text \<open>
  C34. The direct branches: \<open>b\<close> and \<open>bc\<close> with a target that is a multiple of 4 and fits the field
  are encoded exactly and classify back to what was asked for; every other target is refused with
  the message for its defect.
\<close>

theorem branch_encoders:
  "(if 4 dvd sint t \<and> - (2 ^ 25) \<le> sint t \<and> sint t \<le> 2 ^ 25 - 4 then
      (\<exists>w. encodeBranch t aa lk = Inr w \<and> decode_op w = Branch (ucast t) aa lk \<and>
         link (classify w) = lk \<and> \<not> isConditionalForm (classify w) \<and>
         (if aa then kind (classify w) = DirectAbsolute \<and> absoluteTarget (classify w) = t
          else kind (classify w) = DirectRelative \<and> displacement (classify w) = t))
    else encodeBranch t aa lk = Inl (if 4 dvd sint t
      then ''branch target out of range for a direct b/ba instruction''
      else ''branch target must be 4-byte aligned'')) \<and>
   (if 4 dvd sint t \<and> - (2 ^ 15) \<le> sint t \<and> sint t \<le> 2 ^ 15 - 4 then
      (\<exists>w. encodeBranchConditional BO BI t aa lk = Inr w \<and>
         decode_op w = BranchCond (ucast BO) (ucast BI) (ucast t) aa lk \<and>
         link (classify w) = lk \<and> isConditionalForm (classify w) \<and>
         (if aa then kind (classify w) = DirectAbsolute \<and> absoluteTarget (classify w) = t
          else kind (classify w) = DirectRelative \<and> displacement (classify w) = t))
    else encodeBranchConditional BO BI t aa lk = Inl (if 4 dvd sint t
      then ''branch target out of range for a bc/bca instruction's 14-bit BD field''
      else ''branch target must be 4-byte aligned''))"
  using branch.encodes [of t aa lk] branch_cond.encodes [of t BO BI aa lk]
  by (intro conjI) (simp_all only: simp_thms)

text \<open>
  For a constant below \<open>2 ^ 31\<close>, the three instructions of \<open>loadImmediate32\<close> leave exactly the
  constant in the 64-bit register and change nothing else.
\<close>

theorem load_immediate_small:
  assumes "unat v < 2 ^ 31"
  shows "exec_seq lv2 (loadImmediate32 r v) s =
    Some (s\<lparr>gpr := (gpr s)(ucast r := ucast v), pc := pc s + 12\<rparr>)"
proof -
  have "\<not> bit v 31" using assms by (simp add: top_bit_iff)
  then show ?thesis by (simp add: exec_loadImmediate32 loaded_low)
qed

theorem load_immediate_small_witness:
  "\<exists>s. map_option (\<lambda>t. gpr t 3) (exec_seq (\<lambda>s. s) (loadImmediate32 3 0x00123456) s) = Some 0x00123456"
  using load_immediate_small [of "0x00123456" "\<lambda>s. s" 3] by simp

text \<open>
  For a constant from \<open>2 ^ 31\<close> on the third instruction does not clear the sign extension: the
  mask field \<open>encodeRldicl\<close> writes is read by the processor with its last bit first, so
  \<open>clrldi r, r, 32\<close> is encoded as \<open>clrldi r, r, 16\<close> and the register keeps sixteen one bits above
  the constant.
\<close>

theorem load_immediate_large:
  assumes "2 ^ 31 \<le> unat v"
  shows "decode_op (encodeClrldi r r 32) = Rldicl (ucast r) (ucast r) 0 16 \<and>
    exec_seq lv2 (loadImmediate32 r v) s =
      Some (s\<lparr>gpr := (gpr s)(ucast r := ucast v OR push_bit 32 (mask 16)), pc := pc s + 12\<rparr>)"
proof -
  have "bit v 31" using assms by (simp add: top_bit_iff)
  then show ?thesis
    by (simp add: exec_loadImmediate32 loaded_high encodeClrldi_def decode_rldicl mb_read_32)
qed

theorem load_immediate_large_witness:
  "\<exists>s. map_option (\<lambda>t. gpr t 3) (exec_seq (\<lambda>s. s) (loadImmediate32 3 0x80000000) s) = Some 0x0000FFFF80000000"
  using load_immediate_large [of "0x80000000" 3 "\<lambda>s. s"] by (simp add: mask_eq_exp_minus_1)

text \<open>
  C35. What \<open>loadImmediate32\<close> leaves in the 64-bit register, for every constant: exactly the constant
  below \<open>2 ^ 31\<close>; from there on the third instruction, which is to clear the sign extension, is read
  by the processor as \<open>clrldi r, r, 16\<close> and leaves sixteen one bits above the constant. Nothing else
  changes.
\<close>

theorem load_immediate:
  "decode_op (encodeClrldi r r 32) = Rldicl (ucast r) (ucast r) 0 16 \<and>
   exec_seq lv2 (loadImmediate32 r v) s =
     Some (s\<lparr>gpr := (gpr s)(ucast r :=
         if unat v < 2 ^ 31 then ucast v else ucast v OR push_bit 32 (mask 16)), pc := pc s + 12\<rparr>)"
  using load_immediate_small [of v lv2 r s] load_immediate_large [of "0xFFFFFFFF" r]
    load_immediate_large [of v r lv2 s] by (cases "unat v < 2 ^ 31") simp_all

end
