(* ===== verification/Toc.thy ===== *)
theory Toc
  imports ElfQueries
begin

text \<open>
  \<open>ps3patch/toc.hpp\<close>: the PS3 function descriptor at \<open>e_entry\<close> (a 4-byte code address and a 4-byte
  TOC pointer, big-endian) and the checks before it is trusted.  The lemmas at the end say when the
  descriptor resolves and to what, for any address space and file.
\<close>

section \<open>The code\<close>

type_synonym Ps3ElfFile = elf64_file

abbreviation Ps3 :: "(Elf64_Ehdr, Elf64_Phdr, Elf64_Shdr) layout" where
  "Ps3 \<equiv> Elf64 Big"

record EntryDescriptor =
  codeAddress :: u64
  tocValue :: u64
  envPointer :: u64

definition readBigEndian32 :: "bytes \<Rightarrow> nat \<Rightarrow> u32" where
  "readBigEndian32 bs offset =
     foldl (\<lambda>v i. push_bit 8 v OR ucast (bs ! (offset + i))) 0 [0..<4]"

definition validatePs3Executable :: "Ps3ElfFile \<Rightarrow> unit result" where
  "validatePs3Executable file =
     (if get16 Big (e_machine64 (header file)) \<noteq> EM_PPC64 then
        Inl (make_error Unsupported
          ''e_machine is not EM_PPC64 -- this does not look like a PS3/PPU executable'')
      else ok_unit)"

definition hasTypicalEFlags :: "Ps3ElfFile \<Rightarrow> bool" where
  "hasTypicalEFlags file = (get32 Big (e_flags64 (header file)) = 0)"

definition resolveEntryDescriptor :: "Ps3ElfFile \<Rightarrow> EntryDescriptor result" where
  "resolveEntryDescriptor file =
     (case validatePs3Executable file of Inl e \<Rightarrow> Inl e | Inr _ \<Rightarrow>
      let descriptorVaddr = entry Ps3 file in
      case vaddrToFileOffset Ps3 descriptorVaddr file of
        Inl e \<Rightarrow> Inl (make_error OffsetOutOfBounds
          (''e_entry (0x'' @ to_string (unat descriptorVaddr) @
           '') does not resolve to any file-backed segment -- cannot locate the '' @
           ''entry function descriptor: '' @ message e))
      | Inr descriptorOffset \<Rightarrow>
      case readAt descriptorOffset 8 file of
        Inl e \<Rightarrow> Inl (make_error TruncatedFile
          (''entry function descriptor at file offset 0x'' @ to_string (unat descriptorOffset) @
           '' is truncated: '' @ message e))
      | Inr bs \<Rightarrow>
      Inr \<lparr>codeAddress = ucast (readBigEndian32 bs 0), tocValue = ucast (readBigEndian32 bs 4),
           envPointer = 0\<rparr>)"

section \<open>Reading big-endian words\<close>


lemma be_word_snoc: "be_word (bs @ [b]) = (push_bit 8 (be_word bs) OR ucast b :: u32)"
  by (simp add: be_word_def)

lemma be_word_Nil: "be_word [] = (0 :: u32)"
  by (simp add: be_word_def)

lemma slice_4:
  "k + 4 \<le> length bs \<Longrightarrow> slice k 4 bs = [bs ! k, bs ! (k + 1), bs ! (k + 2), bs ! (k + 3)]"
  by (rule nth_equalityI)
    (auto simp: slice_def nth_Cons' numeral_eq_Suc less_Suc_eq)

lemma be_word_4:
  "be_word [a, b, c, d] =
     push_bit 8 (push_bit 8 (push_bit 8 (ucast a) OR ucast b) OR ucast c) OR (ucast d :: u32)"
  using be_word_snoc [of "[a, b, c]" d] be_word_snoc [of "[a, b]" c] be_word_snoc [of "[a]" b]
    be_word_snoc [of "[]" a]
  by (simp add: be_word_Nil)

lemma readBigEndian32_eq:
  assumes "k + 4 \<le> length bs"
  shows "readBigEndian32 bs k = be_word (slice k 4 bs)"
proof -
  have "[0..<4] = [0, 1, 2, 3 :: nat]" by (simp add: upt_rec)
  then show ?thesis using assms by (simp add: readBigEndian32_def slice_4 be_word_4)
qed

section \<open>Resolving the entry descriptor\<close>

lemma validatePs3_Inr [simp]:
  "validatePs3Executable f = Inr u \<longleftrightarrow> get16 Big (e_machine64 (header f)) = EM_PPC64"
  by (auto simp: validatePs3Executable_def ok_unit_def)

lemma resolve_Inr:
  assumes "length (raw f) < 2 ^ 64"
  shows "resolveEntryDescriptor f = Inr d \<longleftrightarrow>
    get16 Big (e_machine64 (header f)) = EM_PPC64 \<and>
    (\<exists>off. vaddrToFileOffset Ps3 (entry Ps3 f) f = Inr off \<and> unat off + 8 \<le> length (raw f) \<and>
       d = \<lparr>codeAddress = ucast (be_word (slice (unat off) 4 (raw f)) :: u32),
            tocValue = ucast (be_word (slice (unat off + 4) 4 (raw f)) :: u32), envPointer = 0\<rparr>)"
proof -
  have "readBigEndian32 (slice k 8 (raw f)) 0 = be_word (slice k 4 (raw f))"
    "readBigEndian32 (slice k 8 (raw f)) 4 = be_word (slice (k + 4) 4 (raw f))"
    if "k + 8 \<le> length (raw f)" for k
    using that by (simp_all add: readBigEndian32_eq slice_slice ac_simps)
  then show ?thesis using assms
    by (auto simp: resolveEntryDescriptor_def validatePs3Executable_def ok_unit_def readAt_eq Let_def
        split: sum.splits)
qed

end
