(* ===== verification/Trampoline.thy ===== *)
theory Trampoline
  imports Toc Syscalls
begin

text \<open>
  \<open>ps3patch/trampoline.hpp\<close>: the injected payload, the jump into it and the relocation of the
  instructions that jump displaces.  A function that can throw \<open>std::invalid_argument\<close> returns
  \<open>Inl\<close> of its text; one that returns a \<open>Result\<close> returns the result type of \<open>ElfErrors\<close>, so
  \<open>buildTrampoline\<close> has both.
\<close>

section \<open>The code\<close>

record TrampolineResult =
  blob :: bytes
  entryPatchBytes :: bytes
  trampolineAddr :: u32
  entryPatchAddr :: u32
  displacedInstructionCount :: nat

definition TRAMPOLINE_MAGIC :: bytes where
  "TRAMPOLINE_MAGIC = map of_char ''SP3PATCH''"

definition isAlreadyPatched :: "Ps3ElfFile \<Rightarrow> bool" where
  "isAlreadyPatched file =
     list_ex (\<lambda>ph.
       if p_type Ps3 ph \<noteq> PT_LOAD then False
       else if p_filesz Ps3 ph < vsize TRAMPOLINE_MAGIC then False
       else (case readAt (p_offset Ps3 ph) (vsize TRAMPOLINE_MAGIC) file of
           Inl _ \<Rightarrow> False
         | Inr bs \<Rightarrow> take (length TRAMPOLINE_MAGIC) bs = TRAMPOLINE_MAGIC))
       (segments file)"

definition FRAME_SIZE :: u32 where "FRAME_SIZE = 256"
definition SAVE_BASE :: i32 where "SAVE_BASE = 128"
definition PROLOGUE_INSTR_COUNT :: nat where "PROLOGUE_INSTR_COUNT = 16"
definition EPILOGUE_INSTR_COUNT :: nat where "EPILOGUE_INSTR_COUNT = 16"
definition TOC_FIXUP_INSTR_COUNT :: nat where "TOC_FIXUP_INSTR_COUNT = 3"

text \<open>The elements of a braced initializer list are evaluated in order; the first throw wins.\<close>

fun in_order :: "'a throws list \<Rightarrow> 'a list throws" where
  "in_order [] = Inr []"
| "in_order (t # ts) =
     (case t of Inl e \<Rightarrow> Inl e
      | Inr x \<Rightarrow> (case in_order ts of Inl e \<Rightarrow> Inl e | Inr xs \<Rightarrow> Inr (x # xs)))"

definition buildPrologue :: "instruction list throws" where
  "buildPrologue = in_order [
     encodeStdu 1 1 (- FRAME_SIZE),
     encodeStd 0 1 (SAVE_BASE + 0),
     Inr (encodeMflr 0), encodeStd 0 1 (SAVE_BASE + 8),
     Inr (encodeMfctr 0), encodeStd 0 1 (SAVE_BASE + 16),
     encodeStd 3 1 (SAVE_BASE + 24), encodeStd 4 1 (SAVE_BASE + 32),
     encodeStd 5 1 (SAVE_BASE + 40), encodeStd 6 1 (SAVE_BASE + 48),
     encodeStd 7 1 (SAVE_BASE + 56), encodeStd 8 1 (SAVE_BASE + 64),
     encodeStd 9 1 (SAVE_BASE + 72), encodeStd 10 1 (SAVE_BASE + 80),
     encodeStd 11 1 (SAVE_BASE + 88), encodeStd 12 1 (SAVE_BASE + 96)]"

definition buildEpilogue :: "instruction list throws" where
  "buildEpilogue = in_order [
     encodeLd 0 1 (SAVE_BASE + 8), Inr (encodeMtlr 0),
     encodeLd 0 1 (SAVE_BASE + 16), Inr (encodeMtctr 0),
     encodeLd 3 1 (SAVE_BASE + 24), encodeLd 4 1 (SAVE_BASE + 32),
     encodeLd 5 1 (SAVE_BASE + 40), encodeLd 6 1 (SAVE_BASE + 48),
     encodeLd 7 1 (SAVE_BASE + 56), encodeLd 8 1 (SAVE_BASE + 64),
     encodeLd 9 1 (SAVE_BASE + 72), encodeLd 10 1 (SAVE_BASE + 80),
     encodeLd 11 1 (SAVE_BASE + 88), encodeLd 12 1 (SAVE_BASE + 96),
     encodeLd 0 1 (SAVE_BASE + 0),
     Inr (encodeAddi 1 1 (ucast FRAME_SIZE))]"

text \<open>The difference of two 32-bit addresses is taken in 64 bits and cannot overflow.\<close>

definition makeMinimalJump :: "u32 \<Rightarrow> u32 \<Rightarrow> instruction list" where
  "makeMinimalJump fromAddr toAddr =
     (let disp = uint toAddr - uint fromAddr; longJump = makeAbsoluteJump toAddr 12 in
      if disp smod 4 = 0 \<and> disp \<ge> - 33554432 \<and> disp \<le> 33554428 then
        (case encodeBranch (word_of_int disp) False False of
           Inr w \<Rightarrow> [w]
         | Inl _ \<Rightarrow> longJump)
      else longJump)"

definition toBigEndianBytes :: "instruction list \<Rightarrow> bytes" where
  "toBigEndianBytes instrs =
     foldl (\<lambda>out instr. out @ [ucast (drop_bit 24 instr)] @ [ucast (drop_bit 16 instr)] @
       [ucast (drop_bit 8 instr)] @ [ucast instr]) [] instrs"

text \<open>The loop over \<open>original\<close>, from index \<open>i\<close> on.\<close>

fun relocateFrom :: "nat \<Rightarrow> u32 \<Rightarrow> u32 \<Rightarrow> instruction list \<Rightarrow> instruction list \<Rightarrow> instruction list result" where
  "relocateFrom i originalBaseAddr newBaseAddr out [] = Inr out"
| "relocateFrom i originalBaseAddr newBaseAddr out (instr # rest) =
     (let originalAddr = originalBaseAddr + of_nat (i * 4);
          newAddr = newBaseAddr + of_nat (i * 4);
          decoded = classify instr in
      if kind decoded = DirectRelative then
        (case relocateBranch decoded originalAddr newAddr of
           None \<Rightarrow> Inl (make_error RelocationFailed
             (''instruction '' @ to_string i @
              '' at the entrypoint is a relative branch whose displacement can't be corrected '' @
              ''after relocation -- refusing to patch rather than emit a broken jump''))
         | Some fixed \<Rightarrow> relocateFrom (Suc i) originalBaseAddr newBaseAddr (out @ [fixed]) rest)
      else relocateFrom (Suc i) originalBaseAddr newBaseAddr (out @ [instr]) rest)"

definition relocateDisplacedInstructions ::
  "instruction list \<Rightarrow> u32 \<Rightarrow> u32 \<Rightarrow> instruction list result" where
  "relocateDisplacedInstructions original originalBaseAddr newBaseAddr =
     relocateFrom 0 originalBaseAddr newBaseAddr [] original"

definition readInstructions :: "nat \<Rightarrow> bytes \<Rightarrow> instruction list" where
  "readInstructions n entryBytes =
     map (\<lambda>i. push_bit 24 (ucast (entryBytes ! (i * 4 + 0))) OR
              push_bit 16 (ucast (entryBytes ! (i * 4 + 1))) OR
              push_bit 8 (ucast (entryBytes ! (i * 4 + 2))) OR
              ucast (entryBytes ! (i * 4 + 3))) [0..<n]"

function pad_to_4 :: "bytes \<Rightarrow> bytes" where
  "pad_to_4 bs = (if length bs mod 4 \<noteq> 0 then pad_to_4 (bs @ [0]) else bs)"
  by pat_completeness auto

termination pad_to_4
proof (relation "measure (\<lambda>bs. 3 - (length bs + 3) mod 4)")
  fix bs :: bytes assume "length bs mod 4 \<noteq> 0"
  then show "(bs @ [0], bs) \<in> measure (\<lambda>bs. 3 - (length bs + 3) mod 4)"
    by simp presburger
qed simp

declare pad_to_4.simps [simp del]

definition kMaxPathLength :: nat where "kMaxPathLength = 1023"

definition fixedPrefixInstrCount :: nat where
  "fixedPrefixInstrCount =
     PROLOGUE_INSTR_COUNT + SYSCALL_SEQUENCE_INSTR_COUNT + EPILOGUE_INSTR_COUNT + TOC_FIXUP_INSTR_COUNT"

text \<open>
  Steps 3 to 9, once the displaced instructions are known: relocate, lay out, assemble, serialize.
\<close>

definition assembleTrampoline ::
  "EntryDescriptor \<Rightarrow> u32 \<Rightarrow> string \<Rightarrow> instruction list \<Rightarrow> instruction list \<Rightarrow>
   TrampolineResult result throws" where
  "assembleTrampoline ent trampAddr sprxPath jumpIn displacedInstructions =
     (let codeBaseAddr = trampAddr + of_nat (length TRAMPOLINE_MAGIC);
          displacedCount = length jumpIn;
          resumeAddr = codeBaseAddr + of_nat (fixedPrefixInstrCount * 4) in
      case relocateDisplacedInstructions displacedInstructions (ucast (codeAddress ent)) resumeAddr of
        Inl e \<Rightarrow> Inr (Inl e)
      | Inr relocated \<Rightarrow>
      let jumpBackAddr = resumeAddr + of_nat (displacedCount * 4);
          remainderAddr = ucast (codeAddress ent) + of_nat (displacedCount * 4);
          jumpBack = makeMinimalJump jumpBackAddr remainderAddr;
          totalCodeInstrCount = fixedPrefixInstrCount + displacedCount + length jumpBack;
          pathAddress = codeBaseAddr + of_nat (totalCodeInstrCount * 4);
          syscallInstrs = makeLoadAndStartModule pathAddress in
      if length syscallInstrs \<noteq> SYSCALL_SEQUENCE_INSTR_COUNT then
        Inr (Inl (make_error Unsupported
          ''internal inconsistency: syscall sequence length changed unexpectedly''))
      else case buildPrologue of Inl ex \<Rightarrow> Inl ex | Inr prologue \<Rightarrow>
      case buildEpilogue of Inl ex \<Rightarrow> Inl ex | Inr epilogue \<Rightarrow>
      let tocFixup = loadImmediate32 2 (ucast (tocValue ent));
          instrs = prologue @ syscallInstrs @ epilogue @ tocFixup @ relocated @ jumpBack in
      if length instrs \<noteq> totalCodeInstrCount then
        Inr (Inl (make_error Unsupported
          ''internal inconsistency: assembled code size does not match the planned layout''))
      else Inr (Inr \<lparr>
        blob = pad_to_4 (TRAMPOLINE_MAGIC @ toBigEndianBytes instrs @ map of_char sprxPath @ [0]),
        entryPatchBytes = toBigEndianBytes jumpIn,
        trampolineAddr = trampAddr,
        entryPatchAddr = ucast (codeAddress ent),
        displacedInstructionCount = displacedCount\<rparr>))"

definition buildTrampoline ::
  "Ps3ElfFile \<Rightarrow> EntryDescriptor \<Rightarrow> u32 \<Rightarrow> string \<Rightarrow> TrampolineResult result throws" where
  "buildTrampoline file ent trampAddr sprxPath =
     (if sprxPath = [] then
        Inr (Inl (make_error InvalidArgument ''sprxPath must not be empty''))
      else if length sprxPath > kMaxPathLength then
        Inr (Inl (make_error InvalidArgument
          (''sprxPath exceeds the maximum supported length ('' @ to_string kMaxPathLength @ '' bytes)'')))
      else if trampAddr mod 4 \<noteq> 0 then
        Inr (Inl (make_error InvalidArgument ''trampolineAddr must be 4-byte aligned''))
      else if codeAddress ent mod 4 \<noteq> 0 then
        Inr (Inl (make_error InvalidArgument ''entry.codeAddress must be 4-byte aligned''))
      else if isAlreadyPatched file then
        Inr (Inl (make_error AlreadyPatched
          (''this file already contains a ps3patch trampoline segment -- refusing to patch '' @
           ''an already-patched file (use the original, unmodified EBOOT.elf)'')))
      else
        let codeBaseAddr = trampAddr + of_nat (length TRAMPOLINE_MAGIC);
            jumpIn = makeMinimalJump (ucast (codeAddress ent)) codeBaseAddr;
            displacedCount = length jumpIn in
        case vaddrToFileOffset Ps3 (codeAddress ent) file of
          Inl e \<Rightarrow> Inr (Inl (make_error OffsetOutOfBounds
            (''entry.codeAddress does not resolve to a file-backed segment: '' @ message e)))
        | Inr entryOffset \<Rightarrow>
        case readAt entryOffset (of_nat (displacedCount * 4)) file of
          Inl e \<Rightarrow> Inr (Inl (make_error TruncatedFile
            (''not enough file data at the entrypoint to read '' @ to_string displacedCount @
             '' instruction(s): '' @ message e)))
        | Inr entryBytes \<Rightarrow>
          assembleTrampoline ent trampAddr sprxPath jumpIn (readInstructions displacedCount entryBytes))"

section \<open>The jumps\<close>

lemma makeMinimalJump_eq:
  "makeMinimalJump a b =
     (let d = uint b - uint a in
      if 4 dvd d \<and> - 33554432 \<le> d \<and> d \<le> 33554428
      then [push_bit 26 18 OR take_bit 26 (word_of_int d) OR push_bit 1 (of_bool False) OR of_bool False]
      else makeAbsoluteJump b 12)"
proof -
  let ?d = "uint b - uint a"
  have "- 33554432 \<le> ?d \<Longrightarrow> ?d \<le> 33554428 \<Longrightarrow> sint (word_of_int ?d :: i32) = ?d"
    by (intro sint_of_int32) (simp_all add: INT32_MIN_def INT32_MAX_def)
  then show ?thesis
    by (auto simp: makeMinimalJump_def Let_def smod4_iff encodeBranch_eq b_ok_def)
qed

lemma length_makeAbsoluteJump [simp]: "length (makeAbsoluteJump b r) = 5"
  by (simp add: makeAbsoluteJump_eq)

lemma length_makeMinimalJump: "length (makeMinimalJump a b) = 1 \<or> length (makeMinimalJump a b) = 5"
  by (simp add: makeMinimalJump_eq Let_def)

lemma readInstructions_length [simp]: "length (readInstructions n bs) = n"
  by (simp add: readInstructions_def)

end
