(* ===== verification/TrampolineExec.thy ===== *)
theory TrampolineExec
  imports Trampoline
begin

text \<open>
  Running the injected code on the machine of \<open>PpcMachine\<close>: the stack frame the prologue builds,
  the registers the epilogue restores from it, and the jumps.
\<close>

section \<open>Stack loads and stores\<close>

definition std_word :: "u32 \<Rightarrow> u32 \<Rightarrow> i32 \<Rightarrow> u32" where
  "std_word rs ra d = ppc_word 62 rs ra (d OR take_bit 2 0)"
definition stdu_word :: "u32 \<Rightarrow> u32 \<Rightarrow> i32 \<Rightarrow> u32" where
  "stdu_word rs ra d = ppc_word 62 rs ra (d OR take_bit 2 1)"
definition ld_word :: "u32 \<Rightarrow> u32 \<Rightarrow> i32 \<Rightarrow> u32" where
  "ld_word rt ra d = ppc_word 58 rt ra (d OR take_bit 2 0)"

lemma encode_ds_words:
  "ds_ok d \<Longrightarrow> encodeStd rs ra d = Inr (std_word rs ra d)"
  "ds_ok d \<Longrightarrow> encodeStdu rs ra d = Inr (stdu_word rs ra d)"
  "ds_ok d \<Longrightarrow> encodeLd rs ra d = Inr (ld_word rs ra d)"
  by (simp_all only: encodeStd_def encodeStdu_def encodeLd_def encodeStdForm_eq std_word_def
      stdu_word_def ld_word_def if_True)

lemma ds_scast: "ds_ok d \<Longrightarrow> (scast (ucast d :: i16) :: u64) = scast d"
  by (rule scast_branch_field) (simp add: ds_ok_def bc_ok_def)

lemma exec_ds_words [exec_simps]:
  "ds_ok d \<Longrightarrow> exec lv2 (std_word rs ra d) s =
     Some (next_pc (s\<lparr>mem := write64 (mem s) (base_of s (ucast ra) + scast d) (gpr s (ucast rs))\<rparr>))"
  "ds_ok d \<Longrightarrow> exec lv2 (ld_word rs ra d) s =
     Some (next_pc (set_gpr (ucast rs) (read64 (mem s) (base_of s (ucast ra) + scast d)) s))"
  "ds_ok d \<Longrightarrow> (ucast ra :: reg) \<noteq> 0 \<Longrightarrow> exec lv2 (stdu_word rs ra d) s =
     Some (next_pc (set_gpr (ucast ra) (gpr s (ucast ra) + scast d)
       (s\<lparr>mem := write64 (mem s) (gpr s (ucast ra) + scast d) (gpr s (ucast rs))\<rparr>)))"
  by (simp_all only: exec_def std_word_def ld_word_def stdu_word_def decode_ds exec_op.simps ds_scast
      if_False Let_def)

section \<open>The frame\<close>

text \<open>What the prologue saves, by offset from the new stack pointer.\<close>

definition save_slots :: "cpu \<Rightarrow> (u64 \<times> u64) list" where
  "save_slots s =
     [(128, gpr s 0), (136, lr s), (144, ctr s), (152, gpr s 3), (160, gpr s 4), (168, gpr s 5),
      (176, gpr s 6), (184, gpr s 7), (192, gpr s 8), (200, gpr s 9), (208, gpr s 10),
      (216, gpr s 11), (224, gpr s 12)]"

definition frame_holds :: "cpu \<Rightarrow> (u64 \<Rightarrow> u8) \<Rightarrow> u64 \<Rightarrow> bool" where
  "frame_holds s m fp \<longleftrightarrow> (\<forall>(d, v) \<in> set (save_slots s). read64 m (fp + d) = v)"

definition pushed :: "cpu \<Rightarrow> (u64 \<Rightarrow> u8)" where
  "pushed s = foldl (\<lambda>m (d, v). write64 m (gpr s 1 - 256 + d) v)
     (write64 (mem s) (gpr s 1 - 256) (gpr s 1)) (save_slots s)"

lemma ds_ok_offsets:
  "ds_ok (- 256)" "ds_ok 128" "ds_ok 136" "ds_ok 144" "ds_ok 152" "ds_ok 160" "ds_ok 168" "ds_ok 176"
  "ds_ok 184" "ds_ok 192" "ds_ok 200" "ds_ok 208" "ds_ok 216" "ds_ok 224"
  by (simp_all add: ds_ok_def)

definition prologue_words :: "u32 list" where
  "prologue_words =
     [stdu_word 1 1 (- 256), std_word 0 1 128, encodeMflr 0, std_word 0 1 136, encodeMfctr 0,
      std_word 0 1 144, std_word 3 1 152, std_word 4 1 160, std_word 5 1 168, std_word 6 1 176,
      std_word 7 1 184, std_word 8 1 192, std_word 9 1 200, std_word 10 1 208, std_word 11 1 216,
      std_word 12 1 224]"

definition epilogue_words :: "u32 list" where
  "epilogue_words =
     [ld_word 0 1 136, encodeMtlr 0, ld_word 0 1 144, encodeMtctr 0, ld_word 3 1 152,
      ld_word 4 1 160, ld_word 5 1 168, ld_word 6 1 176, ld_word 7 1 184, ld_word 8 1 192,
      ld_word 9 1 200, ld_word 10 1 208, ld_word 11 1 216, ld_word 12 1 224, ld_word 0 1 128,
      encodeAddi 1 1 256]"

lemma buildPrologue_eq: "buildPrologue = Inr prologue_words"
  by (simp add: buildPrologue_def FRAME_SIZE_def SAVE_BASE_def encode_ds_words ds_ok_offsets
      prologue_words_def)

lemma buildEpilogue_eq: "buildEpilogue = Inr epilogue_words"
  by (simp add: buildEpilogue_def FRAME_SIZE_def SAVE_BASE_def encode_ds_words ds_ok_offsets
      epilogue_words_def)

lemma exec_prologue:
  "exec_seq lv2 prologue_words s =
     Some (s\<lparr>gpr := (gpr s)(1 := gpr s 1 - 256, 0 := ctr s), mem := pushed s, pc := pc s + 64\<rparr>)"
  by (simp add: prologue_words_def exec_simps ds_ok_offsets next_pc_def set_gpr_def base_of_def
      pushed_def save_slots_def add.commute [of 64])

lemma exec_epilogue:
  assumes "frame_holds s (mem u) (gpr u 1)"
  shows "exec_seq lv2 epilogue_words u =
    Some (u\<lparr>gpr := (gpr u)(3 := gpr s 3, 4 := gpr s 4, 5 := gpr s 5, 6 := gpr s 6,
              7 := gpr s 7, 8 := gpr s 8, 9 := gpr s 9, 10 := gpr s 10, 11 := gpr s 11,
              12 := gpr s 12, 0 := gpr s 0, 1 := gpr u 1 + 256),
            lr := lr s, ctr := ctr s, pc := pc u + 64\<rparr>)"
  using assms
  by (simp add: epilogue_words_def exec_simps ds_ok_offsets next_pc_def set_gpr_def base_of_def
      frame_holds_def save_slots_def add.commute [of 64] add.commute [of 256])


text \<open>Writing a list of slots, each at its own offset from \<open>fp\<close>.\<close>

definition write_slots :: "u64 \<Rightarrow> (u64 \<times> u64) list \<Rightarrow> (u64 \<Rightarrow> u8) \<Rightarrow> (u64 \<Rightarrow> u8)" where
  "write_slots fp slots m = foldl (\<lambda>m (d, v). write64 m (fp + d) v) m slots"

definition slots_disjoint :: "u64 list \<Rightarrow> bool" where
  "slots_disjoint ds \<longleftrightarrow> distinct ds \<and> (\<forall>c\<in>set ds. \<forall>d\<in>set ds. c \<noteq> d \<longrightarrow> 8 \<le> unat (c - d))"

lemma write_slots_apart:
  "(\<And>d v. (d, v) \<in> set slots \<Longrightarrow> 8 \<le> unat (c - d) \<and> 8 \<le> unat (d - c)) \<Longrightarrow>
   read64 (write_slots fp slots m) (fp + c) = read64 m (fp + c)"
proof (induction slots arbitrary: m)
  case Nil
  then show ?case by (simp add: write_slots_def)
next
  case (Cons p slots)
  obtain d v where p: "p = (d, v)" by (cases p)
  then have "8 \<le> unat (fp + c - (fp + d))" "8 \<le> unat (fp + d - (fp + c))"
    using Cons.prems [of d v] by simp_all
  then have "read64 (write64 m (fp + d) v) (fp + c) = read64 m (fp + c)" by (rule read_write_apart)
  moreover have "read64 (write_slots fp slots (write64 m (fp + d) v)) (fp + c) =
      read64 (write64 m (fp + d) v) (fp + c)"
    using Cons.prems by (intro Cons.IH) (meson list.set_intros(2))
  ultimately show ?case by (simp add: write_slots_def p)
qed

lemma write_slots_read:
  "slots_disjoint (map fst slots) \<Longrightarrow> (d, v) \<in> set slots \<Longrightarrow>
   read64 (write_slots fp slots m) (fp + d) = v"
proof (induction slots arbitrary: m)
  case Nil
  then show ?case by simp
next
  case (Cons p slots)
  obtain c w where p: "p = (c, w)" by (cases p)
  have rest: "slots_disjoint (map fst slots)" using Cons.prems(1) by (simp add: slots_disjoint_def)
  have step: "write_slots fp (p # slots) m = write_slots fp slots (write64 m (fp + c) w)"
    by (simp add: write_slots_def p)
  show ?case
  proof (cases "(d, v) \<in> set slots")
    case True
    then show ?thesis using Cons.IH [OF rest True] by (simp only: step)
  next
    case False
    then have here: "d = c" "v = w" using Cons.prems(2) p by simp_all
    have "8 \<le> unat (c - e) \<and> 8 \<le> unat (e - c)" if "(e, x) \<in> set slots" for e x
    proof -
      have "e \<in> set (map fst slots)" using that by force
      then show ?thesis using Cons.prems(1) p by (auto simp: slots_disjoint_def)
    qed
    then have "read64 (write_slots fp slots (write64 m (fp + c) w)) (fp + c) =
        read64 (write64 m (fp + c) w) (fp + c)"
      by (rule write_slots_apart)
    then show ?thesis by (simp only: step here read_write_same)
  qed
qed

lemma write_slots_outside:
  "(\<And>d v. (d, v) \<in> set slots \<Longrightarrow> 8 \<le> unat (x - (fp + d))) \<Longrightarrow> write_slots fp slots m x = m x"
proof (induction slots arbitrary: m)
  case (Cons p slots)
  obtain d v where p: "p = (d, v)" by (cases p)
  have "write_slots fp slots (write64 m (fp + d) v) x = write64 m (fp + d) v x"
    using Cons.prems by (intro Cons.IH) (meson list.set_intros(2))
  then show ?case using Cons.prems [of d v] by (simp add: p write_slots_def write64_outside)
qed (simp add: write_slots_def)


section \<open>The frame survives, the registers come back\<close>

lemma pushed_slots:
  "pushed s = write_slots (gpr s 1 - 256) (save_slots s) (write64 (mem s) (gpr s 1 - 256) (gpr s 1))"
  by (simp add: pushed_def write_slots_def)

lemma save_slots_disjoint: "slots_disjoint (map fst (save_slots s))"
  by (simp add: slots_disjoint_def save_slots_def)

lemma frame_holds_pushed: "frame_holds s (pushed s) (gpr s 1 - 256)"
  unfolding frame_holds_def pushed_slots
  using write_slots_read [OF save_slots_disjoint] by fast

lemma save_slots_offsets: "(d, v) \<in> set (save_slots s) \<Longrightarrow> 128 \<le> unat d \<and> unat d \<le> 224"
  by (auto simp: save_slots_def)

lemma back_chain: "read64 (pushed s) (gpr s 1 - 256) = gpr s 1"
proof -
  have "8 \<le> unat (0 - d) \<and> 8 \<le> unat (d - 0)" if "(d, v) \<in> set (save_slots s)" for d v
    using that by (auto simp: save_slots_def)
  from write_slots_apart [of "save_slots s" 0 "gpr s 1 - 256", OF this]
  show ?thesis by (simp add: pushed_slots read_write_same)
qed

lemma pushed_outside:
  assumes "256 \<le> unat (x - (gpr s 1 - 256))"
  shows "pushed s x = mem s x"
proof -
  let ?fp = "gpr s 1 - 256"
  have "8 \<le> unat (x - (?fp + d))" if "(d, v) \<in> set (save_slots s)" for d v
  proof -
    have d: "unat d \<le> 224" using save_slots_offsets that by blast
    then have "unat (x - ?fp - d) = unat (x - ?fp) - unat d"
      using assms by (intro unat_sub) (simp add: word_le_nat_alt)
    then have "8 \<le> unat (x - ?fp - d)" using d assms by linarith
    then show ?thesis by (simp only: diff_diff_eq)
  qed
  then show ?thesis unfolding pushed_slots using assms
    by (subst write_slots_outside) (auto simp: write64_outside)
qed

text \<open>
  What the calling convention asks of the kernel: it returns after the \<open>sc\<close>, keeps the stack
  pointer and the non-volatile registers, and leaves the caller's frame alone.
\<close>

definition lv2_abi :: "(cpu \<Rightarrow> cpu) \<Rightarrow> bool" where
  "lv2_abi lv2 \<longleftrightarrow> (\<forall>s. pc (lv2 s) = pc s \<and> gpr (lv2 s) 1 = gpr s 1 \<and>
     (\<forall>r. 13 \<le> r \<longrightarrow> gpr (lv2 s) r = gpr s r) \<and>
     (\<forall>x. unat (x - gpr s 1) < 256 \<longrightarrow> mem (lv2 s) x = mem s x))"

lemma frame_holds_cong:
  assumes "frame_holds s m fp" "\<And>x. unat (x - fp) < 256 \<Longrightarrow> m' x = m x"
  shows "frame_holds s m' fp"
proof -
  have "read64 m' (fp + d) = read64 m (fp + d)" if "(d, v) \<in> set (save_slots s)" for d v
  proof -
    have "m' (fp + d + of_nat i) = m (fp + d + of_nat i)" if i: "i < 8" for i
    proof (rule assms(2))
      have "unat d \<le> 224" using save_slots_offsets \<open>(d, v) \<in> set (save_slots s)\<close> by blast
      moreover have "unat (of_nat i :: u64) = i" using i by (simp add: unat_of_nat take_bit_nat_eq_self)
      ultimately have "unat (d + of_nat i) = unat d + i" using i by (subst unat_word_ariths) simp
      then show "unat (fp + d + of_nat i - fp) < 256" using \<open>unat d \<le> 224\<close> i by (simp add: add.assoc)
    qed
    then show ?thesis unfolding read64_def by (intro arg_cong [of _ _ be_word] map_cong) simp_all
  qed
  then show ?thesis using assms(1) by (fastforce simp: frame_holds_def)
qed


lemma low_registers:
  fixes r :: reg
  assumes "r < 13"
  shows "r \<in> {0, 1, 2, 3, 4, 5, 6, 7, 8, 9, 10, 11, 12}"
proof -
  have "unat r < 13" using assms by (simp add: word_less_nat_alt)
  then have "unat r \<in> {0, 1, 2, 3, 4, 5, 6, 7, 8, 9, 10, 11, 12}" by (simp only: insert_iff empty_iff) presburger
  then have "of_nat (unat r) \<in> (of_nat ` {0, 1, 2, 3, 4, 5, 6, 7, 8, 9, 10, 11, 12} :: reg set)"
    by (rule imageI)
  then show ?thesis by simp
qed

lemma high_registers: "13 \<le> (r :: reg) \<Longrightarrow> r \<notin> {0, 1, 2, 3, 4, 5, 6, 7, 8, 9, 10, 11, 12}"
  by (auto simp: word_le_nat_alt)

definition injected_words :: "u32 \<Rightarrow> u32 \<Rightarrow> u32 list" where
  "injected_words path toc =
     prologue_words @ makeLoadAndStartModule path @ epilogue_words @ loadImmediate32 2 toc"

text \<open>The state both kernel calls leave, from the state the trampoline is entered in.\<close>

definition after_prologue :: "cpu \<Rightarrow> cpu" where
  "after_prologue s =
     s\<lparr>gpr := (gpr s)(1 := gpr s 1 - 256, 0 := ctr s), mem := pushed s, pc := pc s + 64\<rparr>"

definition module_started :: "(cpu \<Rightarrow> cpu) \<Rightarrow> u32 \<Rightarrow> cpu \<Rightarrow> cpu" where
  "module_started lv2 path s =
     lv2 (start_call (lv2 (load_call (scast path AND mask 48) (after_prologue s))))"

lemma module_started_abi:
  assumes "lv2_abi lv2"
  defines "k \<equiv> \<lambda>path s. module_started lv2 path s"
  shows "pc (k path s) = pc s + 120" "gpr (k path s) 1 = gpr s 1 - 256"
    and "13 \<le> r \<Longrightarrow> gpr (k path s) r = gpr s r"
    and "frame_holds s (mem (k path s)) (gpr s 1 - 256)"
proof -
  have abi: "pc (lv2 u) = pc u" "gpr (lv2 u) 1 = gpr u 1" "13 \<le> r \<Longrightarrow> gpr (lv2 u) r = gpr u r"
    "unat (x - gpr u 1) < 256 \<Longrightarrow> mem (lv2 u) x = mem u x" for u x
    using assms(1) by (simp_all add: lv2_abi_def)
  show "pc (k path s) = pc s + 120" "gpr (k path s) 1 = gpr s 1 - 256"
    by (simp_all add: k_def module_started_def abi start_call_def load_call_def after_prologue_def)
  show "gpr (k path s) r = gpr s r" if "13 \<le> r"
    using high_registers [OF that]
    by (simp add: k_def module_started_def abi(3) [OF that] start_call_def load_call_def after_prologue_def)
  show "frame_holds s (mem (k path s)) (gpr s 1 - 256)"
  proof (rule frame_holds_cong [OF frame_holds_pushed])
    fix x assume "unat (x - (gpr s 1 - 256)) < 256"
    then show "mem (k path s) x = pushed s x"
      by (simp add: k_def module_started_def abi start_call_def load_call_def after_prologue_def)
  qed
qed

lemma restored_registers:
  assumes "lv2_abi lv2"
  shows "(gpr (module_started lv2 path s))(3 := gpr s 3, 4 := gpr s 4, 5 := gpr s 5, 6 := gpr s 6,
      7 := gpr s 7, 8 := gpr s 8, 9 := gpr s 9, 10 := gpr s 10, 11 := gpr s 11, 12 := gpr s 12,
      0 := gpr s 0, 1 := gpr s 1, 2 := v) = (gpr s)(2 := v)" (is "?f = ?g")
proof
  fix r
  show "?f r = ?g r"
  proof (cases "r < 13")
    case True
    then show ?thesis using low_registers [of r] by auto
  next
    case False
    then have r: "13 \<le> r" by simp
    from high_registers [OF this] show ?thesis using module_started_abi(3) [OF assms r] by simp
  qed
qed

lemma exec_injected:
  assumes "lv2_abi lv2"
  shows "exec_seq lv2 (injected_words path toc) s =
    Some ((module_started lv2 path s)
      \<lparr>gpr := (gpr s)(2 := scast toc AND mask 48), lr := lr s, ctr := ctr s, pc := pc s + 196\<rparr>)"
proof -
  let ?k = "module_started lv2 path s"
  note k = module_started_abi [OF assms, where path = path and s = s]
  have ret: "lv2_returns lv2" using assms by (simp add: lv2_abi_def lv2_returns_def)
  have "exec_seq lv2 epilogue_words ?k =
      Some (?k\<lparr>gpr := (gpr ?k)(3 := gpr s 3, 4 := gpr s 4, 5 := gpr s 5, 6 := gpr s 6,
              7 := gpr s 7, 8 := gpr s 8, 9 := gpr s 9, 10 := gpr s 10, 11 := gpr s 11,
              12 := gpr s 12, 0 := gpr s 0, 1 := gpr s 1),
            lr := lr s, ctr := ctr s, pc := pc s + 184\<rparr>)"
    using exec_epilogue [of s ?k lv2] k by simp
  moreover have "exec_seq lv2 (prologue_words @ makeLoadAndStartModule path) s = Some ?k"
    by (simp add: exec_seq_append exec_prologue exec_makeLoadAndStartModule [OF ret]
        module_started_def after_prologue_def)
  ultimately show ?thesis
    unfolding injected_words_def append_assoc [symmetric] exec_seq_append [of lv2 _ "epilogue_words"]
      exec_seq_append [of lv2 _ "loadImmediate32 2 toc"]
    by (simp add: exec_loadImmediate32 restored_registers [OF assms])
qed

end
