(* ===== verification/TrampolineLayout.thy ===== *)
theory TrampolineLayout
  imports TrampolineExec
begin

text \<open>
  The bytes \<open>buildTrampoline\<close> returns: the instruction serializer against its reader, the
  relocated block, the padding, when a trampoline is built and what it consists of.
\<close>

section \<open>Instructions as bytes\<close>

lemma toBigEndianBytes_eq: "toBigEndianBytes ws = concat (map (be_bytes 4) ws)"
proof -
  have word: "be_bytes 4 w =
      [ucast (drop_bit 24 w), ucast (drop_bit 16 w), ucast (drop_bit 8 w), ucast w]" for w :: u32
    by (simp add: be_bytes_def le_bytes_def upt_rec)
  have "foldl (\<lambda>out instr. out @ [ucast (drop_bit 24 instr)] @ [ucast (drop_bit 16 instr)] @
      [ucast (drop_bit 8 instr)] @ [ucast instr]) acc ws = acc @ concat (map (be_bytes 4) ws)" for acc
    by (induction ws arbitrary: acc) (simp_all add: word)
  then show ?thesis by (simp add: toBigEndianBytes_def)
qed

lemma length_toBigEndianBytes [simp]: "length (toBigEndianBytes ws) = 4 * length ws"
  by (simp add: toBigEndianBytes_eq) (induction ws; simp)

lemma read_instruction:
  assumes "i * 4 + 4 \<le> length bs"
  shows "push_bit 24 (ucast (bs ! (i * 4 + 0))) OR push_bit 16 (ucast (bs ! (i * 4 + 1))) OR
    push_bit 8 (ucast (bs ! (i * 4 + 2))) OR ucast (bs ! (i * 4 + 3)) =
    (be_word (slice (i * 4) 4 bs) :: u32)"
  using assms by (simp add: slice_4 be_word_4 or.assoc)

lemma readInstructions_eq:
  "n * 4 \<le> length bs \<Longrightarrow> readInstructions n bs = map (\<lambda>i. be_word (slice (i * 4) 4 bs)) [0..<n]"
  unfolding readInstructions_def by (intro map_cong [OF refl] read_instruction) auto

lemma slice_toBigEndianBytes:
  "i < length ws \<Longrightarrow> slice (i * 4) 4 (toBigEndianBytes ws @ rest) = be_bytes 4 (ws ! i)"
proof (induction ws arbitrary: i)
  case (Cons w ws)
  show ?case
  proof (cases i)
    case 0
    then show ?thesis by (simp add: toBigEndianBytes_eq slice_hit)
  next
    case (Suc j)
    then have "slice (i * 4) 4 (toBigEndianBytes (w # ws) @ rest) =
        slice (j * 4) 4 (toBigEndianBytes ws @ rest)"
      by (simp add: toBigEndianBytes_eq slice_skip)
    then show ?thesis using Cons Suc by simp
  qed
qed simp

lemma readInstructions_toBigEndianBytes:
  "readInstructions (length ws) (toBigEndianBytes ws @ rest) = ws"
proof -
  have "readInstructions (length ws) (toBigEndianBytes ws @ rest) = map (\<lambda>i. ws ! i) [0..<length ws]"
    by (subst readInstructions_eq) (auto simp: slice_toBigEndianBytes)
  then show ?thesis by (simp add: map_nth)
qed

section \<open>Padding\<close>

lemma mod_4_cases:
  fixes n :: nat
  obtains "n mod 4 = 0" | "n mod 4 = 1" | "n mod 4 = 2" | "n mod 4 = 3"
  using mod_less_divisor [of 4 n] by linarith

lemma pad_step: "n mod 4 \<noteq> 0 \<Longrightarrow> Suc ((4 - Suc n mod 4) mod 4) = (4 - n mod 4) mod 4" for n :: nat
  by (cases n rule: mod_4_cases) (simp_all add: mod_Suc)

lemma pad_sum: "(n + (4 - n mod 4) mod 4) mod 4 = 0" "(4 - n mod 4) mod 4 < 4" for n :: nat
proof -
  show "(4 - n mod 4) mod 4 < 4" by simp
  have "(n + k) mod 4 = (n mod 4 + k) mod 4" for k by (simp add: mod_add_left_eq)
  from this [of "(4 - n mod 4) mod 4"] show "(n + (4 - n mod 4) mod 4) mod 4 = 0"
    by (cases n rule: mod_4_cases) simp_all
qed

lemma pad_to_4_eq: "pad_to_4 bs = bs @ replicate ((4 - length bs mod 4) mod 4) 0"
proof (induction bs rule: pad_to_4.induct)
  case (1 bs)
  show ?case
  proof (cases "length bs mod 4 = 0")
    case True
    then show ?thesis by (subst pad_to_4.simps) simp
  next
    case False
    then have "Suc ((4 - length (bs @ [0]) mod 4) mod 4) = (4 - length bs mod 4) mod 4"
      using pad_step [OF False] by simp
    moreover have "pad_to_4 bs = pad_to_4 (bs @ [0])" using False by (subst pad_to_4.simps) simp
    ultimately show ?thesis using "1.IH" [OF False] by (simp flip: replicate_Suc)
  qed
qed

lemma length_pad_to_4: "length (pad_to_4 bs) mod 4 = 0" "length (pad_to_4 bs) < length bs + 4"
  using pad_sum [of "length bs"] by (simp_all add: pad_to_4_eq)

section \<open>The relocated block\<close>

definition relocated_at :: "u32 \<Rightarrow> u32 \<Rightarrow> instruction \<Rightarrow> instruction option" where
  "relocated_at oa na w =
     (if kind (classify w) = DirectRelative then relocateBranch (classify w) oa na else Some w)"

definition relocated_ix :: "u32 \<Rightarrow> u32 \<Rightarrow> nat \<Rightarrow> instruction \<Rightarrow> instruction option" where
  "relocated_ix ob nb k w = relocated_at (ob + of_nat (k * 4)) (nb + of_nat (k * 4)) w"

lemma relocateFrom_Cons:
  "relocateFrom i ob nb out (w # ws) =
     (case relocated_ix ob nb i w of
        None \<Rightarrow> Inl (make_error RelocationFailed
          (''instruction '' @ to_string i @
           '' at the entrypoint is a relative branch whose displacement can't be corrected '' @
           ''after relocation -- refusing to patch rather than emit a broken jump''))
      | Some v \<Rightarrow> relocateFrom (Suc i) ob nb (out @ [v]) ws)"
  by (simp add: relocated_ix_def relocated_at_def Let_def)

lemma relocateFrom_Inr:
  "relocateFrom i ob nb out ws = Inr r \<longleftrightarrow>
   (\<exists>vs. r = out @ vs \<and> length vs = length ws \<and>
      (\<forall>k<length ws. relocated_ix ob nb (i + k) (ws ! k) = Some (vs ! k)))"
proof (induction ws arbitrary: i out)
  case Nil
  then show ?case by auto
next
  case (Cons w ws)
  have split_first: "(\<forall>k<Suc n. P k) \<longleftrightarrow> P 0 \<and> (\<forall>k<n. P (Suc k))" for P :: "nat \<Rightarrow> bool" and n
    by (auto simp: less_Suc_eq_0_disj)
  have split_list: "(\<exists>us. length us = Suc n \<and> Q us) \<longleftrightarrow> (\<exists>v vs. length vs = n \<and> Q (v # vs))"
    for Q :: "instruction list \<Rightarrow> bool" and n
    by (auto simp: length_Suc_conv)
  have "relocateFrom i ob nb out (w # ws) = Inr r \<longleftrightarrow>
      (\<exists>v. relocated_ix ob nb i w = Some v \<and> relocateFrom (Suc i) ob nb (out @ [v]) ws = Inr r)"
    by (simp add: relocateFrom_Cons del: relocateFrom.simps split: option.split)
  also have "\<dots> \<longleftrightarrow> (\<exists>v vs. length vs = length ws \<and> r = out @ v # vs \<and> relocated_ix ob nb i w = Some v \<and>
      (\<forall>k<length ws. relocated_ix ob nb (i + Suc k) (ws ! k) = Some (vs ! k)))"
    unfolding Cons.IH by auto
  also have "\<dots> \<longleftrightarrow> (\<exists>us. length us = Suc (length ws) \<and> r = out @ us \<and>
      (\<forall>k<Suc (length ws). relocated_ix ob nb (i + k) ((w # ws) ! k) = Some (us ! k)))"
    unfolding split_list split_first by auto
  finally show ?case by auto
qed

lemma relocateFrom_Inl:
  "relocateFrom i ob nb out ws = Inl e \<Longrightarrow>
   \<exists>k<length ws. relocated_ix ob nb (i + k) (ws ! k) = None \<and>
     (\<forall>j<k. relocated_ix ob nb (i + j) (ws ! j) \<noteq> None) \<and> code e = RelocationFailed"
proof (induction ws arbitrary: i out)
  case (Cons w ws)
  show ?case
  proof (cases "relocated_ix ob nb i w")
    case None
    then show ?thesis using Cons.prems
      by (intro exI [of _ 0]) (auto simp: relocateFrom_Cons simp del: relocateFrom.simps)
  next
    case (Some v)
    then have "relocateFrom (Suc i) ob nb (out @ [v]) ws = Inl e" using Cons.prems
      by (simp add: relocateFrom_Cons del: relocateFrom.simps)
    then obtain k where "k < length ws" "relocated_ix ob nb (Suc i + k) (ws ! k) = None"
      "\<forall>j<k. relocated_ix ob nb (Suc i + j) (ws ! j) \<noteq> None" "code e = RelocationFailed"
      using Cons.IH by blast
    then show ?thesis using Some
      by (intro exI [of _ "Suc k"]) (auto simp: less_Suc_eq_0_disj)
  qed
qed simp

lemma relocateDisplaced_Inr:
  "relocateDisplacedInstructions ws ob nb = Inr vs \<longleftrightarrow>
   length vs = length ws \<and> (\<forall>k<length ws. relocated_ix ob nb k (ws ! k) = Some (vs ! k))"
  by (simp add: relocateDisplacedInstructions_def relocateFrom_Inr)

lemma relocateDisplaced_Inl:
  "relocateDisplacedInstructions ws ob nb = Inl e \<Longrightarrow>
   \<exists>k<length ws. relocated_ix ob nb k (ws ! k) = None \<and>
     (\<forall>j<k. relocated_ix ob nb j (ws ! j) \<noteq> None) \<and> code e = RelocationFailed"
  using relocateFrom_Inl [of 0] by (simp add: relocateDisplacedInstructions_def)


section \<open>The blob\<close>

lemma counts [simp]:
  "fixedPrefixInstrCount = 49" "length TRAMPOLINE_MAGIC = 8" "vsize TRAMPOLINE_MAGIC = 8"
  by (simp_all add: fixedPrefixInstrCount_def PROLOGUE_INSTR_COUNT_def EPILOGUE_INSTR_COUNT_def
      SYSCALL_SEQUENCE_INSTR_COUNT_def TOC_FIXUP_INSTR_COUNT_def TRAMPOLINE_MAGIC_def vsize_def)

lemma length_injected_words [simp]: "length (injected_words path toc) = 49"
  by (simp add: injected_words_def prologue_words_def epilogue_words_def SYSCALL_SEQUENCE_INSTR_COUNT_def)

text \<open>The addresses of the parts, and the instruction words between the marker and the path.\<close>

definition resume_addr :: "u32 \<Rightarrow> u32" where "resume_addr a = a + 8 + 196"

definition jump_back :: "EntryDescriptor \<Rightarrow> u32 \<Rightarrow> nat \<Rightarrow> instruction list" where
  "jump_back d a n = makeMinimalJump (resume_addr a + of_nat (n * 4)) (ucast (codeAddress d) + of_nat (n * 4))"

definition path_addr :: "EntryDescriptor \<Rightarrow> u32 \<Rightarrow> nat \<Rightarrow> u32" where
  "path_addr d a n = a + 8 + of_nat ((49 + n + length (jump_back d a n)) * 4)"

definition blob_words :: "EntryDescriptor \<Rightarrow> u32 \<Rightarrow> instruction list \<Rightarrow> instruction list" where
  "blob_words d a relocated =
     injected_words (path_addr d a (length relocated)) (ucast (tocValue d)) @ relocated @
     jump_back d a (length relocated)"

definition jump_in :: "EntryDescriptor \<Rightarrow> u32 \<Rightarrow> instruction list" where
  "jump_in d a = makeMinimalJump (ucast (codeAddress d)) (a + 8)"

definition trampoline_of :: "EntryDescriptor \<Rightarrow> u32 \<Rightarrow> string \<Rightarrow> instruction list \<Rightarrow> TrampolineResult" where
  "trampoline_of d a p relocated = \<lparr>
     blob = pad_to_4 (TRAMPOLINE_MAGIC @ toBigEndianBytes (blob_words d a relocated) @ map of_char p @ [0]),
     entryPatchBytes = toBigEndianBytes (jump_in d a), trampolineAddr = a,
     entryPatchAddr = ucast (codeAddress d), displacedInstructionCount = length (jump_in d a)\<rparr>"

lemma length_relocated: "relocateDisplacedInstructions ws ob nb = Inr vs \<Longrightarrow> length vs = length ws"
  by (simp add: relocateDisplaced_Inr)

lemma assembleTrampoline_eq:
  assumes "length ds = length (jump_in d a)"
  shows "assembleTrampoline d a p (jump_in d a) ds =
    Inr (result_bind (relocateDisplacedInstructions ds (ucast (codeAddress d)) (resume_addr a))
          (\<lambda>relocated. Inr (trampoline_of d a p relocated)))"
proof (cases "relocateDisplacedInstructions ds (ucast (codeAddress d)) (resume_addr a)")
  case (Inl e)
  then show ?thesis by (simp add: assembleTrampoline_def Let_def resume_addr_def)
next
  case (Inr vs)
  from length_relocated [OF this] assms have "length vs = length (jump_in d a)" by simp
  then show ?thesis using Inr
    by (simp add: assembleTrampoline_def Let_def resume_addr_def buildPrologue_eq buildEpilogue_eq
        trampoline_of_def blob_words_def injected_words_def jump_back_def path_addr_def
        prologue_words_def epilogue_words_def SYSCALL_SEQUENCE_INSTR_COUNT_def)
qed

lemma build_no_throw: "\<exists>r. buildTrampoline f d a p = Inr r"
  by (auto simp: buildTrampoline_def Let_def jump_in_def [symmetric] assembleTrampoline_eq
      split: sum.splits)

lemma length_jump_in: "length (jump_in d a) = 1 \<or> length (jump_in d a) = 5"
  unfolding jump_in_def by (rule length_makeMinimalJump)

lemma build_Inr:
  assumes "length (raw f) < 2 ^ 64"
  shows "buildTrampoline f d a p = Inr (Inr t) \<longleftrightarrow>
    p \<noteq> [] \<and> length p \<le> 1023 \<and> a mod 4 = 0 \<and> codeAddress d mod 4 = 0 \<and> \<not> isAlreadyPatched f \<and>
    (\<exists>off relocated. vaddrToFileOffset Ps3 (codeAddress d) f = Inr off \<and>
       unat off + length (jump_in d a) * 4 \<le> length (raw f) \<and>
       relocateDisplacedInstructions
         (readInstructions (length (jump_in d a)) (slice (unat off) (length (jump_in d a) * 4) (raw f)))
         (ucast (codeAddress d)) (resume_addr a) = Inr relocated \<and>
       t = trampoline_of d a p relocated)"
proof -
  have "unat (of_nat (length (jump_in d a) * 4) :: u64) = length (jump_in d a) * 4"
    using length_jump_in [of d a] by auto
  then show ?thesis using assms
    by (auto simp: buildTrampoline_def Let_def kMaxPathLength_def jump_in_def [symmetric]
        assembleTrampoline_eq readAt_eq not_less split: sum.splits if_splits)
qed

lemma blob_trampoline_of:
  "blob (trampoline_of d a p vs) =
     TRAMPOLINE_MAGIC @ toBigEndianBytes (blob_words d a vs) @ map of_char p @ [0] @
     replicate (length (blob (trampoline_of d a p vs)) - (9 + 4 * length (blob_words d a vs) + length p)) 0"
  by (simp add: trampoline_of_def pad_to_4_eq)

lemma blob_parts:
  fixes d :: EntryDescriptor and a :: u32 and p :: string and vs :: "instruction list"
  defines "b \<equiv> blob (trampoline_of d a p vs)" and "n \<equiv> length (blob_words d a vs)"
  shows "slice 0 8 b = TRAMPOLINE_MAGIC"
    and "readInstructions n (drop 8 b) = blob_words d a vs"
    and "slice (8 + 4 * n) (length p + 1) b = map of_char p @ [0]"
    and "length b mod 4 = 0" "9 + 4 * n + length p \<le> length b" "length b < 13 + 4 * n + length p"
proof -
  obtain z where b: "b = TRAMPOLINE_MAGIC @ toBigEndianBytes (blob_words d a vs) @ (map of_char p @ [0]) @ z"
    using blob_trampoline_of [of d a p vs] unfolding b_def by (metis append.assoc)
  show "slice 0 8 b = TRAMPOLINE_MAGIC" unfolding b by (simp add: slice_def)
  show "readInstructions n (drop 8 b) = blob_words d a vs"
    unfolding b n_def by (simp add: readInstructions_toBigEndianBytes)
  show "slice (8 + 4 * n) (length p + 1) b = map of_char p @ [0]"
    unfolding b n_def by (simp add: slice_def)
  show "9 + 4 * n + length p \<le> length b" unfolding b n_def by simp
  show "length b mod 4 = 0" "length b < 13 + 4 * n + length p"
    using length_pad_to_4 [of "TRAMPOLINE_MAGIC @ toBigEndianBytes (blob_words d a vs) @ map of_char p @ [0]"]
    unfolding b_def n_def trampoline_of_def by simp_all
qed

lemma length_blob_words:
  "length (blob_words d a vs) = 49 + length vs + length (jump_back d a (length vs))"
  by (simp add: blob_words_def)

lemma length_jump_back: "length (jump_back d a n) = 1 \<or> length (jump_back d a n) = 5"
  unfolding jump_back_def by (rule length_makeMinimalJump)

end
