(* ===== verification/PatchMain.thy ===== *)
theory PatchMain
  imports TrampolineLayout Info
begin

text \<open>
  \<open>ps3patch/src/main.cpp\<close>: the command line.  The file system is two arguments of the model,
  \<open>readable\<close> (the contents of a path that opens for reading) and \<open>writable\<close> (whether writing
  these bytes to a path succeeds); \<open>argv[0]\<close> is \<open>prog\<close> and the other arguments are \<open>args\<close>.
\<close>

section \<open>The code\<close>

record outcome =
  exit_code :: int
  out_text :: string
  err_text :: string
  written :: "(string \<times> bytes) option"

text \<open>
  \<open>Terminated\<close> is an exception that leaves \<open>main\<close>, \<open>Undefined\<close> a write outside a buffer.
\<close>

datatype run_result = Returned outcome | Terminated string | Undefined

type_synonym readable = "string \<Rightarrow> bytes option"
type_synonym writable = "string \<Rightarrow> bytes \<Rightarrow> bool"

text \<open>\<open>return 1\<close> after printing to \<open>stderr\<close>, with what \<open>stdout\<close> got before.\<close>

definition failed :: "string \<Rightarrow> string \<Rightarrow> run_result" where
  "failed so se = Returned \<lparr>exit_code = 1, out_text = so, err_text = se, written = None\<rparr>"

definition readFile :: "readable \<Rightarrow> string \<Rightarrow> bytes option" where
  "readFile readable path = readable path"

definition writeFile :: "writable \<Rightarrow> string \<Rightarrow> bytes \<Rightarrow> bool" where
  "writeFile writable path bs = writable path bs"

definition alignUp :: "u64 \<Rightarrow> u64 \<Rightarrow> u64" where
  "alignUp v align = (if align = 0 then v else ((v + align - 1) div align) * align)"

definition printUsage :: "string \<Rightarrow> string" where
  "printUsage argv0 =
     ''usage: '' @ argv0 @ '' <input EBOOT.elf> <output EBOOT.elf> <sprx path>'' @ newline @
     ''       '' @ argv0 @ '' --info <EBOOT.elf>'' @ newline @
     ''example: '' @ argv0 @ '' EBOOT.elf EBOOT.patched.elf /dev_hdd0/tmp/debug.sprx'' @ newline @
     ''         '' @ argv0 @ '' --info EBOOT.elf'' @ newline"

definition not_open :: "string \<Rightarrow> string" where
  "not_open inputPath = ''error: could not open '' @ [CHR 0x27] @ inputPath @ [CHR 0x27] @ '' for reading'' @ newline"

definition not_ps3 :: string where
  "not_ps3 = ''error: input is not a 64-bit big-endian ELF (PS3 executables always are) -- '' @
     ''this doesn't look like a PS3 EBOOT.elf'' @ newline"

definition main_info :: "readable \<Rightarrow> string \<Rightarrow> run_result" where
  "main_info readable inputPath =
     (case readFile readable inputPath of
        None \<Rightarrow> failed [] (not_open inputPath)
      | Some bs \<Rightarrow>
      case parseAny bs of
        Inl e \<Rightarrow> failed [] (''error: failed to parse ELF: '' @ message e @ newline)
      | Inr (AnyElf64BE file) \<Rightarrow>
          (case formatInfo file of
             Inl e \<Rightarrow> failed [] (''error: could not build info report: '' @ message e @ newline)
           | Inr report \<Rightarrow>
               Returned \<lparr>exit_code = 0, out_text = report, err_text = [], written = None\<rparr>)
      | Inr _ \<Rightarrow> failed [] not_ps3)"

definition highestEnd :: "Elf64_Phdr list \<Rightarrow> u64" where
  "highestEnd phs =
     foldl (\<lambda>acc ph.
       if p_type Ps3 ph \<noteq> PT_LOAD then acc
       else let end_addr = p_vaddr Ps3 ph + p_memsz Ps3 ph in
         if end_addr > acc then end_addr else acc) 0 phs"

text \<open>From \<open>addLoadSegment\<close> to the end of \<open>main\<close>.\<close>

definition apply_patch ::
  "writable \<Rightarrow> string \<Rightarrow> string \<Rightarrow> string \<Rightarrow> Ps3ElfFile \<Rightarrow> TrampolineResult \<Rightarrow> run_result" where
  "apply_patch writable outputPath sprxPath so file tramp =
     (case addLoadSegment Ps3 (ucast (trampolineAddr tramp)) (blob tramp) (PF_R OR PF_X) 0x10000 file of
        Inl e \<Rightarrow> failed so (''error: failed to add trampoline segment: '' @ message e @ newline)
      | Inr file \<Rightarrow>
      case vaddrToFileOffset Ps3 (ucast (entryPatchAddr tramp)) file of
        Inl e \<Rightarrow> failed so (''error: could not locate the entrypoint to patch: '' @ message e @ newline)
      | Inr off \<Rightarrow>
      case patchBytesAt off (entryPatchBytes tramp) file of
        Inl e \<Rightarrow> failed so (''error: failed to patch the entrypoint: '' @ message e @ newline)
      | Inr file \<Rightarrow>
      case serialize Ps3 file of
        None \<Rightarrow> Undefined
      | Some outBytes \<Rightarrow>
        if \<not> writeFile writable outputPath outBytes then
          Returned \<lparr>exit_code = 1, out_text = so,
            err_text = ''error: could not write output file '' @ [CHR 0x27] @ outputPath @ [CHR 0x27] @ newline,
            written = Some (outputPath, outBytes)\<rparr>
        else Returned \<lparr>exit_code = 0,
            out_text = so @ ''Wrote '' @ to_string (length outBytes) @ '' bytes to '' @ outputPath @ newline @
              ''Patched successfully. On boot, this EBOOT will load and start: '' @ sprxPath @ newline,
            err_text = [], written = Some (outputPath, outBytes)\<rparr>)"

definition main_patch :: "readable \<Rightarrow> writable \<Rightarrow> string \<Rightarrow> string \<Rightarrow> string \<Rightarrow> run_result" where
  "main_patch readable writable inputPath outputPath sprxPath =
     (case readFile readable inputPath of
        None \<Rightarrow> failed [] (not_open inputPath)
      | Some bs \<Rightarrow>
      let so = ''Read '' @ to_string (length bs) @ '' bytes from '' @ inputPath @ newline in
      case parseAny bs of
        Inl e \<Rightarrow> failed so (''error: failed to parse ELF: '' @ message e @ newline)
      | Inr (AnyElf64BE file) \<Rightarrow>
      (case resolveEntryDescriptor file of
        Inl e \<Rightarrow> failed so (''error: could not resolve the entry function descriptor: '' @ message e @ newline)
      | Inr ent \<Rightarrow>
      let so = so @ ''Resolved entrypoint: codeAddress=0x'' @ hex_digits (unat (codeAddress ent)) @
            '' tocValue=0x'' @ hex_digits (unat (tocValue ent)) @ newline in
      if isAlreadyPatched file then
        failed so (''error: '' @ [CHR 0x27] @ inputPath @ [CHR 0x27] @
          '' has already been patched by ps3patch. Refusing to patch it again -- '' @
          ''use the original, unmodified EBOOT.elf. (Run with --info to inspect this file first.)'' @ newline)
      else
      let trampAddr = ucast (alignUp (highestEnd (segments file)) 0x10000) :: u32;
          so = so @ ''Placing trampoline segment at vaddr=0x'' @ hex_digits (unat trampAddr) @ newline in
      case buildTrampoline file ent trampAddr sprxPath of
        Inl ex \<Rightarrow> Terminated ex
      | Inr (Inl e) \<Rightarrow> failed so (''error: failed to build trampoline: '' @ message e @ newline)
      | Inr (Inr tramp) \<Rightarrow>
      let so = so @ ''Trampoline blob: '' @ to_string (length (blob tramp)) @ '' bytes, displaced '' @
            to_string (displacedInstructionCount tramp) @ '' instruction(s) at the entrypoint'' @ newline in
      apply_patch writable outputPath sprxPath so file tramp)
      | Inr _ \<Rightarrow> failed so not_ps3)"

definition main :: "readable \<Rightarrow> writable \<Rightarrow> string \<Rightarrow> string list \<Rightarrow> run_result" where
  "main readable writable prog args =
     (case args of
        [a1, a2] \<Rightarrow> if a1 = ''--info'' then main_info readable a2 else failed [] (printUsage prog)
      | [a1, a2, a3] \<Rightarrow> main_patch readable writable a1 a2 a3
      | _ \<Rightarrow> failed [] (printUsage prog))"

end
