(* ===== verification/PatchLemmas.thy ===== *)
theory PatchLemmas
  imports PatchMain
begin

text \<open>
  What a run of \<open>main\<close> in patch mode does to the file: where the trampoline goes, the object after
  both mutations, the bytes written and what they parse to again.
\<close>

section \<open>Placement\<close>

definition placement :: "Ps3ElfFile \<Rightarrow> u32" where
  "placement f = ucast (alignUp (highestEnd (segments f)) 0x10000)"

lemma alignUp_unat:
  assumes "0 < al" "unat v + unat al \<le> 2 ^ 64"
  shows "unat (alignUp v al) = (unat v + unat al - 1) div unat al * unat al"
proof -
  have "0 < unat al" using assms(1) by (simp add: word_less_nat_alt)
  then have sum: "unat (v + al - 1) = unat v + unat al - 1"
  proof -
    have "unat (al - 1) = unat al - 1"
      using \<open>0 < unat al\<close> by (intro unat_minus_one) auto
    then have "unat (v + (al - 1)) = unat v + (unat al - 1)"
      using assms(2) \<open>0 < unat al\<close> by (subst unat_word_ariths) simp
    then show ?thesis using \<open>0 < unat al\<close> by (simp add: add_diff_eq)
  qed
  have "(unat v + unat al - 1) div unat al * unat al \<le> unat v + unat al - 1"
    by (rule div_times_less_eq_dividend)
  then have "(unat v + unat al - 1) div unat al * unat al < 2 ^ 64"
    using assms(2) \<open>0 < unat al\<close> by linarith
  moreover have "al \<noteq> 0" using assms(1) by auto
  then have "alignUp v al = (v + al - 1) div al * al" by (simp add: alignUp_def)
  then have "unat (alignUp v al) = (unat v + unat al - 1) div unat al * unat al mod 2 ^ 64"
    by (simp only: unat_mult_lem unat_div sum unat_word_ariths(2)) simp
  ultimately show ?thesis by simp
qed

lemma round_up_bounds:
  fixes n k :: nat
  assumes "0 < k"
  shows "n \<le> (n + k - 1) div k * k" "(n + k - 1) div k * k < n + k" "k dvd (n + k - 1) div k * k"
proof -
  have "(n + k - 1) div k * k = (n + k - 1) - (n + k - 1) mod k"
    by (simp add: minus_mod_eq_div_mult)
  moreover have "(n + k - 1) mod k < k" using assms by simp
  moreover have "(n + k - 1) mod k \<le> n + k - 1" by simp
  ultimately show "n \<le> (n + k - 1) div k * k" "(n + k - 1) div k * k < n + k" using assms by linarith+
qed simp

lemma highestEnd_upper:
  "ph \<in> set phs \<Longrightarrow> p_type Ps3 ph = PT_LOAD \<Longrightarrow> p_vaddr Ps3 ph + p_memsz Ps3 ph \<le> highestEnd phs"
proof -
  have mono: "acc \<le> foldl (\<lambda>acc ph. if p_type Ps3 ph \<noteq> PT_LOAD then acc
       else let end_addr = p_vaddr Ps3 ph + p_memsz Ps3 ph in
         if end_addr > acc then end_addr else acc) acc phs" for acc phs
  proof (induction phs arbitrary: acc)
    case (Cons ph phs)
    show ?case using Cons [of acc] Cons [of "p_vaddr Ps3 ph + p_memsz Ps3 ph"]
      by (auto simp: Let_def)
  qed simp
  have "ph \<in> set phs \<Longrightarrow> p_type Ps3 ph = PT_LOAD \<Longrightarrow> p_vaddr Ps3 ph + p_memsz Ps3 ph \<le>
     foldl (\<lambda>acc ph. if p_type Ps3 ph \<noteq> PT_LOAD then acc
       else let end_addr = p_vaddr Ps3 ph + p_memsz Ps3 ph in
         if end_addr > acc then end_addr else acc) acc phs" for acc
  proof (induction phs arbitrary: acc)
    case (Cons q phs)
    show ?case
    proof (cases "ph = q")
      case True
      then show ?thesis using Cons.prems mono [of "p_vaddr Ps3 q + p_memsz Ps3 q" phs] mono [of acc phs]
        by (auto simp: Let_def)
    next
      case False
      then show ?thesis using Cons by simp
    qed
  qed simp
  then show "ph \<in> set phs \<Longrightarrow> p_type Ps3 ph = PT_LOAD \<Longrightarrow> p_vaddr Ps3 ph + p_memsz Ps3 ph \<le> highestEnd phs"
    by (simp only: highestEnd_def)
qed

lemma placement_unat:
  assumes "unat (highestEnd (segments f)) + 0xFFFF < 2 ^ 32"
  shows "unat (highestEnd (segments f)) \<le> unat (placement f)" "0x10000 dvd unat (placement f)"
    and "unat (placement f) < unat (highestEnd (segments f)) + 0x10000"
proof -
  let ?n = "unat (highestEnd (segments f))"
  have up: "unat (alignUp (highestEnd (segments f)) 0x10000) = (?n + 0x10000 - 1) div 0x10000 * 0x10000"
    using assms by (subst alignUp_unat) simp_all
  note b = round_up_bounds [of "0x10000" ?n]
  have "unat (placement f) = unat (alignUp (highestEnd (segments f)) 0x10000)"
  proof -
    have "unat (alignUp (highestEnd (segments f)) 0x10000) < 2 ^ 32" unfolding up using b(2) assms by auto
    then show ?thesis unfolding placement_def
      by (simp add: unsigned_ucast_eq take_bit_nat_eq_self)
  qed
  then show "?n \<le> unat (placement f)" "0x10000 dvd unat (placement f)" "unat (placement f) < ?n + 0x10000"
    using b up by simp_all
qed


section \<open>The mutated file\<close>

text \<open>
  \<open>patching bs f d p t off\<close>: the input bytes parse to the PS3 file \<open>f\<close>, its entry descriptor is
  \<open>d\<close>, the trampoline for the path \<open>p\<close> is \<open>t\<close>, and the entry code lies at the file offset
  \<open>off\<close>.
\<close>

definition patching ::
  "bytes \<Rightarrow> Ps3ElfFile \<Rightarrow> EntryDescriptor \<Rightarrow> string \<Rightarrow> TrampolineResult \<Rightarrow> u64 \<Rightarrow> bool" where
  "patching bs f d p t off \<longleftrightarrow>
     length bs < 2 ^ 62 \<and> parse Ps3 bs = Inr f \<and> resolveEntryDescriptor f = Inr d \<and>
     buildTrampoline f d (placement f) p = Inr (Inr t) \<and>
     vaddrToFileOffset Ps3 (codeAddress d) f = Inr off"

definition new_segment :: "Ps3ElfFile \<Rightarrow> TrampolineResult \<Rightarrow> Elf64_Phdr" where
  "new_segment f t =
     make_phdr Ps3 PT_LOAD (PF_R OR PF_X) (vsize (raw f)) (ucast (trampolineAddr t))
       (ucast (trampolineAddr t)) (vsize (blob t)) (vsize (blob t)) 0x10000"

definition injected_file :: "Ps3ElfFile \<Rightarrow> TrampolineResult \<Rightarrow> u64 \<Rightarrow> Ps3ElfFile" where
  "injected_file f t off =
     f\<lparr>header := set_e_phoff Ps3 (vsize (raw f @ blob t))
         (set_e_phnum Ps3 (of_nat (Suc (length (segments f)))) (header f)),
       segments := segments f @ [new_segment f t],
       raw := put_at (unat off) (entryPatchBytes t) (raw f) @ blob t\<rparr>"

lemma ucast_down_up: "ucast (ucast (ucast x :: u64) :: u32) = (ucast x :: u64)" for x :: u32
  by (rule bit_word_eqI) (auto simp: bit_simps dest: bit_imp_le_length)

lemma patchingD:
  assumes "patching bs f d p t off"
  shows "header_defect Ps3 bs = None" "f = parsed_elf Ps3 bs" "raw f = bs" "file_inv Ps3 f"
    and "\<not> isAlreadyPatched f"
    and "\<exists>vs. t = trampoline_of d (placement f) p vs \<and> length vs = length (jump_in d (placement f))"
    and "length (entryPatchBytes t) = 4 * length (jump_in d (placement f))"
    and "unat off + length (entryPatchBytes t) \<le> length bs"
    and "trampolineAddr t = placement f" "ucast (entryPatchAddr t) = codeAddress d"
    and "length p \<le> 1023"
proof -
  have p: "length bs < 2 ^ 62" "parse Ps3 bs = Inr f" "resolveEntryDescriptor f = Inr d"
    "buildTrampoline f d (placement f) p = Inr (Inr t)" "vaddrToFileOffset Ps3 (codeAddress d) f = Inr off"
    using assms by (simp_all add: patching_def)
  have lim: "length bs < 2 ^ 63" "length bs < 2 ^ 64" using p(1) by simp_all
  show defect: "header_defect Ps3 bs = None" "f = parsed_elf Ps3 bs"
    using p(2) elf64.parse_Inr [OF lim(2)] by blast+
  then show raw: "raw f = bs" by (simp add: parsed_elf_def Let_def)
  show "file_inv Ps3 f" unfolding defect(2) using lim(1) defect(1) by (rule elf64.parsed_inv)
  have raw_lim: "length (raw f) < 2 ^ 64" using raw lim by simp
  note build = p(4) [unfolded build_Inr [OF raw_lim]]
  then obtain vs where vs: "t = trampoline_of d (placement f) p vs"
    "unat off + length (jump_in d (placement f)) * 4 \<le> length (raw f)"
    "length vs = length (jump_in d (placement f))"
    using p(5) by (auto dest: length_relocated)
  then show "\<exists>vs. t = trampoline_of d (placement f) p vs \<and> length vs = length (jump_in d (placement f))" by blast
  show "\<not> isAlreadyPatched f" "length p \<le> 1023" using build by simp_all
  have code: "codeAddress d = ucast (ucast (codeAddress d) :: u32)"
    using p(3) unfolding resolve_Inr [OF raw_lim] by (auto simp: ucast_down_up)
  show "length (entryPatchBytes t) = 4 * length (jump_in d (placement f))"
    "unat off + length (entryPatchBytes t) \<le> length bs"
    "trampolineAddr t = placement f" "ucast (entryPatchAddr t) = codeAddress d"
    using vs raw code by (simp_all add: trampoline_of_def)
qed

lemma blob_bound:
  assumes "patching bs f d p t off"
  shows "8 \<le> length (blob t)" "length (blob t) < 1280"
proof -
  obtain vs where vs: "t = trampoline_of d (placement f) p vs" "length vs = length (jump_in d (placement f))"
    using patchingD(6) [OF assms] by blast
  have "length vs \<le> 5" using vs(2) length_jump_in [of d "placement f"] by auto
  moreover have "length (jump_back d (placement f) (length vs)) \<le> 5"
    using length_jump_back [of d "placement f" "length vs"] by auto
  ultimately have "length (blob_words d (placement f) vs) \<le> 59" by (simp add: length_blob_words)
  then show "8 \<le> length (blob t)" "length (blob t) < 1280"
    using blob_parts(5,6) [where d = d and a = "placement f" and vs = vs and p = p]
      patchingD(11) [OF assms] vs(1) by simp_all
qed

text \<open>Both mutations succeed and give \<open>injected_file\<close>.\<close>

lemma mutations:
  assumes "patching bs f d p t off"
  defines "g \<equiv> f\<lparr>header := header (injected_file f t off), segments := segments (injected_file f t off),
      raw := raw f @ blob t\<rparr>"
  shows "addLoadSegment Ps3 (ucast (trampolineAddr t)) (blob t) (PF_R OR PF_X) 0x10000 f = Inr g"
    and "vaddrToFileOffset Ps3 (ucast (entryPatchAddr t)) g = Inr off"
    and "patchBytesAt off (entryPatchBytes t) g = Inr (injected_file f t off)"
proof -
  note D = patchingD [OF assms(1)] and B = blob_bound [OF assms(1)]
  have lim: "length bs < 2 ^ 62" and off: "vaddrToFileOffset Ps3 (codeAddress d) f = Inr off"
    using assms(1) by (simp_all add: patching_def)
  show add: "addLoadSegment Ps3 (ucast (trampolineAddr t)) (blob t) (PF_R OR PF_X) 0x10000 f = Inr g"
    by (simp add: addLoadSegment_def Let_def g_def injected_file_def new_segment_def)
  have "length (raw f) + length (blob t) < 2 ^ 64" using D(3) lim B(2) by simp
  from vaddrToFileOffset_add [OF off add this]
  show "vaddrToFileOffset Ps3 (ucast (entryPatchAddr t)) g = Inr off" by (simp only: D(10))
  have len: "length (raw g) = length bs + length (blob t)" "length (entryPatchBytes t) \<le> length bs"
    using D(3,8) by (simp_all add: g_def)
  then have "regionFits (vsize (raw g)) off (vsize (entryPatchBytes t)) 1"
    using lim B(2) D(8) by (simp add: regionFits_arith)
  then show "patchBytesAt off (entryPatchBytes t) g = Inr (injected_file f t off)"
    using D(3,8) by (simp add: patchBytesAt_def g_def injected_file_def put_at_append)
qed


section \<open>The bytes written\<close>

lemma ps3_sizes [simp]: "ehdr_size Ps3 = 64" "phdr_size Ps3 = 56" "shdr_size Ps3 = 64"
  by (simp_all add: Elf64_def)

lemmas ps3_header_laws [simp] = elf64.set_phoff elf64.set_phnum

lemma injected_header:
  assumes "patching bs f d p t off"
  defines "h \<equiv> header (injected_file f t off)"
  shows "unat (e_phoff Ps3 h) = length bs + length (blob t)" "e_shoff Ps3 h = e_shoff Ps3 (header f)"
    and "e_phnum Ps3 h = of_nat (Suc (length (segments f)))" "e_ident Ps3 h = e_ident Ps3 (header f)"
    and "e_entry Ps3 h = e_entry Ps3 (header f)"
  using patchingD(3) [OF assms(1)] blob_bound [OF assms(1)] assms(1) unsigned_less [where ?'a = nat]
  by (simp_all add: h_def injected_file_def patching_def)

lemma length_injected_raw:
  "patching bs f d p t off \<Longrightarrow> length (raw (injected_file f t off)) = length bs + length (blob t)"
  using patchingD(3,8) [of bs f d p t off] by (simp add: injected_file_def)

text \<open>The header, then the program headers at the end, then the section headers where they were.\<close>

definition patched_bytes :: "Ps3ElfFile \<Rightarrow> TrampolineResult \<Rightarrow> u64 \<Rightarrow> bytes" where
  "patched_bytes f t off =
     (let g = injected_file f t off in
      put_at (unat (e_shoff Ps3 (header f))) (concat (map (shdr_store Ps3) (sections f)))
        (put_at (length (raw f) + length (blob t)) (concat (map (phdr_store Ps3) (segments g)))
          (put_at 0 (ehdr_store Ps3 (header g)) (raw g))))"

lemma segments_bound: "file_inv K f \<Longrightarrow> length (segments f) < 65536"
  using unsigned_less [of "e_phnum K (header f)", where ?'a = nat]
  by (simp add: file_inv_def counts_match_def)

lemma serialize_injected:
  assumes "patching bs f d p t off"
  shows "serialize Ps3 (injected_file f t off) = Some (patched_bytes f t off)"
proof -
  let ?g = "injected_file f t off"
  note D = patchingD [OF assms] and B = blob_bound [OF assms] and H = injected_header [OF assms]
  have lim: "length bs < 2 ^ 62" using assms by (simp add: patching_def)
  have inv: "length (e_ident Ps3 (header f)) = 16" "64 \<le> length bs"
    "unat (e_shoff Ps3 (header f)) + length (sections f) * 64 \<le> length bs"
    using D(4) by (simp_all add: file_inv_def table_bounds_def D(3))
  have segs: "length (segments ?g) \<le> 65536" using segments_bound [OF D(4)] by (simp add: injected_file_def)
  then have "length (segments ?g) * 56 \<le> 65536 * 56" by (rule mult_le_mono1)
  moreover have "sections ?g = sections f" by (simp add: injected_file_def)
  ultimately show ?thesis
    using elf64.serialize_writes [of Big ?g] inv lim B H length_injected_raw [OF assms] D(3)
    by (simp add: patched_bytes_def Let_def)
qed

lemma length_patched_layers:
  assumes "patching bs f d p t off"
  defines "g \<equiv> injected_file f t off"
  shows "length (put_at 0 (ehdr_store Ps3 (header g)) (raw g)) = length bs + length (blob t)"
    and "length (put_at (length (raw f) + length (blob t)) (concat (map (phdr_store Ps3) (segments g)))
      (put_at 0 (ehdr_store Ps3 (header g)) (raw g))) =
      length bs + length (blob t) + 56 * Suc (length (segments f))"
    and "length (patched_bytes f t off) = length bs + length (blob t) + 56 * Suc (length (segments f))"
proof -
  note D = patchingD [OF assms(1)] and H = injected_header [OF assms(1)]
  have inv: "length (e_ident Ps3 (header f)) = 16" "64 \<le> length bs"
    "unat (e_shoff Ps3 (header f)) + length (sections f) * 64 \<le> length bs"
    using D(4) by (simp_all add: file_inv_def table_bounds_def D(3))
  show l0: "length (put_at 0 (ehdr_store Ps3 (header g)) (raw g)) = length bs + length (blob t)"
    using inv H length_injected_raw [OF assms(1)] by (simp add: g_def elf64.length_ehdr_store)
  show l1: "length (put_at (length (raw f) + length (blob t)) (concat (map (phdr_store Ps3) (segments g)))
      (put_at 0 (ehdr_store Ps3 (header g)) (raw g))) =
      length bs + length (blob t) + 56 * Suc (length (segments f))"
    using l0 D(3) by (simp add: length_put_at_grow elf64.length_stores elf64.length_phdr_store g_def injected_file_def)
  show "length (patched_bytes f t off) = length bs + length (blob t) + 56 * Suc (length (segments f))"
    using l1 inv unfolding patched_bytes_def Let_def g_def [symmetric]
    by (subst length_put_at) (simp_all add: elf64.length_stores)
qed

lemma nth_put_at_before: "i < off \<Longrightarrow> off \<le> length xs \<Longrightarrow> put_at off ys xs ! i = xs ! i"
  by (simp add: put_at_def nth_append)

text \<open>The section headers are written back as they were.\<close>

lemma patched_sections:
  assumes "patching bs f d p t off"
  shows "concat (map (shdr_store Ps3) (sections f)) =
    slice (unat (e_shoff Ps3 (header f))) (length (sections f) * 64) bs"
proof -
  let ?so = "unat (e_shoff Ps3 (header f))"
  note D = patchingD [OF assms(1)]
  have len: "unat (e_shnum Ps3 (header f)) = length (sections f)" "?so + length (sections f) * 64 \<le> length bs"
    using D(4) by (simp_all add: file_inv_def counts_match_def table_bounds_def D(3))
  have "sections f = table_at 64 (shdr_load Ps3) bs ?so (unat (e_shnum Ps3 (header f)))"
    unfolding D(2) by (simp add: parsed_elf_def Let_def)
  then show ?thesis
    using table_at_store [of 64 "shdr_store Ps3" "shdr_load Ps3" ?so "length (sections f)" bs] len
      elf64.shdr_store_load [of _ Big] by simp
qed

text \<open>Writing the tables copies an input byte that the header and the raw bytes still have.\<close>

lemma patched_copied:
  assumes "patching bs f d p t off" "i < length bs"
  defines "g \<equiv> injected_file f t off"
  assumes "put_at 0 (ehdr_store Ps3 (header g)) (raw g) ! i = bs ! i"
  shows "patched_bytes f t off ! i = bs ! i"
proof -
  let ?so = "unat (e_shoff Ps3 (header f))" and ?secs = "concat (map (shdr_store Ps3) (sections f))"
  let ?b0 = "put_at 0 (ehdr_store Ps3 (header g)) (raw g)"
  let ?b1 = "put_at (length (raw f) + length (blob t)) (concat (map (phdr_store Ps3) (segments g))) ?b0"
  note D = patchingD [OF assms(1)] and L = length_patched_layers [OF assms(1), folded g_def]
  have inv: "?so + length (sections f) * 64 \<le> length bs"
    using D(4) by (simp add: file_inv_def table_bounds_def D(3))
  have b1: "?b1 ! i = bs ! i" using assms(2,4) D(3) L(1) by (subst nth_put_at_before) simp_all
  have "patched_bytes f t off = put_at ?so ?secs ?b1" by (simp add: patched_bytes_def Let_def g_def)
  moreover have "?so + length ?secs \<le> length ?b1" "i < length ?b1"
    unfolding L(2) using inv assms(2) by (simp_all add: elf64.length_stores)
  moreover have "?secs ! (i - ?so) = bs ! i" if "?so \<le> i" "i < ?so + length ?secs"
    using that inv unfolding patched_sections [OF assms(1)] by (simp add: slice_def)
  ultimately show ?thesis using b1 by (simp add: nth_put_at)
qed

text \<open>Every input byte outside the header and the patched instructions is copied.\<close>

lemma patched_frame:
  assumes "patching bs f d p t off" "64 \<le> i" "i < length bs"
    and "i < unat off \<or> unat off + length (entryPatchBytes t) \<le> i"
  shows "patched_bytes f t off ! i = bs ! i"
proof (rule patched_copied [OF assms(1,3)])
  let ?g = "injected_file f t off"
  note D = patchingD [OF assms(1)] and H = injected_header [OF assms(1)]
  have "length (ehdr_store Ps3 (header ?g)) = 64" "64 \<le> length bs"
    using D(3,4) H(4) by (simp_all add: elf64.length_ehdr_store file_inv_def)
  moreover have "raw ?g ! i = bs ! i"
    using D(3,8) assms(3,4) by (auto simp: injected_file_def nth_append nth_put_at)
  ultimately show "put_at 0 (ehdr_store Ps3 (header ?g)) (raw ?g) ! i = bs ! i"
    using assms(2,3) length_injected_raw [OF assms(1)] by (simp add: nth_put_at)
qed

text \<open>Of the header, only the place and the number of the program headers change.\<close>

lemma header_store_edit:
  assumes "length h = 64"
  shows "ehdr_store Ps3 (set_e_phoff Ps3 v (set_e_phnum Ps3 n (ehdr_load Ps3 h))) =
    take 32 h @ store64 (set64 Big v) @ slice 40 16 h @ store16 (set16 Big n) @ drop 58 h"
proof -
  have "take 32 h = slice 0 16 h @ slice 16 2 h @ slice 18 2 h @ slice 20 4 h @ slice 24 8 h"
    "slice 40 16 h = slice 40 8 h @ slice 48 4 h @ slice 52 2 h @ slice 54 2 h"
    "drop 58 h = slice 58 2 h @ slice 60 2 h @ slice 62 2 h"
    using assms by (simp_all add: slice_join) (simp_all add: slice_def)
  then show ?thesis using assms by (simp add: Elf64_def struct_store_defs struct_load_defs)
qed

lemma patched_header_frame:
  assumes "patching bs f d p t off" "i < 64" "i < 32 \<or> 40 \<le> i" "i \<noteq> 56" "i \<noteq> 57"
  shows "patched_bytes f t off ! i = bs ! i"
proof -
  let ?g = "injected_file f t off"
  note D = patchingD [OF assms(1)]
  have len: "64 \<le> length bs" using D(3,4) by (simp add: file_inv_def)
  have f: "header f = ehdr_load Ps3 (take 64 bs)" unfolding D(2) by (simp add: parsed_elf_def Let_def)
  have "ehdr_store Ps3 (header ?g) ! i = take 64 bs ! i"
    using len assms(2-5) unfolding injected_file_def
    by (simp add: f header_store_edit) (auto simp: nth_append slice_def)
  moreover have "length (ehdr_store Ps3 (header ?g)) = 64"
    using D(4) injected_header(4) [OF assms(1)] by (simp add: elf64.length_ehdr_store file_inv_def)
  ultimately have "put_at 0 (ehdr_store Ps3 (header ?g)) (raw ?g) ! i = bs ! i"
    using assms(2) by (simp add: put_at_def nth_append)
  then show ?thesis by (intro patched_copied [OF assms(1)]) (use assms(2) len in simp_all)
qed

text \<open>The section headers are written last, also over the ELF header.\<close>

lemma patched_sections_first:
  assumes "patching bs f d p t off" "sections f \<noteq> []" "e_shoff Ps3 (header f) = 0"
  shows "take 64 (patched_bytes f t off) = take 64 bs"
proof -
  let ?secs = "concat (map (shdr_store Ps3) (sections f))"
  have secs: "?secs = take (length (sections f) * 64) bs"
    using patched_sections [OF assms(1)] assms(3) by (simp add: slice_def)
  have "64 \<le> length (sections f) * 64" using assms(2) by (cases "sections f") simp_all
  moreover have "length ?secs = length (sections f) * 64" by (simp add: elf64.length_stores)
  ultimately have "take 64 ?secs = take 64 bs" "64 \<le> length ?secs" unfolding secs by (simp_all add: min_def)
  then show ?thesis using assms(3) by (simp add: patched_bytes_def Let_def put_at_def)
qed

text \<open>Behind the input: the trampoline and the new program header table.\<close>

lemma patched_tail:
  assumes "patching bs f d p t off"
  shows "drop (length bs) (patched_bytes f t off) =
    blob t @ concat (map (phdr_store Ps3) (segments f @ [new_segment f t]))"
proof -
  let ?g = "injected_file f t off" and ?so = "unat (e_shoff Ps3 (header f))"
  let ?ph = "concat (map (phdr_store Ps3) (segments ?g))"
  let ?b0 = "put_at 0 (ehdr_store Ps3 (header ?g)) (raw ?g)"
  let ?b1 = "put_at (length (raw f) + length (blob t)) ?ph ?b0"
  note D = patchingD [OF assms(1)] and L = length_patched_layers [OF assms(1)]
    and H = injected_header [OF assms(1)]
  have S: "?so + length (sections f) * 64 \<le> length bs" "64 \<le> length bs"
    using D(3,4) by (simp_all add: file_inv_def table_bounds_def)
  have hdr: "length (ehdr_store Ps3 (header ?g)) = 64"
    using D(4) H(4) by (simp add: elf64.length_ehdr_store file_inv_def)
  have late: "drop n (put_at k ys xs) = drop n xs" if "k + length ys \<le> n" "k \<le> length xs" for n k ys and xs :: bytes
    using that by (simp add: put_at_def)
  have "drop (length bs) ?b0 = blob t"
    using S(2) D(3,8) hdr late [of 0 "ehdr_store Ps3 (header ?g)" "length bs"] by (simp add: injected_file_def)
  moreover have b1: "?b1 = ?b0 @ ?ph" using L(1) D(3) by (simp add: put_at_def)
  ultimately have "drop (length bs) ?b1 = blob t @ ?ph" using L(1) by simp
  moreover have "drop (length bs) (patched_bytes f t off) = drop (length bs) ?b1"
    unfolding patched_bytes_def Let_def using S(1) L(2) D(4)
    by (intro late) (simp_all add: elf64.length_stores injected_file_def)
  ultimately show ?thesis by (simp add: injected_file_def)
qed


section \<open>Runs of main\<close>

lemma ps3_expected [simp]: "expected_class Ps3 = ELFCLASS64" "expected_data Ps3 = ELFDATA2MSB"
  by (simp_all add: Elf64_def expectedClass_def expectedData_def)

lemma parseAny_ps3:
  assumes "length bs < 2 ^ 64"
  shows "parseAny bs = Inr (AnyElf64BE f) \<longleftrightarrow> parse Ps3 bs = Inr f"
proof
  assume "parseAny bs = Inr (AnyElf64BE f)"
  then show "parse Ps3 bs = Inr f"
    by (auto simp: parseAny_def Let_def split: if_splits)
next
  assume p: "parse Ps3 bs = Inr f"
  then have d: "header_defect Ps3 bs = None" using elf64.parse_Inr [OF assms] by blast
  then have len: "64 \<le> length bs" using elf64.defect_None_bounds(1) [of Big bs] by simp
  have "take 4 bs = [0x7F, of_char CHR ''E'', of_char CHR ''L'', of_char CHR ''F'']"
    "bs ! 4 = ELFCLASS64" "bs ! 5 = ELFDATA2MSB"
    using d by (simp_all add: header_defect_def Let_def split: if_splits)
  then show "parseAny bs = Inr (AnyElf64BE f)" using p len
    by (simp add: parseAny_def Let_def take_4_eq ident_index_defs elf_const_defs)
qed

definition input_limit :: "readable \<Rightarrow> bool" where
  "input_limit rd \<longleftrightarrow> (\<forall>path bs. rd path = Some bs \<longrightarrow> length bs < 2 ^ 62)"

lemma apply_patch_eq:
  assumes "patching bs f d p t off"
  shows "apply_patch wr o_path p so f t =
    (let out = patched_bytes f t off in
     if wr o_path out then
       Returned \<lparr>exit_code = 0,
         out_text = so @ ''Wrote '' @ to_string (length out) @ '' bytes to '' @ o_path @ newline @
           ''Patched successfully. On boot, this EBOOT will load and start: '' @ p @ newline,
         err_text = [], written = Some (o_path, out)\<rparr>
     else Returned \<lparr>exit_code = 1, out_text = so,
         err_text = ''error: could not write output file '' @ [CHR 0x27] @ o_path @ [CHR 0x27] @ newline,
         written = Some (o_path, out)\<rparr>)"
  by (simp add: apply_patch_def mutations [OF assms] serialize_injected [OF assms] writeFile_def Let_def)

lemma build_Inr_offset:
  assumes "length (raw f) < 2 ^ 64" "buildTrampoline f d a p = Inr (Inr t)"
  obtains off where "vaddrToFileOffset Ps3 (codeAddress d) f = Inr off"
  using assms by (auto simp: build_Inr)

text \<open>A run in patch mode either prints an error and returns 1, or the file is patchable.\<close>

definition refused :: "run_result \<Rightarrow> bool" where
  "refused r \<longleftrightarrow> (\<exists>so se. r = failed so se \<and> se \<noteq> [])"

lemma refused_intro: "se \<noteq> [] \<Longrightarrow> refused (failed so se)"
  by (auto simp: refused_def)

lemma built_patching:
  assumes "rd i = Some bs" "length bs < 2 ^ 62" "parseAny bs = Inr (AnyElf64BE f)"
    and "resolveEntryDescriptor f = Inr d" "\<not> isAlreadyPatched f"
    and "buildTrampoline f d (placement f) p = Inr (Inr t)"
  shows "\<exists>off so. patching bs f d p t off \<and> main_patch rd wr i o_path p = apply_patch wr o_path p so f t"
proof -
  have lim64: "length bs < 2 ^ 64" using assms(2) by simp
  have parse: "parse Ps3 bs = Inr f" using assms(3) parseAny_ps3 [OF lim64] by simp
  then have "raw f = bs" using elf64.parse_Inr [OF lim64] by (auto simp: parsed_elf_def Let_def)
  then obtain off where "vaddrToFileOffset Ps3 (codeAddress d) f = Inr off"
    using build_Inr_offset [OF _ assms(6)] lim64 by blast
  then have "patching bs f d p t off" using assms(2,4,6) parse by (simp add: patching_def)
  moreover have "\<exists>so. main_patch rd wr i o_path p = apply_patch wr o_path p so f t"
    using assms(1,3-6) by (simp add: main_patch_def readFile_def Let_def placement_def [symmetric]) blast
  ultimately show ?thesis by blast
qed

lemma main_patch_cases:
  assumes "input_limit rd"
  shows "refused (main_patch rd wr i o_path p) \<or>
    (\<exists>bs f d t off so. rd i = Some bs \<and> patching bs f d p t off \<and>
       main_patch rd wr i o_path p = apply_patch wr o_path p so f t)"
proof (cases "rd i")
  case None
  then show ?thesis by (simp add: main_patch_def readFile_def not_open_def refused_intro)
next
  case (Some bs)
  then have lim: "length bs < 2 ^ 62" using assms by (simp add: input_limit_def)
  show ?thesis
  proof (cases "\<exists>f d. parseAny bs = Inr (AnyElf64BE f) \<and> resolveEntryDescriptor f = Inr d \<and>
      \<not> isAlreadyPatched f \<and> (\<exists>t. buildTrampoline f d (placement f) p = Inr (Inr t))")
    case False
    have no_throw: "buildTrampoline g e a p \<noteq> Inl ex" for g e a ex
      using build_no_throw [of g e a p] by auto
    have "refused (main_patch rd wr i o_path p)" using Some False
      by (auto simp: main_patch_def readFile_def Let_def placement_def [symmetric] not_ps3_def
          no_throw refused_intro split: sum.splits any_elf.splits if_splits)
    then show ?thesis ..
  next
    case True
    then obtain f d t where f: "parseAny bs = Inr (AnyElf64BE f)" "resolveEntryDescriptor f = Inr d"
      "\<not> isAlreadyPatched f" "buildTrampoline f d (placement f) p = Inr (Inr t)" by blast
    then show ?thesis using built_patching [where rd = rd and i = i, OF Some lim] Some by blast
  qed
qed


lemma main_patch_patching:
  assumes "rd i = Some bs" "patching bs f d p t off"
  shows "\<exists>so. main_patch rd wr i o_path p = apply_patch wr o_path p so f t"
proof -
  have f: "length bs < 2 ^ 64" "parse Ps3 bs = Inr f" "resolveEntryDescriptor f = Inr d"
    "buildTrampoline f d (placement f) p = Inr (Inr t)"
    using assms(2) by (simp_all add: patching_def)
  then have "parseAny bs = Inr (AnyElf64BE f)" by (simp add: parseAny_ps3)
  then show ?thesis using assms(1) f(3,4) patchingD(5) [OF assms(2)]
    by (simp add: main_patch_def readFile_def Let_def placement_def [symmetric]) blast
qed

section \<open>Reading the output back\<close>

text \<open>
  What an ordinary input satisfies and reading the output back needs: room for one more program
  header, and a section header table that does not overlap the ELF header.
\<close>

definition room :: "Ps3ElfFile \<Rightarrow> bool" where
  "room f \<longleftrightarrow> length (segments f) < 65535 \<and> (sections f \<noteq> [] \<longrightarrow> 64 \<le> unat (e_shoff Ps3 (header f)))"

lemma injected_inv:
  assumes "patching bs f d p t off" "room f"
  shows "file_inv Ps3 (injected_file f t off)" "tables_apart Ps3 (injected_file f t off)"
proof -
  note D = patchingD [OF assms(1)] and B = blob_bound [OF assms(1)]
  have lim: "length bs < 2 ^ 62" using assms(1) by (simp add: patching_def)
  have "segments f \<noteq> []" using assms(1) by (auto simp: patching_def vaddrToFileOffset_Inr)
  then have phentsize: "unat (e_phentsize Ps3 (header f)) = phdr_size Ps3" using D(4) by (simp add: file_inv_def counts_match_def)
  define g where "g = f\<lparr>header := header (injected_file f t off),
      segments := segments (injected_file f t off), raw := raw f @ blob t\<rparr>"
  note M = mutations [OF assms(1), folded g_def]
  have sum: "length (raw f) + length (blob t) < 2 ^ 63" "length (raw f) + length (blob t) < 2 ^ 64"
    using D(3) B lim by simp_all
  have "file_inv Ps3 g"
    using D(4) sum _ phentsize M(1)
    by (rule elf64.addLoadSegment_inv) (use assms(2) in \<open>simp add: room_def\<close>)
  moreover have "length (entryPatchBytes t) < 2 ^ 64" using D(8) lim by simp
  ultimately show "file_inv Ps3 (injected_file f t off)" using M(3) by (rule elf64.patchBytesAt_inv)
  have "tables_apart Ps3 g"
    using D(4) sum _ M(1)
    by (rule elf64.addLoadSegment_apart) (use assms(2) in \<open>simp add: room_def\<close>)
  then show "tables_apart Ps3 (injected_file f t off)"
    by (simp add: tables_apart_def injected_file_def g_def)
qed

lemma length_patched_bytes:
  assumes "patching bs f d p t off"
  shows "length (patched_bytes f t off) < 2 ^ 63"
proof -
  have "length bs < 2 ^ 62" using assms by (simp add: patching_def)
  moreover have "length (segments f) < 65536" using segments_bound patchingD(4) [OF assms] .
  ultimately show ?thesis using blob_bound [OF assms] length_patched_layers(3) [OF assms] by simp
qed

lemma patched_header_lost:
  assumes "patching bs f d p t off" "sections f \<noteq> []" "e_shoff Ps3 (header f) = 0"
  shows "\<exists>g. parse Ps3 (patched_bytes f t off) = Inr g \<and> header g = header f \<and>
    length (segments g) = length (segments f)"
proof -
  let ?out = "patched_bytes f t off"
  note D = patchingD [OF assms(1)]
  have len: "64 \<le> length bs" "length bs \<le> length ?out" "length ?out < 2 ^ 64"
    using D(3,4) length_patched_layers(3) [OF assms(1)] length_patched_bytes [OF assms(1)]
    by (simp_all add: file_inv_def)
  have kept: "header f = ehdr_load Ps3 (take 64 bs)"
    "length (segments f) = unat (e_phnum Ps3 (ehdr_load Ps3 (take 64 bs)))"
    unfolding D(2) by (simp_all add: parsed_elf_def Let_def)
  have head: "take 64 ?out = take 64 bs" by (rule patched_sections_first [OF assms])
  have at: "?out ! k = bs ! k" if "k < 64" for k using that len(1,2) head by (metis nth_take)
  have "take 4 ?out = take 4 (take 64 ?out)" by simp
  then have "take 4 ?out = take 4 bs" unfolding head by simp
  then have "header_defect Ps3 ?out = None"
    using D(1) len head at [of 4] at [of 5] by (auto simp: header_defect_def Let_def split: if_splits)
  then have "parse Ps3 ?out = Inr (parsed_elf Ps3 ?out)" using elf64.parse_Inr [OF len(3)] by blast
  moreover have "header (parsed_elf Ps3 ?out) = header f"
    "length (segments (parsed_elf Ps3 ?out)) = length (segments f)"
    using kept by (simp_all add: parsed_elf_def Let_def head)
  ultimately show ?thesis by blast
qed

lemma patched_reparse:
  assumes "patching bs f d p t off" "room f"
  shows "parse Ps3 (patched_bytes f t off) = Inr (injected_file f t off\<lparr>raw := patched_bytes f t off\<rparr>)"
  using injected_inv [OF assms] serialize_injected [OF assms(1)]
proof (rule elf64.reparse)
  show "length (patched_bytes f t off) < 2 ^ 64" using length_patched_bytes [OF assms(1)] by simp
qed

lemma sections_end:
  assumes "patching bs f d p t off"
  shows "unat (e_shoff Ps3 (header f)) + length (sections f) * 64 \<le> length bs" "64 \<le> length bs"
  using patchingD(3,4) [OF assms] by (simp_all add: file_inv_def table_bounds_def)

lemma patched_blob:
  assumes "patching bs f d p t off" "room f"
  shows "slice (length bs) (length (blob t)) (patched_bytes f t off) = blob t"
proof -
  let ?g = "injected_file f t off"
  note H = injected_header [OF assms(1)] and S = sections_end [OF assms(1)]
  have "slice (length bs) (length (blob t)) (patched_bytes f t off) =
      slice (length bs) (length (blob t)) (raw ?g)"
    using injected_inv(1) [OF assms] serialize_injected [OF assms(1)]
    by (rule elf64.serialize_frame)
      (use S H length_injected_raw [OF assms(1)] in \<open>simp_all add: injected_file_def\<close>)
  also have "\<dots> = blob t"
    using patchingD(3,8) [OF assms(1)] by (simp add: injected_file_def slice_def)
  finally show ?thesis .
qed

text \<open>The jump is in place where neither the header nor the section headers are written.\<close>

lemma patched_entry:
  assumes "patching bs f d p t off" "64 \<le> unat off"
    and "unat off + length (entryPatchBytes t) \<le> unat (e_shoff Ps3 (header f)) \<or>
      unat (e_shoff Ps3 (header f)) + length (sections f) * 64 \<le> unat off"
  shows "slice (unat off) (length (entryPatchBytes t)) (patched_bytes f t off) = entryPatchBytes t"
proof -
  let ?g = "injected_file f t off" and ?so = "unat (e_shoff Ps3 (header f))" and ?n = "length (entryPatchBytes t)"
  let ?b0 = "put_at 0 (ehdr_store Ps3 (header ?g)) (raw ?g)"
  let ?b1 = "put_at (length (raw f) + length (blob t)) (concat (map (phdr_store Ps3) (segments ?g))) ?b0"
  note D = patchingD [OF assms(1)] and L = length_patched_layers [OF assms(1)]
    and H = injected_header [OF assms(1)]
  have S: "?so + length (sections f) * 64 \<le> length bs" "length (ehdr_store Ps3 (header ?g)) = 64"
    using D(3,4) H(4) by (simp_all add: file_inv_def table_bounds_def elf64.length_ehdr_store)
  have "slice (unat off) ?n (patched_bytes f t off) = slice (unat off) ?n ?b1"
    unfolding patched_bytes_def Let_def using S(1) L(2) assms(3)
    by (intro slice_put_at_disjoint) (auto simp: elf64.length_stores)
  also have "\<dots> = slice (unat off) ?n ?b0"
    using D(3,8) L(1) by (intro slice_put_at_disjoint) simp_all
  also have "\<dots> = slice (unat off) ?n (raw ?g)"
    using S(2) assms(2) by (intro slice_put_at_disjoint) simp_all
  also have "\<dots> = entryPatchBytes t"
    using D(3,8) by (simp add: injected_file_def slice_inside slice_put_at_same)
  finally show ?thesis .
qed

lemma new_segment_fields:
  assumes "patching bs f d p t off"
  shows "p_type Ps3 (new_segment f t) = PT_LOAD"
    and "unat (p_offset Ps3 (new_segment f t)) = length bs"
    and "unat (p_filesz Ps3 (new_segment f t)) = length (blob t)"
    and "p_vaddr Ps3 (new_segment f t) = ucast (placement f)"
    and "unat (p_memsz Ps3 (new_segment f t)) = length (blob t)"
proof -
  note D = patchingD [OF assms] and B = blob_bound [OF assms]
  have lim: "length bs < 2 ^ 62" using assms by (simp add: patching_def)
  have "unat (ucast (placement f) :: u64) < 2 ^ 64"
    using unsigned_less [of "ucast (placement f) :: u64", where ?'a = nat] by simp
  then have "p_vaddr Ps3 (make_phdr Ps3 ty fl o' (ucast (placement f)) pa fs ms al) = ucast (placement f)"
    for ty fl o' pa fs ms al by (rule elf64.made_phdr(3))
  then show "p_type Ps3 (new_segment f t) = PT_LOAD"
    "unat (p_offset Ps3 (new_segment f t)) = length bs"
    "unat (p_filesz Ps3 (new_segment f t)) = length (blob t)"
    "p_vaddr Ps3 (new_segment f t) = ucast (placement f)"
    "unat (p_memsz Ps3 (new_segment f t)) = length (blob t)"
    using D(3,9) B lim by (simp_all add: new_segment_def elf64.made_phdr)
qed

lemma patched_marked:
  assumes "patching bs f d p t off" "room f"
  shows "isAlreadyPatched (injected_file f t off\<lparr>raw := patched_bytes f t off\<rparr>)"
proof -
  let ?out = "patched_bytes f t off" and ?ph = "new_segment f t"
  note N = new_segment_fields [OF assms(1)] and B = blob_bound [OF assms(1)]
  obtain vs where vs: "t = trampoline_of d (placement f) p vs" using patchingD(6) [OF assms(1)] by blast
  have "slice (length bs) 8 ?out = slice 0 8 (slice (length bs) (length (blob t)) ?out)"
    using B(1) by (simp add: slice_slice)
  also have "\<dots> = TRAMPOLINE_MAGIC"
    using patched_blob [OF assms] blob_parts(1) [of d "placement f" p vs] by (simp add: vs)
  finally have magic: "slice (length bs) 8 ?out = TRAMPOLINE_MAGIC" .
  have "length bs + 8 \<le> length ?out" "length ?out < 2 ^ 64"
    using length_patched_layers(3) [OF assms(1)] length_patched_bytes [OF assms(1)] B by simp_all
  then have "readAt (p_offset Ps3 ?ph) 8 (injected_file f t off\<lparr>raw := ?out\<rparr>) = Inr TRAMPOLINE_MAGIC"
    using N(2) magic by (simp add: readAt_eq)
  moreover have "\<not> p_filesz Ps3 ?ph < 8" using N(3) B(1) by (simp add: word_less_nat_alt)
  moreover have "take 8 TRAMPOLINE_MAGIC = TRAMPOLINE_MAGIC" by simp
  ultimately show ?thesis using N(1)
    by (auto simp: isAlreadyPatched_def injected_file_def)
qed

lemma main_patch_marked:
  assumes "rd i = Some bs" "length bs < 2 ^ 64" "parse Ps3 bs = Inr f" "isAlreadyPatched f"
  shows "refused (main_patch rd wr i o_path p)"
proof -
  have "parseAny bs = Inr (AnyElf64BE f)" using assms(2,3) by (simp add: parseAny_ps3)
  then show ?thesis using assms(1,4)
    by (cases "resolveEntryDescriptor f")
      (simp_all add: main_patch_def readFile_def Let_def refused_intro)
qed

end
