(* ===== verification/InfoReport.thy ===== *)
theory InfoReport
  imports PatchLemmas
begin

text \<open>
  What \<open>--info\<close> reports of an executable, before and after it is patched.
\<close>

section \<open>The report\<close>

definition status_line :: "bool \<Rightarrow> string" where
  "status_line b = ''  Already patched by ps3patch: '' @ (if b then ''YES'' else ''no'') @ newline"

lemma segmentLines_append:
  "segmentLines i (xs @ ys) = segmentLines i xs @ segmentLines (i + length xs) ys"
  by (induction xs arbitrary: i) simp_all

text \<open>The status line and the segment table stand in the report, in this order.\<close>

definition reports :: "string \<Rightarrow> bool \<Rightarrow> string \<Rightarrow> bool" where
  "reports s b table \<longleftrightarrow> (\<exists>before between after. s = before @ status_line b @ between @ table @ after)"

lemma reportsI: "s = u @ status_line b @ v @ w @ x \<Longrightarrow> reports s b w"
  by (auto simp: reports_def)

text \<open>The lines on the entry descriptor stand before the status line.\<close>

definition descriptor_lines :: "EntryDescriptor \<Rightarrow> string" where
  "descriptor_lines d =
     ''  Code address: '' @ hex (codeAddress d) @ newline @
     ''  TOC value:    '' @ hex (tocValue d) @ newline @
     ''  Env pointer:  '' @ hex (envPointer d) @ newline"

definition reports_entry :: "string \<Rightarrow> EntryDescriptor \<Rightarrow> bool \<Rightarrow> string \<Rightarrow> bool" where
  "reports_entry s d b table \<longleftrightarrow> (\<exists>before rest. s = before @ descriptor_lines d @ rest \<and> reports rest b table)"

lemma reports_entryI: "s = u @ descriptor_lines d @ z @ status_line b @ v @ w @ x \<Longrightarrow> reports_entry s d b w"
  using reportsI [of _ z b v w x] by (auto simp: reports_entry_def)

lemma reports_entryD: "reports_entry s d b w \<Longrightarrow> reports s b w"
  unfolding reports_entry_def reports_def by (metis append_assoc)

lemma formatInfo_reports:
  assumes "resolveEntryDescriptor f = Inr d"
  shows "\<exists>s. formatInfo f = Inr s \<and> reports_entry s d (isAlreadyPatched f) (segmentLines 0 (segments f))"
proof -
  let ?h = "header f"
  have "formatInfo f = Inr (
      (''=== ELF Header ==='' @ newline @ ''  Class:        ELF64'' @ newline @
       ''  Data:         big-endian'' @ newline @
       ''  Machine:      EM_PPC64 ('' @ to_string (unat (get16 Big (e_machine64 ?h))) @ '')'' @ newline @
       ''  Type:         '' @ to_string (unat (get16 Big (e_type64 ?h))) @ newline @
       ''  Flags:        '' @ hex (ucast (get32 Big (e_flags64 ?h))) @ newline @
       (if \<not> hasTypicalEFlags f then
          ''                (unusual -- real PS3 EBOOTs observed so far all have e_flags == 0x0; '' @
          ''this doesn't necessarily mean the file is invalid, just that it differs from what '' @
          ''this tool has empirically seen)'' @ newline else []) @
       ''  Entry (raw):  '' @ hex (entry Ps3 f) @ ''  (OPD descriptor address, not code)'' @ newline @
       newline @ ''=== Entry Function Descriptor (OPD) ==='' @ newline) @
      descriptor_lines d @
      (newline @ ''=== ps3patch status ==='' @ newline) @
      status_line (isAlreadyPatched f) @
      (newline @ ''=== Program Headers ('' @ to_string (length (segments f)) @ '') ==='' @ newline @
       ''  #   Type      Flags  VirtAddr            Offset              FileSz      MemSz'' @ newline) @
      segmentLines 0 (segments f) @
      (newline @ ''=== Syscalls ps3patch's trampoline uses ==='' @ newline @
       ''  '' @ to_string (unat SYS_PRX_LOAD_MODULE) @ ''  sys_prx_load_module'' @ newline @
       ''  '' @ to_string (unat SYS_PRX_START_MODULE) @ ''  sys_prx_start_module'' @ newline @
       ''  (syscall number passed in r11, per LV2 convention, confirmed on real hardware)'' @ newline))"
    (is "_ = Inr (?pre @ _ @ ?gap @ _ @ ?mid @ _ @ ?post)")
    unfolding formatInfo_def assms Let_def sum.case status_line_def descriptor_lines_def append_assoc by (rule refl)
  then show ?thesis by (intro exI conjI reports_entryI [of _ ?pre _ ?gap _ ?mid _ ?post]) (assumption, rule refl)
qed

lemma formatInfo_cases:
  "(\<exists>e. resolveEntryDescriptor f = Inl e \<and> formatInfo f = Inl e) \<or>
   (\<exists>d s. resolveEntryDescriptor f = Inr d \<and> formatInfo f = Inr s \<and>
      reports_entry s d (isAlreadyPatched f) (segmentLines 0 (segments f)))"
  using formatInfo_reports [of f] by (cases "resolveEntryDescriptor f") (auto simp: formatInfo_def)

section \<open>The report on an input and on its patched output\<close>

lemma main_info_reports:
  assumes "rd i = Some bs" "length bs < 2 ^ 64" "parse Ps3 bs = Inr f" "resolveEntryDescriptor f = Inr d"
  shows "\<exists>x. main_info rd i = Returned x \<and> exit_code x = 0 \<and>
    reports (out_text x) (isAlreadyPatched f) (segmentLines 0 (segments f))"
proof -
  obtain s where s: "formatInfo f = Inr s" "reports s (isAlreadyPatched f) (segmentLines 0 (segments f))"
    using formatInfo_reports [OF assms(4)] reports_entryD by blast
  moreover have "parseAny bs = Inr (AnyElf64BE f)" using assms(2,3) by (simp only: parseAny_ps3)
  ultimately show ?thesis using assms(1) by (simp add: main_info_def readFile_def)
qed

text \<open>The entry descriptor of the output resolves: the lookup finds the same segment as before.\<close>

lemma patched_resolves:
  assumes "patching bs f d p t off"
  shows "\<exists>e. resolveEntryDescriptor (injected_file f t off\<lparr>raw := patched_bytes f t off\<rparr>) = Inr e"
proof -
  let ?g = "injected_file f t off\<lparr>raw := patched_bytes f t off\<rparr>"
  note D = patchingD [OF assms]
  have lim: "length (raw f) < 2 ^ 64" "length (raw ?g) < 2 ^ 64" "length bs \<le> length (raw ?g)"
    using assms D(3) length_patched_bytes [OF assms] length_patched_layers(3) [OF assms]
    by (simp_all add: patching_def)
  have mach: "e_machine64 (header ?g) = e_machine64 (header f)"
    by (simp add: injected_file_def Elf64_def)
  have ent: "entry Ps3 ?g = entry Ps3 f"
    using injected_header(5) [OF assms] by (simp add: entry_def)
  obtain k where k: "get16 Big (e_machine64 (header f)) = EM_PPC64"
    "vaddrToFileOffset Ps3 (entry Ps3 f) f = Inr k" "unat k + 8 \<le> length bs"
    using assms D(3) resolve_Inr [OF lim(1)] by (auto simp: patching_def)
  have "vaddrToFileOffset Ps3 (entry Ps3 f) ?g = Inr k"
    using k(2,3) lim D(3) unfolding vaddrToFileOffset_Inr
    by (auto simp: injected_file_def find_append_Some word_le_nat_alt)
  then show ?thesis unfolding resolve_Inr [OF lim(2)] mach ent using k(1,3) lim(3) by auto
qed

end
