(* ===== verification/Simulation.thy ===== *)
theory Simulation
  imports PpcMachine
begin

text \<open>
  Paths of a deterministic machine, and the simulation of one machine by another.  A path counts
  its steps and records that every state it steps from satisfies a condition; the condition is how
  the theorems say where a program may go.
\<close>

section \<open>Paths\<close>

inductive steps :: "('s \<Rightarrow> 's option) \<Rightarrow> ('s \<Rightarrow> bool) \<Rightarrow> nat \<Rightarrow> 's \<Rightarrow> 's \<Rightarrow> bool"
  for succ :: "'s \<Rightarrow> 's option" and P :: "'s \<Rightarrow> bool" where
  steps_stop: "steps succ P 0 s s"
| steps_go: "P s \<Longrightarrow> succ s = Some t \<Longrightarrow> steps succ P n t u \<Longrightarrow> steps succ P (Suc n) s u"

inductive_simps steps_0 [simp]: "steps succ P 0 s u"
inductive_simps steps_Suc: "steps succ P (Suc n) s u"

code_pred (modes: i \<Rightarrow> i \<Rightarrow> i \<Rightarrow> i \<Rightarrow> o \<Rightarrow> bool as steps_end) steps .

lemma steps_mono: "steps succ P n s u \<Longrightarrow> (\<And>x. P x \<Longrightarrow> Q x) \<Longrightarrow> steps succ Q n s u"
  by (induction rule: steps.induct) (auto intro: steps.intros)

lemma steps_append: "steps succ P m s t \<Longrightarrow> steps succ P n t u \<Longrightarrow> steps succ P (m + n) s u"
  by (induction rule: steps.induct) (auto intro: steps.intros)

lemma steps_unique: "steps succ P n s u \<Longrightarrow> steps succ Q n s v \<Longrightarrow> u = v"
  by (induction rule: steps.induct) (auto simp: steps_Suc)

text \<open>An unrestricted path of the processor is a run.\<close>

lemma run_iff_steps: "run lv2 img n s = Some u \<longleftrightarrow> steps (step lv2 img) (\<lambda>_. True) n s u"
  by (induction n arbitrary: s) (auto simp: steps_Suc bind_eq_Some_conv)

lemma steps_run: "steps (step lv2 img) P n s u \<Longrightarrow> run lv2 img n s = Some u"
  unfolding run_iff_steps by (erule steps_mono) simp

section \<open>Simulation\<close>

text \<open>
  The second machine follows the first step by step, as long as the first is in states of
  \<open>inside\<close>.
\<close>

locale simulation =
  fixes succ1 :: "'s \<Rightarrow> 's option" and succ2 :: "'t \<Rightarrow> 't option"
    and inside :: "'s \<Rightarrow> bool" and rel :: "'s \<Rightarrow> 't \<Rightarrow> bool"
  assumes step_sim: "inside s \<Longrightarrow> rel s t \<Longrightarrow> succ1 s = Some s' \<Longrightarrow> \<exists>t'. succ2 t = Some t' \<and> rel s' t'"
begin

lemma steps_sim:
  assumes "steps succ1 inside n s u" "rel s t"
  shows "\<exists>v. steps succ2 (\<lambda>_. True) n t v \<and> rel u v"
  using assms
proof (induction arbitrary: t rule: steps.induct)
  case (steps_stop s)
  then show ?case by (blast intro: steps.steps_stop)
next
  case (steps_go s s' n u)
  then obtain t' where "succ2 t = Some t'" "rel s' t'" using step_sim by blast
  with steps_go.IH [of t'] show ?case by (auto intro: steps.steps_go)
qed

end

text \<open>Two images that agree on a word execute it alike.\<close>

interpretation same_words: simulation "step lv2 img" "step lv2 img'"
    "\<lambda>s. img' (pc s) = img (pc s)" "(=)" for lv2 img img'
  by unfold_locales (simp add: step_def)

end
