(* ===== verification/TrampolineRun.thy ===== *)
theory TrampolineRun
  imports TrampolineLayout
begin

text \<open>
  A patched program from its entry point: through the jump into the trampoline, the two system
  calls, the restored registers, the displaced instruction and the jump back.
\<close>

section \<open>Jumps between 32-bit addresses\<close>

definition jump_near :: "u32 \<Rightarrow> u32 \<Rightarrow> bool" where
  "jump_near a b \<longleftrightarrow> (let d = uint b - uint a in 4 dvd d \<and> - 33554432 \<le> d \<and> d \<le> 33554428)"

lemma makeMinimalJump_far: "\<not> jump_near a b \<Longrightarrow> makeMinimalJump a b = makeAbsoluteJump b 12"
  unfolding makeMinimalJump_eq jump_near_def Let_def by (rule if_not_P)

lemma makeMinimalJump_near:
  assumes "jump_near a b"
  shows "\<exists>w. makeMinimalJump a b = [w] \<and>
    (\<forall>lv2 s. exec lv2 w (s\<lparr>pc := ucast a\<rparr>) = Some (s\<lparr>pc := ucast b\<rparr>))"
proof -
  let ?d = "uint b - uint a" and ?t = "word_of_int (uint b - uint a) :: i32"
  have d: "4 dvd ?d" "- 33554432 \<le> ?d" "?d \<le> 33554428" using assms by (simp_all add: jump_near_def Let_def)
  then have sint: "sint ?t = ?d" by (intro sint_of_int32) (simp_all add: INT32_MIN_def INT32_MAX_def)
  then have ok: "b_ok ?t" using d by (simp add: b_ok_def)
  then obtain w where w: "encodeBranch ?t False False = Inr w" by (simp add: encodeBranch_eq)
  have "makeMinimalJump a b = [w]"
    using d w by (simp add: makeMinimalJump_def Let_def smod4_iff)
  moreover have "(ucast a :: u64) + scast ?t = ucast b"
  proof -
    have "(ucast a :: u64) + scast ?t = of_int (uint a + sint ?t)" by simp
    also have "uint a + sint ?t = uint b" unfolding sint by simp
    also have "(of_int (uint b) :: u64) = ucast b" by simp
    finally show ?thesis .
  qed
  then have "exec lv2 w (s\<lparr>pc := ucast a\<rparr>) = Some (s\<lparr>pc := ucast b\<rparr>)" for lv2 s
    using decode_encodeBranch(2) [OF w] ok by (simp add: exec_def scast_branch_field branch_to_def)
  ultimately show ?thesis by blast
qed

lemma length_one_near: "length (makeMinimalJump a b) = 1 \<longleftrightarrow> jump_near a b"
  by (cases "jump_near a b") (auto dest: makeMinimalJump_near simp: makeMinimalJump_far)

lemma aligned_clear: "4 dvd unat b \<Longrightarrow> (ucast b :: u64) AND NOT (mask 2) = ucast b" for b :: u32
proof -
  assume "4 dvd unat b"
  then have "take_bit 2 (unat b) = 0" by (simp add: take_bit_eq_mod)
  then have "take_bit 2 b = 0" by (simp add: unsigned_take_bit_eq [symmetric] unat_eq_0)
  then have "\<not> bit b n" if "n < 2" for n using that bit_take_bit_iff [of 2 b n] by simp
  then show ?thesis
    by (intro bit_word_eqI) (auto simp: bit_and_iff bit_not_iff bit_mask_iff bit_ucast_iff)
qed

lemma run_makeMinimalJump:
  assumes "code_at img (ucast a) (makeMinimalJump a b)" "4 dvd unat b" "unat b < 2 ^ 31"
  shows "run lv2 img (length (makeMinimalJump a b)) (s\<lparr>pc := ucast a\<rparr>) =
    Some (if jump_near a b then s\<lparr>pc := ucast b\<rparr>
      else s\<lparr>gpr := (gpr s)(12 := ucast b), ctr := ucast b, pc := ucast b\<rparr>)"
proof (cases "jump_near a b")
  case True
  then obtain w where "makeMinimalJump a b = [w]"
    "\<And>lv2 s. exec lv2 w (s\<lparr>pc := ucast a\<rparr>) = Some (s\<lparr>pc := ucast b\<rparr>)"
    using makeMinimalJump_near by blast
  then show ?thesis using assms(1) True by (simp add: code_at_Cons step_def)
next
  case False
  let ?s = "s\<lparr>pc := ucast a\<rparr>"
  have "\<not> bit b 31" using assms(3) by (simp add: top_bit_iff)
  then have v: "scast b AND mask 48 = (ucast b :: u64)" by (rule loaded_low)
  have "run lv2 img 5 ?s = Some (?s\<lparr>gpr := (gpr ?s)(ucast (12 :: u32) := scast b AND mask 48),
      ctr := scast b AND mask 48, pc := (scast b AND mask 48) AND NOT (mask 2)\<rparr>)"
    using assms(1) False by (intro run_makeAbsoluteJump) (simp add: makeMinimalJump_far)
  then have "run lv2 img 5 ?s = Some (?s\<lparr>gpr := (gpr ?s)(12 := ucast b), ctr := ucast b, pc := ucast b\<rparr>)"
    unfolding v aligned_clear [OF assms(2)] by simp
  moreover have "length (makeMinimalJump a b) = 5" using False by (simp add: makeMinimalJump_far)
  ultimately show ?thesis using False by (simp only: if_False) simp
qed

section \<open>The whole detour\<close>

lemma ucast_add: "unat a + unat k < 2 ^ 32 \<Longrightarrow> ucast (a + k) = (ucast a + ucast k :: u64)" for a k :: u32
proof -
  assume lt: "unat a + unat k < 2 ^ 32"
  have "unat (ucast (a + k) :: u64) = unat a + unat k"
    using lt by (simp add: unat_word_ariths)
  moreover have "unat (ucast a + ucast k :: u64) = unat a + unat k"
    using lt by (simp add: unat_word_ariths)
  ultimately show ?thesis by (simp add: word_unat_eq_iff)
qed

text \<open>The state in which the displaced instruction runs.\<close>

definition resumed :: "(cpu \<Rightarrow> cpu) \<Rightarrow> EntryDescriptor \<Rightarrow> u32 \<Rightarrow> nat \<Rightarrow> cpu \<Rightarrow> cpu" where
  "resumed lv2 d a n s =
     (module_started lv2 (path_addr d a n) (s\<lparr>pc := ucast (a + 8)\<rparr>))
       \<lparr>gpr := (gpr s)(2 := scast (ucast (tocValue d) :: u32) AND mask 48), lr := lr s, ctr := ctr s,
        pc := ucast (resume_addr a)\<rparr>"

lemma resume_address:
  assumes "unat a + 212 < 2 ^ 32"
  shows "ucast (a + 8) + 196 = (ucast (resume_addr a) :: u64)"
    and "ucast (resume_addr a) + 4 = (ucast (resume_addr a + 4) :: u64)"
  using assms ucast_add [of a 8] ucast_add [of a 204] ucast_add [of a 208]
  by (simp_all add: resume_addr_def add.assoc)

lemma code_at_Nil [simp]: "code_at img a []"
  by (simp add: code_at_def)

text \<open>From the entry point to the displaced instruction, and through it.\<close>

lemma run_to_displaced:
  assumes abi: "lv2_abi lv2" and fits: "unat a + 212 < 2 ^ 32"
    and jin: "jump_near (ucast (codeAddress d)) (a + 8)"
    and entry: "code_at img (ucast (ucast (codeAddress d) :: u32)) (jump_in d a)"
    and code: "code_at img (ucast (a + 8)) (blob_words d a [v])"
    and s: "pc s = ucast (ucast (codeAddress d) :: u32)"
    and v: "exec lv2 v (resumed lv2 d a 1 s) = Some u"
  shows "run lv2 img 51 s = Some u"
proof -
  let ?c = "ucast (codeAddress d) :: u32" and ?r = "resumed lv2 d a 1 s"
  let ?s = "s\<lparr>pc := ucast (a + 8)\<rparr>"
  let ?ws = "injected_words (path_addr d a 1) (ucast (tocValue d))"
  obtain w where w: "jump_in d a = [w]"
    "\<And>s. exec lv2 w (s\<lparr>pc := ucast ?c\<rparr>) = Some (s\<lparr>pc := ucast (a + 8)\<rparr>)"
    unfolding jump_in_def using makeMinimalJump_near [OF jin] by blast
  have "run lv2 img 1 s = Some ?s"
  proof -
    have "s\<lparr>pc := ucast ?c\<rparr> = s" using s by (cases s) simp
    then have "exec lv2 w s = Some ?s" using w(2) [of s] by simp
    then show ?thesis using entry w(1) s by (simp add: code_at_Cons step_def)
  qed
  moreover have "run lv2 img (Suc (length ?ws)) ?s = Some u"
  proof (rule run_seq_then [OF _ _ v])
    show "code_at img (pc ?s) (?ws @ [v])"
      using code by (simp add: blob_words_def code_at_append code_at_Cons)
    show "exec_seq lv2 ?ws ?s = Some ?r"
      unfolding exec_injected [OF abi] by (simp add: resumed_def resume_address(1) [OF fits])
  qed
  ultimately have "run lv2 img (1 + Suc (length ?ws)) s = Some u"
    by (simp only: run_add bind.bind_lunit)
  moreover have "1 + Suc (length ?ws) = 51" by simp
  ultimately show ?thesis by (simp only:)
qed

text \<open>And back behind it, if it falls through.\<close>

lemma run_detour:
  assumes abi: "lv2_abi lv2" and fits: "unat a + 212 < 2 ^ 32"
    and jin: "jump_near (ucast (codeAddress d)) (a + 8)"
    and jback: "jump_near (resume_addr a + 4) (ucast (codeAddress d) + 4)"
    and entry: "code_at img (ucast (ucast (codeAddress d) :: u32)) (jump_in d a)"
    and code: "code_at img (ucast (a + 8)) (blob_words d a [v])"
    and s: "pc s = ucast (ucast (codeAddress d) :: u32)"
    and v: "exec lv2 v (resumed lv2 d a 1 s) = Some u" "pc u = ucast (resume_addr a) + 4"
  shows "run lv2 img 52 s = Some (u\<lparr>pc := ucast (ucast (codeAddress d) + 4 :: u32)\<rparr>)"
proof -
  let ?c = "ucast (codeAddress d) :: u32"
  have j: "resume_addr a + of_nat (1 * 4) = resume_addr a + 4" "?c + of_nat (1 * 4) = ?c + 4" by simp_all
  obtain w where w: "jump_back d a 1 = [w]"
    "\<And>s. exec lv2 w (s\<lparr>pc := ucast (resume_addr a + 4)\<rparr>) = Some (s\<lparr>pc := ucast (?c + 4)\<rparr>)"
    unfolding jump_back_def j using makeMinimalJump_near [OF jback] by blast
  have "run lv2 img 51 s = Some u" using abi fits jin entry code s v(1) by (rule run_to_displaced)
  moreover have "step lv2 img u = Some (u\<lparr>pc := ucast (?c + 4)\<rparr>)"
  proof -
    have "img (ucast (a + 8) + 200) = Some w"
      using code w(1) by (simp add: blob_words_def code_at_append code_at_Cons add.commute [of 200])
    moreover have "pc u = ucast (a + 8) + 200" using v(2) resume_address(1) [OF fits, symmetric] by simp
    moreover have "u\<lparr>pc := ucast (resume_addr a + 4)\<rparr> = u"
      using v(2) resume_address(2) [OF fits] by (cases u) simp
    then have "exec lv2 w u = Some (u\<lparr>pc := ucast (?c + 4)\<rparr>)" using w(2) [of u] by simp
    ultimately show ?thesis by (simp add: step_def)
  qed
  ultimately have "run lv2 img (51 + 1) s = Some (u\<lparr>pc := ucast (?c + 4)\<rparr>)"
    by (simp only: run_add) simp
  then show ?thesis by simp
qed

section \<open>Program images\<close>

text \<open>The image that holds a list of instructions at an address and nothing else.\<close>

definition image_of :: "u64 \<Rightarrow> u32 list \<Rightarrow> u64 \<Rightarrow> u32 option" where
  "image_of a ws x =
     (if 4 dvd unat (x - a) \<and> unat (x - a) div 4 < length ws then Some (ws ! (unat (x - a) div 4))
      else None)"

lemma code_at_image_of:
  assumes "length ws < 2 ^ 60" "\<And>i. i < length ws \<Longrightarrow> img (a + 4 * of_nat i) = image_of a ws (a + 4 * of_nat i)"
  shows "code_at img a ws"
proof -
  have "img (a + 4 * of_nat i) = Some (ws ! i)" if i: "i < length ws" for i
  proof -
    have "unat (4 * of_nat i :: u64) = 4 * i"
    proof -
      have "(4 * of_nat i :: u64) = of_nat (4 * i)" by simp
      moreover have "unat (of_nat (4 * i) :: u64) = 4 * i"
        using i assms(1) by (simp only: unat_of_nat) (simp add: take_bit_nat_eq_self)
      ultimately show ?thesis by (simp only:)
    qed
    then show ?thesis using assms(2) [OF i] i by (simp add: image_of_def)
  qed
  then show ?thesis by (simp add: code_at_def)
qed

end
