(* ===== verification/Loader.thy ===== *)
theory Loader
  imports PatchLemmas TrampolineRun
begin

text \<open>
  The program a PS3 file denotes: the instruction word the system finds at a virtual address once
  the \<open>PT_LOAD\<close> segments are mapped.  It is a specification, of what the ELF standard says of
  loadable segments; the program under verification never loads anything.
\<close>

section \<open>The image of a file\<close>

text \<open>\<open>ph\<close> backs all four bytes of the word at \<open>x\<close> with file bytes.\<close>

definition word_offset :: "u64 \<Rightarrow> Elf64_Phdr \<Rightarrow> u64" where
  "word_offset x ph = p_offset Ps3 ph + (x - p_vaddr Ps3 ph)"

definition maps_word :: "Ps3ElfFile \<Rightarrow> u64 \<Rightarrow> Elf64_Phdr \<Rightarrow> bool" where
  "maps_word f x ph \<longleftrightarrow> p_type Ps3 ph = PT_LOAD \<and> p_vaddr Ps3 ph \<le> x \<and>
     unat (x - p_vaddr Ps3 ph) + 4 \<le> unat (p_filesz Ps3 ph) \<and>
     unat (word_offset x ph) + 4 \<le> length (raw f)"

text \<open>Where in the file the word at \<open>x\<close> comes from, and the word.\<close>

definition word_source :: "Ps3ElfFile \<Rightarrow> u64 \<Rightarrow> u64 option" where
  "word_source f x = map_option (word_offset x) (find (maps_word f x) (segments f))"

definition loaded_word :: "Ps3ElfFile \<Rightarrow> u64 \<Rightarrow> u32 option" where
  "loaded_word f x = map_option (\<lambda>k. be_word (slice (unat k) 4 (raw f))) (word_source f x)"

text \<open>The \<open>n\<close> bytes from \<open>x\<close> on lie outside what the segment loads from the file.\<close>

definition block_off :: "u64 \<Rightarrow> nat \<Rightarrow> Elf64_Phdr \<Rightarrow> bool" where
  "block_off x n ph \<longleftrightarrow> p_type Ps3 ph \<noteq> PT_LOAD \<or> unat x + n \<le> unat (p_vaddr Ps3 ph) \<or>
     unat (p_vaddr Ps3 ph) + unat (p_filesz Ps3 ph) \<le> unat x"

lemma find_first: "\<forall>q\<in>set qs. \<not> P q \<Longrightarrow> P x \<Longrightarrow> find P (qs @ x # xs) = Some x"
  by (induction qs) auto

lemma unat_word_at: "unat x + 4 * i < 2 ^ 64 \<Longrightarrow> unat (x + 4 * of_nat i :: u64) = unat x + 4 * i"
proof -
  assume lt: "unat x + 4 * i < 2 ^ 64"
  have "(4 * of_nat i :: u64) = of_nat (4 * i)" by simp
  moreover have "unat (of_nat (4 * i) :: u64) = 4 * i"
    using lt by (simp only: unat_of_nat) (simp add: take_bit_nat_eq_self)
  ultimately show ?thesis using lt by (simp only: unat_word_ariths) simp
qed

lemma block_off_maps:
  assumes "block_off x (4 * n) q" "i < n" "unat x + 4 * n \<le> 2 ^ 64"
  shows "\<not> maps_word f (x + 4 * of_nat i) q"
proof
  assume m: "maps_word f (x + 4 * of_nat i) q"
  have y: "unat (x + 4 * of_nat i) = unat x + 4 * i" using assms(2,3) by (intro unat_word_at) simp
  have le: "unat (p_vaddr Ps3 q) \<le> unat x + 4 * i"
    using m y by (simp add: maps_word_def word_le_nat_alt)
  have "unat (x + 4 * of_nat i - p_vaddr Ps3 q) = unat x + 4 * i - unat (p_vaddr Ps3 q)"
    using m y by (subst unat_sub) (simp_all add: maps_word_def)
  then show False using assms(1,2) m le by (auto simp: block_off_def maps_word_def)
qed

text \<open>Instructions written in a segment's file bytes are the code at their address.\<close>

lemma code_at_segment:
  assumes "segments f = qs @ ph # rest" "\<forall>q\<in>set qs. block_off x (4 * length ws) q"
    and "p_type Ps3 ph = PT_LOAD" "p_vaddr Ps3 ph \<le> x"
    and fits: "unat (x - p_vaddr Ps3 ph) + 4 * length ws \<le> unat (p_filesz Ps3 ph)"
    and infile: "unat (word_offset x ph) + 4 * length ws \<le> length (raw f)"
    and code: "slice (unat (word_offset x ph)) (4 * length ws) (raw f) = toBigEndianBytes ws"
    and lim: "unat x + 4 * length ws \<le> 2 ^ 64" "length (raw f) < 2 ^ 64"
  shows "code_at (loaded_word f) x ws"
  unfolding code_at_def
proof (intro allI impI)
  fix i assume i: "i < length ws"
  let ?y = "x + 4 * of_nat i"
  have y: "unat ?y = unat x + 4 * i" using i lim(1) by (intro unat_word_at) simp
  have v: "p_vaddr Ps3 ph \<le> ?y" using assms(4) y by (simp add: word_le_nat_alt)
  have "unat (?y - p_vaddr Ps3 ph) = unat (x - p_vaddr Ps3 ph) + 4 * i"
    using v assms(4) y by (simp add: unat_sub word_le_nat_alt)
  moreover have "word_offset ?y ph = word_offset x ph + 4 * of_nat i" by (simp add: word_offset_def)
  then have off: "unat (word_offset ?y ph) = unat (word_offset x ph) + 4 * i"
    using i infile lim(2) by (simp only:) (intro unat_word_at; simp)
  ultimately have "maps_word f ?y ph"
    using v i assms(3) fits infile by (simp add: maps_word_def)
  moreover have "\<forall>q\<in>set qs. \<not> maps_word f ?y q"
    using block_off_maps [OF _ i lim(1)] assms(2) by blast
  ultimately have "find (maps_word f ?y) (segments f) = Some ph"
    unfolding assms(1) by (intro find_first)
  moreover have "slice (unat (word_offset ?y ph)) 4 (raw f) = be_bytes 4 (ws ! i)"
  proof -
    have "slice (unat (word_offset ?y ph)) 4 (raw f) = slice (4 * i) 4 (toBigEndianBytes ws)"
      unfolding off code [symmetric] using i by (intro slice_slice [symmetric]) simp
    then show ?thesis using slice_toBigEndianBytes [of i ws "[]"] i by (simp add: mult.commute)
  qed
  ultimately show "loaded_word f ?y = Some (ws ! i)" by (simp add: loaded_word_def word_source_def)
qed

text \<open>Reading a run of bytes as instructions loses nothing.\<close>

lemma toBigEndianBytes_readInstructions:
  assumes "length bs = 4 * n"
  shows "toBigEndianBytes (readInstructions n bs) = bs"
proof -
  have "readInstructions n bs = table_at 4 be_word bs 0 n"
    using assms by (subst readInstructions_eq) (simp_all add: table_at_def)
  then show ?thesis
    using assms table_at_store [of 4 "be_bytes 4" "be_word :: bytes \<Rightarrow> u32" 0 n bs]
    by (simp add: toBigEndianBytes_eq mult.commute)
qed

section \<open>Programs that can be loaded\<close>

text \<open>
  What a linker guarantees of a PS3 program: the loaded segments lie in the file, are not larger
  there than in memory, and leave 128 KB free at the top of the 32-bit address space.
\<close>

definition loadable :: "Ps3ElfFile \<Rightarrow> bool" where
  "loadable f \<longleftrightarrow> (\<forall>ph\<in>set (segments f). p_type Ps3 ph = PT_LOAD \<longrightarrow>
     unat (p_filesz Ps3 ph) \<le> unat (p_memsz Ps3 ph) \<and>
     unat (p_offset Ps3 ph) + unat (p_filesz Ps3 ph) \<le> length (raw f) \<and>
     unat (p_vaddr Ps3 ph) + unat (p_memsz Ps3 ph) + 0x20000 \<le> 2 ^ 32)"

text \<open>
  The \<open>n\<close> bytes of code at the address \<open>c\<close>, file offset \<open>off\<close>, lie within one loaded segment and
  outside the others, and in the file apart from the ELF header and the section header table.
\<close>

definition plain_code :: "Ps3ElfFile \<Rightarrow> u64 \<Rightarrow> nat \<Rightarrow> nat \<Rightarrow> bool" where
  "plain_code f c n off \<longleftrightarrow>
     (\<forall>ph\<in>set (segments f). block_off c n ph \<or>
        unat (p_vaddr Ps3 ph) \<le> unat c \<and> unat c + n \<le> unat (p_vaddr Ps3 ph) + unat (p_filesz Ps3 ph)) \<and>
     64 \<le> off \<and> (off + n \<le> unat (e_shoff Ps3 (header f)) \<or>
        unat (e_shoff Ps3 (header f)) + length (sections f) * 64 \<le> off)"

lemma find_split:
  "find P xs = Some x \<Longrightarrow> \<exists>qs rest. xs = qs @ x # rest \<and> (\<forall>q\<in>set qs. \<not> P q) \<and> P x"
proof (induction xs)
  case (Cons y ys)
  show ?case
  proof (cases "P y")
    case True
    then show ?thesis using Cons.prems by (intro exI [of _ "[]"] exI [of _ ys]) simp
  next
    case False
    then obtain qs rest where "ys = qs @ x # rest" "\<forall>q\<in>set qs. \<not> P q" "P x" using Cons by auto
    then show ?thesis using False by (intro exI [of _ "y # qs"] exI [of _ rest]) simp
  qed
qed simp

text \<open>The segment the address lookup finds is the one that holds the whole block.\<close>

lemma block_segment:
  assumes "loadable f" "plain_code f c n k" "0 < n" "vaddrToFileOffset Ps3 c f = Inr off"
  shows "\<exists>qs ph rest. segments f = qs @ ph # rest \<and> (\<forall>q\<in>set qs. block_off c n q) \<and>
    p_type Ps3 ph = PT_LOAD \<and> p_vaddr Ps3 ph \<le> c \<and>
    unat (c - p_vaddr Ps3 ph) + n \<le> unat (p_filesz Ps3 ph) \<and> off = word_offset c ph"
proof -
  obtain qs ph rest where s: "segments f = qs @ ph # rest" "\<forall>q\<in>set qs. \<not> covers Ps3 c q"
    "covers Ps3 c ph" "off = word_offset c ph"
    using assms(4) find_split [of "covers Ps3 c" "segments f"]
    unfolding vaddrToFileOffset_Inr word_offset_def by blast
  have lim: "unat (p_vaddr Ps3 q) + unat (p_filesz Ps3 q) < 2 ^ 64"
    if "q \<in> set (segments f)" "p_type Ps3 q = PT_LOAD" for q
    using assms(1) that by (fastforce simp: loadable_def)
  have off: "block_off c n q" if q: "q \<in> set qs" for q
  proof (cases "p_type Ps3 q = PT_LOAD")
    case True
    then have "\<not> (unat (p_vaddr Ps3 q) \<le> unat c \<and> unat c < unat (p_vaddr Ps3 q) + unat (p_filesz Ps3 q))"
      using s(1,2) q lim [of q] covers_iff [of Ps3 q c] by (auto simp: backs_def)
    moreover have "block_off c n q \<or> unat (p_vaddr Ps3 q) \<le> unat c \<and>
        unat c + n \<le> unat (p_vaddr Ps3 q) + unat (p_filesz Ps3 q)"
      using assms(2) s(1) q by (simp add: plain_code_def)
    ultimately show ?thesis using assms(3) by linarith
  qed (simp add: block_off_def)
  have load: "p_type Ps3 ph = PT_LOAD" using s(3) by (simp add: covers_def)
  then have in_ph: "unat (p_vaddr Ps3 ph) \<le> unat c" "unat c < unat (p_vaddr Ps3 ph) + unat (p_filesz Ps3 ph)"
    using s(1,3) lim [of ph] covers_iff [of Ps3 ph c] by (auto simp: backs_def)
  moreover have "block_off c n ph \<or> unat (p_vaddr Ps3 ph) \<le> unat c \<and>
      unat c + n \<le> unat (p_vaddr Ps3 ph) + unat (p_filesz Ps3 ph)"
    using assms(2) s(1) by (simp add: plain_code_def)
  ultimately have fits: "unat c + n \<le> unat (p_vaddr Ps3 ph) + unat (p_filesz Ps3 ph)"
    using assms(3) load by (auto simp: block_off_def)
  have le: "p_vaddr Ps3 ph \<le> c" using in_ph(1) by (simp add: word_le_nat_alt)
  then have "unat (c - p_vaddr Ps3 ph) + n \<le> unat (p_filesz Ps3 ph)"
    using fits in_ph(1) by (simp add: unat_sub)
  then show ?thesis using s(1,4) off load le by blast
qed

end
