(* ===== verification/PatchedImage.thy ===== *)
theory PatchedImage
  imports Loader
begin

text \<open>
  The image of the file a run of \<open>main\<close> writes, against the image of its input: the jump at the
  entry point, the trampoline's code at its address, and every other word as it was.
\<close>

section \<open>Above all segments\<close>

lemma highestEnd_le:
  assumes "\<And>ph. ph \<in> set phs \<Longrightarrow> p_type Ps3 ph = PT_LOAD \<Longrightarrow> p_vaddr Ps3 ph + p_memsz Ps3 ph \<le> B"
  shows "highestEnd phs \<le> B"
proof -
  have "acc \<le> B \<Longrightarrow> foldl (\<lambda>acc ph. if p_type Ps3 ph \<noteq> PT_LOAD then acc
       else let end_addr = p_vaddr Ps3 ph + p_memsz Ps3 ph in
         if end_addr > acc then end_addr else acc) acc phs \<le> B" for acc
    using assms
  proof (induction phs arbitrary: acc)
    case (Cons ph phs)
    show ?case using Cons.prems by (auto simp: Let_def intro!: Cons.IH)
  qed simp
  then show ?thesis by (simp only: highestEnd_def) simp
qed

lemma loadable_end:
  assumes "loadable f" "ph \<in> set (segments f)" "p_type Ps3 ph = PT_LOAD"
  shows "unat (p_vaddr Ps3 ph + p_memsz Ps3 ph) = unat (p_vaddr Ps3 ph) + unat (p_memsz Ps3 ph)"
    and "unat (p_vaddr Ps3 ph) + unat (p_memsz Ps3 ph) + 0x20000 \<le> 2 ^ 32"
    and "unat (p_filesz Ps3 ph) \<le> unat (p_memsz Ps3 ph)"
proof -
  show le: "unat (p_vaddr Ps3 ph) + unat (p_memsz Ps3 ph) + 0x20000 \<le> 2 ^ 32"
    "unat (p_filesz Ps3 ph) \<le> unat (p_memsz Ps3 ph)"
    using assms by (simp_all add: loadable_def)
  then show "unat (p_vaddr Ps3 ph + p_memsz Ps3 ph) = unat (p_vaddr Ps3 ph) + unat (p_memsz Ps3 ph)"
    by (subst unat_word_ariths) simp
qed

lemma loadable_placement:
  assumes "loadable f"
  shows "unat (placement f) + 0x10000 \<le> 2 ^ 32"
    and "\<And>ph. ph \<in> set (segments f) \<Longrightarrow> p_type Ps3 ph = PT_LOAD \<Longrightarrow>
      unat (p_vaddr Ps3 ph) + unat (p_memsz Ps3 ph) \<le> unat (placement f)"
    and "4 dvd unat (placement f)"
proof -
  have "highestEnd (segments f) \<le> 0xFFFE0000"
  proof (rule highestEnd_le)
    fix ph assume "ph \<in> set (segments f)" "p_type Ps3 ph = PT_LOAD"
    from loadable_end [OF assms this] show "p_vaddr Ps3 ph + p_memsz Ps3 ph \<le> 0xFFFE0000"
      by (simp add: word_le_nat_alt)
  qed
  then have top: "unat (highestEnd (segments f)) \<le> 0xFFFE0000" by (simp add: word_le_nat_alt)
  then have room: "unat (highestEnd (segments f)) + 0xFFFF < 2 ^ 32" by simp
  note P = placement_unat [OF room]
  show "unat (placement f) + 0x10000 \<le> 2 ^ 32" using P(3) top by simp
  show "4 dvd unat (placement f)" using P(2) by (rule dvd_trans [rotated]) simp
  show "unat (p_vaddr Ps3 ph) + unat (p_memsz Ps3 ph) \<le> unat (placement f)"
    if "ph \<in> set (segments f)" "p_type Ps3 ph = PT_LOAD" for ph
    using highestEnd_upper [OF that] loadable_end(1) [OF assms that] P(1)
    by (simp add: word_le_nat_alt)
qed

section \<open>The image of the output\<close>

definition patched_file :: "Ps3ElfFile \<Rightarrow> TrampolineResult \<Rightarrow> u64 \<Rightarrow> Ps3ElfFile" where
  "patched_file f t off = injected_file f t off\<lparr>raw := patched_bytes f t off\<rparr>"

lemma patched_file_simps [simp]:
  "segments (patched_file f t off) = segments f @ [new_segment f t]"
  "raw (patched_file f t off) = patched_bytes f t off"
  by (simp_all add: patched_file_def injected_file_def)

text \<open>What the code assumes of its input, and the patch of it.\<close>

definition plain_patch :: "bytes \<Rightarrow> Ps3ElfFile \<Rightarrow> EntryDescriptor \<Rightarrow> string \<Rightarrow> TrampolineResult \<Rightarrow> u64 \<Rightarrow> bool" where
  "plain_patch bs f d p t off \<longleftrightarrow> patching bs f d p t off \<and> room f \<and> loadable f \<and>
     plain_code f (codeAddress d) (4 * displacedInstructionCount t) (unat off)"

lemma plain_patchD:
  assumes "plain_patch bs f d p t off"
  shows "patching bs f d p t off" "room f" "loadable f"
    and "plain_code f (codeAddress d) (4 * length (jump_in d (placement f))) (unat off)"
    and "displacedInstructionCount t = length (jump_in d (placement f))"
    and "length (patched_bytes f t off) < 2 ^ 64" "length bs + length (blob t) \<le> length (patched_bytes f t off)"
    and "length bs < 2 ^ 64" "unat off + 4 * length (jump_in d (placement f)) \<le> length bs"
    and "vaddrToFileOffset Ps3 (codeAddress d) f = Inr off" "unat (codeAddress d) < 2 ^ 32"
    and "0 < length (jump_in d (placement f))" "length (jump_in d (placement f)) \<le> 5"
proof -
  show p: "patching bs f d p t off" "room f" "loadable f" using assms by (simp_all add: plain_patch_def)
  note D = patchingD [OF p(1)]
  show n: "displacedInstructionCount t = length (jump_in d (placement f))"
    using D(6) by (auto simp: trampoline_of_def)
  show "plain_code f (codeAddress d) (4 * length (jump_in d (placement f))) (unat off)"
    using assms n by (simp add: plain_patch_def)
  show "length (patched_bytes f t off) < 2 ^ 64" using length_patched_bytes [OF p(1)] by simp
  show "length bs + length (blob t) \<le> length (patched_bytes f t off)"
    using length_patched_layers(3) [OF p(1)] by simp
  show "length bs < 2 ^ 64" "vaddrToFileOffset Ps3 (codeAddress d) f = Inr off"
    using p(1) by (simp_all add: patching_def)
  show "unat off + 4 * length (jump_in d (placement f)) \<le> length bs" using D(7,8) by simp
  have "unat (ucast (entryPatchAddr t) :: u64) < 2 ^ 32"
    using unsigned_less [of "entryPatchAddr t", where ?'a = nat] by simp
  then show "unat (codeAddress d) < 2 ^ 32" unfolding D(10) .
  show "0 < length (jump_in d (placement f))" "length (jump_in d (placement f)) \<le> 5"
    using length_jump_in [of d "placement f"] by auto
qed

lemma original_entry_code:
  assumes "plain_patch bs f d p t off"
  defines "n \<equiv> length (jump_in d (placement f))"
  shows "code_at (loaded_word f) (codeAddress d) (readInstructions n (slice (unat off) (4 * n) bs))"
proof -
  note P = plain_patchD [OF assms(1), folded n_def] and raw = patchingD(3) [OF plain_patchD(1) [OF assms(1)]]
  let ?ws = "readInstructions n (slice (unat off) (4 * n) bs)"
  have "0 < 4 * n" using P(12) by simp
  then obtain qs ph rest where s: "segments f = qs @ ph # rest" "\<forall>q\<in>set qs. block_off (codeAddress d) (4 * n) q"
    "p_type Ps3 ph = PT_LOAD" "p_vaddr Ps3 ph \<le> codeAddress d"
    "unat (codeAddress d - p_vaddr Ps3 ph) + 4 * n \<le> unat (p_filesz Ps3 ph)" "off = word_offset (codeAddress d) ph"
    using block_segment [OF P(3,4) _ P(10)] by blast
  have len: "length (slice (unat off) (4 * n) bs) = 4 * n" using P(9) by simp
  show ?thesis
    by (rule code_at_segment [OF s(1)])
      (use s len P(8,9,11,13) raw in \<open>simp_all add: toBigEndianBytes_readInstructions\<close>)
qed

lemma patched_entry_code:
  assumes "plain_patch bs f d p t off"
  shows "code_at (loaded_word (patched_file f t off)) (codeAddress d) (jump_in d (placement f))"
proof -
  let ?n = "length (jump_in d (placement f))"
  note P = plain_patchD [OF assms]
  note D = patchingD [OF P(1)]
  have "0 < 4 * ?n" using P(12) by simp
  then obtain qs ph rest where s: "segments f = qs @ ph # rest" "\<forall>q\<in>set qs. block_off (codeAddress d) (4 * ?n) q"
    "p_type Ps3 ph = PT_LOAD" "p_vaddr Ps3 ph \<le> codeAddress d"
    "unat (codeAddress d - p_vaddr Ps3 ph) + 4 * ?n \<le> unat (p_filesz Ps3 ph)" "off = word_offset (codeAddress d) ph"
    using block_segment [OF P(3,4) _ P(10)] by blast
  have segs: "segments (patched_file f t off) = qs @ ph # (rest @ [new_segment f t])" using s(1) by simp
  have bytes: "entryPatchBytes t = toBigEndianBytes (jump_in d (placement f))"
    using D(6) by (auto simp: trampoline_of_def)
  have "slice (unat off) (4 * ?n) (patched_bytes f t off) = toBigEndianBytes (jump_in d (placement f))"
    using patched_entry [OF P(1)] P(4) D(7) bytes by (auto simp: plain_code_def)
  then show ?thesis
    by (intro code_at_segment [OF segs]) (use s P(6,7,9,11,13) in simp_all)
qed

lemma patched_blob_code:
  assumes "plain_patch bs f d p t off" "t = trampoline_of d (placement f) p vs"
  shows "code_at (loaded_word (patched_file f t off)) (ucast (placement f + 8)) (blob_words d (placement f) vs)"
proof -
  let ?a = "placement f" and ?ws = "blob_words d (placement f) vs"
  note P = plain_patchD [OF assms(1)]
  note N = new_segment_fields [OF P(1)] and A = loadable_placement [OF P(3)]
  note B = blob_parts(5) [where d = d and a = ?a and vs = vs and p = p, folded assms(2)]
  have x: "ucast (?a + 8) = (ucast ?a + 8 :: u64)" using A(1) ucast_add [of ?a 8] by simp
  have xn: "unat (ucast ?a + 8 :: u64) = unat ?a + 8" using A(1) by (subst unat_word_ariths) simp
  have off: "word_offset (ucast ?a + 8) (new_segment f t) = p_offset Ps3 (new_segment f t) + 8"
    by (simp add: word_offset_def N(4))
  have offn: "unat (word_offset (ucast ?a + 8) (new_segment f t)) = length bs + 8"
    unfolding off using N(2) P(6,7) B by (subst unat_word_ariths) simp
  have above: "block_off (ucast ?a + 8) (4 * length ?ws) q" if "q \<in> set (segments f)" for q
    using A(2) [OF that] loadable_end(3) [OF P(3) that] xn by (auto simp: block_off_def)
  have code: "slice (length bs + 8) (4 * length ?ws) (patched_bytes f t off) = toBigEndianBytes ?ws"
  proof -
    have "slice (length bs + 8) (4 * length ?ws) (patched_bytes f t off) =
        slice 8 (4 * length ?ws) (slice (length bs) (length (blob t)) (patched_bytes f t off))"
      using B by (simp add: slice_slice)
    also have "\<dots> = slice 8 (4 * length ?ws) (blob t)" by (simp only: patched_blob [OF P(1,2)])
    also have "\<dots> = toBigEndianBytes ?ws"
      unfolding assms(2) by (subst blob_trampoline_of) (simp add: slice_def)
    finally show ?thesis .
  qed
  have "v \<le> v + 8" if "unat v + 8 < 2 ^ 64" for v :: u64
    using that by (simp add: word_le_nat_alt unat_word_ariths)
  then have le: "(ucast ?a :: u64) \<le> ucast ?a + 8" using A(1) by simp
  have small: "length (blob t) < 1280" by (rule blob_bound(2) [OF P(1)])
  show ?thesis unfolding x
    by (rule code_at_segment [where qs = "segments f" and rest = "[]" and ph = "new_segment f t"])
      (use above code le small A(1) B N P(6,7) xn offn in simp_all)
qed

section \<open>Every other word\<close>

lemma maps_word_patched:
  assumes "plain_patch bs f d p t off" "ph \<in> set (segments f)"
  shows "maps_word (patched_file f t off) x ph \<longleftrightarrow> maps_word f x ph"
proof -
  note P = plain_patchD [OF assms(1)] and raw = patchingD(3) [OF plain_patchD(1) [OF assms(1)]]
  have "unat (word_offset x ph) + 4 \<le> length bs"
    if "p_type Ps3 ph = PT_LOAD" "unat (x - p_vaddr Ps3 ph) + 4 \<le> unat (p_filesz Ps3 ph)"
  proof -
    have in_file: "unat (p_offset Ps3 ph) + unat (p_filesz Ps3 ph) \<le> length bs"
      using P(3) assms(2) that(1) raw by (simp add: loadable_def)
    then have "unat (word_offset x ph) = unat (p_offset Ps3 ph) + unat (x - p_vaddr Ps3 ph)"
      unfolding word_offset_def using that(2) P(8) by (subst unat_word_ariths) simp
    then show ?thesis using in_file that(2) by simp
  qed
  then show ?thesis using P(7) raw by (auto simp: maps_word_def)
qed

lemma word_source_patched:
  assumes "plain_patch bs f d p t off"
  shows "word_source (patched_file f t off) x =
    (case word_source f x of Some k \<Rightarrow> Some k
     | None \<Rightarrow> if maps_word (patched_file f t off) x (new_segment f t)
         then Some (word_offset x (new_segment f t)) else None)"
proof -
  have "find (maps_word (patched_file f t off) x) phs = find (maps_word f x) phs"
    if "set phs \<subseteq> set (segments f)" for phs
    using that maps_word_patched [OF assms] by (induction phs) auto
  moreover have "find P (xs @ [y]) = (case find P xs of Some z \<Rightarrow> Some z | None \<Rightarrow> if P y then Some y else None)"
    for P :: "Elf64_Phdr \<Rightarrow> bool" and xs y by (induction xs) auto
  ultimately show ?thesis by (auto simp: word_source_def split: option.splits)
qed

lemma loaded_word_patched:
  assumes "plain_patch bs f d p t off" "word_source f x = Some k" "64 \<le> unat k"
    and "unat k + 4 \<le> unat off \<or> unat off + 4 * displacedInstructionCount t \<le> unat k"
  shows "loaded_word (patched_file f t off) x = loaded_word f x"
proof -
  note P = plain_patchD [OF assms(1)] and D = patchingD [OF plain_patchD(1) [OF assms(1)]]
  obtain ph where "find (maps_word f x) (segments f) = Some ph" "k = word_offset x ph"
    using assms(2) by (auto simp: word_source_def)
  then have fits: "unat k + 4 \<le> length bs" using find_SomeD D(3) by (fastforce simp: maps_word_def)
  have "slice (unat k) 4 (patched_bytes f t off) = slice (unat k) 4 bs"
  proof (rule nth_equalityI)
    show "length (slice (unat k) 4 (patched_bytes f t off)) = length (slice (unat k) 4 bs)"
      using fits P(7) by simp
    fix i assume "i < length (slice (unat k) 4 (patched_bytes f t off))"
    then have i: "i < 4" by simp
    have "patched_bytes f t off ! (unat k + i) = bs ! (unat k + i)"
      by (rule patched_frame [OF P(1)]) (use assms(3,4) i fits P(5) D(7) in auto)
    then show "slice (unat k) 4 (patched_bytes f t off) ! i = slice (unat k) 4 bs ! i"
      using i fits P(7) by simp
  qed
  then show ?thesis using assms(2) D(3) by (simp add: loaded_word_def word_source_patched [OF assms(1)])
qed

lemma loaded_word_new:
  assumes "plain_patch bs f d p t off"
    and "loaded_word f x = None" "loaded_word (patched_file f t off) x \<noteq> None"
  shows "unat (placement f) \<le> unat x \<and> unat x + 4 \<le> unat (placement f) + length (blob t)"
proof -
  note N = new_segment_fields [OF plain_patchD(1) [OF assms(1)]]
  have m: "maps_word (patched_file f t off) x (new_segment f t)"
    using assms(2,3) by (auto simp: loaded_word_def word_source_patched [OF assms(1)] split: if_splits)
  then have le: "ucast (placement f) \<le> x" by (simp add: maps_word_def N(4))
  then have "unat (x - ucast (placement f)) = unat x - unat (placement f)"
    by (simp add: unat_sub word_le_nat_alt)
  then show ?thesis using m le by (auto simp: maps_word_def N(3,4) word_le_nat_alt)
qed

end
