(* ===== verification/Detour.thy ===== *)
theory Detour
  imports TrampolineRun
begin

text \<open>
  The whole detour, for jumps of either length: from the entry point to the displaced
  instructions, and from behind them back into the original program.
\<close>

text \<open>The state after a minimal jump: the far form leaves its target in r12 and in CTR.\<close>

definition jumped :: "u32 \<Rightarrow> u32 \<Rightarrow> cpu \<Rightarrow> cpu" where
  "jumped a b s =
     (if jump_near a b then s\<lparr>pc := ucast b\<rparr>
      else s\<lparr>gpr := (gpr s)(12 := ucast b), ctr := ucast b, pc := ucast b\<rparr>)"

text \<open>A jump reaches its target if one instruction does, or the target is aligned and below \<open>2 ^ 31\<close>.\<close>

definition jump_ok :: "u32 \<Rightarrow> u32 \<Rightarrow> bool" where
  "jump_ok a b \<longleftrightarrow> jump_near a b \<or> 4 dvd unat b \<and> unat b < 2 ^ 31"

lemma jumped_pc [simp]: "pc (jumped a b s) = ucast b"
  by (simp add: jumped_def)

lemma run_jump:
  assumes "code_at img (ucast a) (makeMinimalJump a b)" "jump_ok a b" "pc s = ucast a"
  shows "run lv2 img (length (makeMinimalJump a b)) s = Some (jumped a b s)"
proof -
  have s: "s\<lparr>pc := ucast a\<rparr> = s" using assms(3) by (cases s) simp
  show ?thesis
  proof (cases "jump_near a b")
    case True
    from makeMinimalJump_near [OF True] obtain w where w: "makeMinimalJump a b = [w]"
      "\<And>lv2 s. exec lv2 w (s\<lparr>pc := ucast a\<rparr>) = Some (s\<lparr>pc := ucast b\<rparr>)" by blast
    from w(2) [of lv2 s] have "exec lv2 w s = Some (jumped a b s)" using True by (simp add: s jumped_def)
    then show ?thesis using assms(1,3) w(1) by (simp add: code_at_Cons step_def)
  next
    case False
    then have "4 dvd unat b" "unat b < 2 ^ 31" using assms(2) by (simp_all add: jump_ok_def)
    from run_makeMinimalJump [OF assms(1) this, of lv2 s] False show ?thesis by (simp add: s jumped_def)
  qed
qed

text \<open>Where the relocated block and the jump back lie.\<close>

lemma resume_ucast:
  assumes "unat a + 204 + 4 * n < 2 ^ 32"
  shows "ucast (a + 8) + 4 * of_nat (49 + n) = (ucast (resume_addr a + of_nat (n * 4)) :: u64)"
proof -
  have n: "unat (of_nat (n * 4) :: u32) = n * 4"
    using assms by (simp only: unat_of_nat) (simp add: take_bit_nat_eq_self)
  have r: "unat (resume_addr a) = unat a + 204"
    using assms by (simp add: resume_addr_def add.assoc unat_word_ariths)
  have "ucast (resume_addr a + of_nat (n * 4)) = (ucast (resume_addr a) + ucast (of_nat (n * 4) :: u32) :: u64)"
    using assms n r by (intro ucast_add) simp
  also have "ucast (resume_addr a) = (ucast a + 204 :: u64)"
    using assms ucast_add [of a 204] by (simp add: resume_addr_def add.assoc)
  also have "ucast (of_nat (n * 4) :: u32) = (4 * of_nat n :: u64)"
  proof -
    have "ucast (of_nat (n * 4) :: u32) = (of_nat (unat (of_nat (n * 4) :: u32)) :: u64)" by simp
    then show ?thesis unfolding n by (simp add: mult.commute)
  qed
  also have "ucast a + 204 + 4 * of_nat n = ucast (a + 8) + 4 * (of_nat (49 + n) :: u64)"
  proof -
    have "ucast (a + 8) = (ucast a + 8 :: u64)" using assms ucast_add [of a 8] by simp
    moreover have "4 * (of_nat (49 + n) :: u64) = 196 + 4 * of_nat n" by (simp add: distrib_left)
    ultimately show ?thesis by (simp add: add.assoc)
  qed
  finally show ?thesis by simp
qed

lemma blob_code:
  assumes "code_at img (ucast (a + 8)) (blob_words d a vs)" "unat a + 204 + 4 * length vs < 2 ^ 32"
  defines "n \<equiv> length vs"
  shows "code_at img (ucast (a + 8)) (injected_words (path_addr d a n) (ucast (tocValue d)))"
    and "code_at img (ucast (resume_addr a)) vs"
    and "code_at img (ucast (resume_addr a + of_nat (n * 4))) (jump_back d a n)"
proof -
  have "code_at img (ucast (a + 8) + 4 * of_nat (49 + 0)) (vs @ jump_back d a n)"
    and inj: "code_at img (ucast (a + 8)) (injected_words (path_addr d a n) (ucast (tocValue d)))"
    using assms(1) by (simp_all add: blob_words_def code_at_append n_def)
  then have rest: "code_at img (ucast (resume_addr a)) (vs @ jump_back d a n)"
    using assms(2) resume_ucast [of a 0] by simp
  show "code_at img (ucast (a + 8)) (injected_words (path_addr d a n) (ucast (tocValue d)))" by (rule inj)
  show "code_at img (ucast (resume_addr a)) vs" using rest by (simp add: code_at_append)
  have "(ucast (resume_addr a) + 4 * of_nat n :: u64) = ucast (resume_addr a + of_nat (n * 4))"
    using assms(2) resume_ucast [of a n] resume_ucast [of a 0] by (simp add: n_def algebra_simps)
  then show "code_at img (ucast (resume_addr a + of_nat (n * 4))) (jump_back d a n)"
    using rest by (simp add: code_at_append n_def)
qed

text \<open>From the entry point to the displaced instructions.\<close>

lemma run_to_resume:
  assumes "lv2_abi lv2" "unat a + 204 + 4 * length vs < 2 ^ 32"
    and "jump_ok (ucast (codeAddress d)) (a + 8)"
    and "code_at img (ucast (ucast (codeAddress d) :: u32)) (jump_in d a)"
    and "code_at img (ucast (a + 8)) (blob_words d a vs)"
    and "pc s = ucast (ucast (codeAddress d) :: u32)"
  shows "run lv2 img (length (jump_in d a) + 49) s =
    Some (resumed lv2 d a (length vs) (jumped (ucast (codeAddress d)) (a + 8) s))"
proof -
  let ?s = "jumped (ucast (codeAddress d)) (a + 8) s"
  let ?ws = "injected_words (path_addr d a (length vs)) (ucast (tocValue d))"
  have "run lv2 img (length (jump_in d a)) s = Some ?s"
    using assms(4) run_jump [OF _ assms(3,6)] by (simp add: jump_in_def)
  moreover have "run lv2 img (length ?ws) ?s = Some (resumed lv2 d a (length vs) ?s)"
  proof -
    have s: "?s\<lparr>pc := ucast (a + 8)\<rparr> = ?s" by (cases ?s) (metis cpu.select_convs(5) cpu.update_convs(5) jumped_pc)
    have "exec_seq lv2 ?ws ?s = Some (resumed lv2 d a (length vs) ?s)"
      unfolding exec_injected [OF assms(1)]
      using assms(2) resume_ucast [of a 0] by (simp add: resumed_def s)
    moreover have "code_at img (pc ?s) ?ws" using blob_code(1) [OF assms(5,2)] by simp
    ultimately show ?thesis using run_exec_seq by blast
  qed
  ultimately show ?thesis by (simp only: run_add bind.bind_lunit length_injected_words)
qed

text \<open>From behind the displaced instructions back.\<close>

lemma run_back:
  assumes "unat a + 204 + 4 * length vs < 2 ^ 32"
    and "code_at img (ucast (a + 8)) (blob_words d a vs)"
  defines "r \<equiv> resume_addr a + of_nat (length vs * 4)" and "c \<equiv> ucast (codeAddress d) + of_nat (length vs * 4)"
  assumes "jump_ok r c" "pc u = ucast r"
  shows "run lv2 img (length (jump_back d a (length vs))) u = Some (jumped r c u)"
  using blob_code(3) [OF assms(2,1)] run_jump [OF _ assms(5,6)] by (simp add: jump_back_def r_def c_def)

text \<open>All of it, when the displaced instructions run through.\<close>

lemma run_whole_detour:
  assumes "lv2_abi lv2" "unat a + 204 + 4 * length vs < 2 ^ 32"
    and "jump_ok (ucast (codeAddress d)) (a + 8)"
    and "code_at img (ucast (ucast (codeAddress d) :: u32)) (jump_in d a)"
    and "code_at img (ucast (a + 8)) (blob_words d a vs)"
    and "pc s = ucast (ucast (codeAddress d) :: u32)"
  defines "r \<equiv> resume_addr a + of_nat (length vs * 4)" and "c \<equiv> ucast (codeAddress d) + of_nat (length vs * 4)"
  assumes "jump_ok r c"
    and "exec_seq lv2 vs (resumed lv2 d a (length vs) (jumped (ucast (codeAddress d)) (a + 8) s)) = Some u"
  shows "run lv2 img (length (jump_in d a) + 49 + length vs + length (jump_back d a (length vs))) s =
    Some (jumped r c u)"
proof -
  let ?t = "resumed lv2 d a (length vs) (jumped (ucast (codeAddress d)) (a + 8) s)"
  have pc: "pc ?t = ucast (resume_addr a)" by (simp add: resumed_def)
  then have vs: "run lv2 img (length vs) ?t = Some u" "pc u = ucast (resume_addr a) + 4 * of_nat (length vs)"
    using run_exec_seq [OF _ assms(10)] blob_code(2) [OF assms(5,2)] by simp_all
  moreover have "(ucast (resume_addr a) + 4 * of_nat (length vs) :: u64) = ucast r"
    using assms(2) resume_ucast [of a "length vs"] resume_ucast [of a 0] by (simp add: r_def algebra_simps)
  ultimately have "run lv2 img (length (jump_back d a (length vs))) u = Some (jumped r c u)"
    using run_back [OF assms(2,5)] assms(9) by (simp add: r_def c_def)
  moreover have "run lv2 img (length (jump_in d a) + 49 + length vs) s = Some u"
    using vs(1) by (simp only: run_add [of _ _ "_ + 49"] run_to_resume [OF assms(1-6)] bind.bind_lunit)
  ultimately show ?thesis
    by (simp only: run_add [of _ _ "_ + length vs"] bind.bind_lunit)
qed

end
