(* ===== verification/PatchedRun.thy ===== *)
theory PatchedRun
  imports PatchedImage Detour
begin

text \<open>
  Running the file a run of \<open>main\<close> writes: the image of the output (\<open>PatchedImage\<close>) holds the code
  the detour (\<open>Detour\<close>) goes through.
\<close>

lemma relocated_block_of:
  assumes "plain_patch bs f d p t off"
  defines "a \<equiv> placement f" and "n \<equiv> displacedInstructionCount t"
  shows "\<exists>vs. t = trampoline_of d a p vs \<and> length vs = n \<and>
    (\<forall>k<n. relocated_ix (ucast (codeAddress d)) (resume_addr a) k
       (readInstructions n (slice (unat off) (4 * n) bs) ! k) = Some (vs ! k))"
proof -
  note P = plain_patchD [OF assms(1)] and raw = patchingD(3) [OF plain_patchD(1) [OF assms(1)]]
  have "buildTrampoline f d a p = Inr (Inr t)" "vaddrToFileOffset Ps3 (codeAddress d) f = Inr off"
    using P(1) by (simp_all add: patching_def a_def)
  then obtain vs where vs: "t = trampoline_of d a p vs"
    "relocateDisplacedInstructions (readInstructions n (slice (unat off) (4 * n) bs))
       (ucast (codeAddress d)) (resume_addr a) = Inr vs"
    using P(5,8) raw unfolding n_def a_def by (auto simp: build_Inr mult.commute)
  have "length vs = n" "\<forall>k<n. relocated_ix (ucast (codeAddress d)) (resume_addr a) k
      (readInstructions n (slice (unat off) (4 * n) bs) ! k) = Some (vs ! k)"
    using vs(2) unfolding relocateDisplaced_Inr by simp_all
  then show ?thesis using vs(1) by blast
qed

lemma entry_address:
  assumes "plain_patch bs f d p t off"
  shows "ucast (ucast (codeAddress d) :: u32) = codeAddress d" "entryPatchAddr t = ucast (codeAddress d)"
    "trampolineAddr t = placement f"
  using patchingD(6,9,10) [OF plain_patchD(1) [OF assms]] by (auto simp: trampoline_of_def)

lemma addresses_fit:
  assumes "plain_patch bs f d p t off"
  shows "unat (placement f) + 204 + 4 * displacedInstructionCount t < 2 ^ 32"
  using loadable_placement(1) [OF plain_patchD(3) [OF assms]] plain_patchD(5,13) [OF assms] by simp

text \<open>The three pieces of code a patched image holds.\<close>

lemma patched_image_code:
  assumes "plain_patch bs f d p t off" "t = trampoline_of d (placement f) p vs"
    and "length vs = displacedInstructionCount t"
  defines "img \<equiv> loaded_word (patched_file f t off)"
  shows "code_at img (ucast (ucast (codeAddress d) :: u32)) (jump_in d (placement f))"
    and "code_at img (ucast (placement f + 8)) (blob_words d (placement f) vs)"
    and "code_at img (ucast (resume_addr (placement f))) vs"
proof -
  show e: "code_at img (ucast (ucast (codeAddress d) :: u32)) (jump_in d (placement f))"
    using patched_entry_code [OF assms(1)] by (simp only: img_def entry_address(1) [OF assms(1)])
  show b: "code_at img (ucast (placement f + 8)) (blob_words d (placement f) vs)"
    using patched_blob_code [OF assms(1,2)] by (simp only: img_def)
  show "code_at img (ucast (resume_addr (placement f))) vs"
    using blob_code(2) [OF b] addresses_fit [OF assms(1)] assms(3) by simp
qed

lemma code_at_unique:
  assumes "code_at img x us" "code_at img x vs" "length us = length vs"
  shows "us = vs"
  using assms by (intro nth_equalityI) (auto simp: code_at_def)

text \<open>Up to the displaced instructions, whatever they are.\<close>

lemma patched_reaches:
  assumes "lv2_abi lv2" "plain_patch bs f d p t off"
    and "jump_ok (ucast (codeAddress d)) (placement f + 8)" "pc s = codeAddress d"
  defines "n \<equiv> displacedInstructionCount t"
  shows "run lv2 (loaded_word (patched_file f t off)) (n + 49) s =
    Some (resumed lv2 d (placement f) n (jumped (ucast (codeAddress d)) (placement f + 8) s))"
proof -
  obtain vs where vs: "t = trampoline_of d (placement f) p vs" "length vs = n"
    using relocated_block_of [OF assms(2)] unfolding n_def by blast
  have pc: "pc s = ucast (ucast (codeAddress d) :: u32)"
    using assms(4) by (simp only: entry_address(1) [OF assms(2)])
  note C = patched_image_code [OF assms(2) vs(1) vs(2) [unfolded n_def]]
  have "unat (placement f) + 204 + 4 * length vs < 2 ^ 32"
    using addresses_fit [OF assms(2)] vs(2) by (simp add: n_def)
  from run_to_resume [OF assms(1) this assms(3) C(1,2) pc] show ?thesis
    using plain_patchD(5) [OF assms(2)] vs(2) by (simp add: n_def)
qed

text \<open>And all the way round, when they run through.\<close>

lemma patched_returns:
  assumes "lv2_abi lv2" "plain_patch bs f d p t off"
    and "jump_ok (ucast (codeAddress d)) (placement f + 8)" "pc s = codeAddress d"
  defines "n \<equiv> displacedInstructionCount t" and "img \<equiv> loaded_word (patched_file f t off)"
  defines "r \<equiv> resume_addr (placement f) + of_nat (n * 4)" and "c \<equiv> ucast (codeAddress d) + of_nat (n * 4)"
  assumes "jump_ok r c" "code_at img (ucast (resume_addr (placement f))) vs" "length vs = n"
    and "exec_seq lv2 vs
      (resumed lv2 d (placement f) n (jumped (ucast (codeAddress d)) (placement f + 8) s)) = Some u"
  shows "\<exists>k\<le>64. run lv2 img k s = Some (jumped r c u)"
proof -
  obtain us where us: "t = trampoline_of d (placement f) p us" "length us = n"
    using relocated_block_of [OF assms(2)] unfolding n_def by blast
  note C = patched_image_code [OF assms(2) us(1) us(2) [unfolded n_def], folded img_def]
  have vs: "us = vs" using code_at_unique [OF C(3) assms(10)] us(2) assms(11) by simp
  have pc: "pc s = ucast (ucast (codeAddress d) :: u32)"
    using assms(4) by (simp only: entry_address(1) [OF assms(2)])
  have fit: "unat (placement f) + 204 + 4 * length us < 2 ^ 32"
    using addresses_fit [OF assms(2)] us(2) by (simp add: n_def)
  have "run lv2 img (length (jump_in d (placement f)) + 49 + length us +
      length (jump_back d (placement f) (length us))) s = Some (jumped r c u)"
    using run_whole_detour [OF assms(1) fit assms(3) C(1,2) pc] assms(9,12) us(2) vs
    by (simp add: r_def c_def)
  moreover have "length (jump_in d (placement f)) \<le> 5" by (rule plain_patchD(13) [OF assms(2)])
  moreover have "length us \<le> 5" using plain_patchD(5,13) [OF assms(2)] us(2) by (simp add: n_def)
  moreover have "length (jump_back d (placement f) (length us)) \<le> 5"
    using length_jump_back [of d "placement f" "length us"] by auto
  ultimately show ?thesis
    by (intro exI [of _ "length (jump_in d (placement f)) + 49 + length us +
        length (jump_back d (placement f) (length us))"] conjI) linarith+
qed

section \<open>Jumps that miss, and the registers at the displaced instructions\<close>

text \<open>Nothing is loaded above the 32-bit address space.\<close>

lemma patched_unmapped:
  assumes "plain_patch bs f d p t off" "2 ^ 32 \<le> unat x"
  shows "loaded_word (patched_file f t off) x = None"
proof -
  note P = plain_patchD [OF assms(1)]
  have "\<not> maps_word f x ph" if "ph \<in> set (segments f)" for ph
  proof
    assume m: "maps_word f x ph"
    then have "p_type Ps3 ph = PT_LOAD" "p_vaddr Ps3 ph \<le> x" "unat (x - p_vaddr Ps3 ph) < unat (p_filesz Ps3 ph)"
      by (simp_all add: maps_word_def)
    then show False
      using loadable_end(2,3) [OF P(3) that] assms(2) by (simp add: unat_sub word_le_nat_alt)
  qed
  then have "loaded_word f x = None"
    by (auto simp: loaded_word_def word_source_def find_None_iff)
  moreover have "\<not> (unat (placement f) \<le> unat x \<and> unat x + 4 \<le> unat (placement f) + length (blob t))"
    using loadable_placement(1) [OF P(3)] blob_bound(2) [OF P(1)] assms(2) by simp
  ultimately show ?thesis using loaded_word_new [OF assms(1)] by blast
qed

text \<open>
  The five-instruction jump in, to a trampoline at or above \<open>2 ^ 31\<close>: the sixteen bits
  \<open>loadImmediate32\<close> leaves above the address take it outside the program.
\<close>

lemma high_target:
  assumes "2 ^ 31 \<le> unat (v :: u32)"
  shows "2 ^ 47 \<le> unat ((scast v AND mask 48) AND NOT (mask 2) :: u64)"
proof -
  have "bit v 31" using assms by (simp add: top_bit_iff)
  then have "bit ((scast v AND mask 48) AND NOT (mask 2) :: u64) 47"
    by (simp add: loaded_high) (simp add: bit_simps)
  then have "bit (unat ((scast v AND mask 48) AND NOT (mask 2) :: u64)) 47" by (simp add: bit_simps)
  then show ?thesis
    by (metis bit_iff_odd div_less even_zero linorder_not_less)
qed

lemma jump_in_lost:
  assumes "plain_patch bs f d p t off" "\<not> jump_ok (ucast (codeAddress d)) (placement f + 8)"
    and "pc s = codeAddress d"
  shows "\<exists>u. run lv2 (loaded_word (patched_file f t off)) 5 s = Some u \<and> 2 ^ 47 \<le> unat (pc u) \<and>
    run lv2 (loaded_word (patched_file f t off)) 6 s = None"
proof -
  let ?img = "loaded_word (patched_file f t off)" and ?c = "ucast (codeAddress d) :: u32"
  note P = plain_patchD [OF assms(1)] and A = loadable_placement [OF plain_patchD(3) [OF assms(1)]]
  have "unat (placement f + 8) = unat (placement f) + 8" using A(1) by (subst unat_word_ariths) simp
  then have "4 dvd unat (placement f + 8)" using A(3) by simp
  then have far: "\<not> jump_near ?c (placement f + 8)" "2 ^ 31 \<le> unat (placement f + 8)"
    using assms(2) by (simp_all add: jump_ok_def)
  have "code_at ?img (pc s) (makeAbsoluteJump (placement f + 8) 12)"
    using patched_entry_code [OF assms(1)] assms(3) makeMinimalJump_far [OF far(1)] by (simp add: jump_in_def)
  then obtain u where u: "run lv2 ?img 5 s = Some u" "2 ^ 47 \<le> unat (pc u)"
    using run_makeAbsoluteJump [of ?img s "placement f + 8" 12 lv2] high_target [OF far(2)] by auto
  have "step lv2 ?img u = None" using patched_unmapped [OF assms(1), of "pc u"] u(2) by (simp add: step_def)
  then have "run lv2 ?img (5 + 1) s = None" using u(1) by (simp only: run_add) simp
  then show ?thesis using u by auto
qed

text \<open>What the displaced instructions find.\<close>

lemma resumed_fields:
  assumes "unat (tocValue d) < 2 ^ 32"
  shows "gpr (resumed lv2 d a n s) = (gpr s)(2 :=
      if unat (tocValue d) < 2 ^ 31 then tocValue d else tocValue d OR push_bit 32 (mask 16))"
    and "lr (resumed lv2 d a n s) = lr s" "ctr (resumed lv2 d a n s) = ctr s"
    and "pc (resumed lv2 d a n s) = ucast (resume_addr a)"
proof -
  let ?v = "ucast (tocValue d) :: u32"
  have v: "ucast ?v = tocValue d" "unat ?v = unat (tocValue d)"
    using assms by (simp_all add: word_unat_eq_iff unsigned_ucast_eq unsigned_take_bit_eq take_bit_nat_eq_self)
  show "gpr (resumed lv2 d a n s) = (gpr s)(2 :=
      if unat (tocValue d) < 2 ^ 31 then tocValue d else tocValue d OR push_bit 32 (mask 16))"
    using loaded_low [of ?v] loaded_high [of ?v] top_bit_iff [of ?v] v by (auto simp: resumed_def not_le)
qed (simp_all add: resumed_def)

lemma toc_bound: "plain_patch bs f d p t off \<Longrightarrow> unat (tocValue d) < 2 ^ 32"
proof -
  assume "plain_patch bs f d p t off"
  then have "resolveEntryDescriptor f = Inr d" "length (raw f) < 2 ^ 64"
    using plain_patchD(1,8) patchingD(3) by (fastforce simp: patching_def)+
  then obtain v :: u32 where "tocValue d = ucast v" by (auto simp: resolve_Inr)
  then show ?thesis using unsigned_less [of v, where ?'a = nat] by simp
qed

end
