(* ===== verification/Displaced.thy ===== *)
theory Displaced
  imports Simulation PatchedRun
begin

text \<open>
  The displaced instructions at their new place do what they did at the old one, and from where
  they leave it the patched program goes on like the original.
\<close>

section \<open>One instruction\<close>

text \<open>Whether an operation branches in a state.\<close>

definition jumps :: "ppc_op \<Rightarrow> cpu \<Rightarrow> bool" where
  "jumps i s =
     (case i of
        Branch li aa lk \<Rightarrow> True
      | BranchCond BO BI bd aa lk \<Rightarrow> bo_taken BO BI s
      | Bclr BO BI lk \<Rightarrow> bo_taken BO BI s
      | Bcctr BO BI lk \<Rightarrow> bo_taken BO BI s
      | _ \<Rightarrow> False)"

text \<open>
  An instruction at the address \<open>oa\<close> that can be moved: no system call (what the kernel does may
  depend on the address), no link bit, and no relative branch out of the 32-bit address space.
\<close>

definition movable :: "u32 \<Rightarrow> u32 \<Rightarrow> bool" where
  "movable oa w \<longleftrightarrow> decode_op w \<noteq> Sc \<and> \<not> link (classify w) \<and>
     (kind (classify w) = DirectRelative \<longrightarrow>
        0 \<le> uint oa + sint (displacement (classify w)) \<and>
        uint oa + sint (displacement (classify w)) < 2 ^ 32)"

lemma jumps_at [simp]: "jumps i (s\<lparr>pc := x\<rparr>) = jumps i s"
  by (simp add: jumps_def bo_taken_def bo_ctr_def split: ppc_op.splits)

lemma branch_taken_at [simp]: "branch_taken i (s\<lparr>pc := x\<rparr>) = branch_taken i s"
  by (simp add: branch_taken_def bo_taken_def bo_ctr_def split: ppc_op.splits)

lemma copied_op:
  assumes "exec_op lv2 i s = Some t" "i \<noteq> Sc" "kind (as_branch i) \<noteq> DirectRelative" "\<not> link (as_branch i)"
  shows "exec_op lv2 i (s\<lparr>pc := x\<rparr>) = Some (t\<lparr>pc := (if jumps i s then pc t else x + 4)\<rparr>) \<and>
    (jumps i s \<or> pc t = pc s + 4)"
proof (cases i)
  case (Mtspr spr rs)
  then show ?thesis using assms by (auto simp: jumps_def next_pc_def split: if_splits)
next
  case (Mfspr rt spr)
  then show ?thesis using assms by (auto simp: jumps_def next_pc_def set_gpr_def split: if_splits)
next
  case (Branch li aa lk)
  then show ?thesis using assms
    by (cases aa) (auto simp: jumps_def branch_to_def as_branch_def default_branch_def)
next
  case (BranchCond BO BI bd aa lk)
  then show ?thesis using assms
    by (cases aa)
      (auto simp: jumps_def branch_to_def as_branch_def default_branch_def bo_taken_def bo_ctr_def Let_def)
next
  case (Bclr BO BI lk)
  then show ?thesis using assms
    by (auto simp: jumps_def branch_to_def as_branch_def default_branch_def bo_taken_def bo_ctr_def)
next
  case (Bcctr BO BI lk)
  then show ?thesis using assms
    by (auto simp: jumps_def branch_to_def as_branch_def default_branch_def bo_taken_def bo_ctr_def split: if_splits)
next
  case (Stdu rs ra d)
  then show ?thesis using assms by (auto simp: jumps_def next_pc_def set_gpr_def Let_def split: if_splits)
next
  case (Ldu rt ra d)
  then show ?thesis using assms by (auto simp: jumps_def next_pc_def set_gpr_def Let_def split: if_splits)
qed (use assms in \<open>auto simp: jumps_def next_pc_def set_gpr_def base_of_def\<close>)

lemmas copied_exec = copied_op [where i = "decode_op w" for w, folded exec_def classify_decode]

lemma relative_op:
  assumes "kind (as_branch i) = DirectRelative"
  shows "jumps i s = branch_taken i s \<and> (exec_op lv2 i s = Some t \<longrightarrow> jumps i s \<or> pc t = pc s + 4)"
  using assms by (cases rule: direct_relative_cases) (auto simp: jumps_def branch_taken_def branch_to_def)

lemmas relative_exec = relative_op [where i = "decode_op w" for w, folded exec_def classify_decode]

lemma moved_exec:
  assumes "relocated_at oa na w = Some v" "movable oa w" "exec lv2 w s = Some t" "pc s = ucast oa"
  shows "exec lv2 v (s\<lparr>pc := ucast na\<rparr>) =
      Some (t\<lparr>pc := (if jumps (decode_op w) s then pc t else ucast na + 4)\<rparr>)"
    and "jumps (decode_op w) s \<or> pc t = pc s + 4"
proof -
  have s: "s\<lparr>pc := ucast oa\<rparr> = s" using assms(4) by (cases s) simp
  show "exec lv2 v (s\<lparr>pc := ucast na\<rparr>) =
      Some (t\<lparr>pc := (if jumps (decode_op w) s then pc t else ucast na + 4)\<rparr>)"
  proof (cases "kind (classify w) = DirectRelative")
    case True
    have "relocateBranch (classify w) oa na = Some v" using assms(1) True by (simp add: relocated_at_def)
    from relocated_exec [OF this, of lv2 s t] assms(2,3) True show ?thesis
      by (simp add: movable_def s relative_exec [OF True])
  next
    case False
    then have "v = w" using assms(1) by (simp add: relocated_at_def)
    then show ?thesis using copied_exec [OF assms(3) _ False] assms(2) by (simp add: movable_def)
  qed
  show "jumps (decode_op w) s \<or> pc t = pc s + 4"
    using copied_exec [OF assms(3)] relative_exec [of w s lv2 t] assms(2,3)
    by (cases "kind (classify w) = DirectRelative") (auto simp: movable_def)
qed

section \<open>The block\<close>

text \<open>The addresses of \<open>n\<close> instructions from \<open>c\<close> on, and the address of one of them.\<close>

definition block_has :: "u64 \<Rightarrow> nat \<Rightarrow> u64 \<Rightarrow> bool" where
  "block_has c n x \<longleftrightarrow> (\<exists>k<n. x = c + 4 * of_nat k)"

lemma nth_address:
  fixes c :: u32
  assumes "unat c + 4 * n < 2 ^ 32" "k \<le> n"
  shows "ucast (c + of_nat (k * 4)) = (ucast c + 4 * of_nat k :: u64)"
proof -
  have k: "unat (of_nat (k * 4) :: u32) = k * 4"
    using assms by (simp only: unat_of_nat) (simp add: take_bit_nat_eq_self)
  have "ucast (of_nat (k * 4) :: u32) = (of_nat (unat (of_nat (k * 4) :: u32)) :: u64)" by simp
  then have "ucast (of_nat (k * 4) :: u32) = (4 * of_nat k :: u64)" unfolding k by (simp add: mult.commute)
  then show ?thesis using assms k ucast_add [of c "of_nat (k * 4)"] by simp
qed

lemma nth_address_eq:
  fixes c :: u32
  assumes "unat c + 4 * n < 2 ^ 32" "j \<le> n" "k \<le> n"
    and "(ucast c + 4 * of_nat j :: u64) = ucast c + 4 * of_nat k"
  shows "j = k"
proof -
  have "unat (ucast c + 4 * of_nat i :: u64) = unat c + 4 * i" if "i \<le> n" for i
    using that assms(1) unat_word_at [of "ucast c" i] by simp
  from this [OF assms(2)] this [OF assms(3)] show ?thesis unfolding assms(4) by simp
qed

text \<open>
  \<open>s\<close> is at a displaced instruction of the original image that can be moved, and if it branches, it
  leaves the block.
\<close>

definition in_block :: "(cpu \<Rightarrow> cpu) \<Rightarrow> (u64 \<Rightarrow> u32 option) \<Rightarrow> u32 \<Rightarrow> nat \<Rightarrow> cpu \<Rightarrow> bool" where
  "in_block lv2 img c n s \<longleftrightarrow> block_has (ucast c) n (pc s) \<and>
     (case img (pc s) of None \<Rightarrow> False
      | Some w \<Rightarrow> movable (ucast (pc s)) w \<and>
          (jumps (decode_op w) s \<longrightarrow>
             (case exec lv2 w s of None \<Rightarrow> True | Some t \<Rightarrow> \<not> block_has (ucast c) n (pc t))))"

text \<open>The second image holds, from \<open>r\<close> on, the relocated instructions of the first from \<open>c\<close> on.\<close>

definition block_moved :: "(u64 \<Rightarrow> u32 option) \<Rightarrow> (u64 \<Rightarrow> u32 option) \<Rightarrow> u32 \<Rightarrow> u32 \<Rightarrow> nat \<Rightarrow> bool" where
  "block_moved img img' c r n \<longleftrightarrow> unat c + 4 * n < 2 ^ 32 \<and> unat r + 4 * n < 2 ^ 32 \<and>
     (\<forall>k<n. \<exists>w v. img (ucast c + 4 * of_nat k) = Some w \<and> relocated_ix c r k w = Some v \<and>
        img' (ucast r + 4 * of_nat k) = Some v)"

text \<open>The same state but for the place of the block, or the same state outside the block.\<close>

definition shifted :: "u32 \<Rightarrow> u32 \<Rightarrow> nat \<Rightarrow> cpu \<Rightarrow> cpu \<Rightarrow> bool" where
  "shifted c r n s t \<longleftrightarrow>
     (\<exists>k\<le>n. pc s = ucast c + 4 * of_nat k \<and> t = s\<lparr>pc := ucast r + 4 * of_nat k\<rparr>) \<or>
     (t = s \<and> \<not> block_has (ucast c) n (pc s))"

lemma block_step:
  assumes "block_moved img img' c r n" "in_block lv2 img c n s" "shifted c r n s t"
    and "step lv2 img s = Some s'"
  shows "\<exists>t'. step lv2 img' t = Some t' \<and> shifted c r n s' t'"
proof -
  have lim: "unat c + 4 * n < 2 ^ 32" "unat r + 4 * n < 2 ^ 32" using assms(1) by (simp_all add: block_moved_def)
  obtain w where w: "block_has (ucast c) n (pc s)" "img (pc s) = Some w" "movable (ucast (pc s)) w"
    using assms(2) by (auto simp: in_block_def split: option.splits)
  obtain k where k: "k < n" "pc s = ucast c + 4 * of_nat k" "t = s\<lparr>pc := ucast r + 4 * of_nat k\<rparr>"
  proof -
    obtain i where i: "i < n" "pc s = ucast c + 4 * of_nat i" using w(1) by (auto simp: block_has_def)
    obtain k where k: "k \<le> n" "pc s = ucast c + 4 * of_nat k" "t = s\<lparr>pc := ucast r + 4 * of_nat k\<rparr>"
      using assms(3) w(1) by (auto simp: shifted_def)
    have "k = i" using nth_address_eq [OF lim(1) k(1), of i] i k(2) by simp
    then show thesis using that i k by blast
  qed
  let ?oa = "c + of_nat (k * 4)" and ?na = "r + of_nat (k * 4)"
  have addr: "ucast ?oa = pc s" "ucast ?na = pc t"
    using nth_address [OF lim(1)] nth_address [OF lim(2)] k by simp_all
  have "ucast (ucast x :: u64) = x" for x :: u32 by (rule bit_word_eqI) (simp add: bit_simps)
  then have w32: "ucast (pc s) = ?oa" unfolding addr(1) [symmetric] .
  have s': "exec lv2 w s = Some s'" using assms(4) w(2) by (simp add: step_def)
  obtain v where v: "relocated_at ?oa ?na w = Some v" "img' (pc t) = Some v"
    using assms(1) k w(2) by (auto simp: block_moved_def relocated_ix_def)
  note M = moved_exec [OF v(1) w(3) [unfolded w32] s' addr(1) [symmetric]]
  have t': "step lv2 img' t = Some (s'\<lparr>pc := (if jumps (decode_op w) s then pc s' else pc t + 4)\<rparr>)"
    using M(1) v(2) k(3) unfolding addr(2) by (simp add: step_def)
  show ?thesis
  proof (cases "jumps (decode_op w) s")
    case True
    then have "\<not> block_has (ucast c) n (pc s')" using assms(2) w(2) s' by (simp add: in_block_def)
    then show ?thesis using t' True by (auto simp: shifted_def)
  next
    case False
    then have "pc s' = ucast c + 4 * of_nat (Suc k)" "pc t + 4 = ucast r + 4 * of_nat (Suc k)"
      using M(2) k by simp_all
    then show ?thesis using t' False k(1) by (auto simp: shifted_def intro!: exI [of _ "Suc k"])
  qed
qed

interpretation moved: simulation "step lv2 img" "step lv2 img'"
    "\<lambda>s. block_moved img img' c r n \<and> in_block lv2 img c n s" "shifted c r n" for lv2 img img' c r n
  by unfold_locales (use block_step in blast)

text \<open>Where a path through the block ends, outside it.\<close>

lemma block_steps:
  assumes "block_moved img img' c r n" "steps (step lv2 img) (in_block lv2 img c n) m s u"
    and "pc s = ucast c" "\<not> block_has (ucast c) n (pc u)"
  shows "\<exists>v. run lv2 img' m (s\<lparr>pc := ucast r\<rparr>) = Some v \<and>
    (v = u \<or> pc u = ucast c + 4 * of_nat n \<and> v = u\<lparr>pc := ucast r + 4 * of_nat n\<rparr>)"
proof -
  have "steps (step lv2 img) (\<lambda>s. block_moved img img' c r n \<and> in_block lv2 img c n s) m s u"
    using assms(1) by (intro steps_mono [OF assms(2)]) simp
  moreover have "shifted c r n s (s\<lparr>pc := ucast r\<rparr>)"
    using assms(3) by (auto simp: shifted_def intro!: exI [of _ 0])
  ultimately obtain v where v: "steps (step lv2 img') (\<lambda>_. True) m (s\<lparr>pc := ucast r\<rparr>) v" "shifted c r n u v"
    using moved.steps_sim by blast
  have "k = n" if "k \<le> n" "pc u = ucast c + 4 * of_nat k" for k
    using that assms(4) by (auto simp: block_has_def le_less)
  then have "v = u \<or> pc u = ucast c + 4 * of_nat n \<and> v = u\<lparr>pc := ucast r + 4 * of_nat n\<rparr>"
    using v(2) by (auto simp: shifted_def)
  then show ?thesis using v(1) by (auto simp: run_iff_steps)
qed

section \<open>The patched program\<close>

lemma block_room:
  assumes "plain_patch bs f d p t off"
  shows "unat (codeAddress d) + 4 * displacedInstructionCount t < 2 ^ 32"
proof -
  note P = plain_patchD [OF assms]
  have "0 < 4 * length (jump_in d (placement f))" using P(12) by simp
  then obtain qs ph rest where s: "segments f = qs @ ph # rest" "p_type Ps3 ph = PT_LOAD"
    "p_vaddr Ps3 ph \<le> codeAddress d"
    "unat (codeAddress d - p_vaddr Ps3 ph) + 4 * length (jump_in d (placement f)) \<le> unat (p_filesz Ps3 ph)"
    using block_segment [OF P(3,4) _ P(10)] by blast
  have "unat (codeAddress d - p_vaddr Ps3 ph) = unat (codeAddress d) - unat (p_vaddr Ps3 ph)"
    using s(3) by (simp add: unat_sub word_le_nat_alt)
  then show ?thesis using s(3,4) loadable_end(2,3) [OF P(3), of ph] s(1,2) P(5) by (simp add: word_le_nat_alt)
qed

lemma patched_block_moved:
  assumes "plain_patch bs f d p t off"
  shows "block_moved (loaded_word f) (loaded_word (patched_file f t off)) (ucast (codeAddress d))
    (resume_addr (placement f)) (displacedInstructionCount t)"
proof -
  let ?n = "displacedInstructionCount t" and ?c = "ucast (codeAddress d) :: u32" and ?r = "resume_addr (placement f)"
  obtain vs where vs: "t = trampoline_of d (placement f) p vs" "length vs = ?n"
    "\<forall>k<?n. relocated_ix ?c ?r k (readInstructions ?n (slice (unat off) (4 * ?n) bs) ! k) = Some (vs ! k)"
    using relocated_block_of [OF assms] by blast
  have c: "(ucast ?c :: u64) = codeAddress d" by (rule entry_address(1) [OF assms])
  have "unat ?c = unat (codeAddress d)" using arg_cong [OF c, of unat] by simp
  then have "unat ?c + 4 * ?n < 2 ^ 32" using block_room [OF assms] by simp
  moreover have "unat ?r = unat (placement f) + 204"
    using addresses_fit [OF assms] by (simp add: resume_addr_def add.assoc unat_word_ariths)
  then have "unat ?r + 4 * ?n < 2 ^ 32" using addresses_fit [OF assms] by simp
  moreover have "loaded_word f (ucast ?c + 4 * of_nat k) =
      Some (readInstructions ?n (slice (unat off) (4 * ?n) bs) ! k)" if "k < ?n" for k
    using original_entry_code [OF assms] that plain_patchD(5) [OF assms] unfolding c by (simp add: code_at_def)
  moreover have "loaded_word (patched_file f t off) (ucast ?r + 4 * of_nat k) = Some (vs ! k)" if "k < ?n" for k
    using patched_image_code(3) [OF assms vs(1,2)] that vs(2) by (simp add: code_at_def)
  ultimately show ?thesis using vs(3) unfolding block_moved_def by blast
qed

text \<open>A word of the original that the patch leaves alone.\<close>

definition untouched :: "Ps3ElfFile \<Rightarrow> u64 \<Rightarrow> nat \<Rightarrow> cpu \<Rightarrow> bool" where
  "untouched f off n s \<longleftrightarrow>
     (case word_source f (pc s) of None \<Rightarrow> False
      | Some k \<Rightarrow> 64 \<le> unat k \<and> (unat k + 4 \<le> unat off \<or> unat off + 4 * n \<le> unat k))"

lemma patched_follows:
  assumes "plain_patch bs f d p t off"
    and "steps (step lv2 (loaded_word f)) (untouched f off (displacedInstructionCount t)) j u v"
  shows "run lv2 (loaded_word (patched_file f t off)) j u = Some v"
proof -
  have "loaded_word (patched_file f t off) (pc s) = loaded_word f (pc s)"
    if "untouched f off (displacedInstructionCount t) s" for s
    using that by (auto simp: untouched_def split: option.splits intro: loaded_word_patched [OF assms(1)])
  then have "steps (step lv2 (loaded_word f))
      (\<lambda>s. loaded_word (patched_file f t off) (pc s) = loaded_word f (pc s)) j u v"
    by (intro steps_mono [OF assms(2)])
  then show ?thesis using same_words.steps_sim unfolding run_iff_steps by blast
qed

lemma patched_simulates:
  assumes "lv2_abi lv2" "plain_patch bs f d p t off" "pc s = codeAddress d"
  defines "n \<equiv> displacedInstructionCount t" and "g \<equiv> patched_file f t off" and "c \<equiv> ucast (codeAddress d)"
    and "a \<equiv> placement f"
  assumes "jump_ok c (a + 8)" "jump_ok (resume_addr a + of_nat (n * 4)) (c + of_nat (n * 4))"
    and "steps (step lv2 (loaded_word f)) (in_block lv2 (loaded_word f) c n) m
      ((resumed lv2 d a n (jumped c (a + 8) s))\<lparr>pc := codeAddress d\<rparr>) u"
    and "\<not> block_has (codeAddress d) n (pc u)"
  shows "\<exists>k\<le>m + 59. \<exists>u'. run lv2 (loaded_word g) k s = Some u' \<and>
    (u' = u \<or> pc u = codeAddress d + 4 * of_nat n \<and>
       u' = jumped (resume_addr a + of_nat (n * 4)) (c + of_nat (n * 4)) u)"
proof -
  let ?s = "resumed lv2 d a n (jumped c (a + 8) s)" and ?r = "resume_addr a"
  let ?ret = "jump_back d a n"
  note c = entry_address(1) [OF assms(2), folded c_def]
  note B = patched_block_moved [OF assms(2), folded n_def g_def c_def a_def]
  have lim: "unat c + 4 * n < 2 ^ 32" "unat ?r + 4 * n < 2 ^ 32" using B by (simp_all add: block_moved_def)
  have reach: "run lv2 (loaded_word g) (n + 49) s = Some ?s"
    using patched_reaches [OF assms(1,2) _ assms(3), folded n_def g_def c_def a_def] assms(8) .
  have "(?s\<lparr>pc := codeAddress d\<rparr>)\<lparr>pc := ucast ?r\<rparr> = ?s" by (simp add: resumed_def)
  then obtain v where v: "run lv2 (loaded_word g) m ?s = Some v"
    "v = u \<or> pc u = ucast c + 4 * of_nat n \<and> v = u\<lparr>pc := ucast ?r + 4 * of_nat n\<rparr>"
    using block_steps [OF B assms(10)] assms(11) by (auto simp: c)
  have here: "run lv2 (loaded_word g) (n + 49 + m) s = Some v"
    using reach v(1) by (simp only: run_add [of _ _ "n + 49"] bind.bind_lunit)
  have n5: "n \<le> 5" using plain_patchD(5,13) [OF assms(2)] by (simp add: n_def)
  show ?thesis
  proof (cases "v = u")
    case True
    then show ?thesis using here n5 by (intro exI [of _ "n + 49 + m"]) auto
  next
    case False
    let ?r' = "?r + of_nat (n * 4)" and ?c' = "c + of_nat (n * 4)"
    have pc: "pc u = ucast c + 4 * of_nat n" and w: "v = u\<lparr>pc := ucast ?r'\<rparr>"
      using v(2) False nth_address [OF lim(2), of n] by simp_all
    obtain vs where vs: "t = trampoline_of d (placement f) p vs" "length vs = n"
      using relocated_block_of [OF assms(2)] unfolding n_def by blast
    note code = patched_image_code(2) [OF assms(2) vs(1) vs(2) [unfolded n_def], folded g_def a_def]
    have "run lv2 (loaded_word g) (length ?ret) v = Some (jumped ?r' ?c' v)"
      using run_back [OF _ code, of v lv2] addresses_fit [OF assms(2)] vs(2) w assms(9)
      by (simp add: n_def a_def c_def)
    moreover have "jumped ?r' ?c' v = jumped ?r' ?c' u" by (simp add: w jumped_def)
    ultimately have "run lv2 (loaded_word g) (n + 49 + m + length ?ret) s = Some (jumped ?r' ?c' u)"
      using here by (simp only: run_add [of _ _ "n + 49 + m"] bind.bind_lunit)
    moreover have "length ?ret \<le> 5" using length_jump_back [of d a n] by auto
    ultimately show ?thesis using pc n5 c
      by (intro exI [of _ "n + 49 + m + length ?ret"]) auto
  qed
qed

end
