(* ===== verification/Example.thy ===== *)
theory Example
  imports Displaced
begin

text \<open>
  A concrete PS3 executable, the smallest the patcher accepts: the ELF header, one program header
  and 16 bytes loaded at \<open>0x10000\<close>, the entry descriptor (code at \<open>0x10008\<close>, TOC \<open>0x18000\<close>)
  followed by \<open>nop\<close> and \<open>blr\<close>.  The properties are instantiated on it.
\<close>

definition ex_header :: bytes where
  "ex_header =
     [0x7F, 0x45, 0x4C, 0x46, 2, 2, 1, 0x66, 0, 0, 0, 0, 0, 0, 0, 0,
      0, 2, 0, 21, 0, 0, 0, 1, 0, 0, 0, 0, 0, 1, 0, 0,
      0, 0, 0, 0, 0, 0, 0, 64, 0, 0, 0, 0, 0, 0, 0, 0,
      0, 0, 0, 0, 0, 64, 0, 56, 0, 1, 0, 64, 0, 0, 0, 0]"

definition ex_phdr :: bytes where
  "ex_phdr =
     [0, 0, 0, 1, 0, 0, 0, 5, 0, 0, 0, 0, 0, 0, 0, 120,
      0, 0, 0, 0, 0, 1, 0, 0, 0, 0, 0, 0, 0, 1, 0, 0,
      0, 0, 0, 0, 0, 0, 0, 16, 0, 0, 0, 0, 0, 0, 0, 16,
      0, 0, 0, 0, 0, 1, 0, 0]"

definition ex_data :: bytes where
  "ex_data = [0, 1, 0, 8, 0, 1, 0x80, 0, 0x60, 0, 0, 0, 0x4E, 0x80, 0, 0x20]"

definition ex_bytes :: bytes where
  "ex_bytes = ex_header @ ex_phdr @ ex_data"

definition ex_file :: Ps3ElfFile where "ex_file = parsed_elf Ps3 ex_bytes"

lemma ex_header_read:
  "e_entry Ps3 (ehdr_load Ps3 ex_header) = 0x10000" "e_phoff Ps3 (ehdr_load Ps3 ex_header) = 64"
  "e_shoff Ps3 (ehdr_load Ps3 ex_header) = 0" "e_ehsize Ps3 (ehdr_load Ps3 ex_header) = 64"
  "e_phentsize Ps3 (ehdr_load Ps3 ex_header) = 56" "e_phnum Ps3 (ehdr_load Ps3 ex_header) = 1"
  "e_shentsize Ps3 (ehdr_load Ps3 ex_header) = 64" "e_shnum Ps3 (ehdr_load Ps3 ex_header) = 0"
  "get16 Big (e_machine64 (ehdr_load Ps3 ex_header)) = 21"
  by (subst elf64_ehdr_read; simp add: ex_header_def slice_def be_word_def word_in_order_def)+

lemma ex_phdr_read:
  "p_type Ps3 (phdr_load Ps3 ex_phdr) = PT_LOAD" "p_offset Ps3 (phdr_load Ps3 ex_phdr) = 120"
  "p_vaddr Ps3 (phdr_load Ps3 ex_phdr) = 0x10000" "p_filesz Ps3 (phdr_load Ps3 ex_phdr) = 16"
  "p_memsz Ps3 (phdr_load Ps3 ex_phdr) = 16"
  by (subst elf64_phdr_read; simp add: ex_phdr_def slice_def be_word_def word_in_order_def PT_LOAD_def)+

lemma ex_lengths [simp]: "length ex_header = 64" "length ex_phdr = 56" "length ex_data = 16"
  by (simp_all add: ex_header_def ex_phdr_def ex_data_def)

lemma ex_raw: "raw ex_file = ex_bytes" "length ex_bytes = 136" "slice 120 16 ex_bytes = ex_data"
  "take 64 ex_bytes = ex_header" "slice 64 56 ex_bytes = ex_phdr"
  by (simp_all add: ex_file_def parsed_elf_def Let_def ex_bytes_def slice_def)

lemma ex_parts:
  "header ex_file = ehdr_load Ps3 ex_header" "segments ex_file = [phdr_load Ps3 ex_phdr]"
  "sections ex_file = []"
  by (simp_all add: ex_file_def parsed_elf_def Let_def ex_raw ex_header_read table_at_def)

lemma ex_defect: "header_defect Ps3 ex_bytes = None"
proof -
  have "take 4 ex_bytes = [0x7F, of_char CHR ''E'', of_char CHR ''L'', of_char CHR ''F'']"
    "ex_bytes ! 4 = ELFCLASS64" "ex_bytes ! 5 = ELFDATA2MSB"
    by (simp_all add: ex_bytes_def ex_header_def elf_const_defs)
  then show ?thesis by (simp add: header_defect_def Let_def ex_raw ex_header_read)
qed

lemma ex_parse: "parse Ps3 ex_bytes = Inr ex_file"
  using ex_defect by (subst elf64.parse_Inr) (simp_all add: ex_raw ex_file_def)

lemma ex_lookup:
  "vaddrToFileOffset Ps3 0x10000 ex_file = Inr 120" "vaddrToFileOffset Ps3 0x10008 ex_file = Inr 128"
  by (simp_all add: vaddrToFileOffset_def ex_parts ex_phdr_read ex_raw vsize_def)

definition ex_entry :: EntryDescriptor where
  "ex_entry = \<lparr>codeAddress = 0x10008, tocValue = 0x18000, envPointer = 0\<rparr>"

lemma ex_slices:
  "slice 120 4 ex_bytes = [0, 1, 0, 8]" "slice 124 4 ex_bytes = [0, 1, 0x80, 0]"
  "slice 128 4 ex_bytes = [0x60, 0, 0, 0]"
  by (simp_all add: ex_bytes_def slice_def ex_data_def)

lemma ex_resolve: "resolveEntryDescriptor ex_file = Inr ex_entry"
  by (subst resolve_Inr)
    (simp_all add: ex_raw ex_parts ex_header_read EM_PPC64_def entry_def ex_lookup ex_slices be_word_4
      ex_entry_def)

lemma ex_placement: "placement ex_file = 0x20000"
  by (simp add: placement_def highestEnd_def ex_parts ex_phdr_read alignUp_def Let_def)

lemma ex_unpatched: "\<not> isAlreadyPatched ex_file"
proof -
  have "take 8 ex_data \<noteq> TRAMPOLINE_MAGIC" by (simp add: ex_data_def TRAMPOLINE_MAGIC_def)
  moreover have "slice 120 8 ex_bytes = take 8 ex_data" by (simp add: ex_bytes_def slice_def)
  moreover have "readAt 120 8 ex_file = Inr (slice 120 8 ex_bytes)"
    by (subst readAt_eq) (simp_all add: ex_raw)
  moreover have "length (take 8 ex_data) = 8" by simp
  ultimately show ?thesis by (simp add: isAlreadyPatched_def ex_parts ex_phdr_read)
qed

lemma ex_jump_near: "jump_near 0x10008 0x20008"
  by (simp add: jump_near_def Let_def)

lemma ex_jump_in: "length (jump_in ex_entry 0x20000) = 1"
  using length_one_near [of "0x10008" "0x20008"] ex_jump_near by (simp add: jump_in_def ex_entry_def)

lemma classify_other:
  "drop_bit 26 w \<notin> {16, 18, 19} \<Longrightarrow> classify w = default_branch" for w :: u32
  by (simp add: classify_def Let_def and_mask_consts opcode_small)

lemma ex_relocated:
  "relocateDisplacedInstructions [0x60000000] 0x10008 (resume_addr 0x20000) = Inr [0x60000000]"
  by (subst relocateDisplaced_Inr)
    (simp add: relocated_ix_def relocated_at_def classify_other default_branch_def)

definition ex_trampoline :: TrampolineResult where
  "ex_trampoline = trampoline_of ex_entry 0x20000 ''/dev_hdd0/a.sprx'' [0x60000000]"

lemma ex_build:
  "buildTrampoline ex_file ex_entry 0x20000 ''/dev_hdd0/a.sprx'' = Inr (Inr ex_trampoline)"
proof -
  have "readInstructions 1 (slice 128 4 ex_bytes) = [0x60000000]"
    by (simp add: ex_slices readInstructions_def)
  then show ?thesis
    by (subst build_Inr)
      (use ex_jump_in ex_relocated ex_unpatched in \<open>simp_all add: ex_raw ex_lookup ex_entry_def ex_trampoline_def\<close>)
qed

lemma ex_patching:
  "patching ex_bytes ex_file ex_entry ''/dev_hdd0/a.sprx'' ex_trampoline 128"
  unfolding patching_def ex_placement
  by (simp add: ex_raw ex_parse ex_resolve ex_build) (simp add: ex_entry_def ex_lookup)

lemma ex_room: "room ex_file"
  by (simp add: room_def ex_parts)


section \<open>The patched image\<close>

text \<open>The patched program in memory: the jump at \<open>0x10008\<close>, the trampoline's code at \<open>0x20008\<close>.\<close>

definition ex_image :: "u64 \<Rightarrow> u32 option" where
  "ex_image x =
     (if x = 0x10008 then Some (readInstructions 1 (entryPatchBytes ex_trampoline) ! 0)
      else image_of 0x20008 (readInstructions 51 (drop 8 (blob ex_trampoline))) x)"

definition ex_cpu :: cpu where
  "ex_cpu = \<lparr>gpr = (\<lambda>r. if r = 1 then 0xD0000000 else 7), lr = 0, ctr = 0, cr = 0, pc = 0x10008,
     mem = (\<lambda>_. 0)\<rparr>"

lemma ex_code_entry: "code_at ex_image 0x10008 (readInstructions 1 (entryPatchBytes ex_trampoline))"
  by (simp add: code_at_def ex_image_def)

lemma ex_code_blob:
  "code_at ex_image 0x20008 (readInstructions 51 (drop 8 (blob ex_trampoline)))"
proof (rule code_at_image_of)
  fix i assume "i < length (readInstructions 51 (drop 8 (blob ex_trampoline)))"
  then have i: "i < 51" by simp
  have addr: "unat (0x20008 + 4 * of_nat i :: u64) = 0x20008 + 4 * i"
  proof -
    have "(0x20008 + 4 * of_nat i :: u64) = of_nat (0x20008 + 4 * i)" by simp
    moreover have "unat (of_nat (0x20008 + 4 * i) :: u64) = 0x20008 + 4 * i"
      using i by (simp only: unat_of_nat) (simp add: take_bit_nat_eq_self)
    ultimately show ?thesis by (simp only:)
  qed
  have "(0x20008 + 4 * of_nat i :: u64) \<noteq> 0x10008"
  proof
    assume "(0x20008 + 4 * of_nat i :: u64) = 0x10008"
    then have "unat (0x20008 + 4 * of_nat i :: u64) = unat (0x10008 :: u64)" by (simp only:)
    then show False unfolding addr by simp
  qed
  then show "ex_image (0x20008 + 4 * of_nat i) =
      image_of 0x20008 (readInstructions 51 (drop 8 (blob ex_trampoline))) (0x20008 + 4 * of_nat i)"
    by (simp add: ex_image_def)
qed simp

lemma ex_back_near: "jump_near (resume_addr 0x20000 + 4) (0x10008 + 4)"
  by (simp add: jump_near_def Let_def resume_addr_def)

lemma ex_trampoline_fields:
  "entryPatchAddr ex_trampoline = 0x10008" "displacedInstructionCount ex_trampoline = 1"
  using ex_jump_in by (simp_all add: ex_trampoline_def trampoline_of_def ex_entry_def)

lemma ex_nop: "exec lv2 0x60000000 s = Some (next_pc (set_gpr 0 (gpr s 0) s))"
  by (simp add: exec_def decode_op_def Let_def)

lemma ex_displaced: "readInstructions 1 (slice 128 4 ex_bytes) = [0x60000000]"
  by (simp add: ex_slices readInstructions_def)

lemma ex_relocated_at: "relocated_at oa na 0x60000000 = Some 0x60000000"
  by (simp add: relocated_at_def classify_other default_branch_def)

text \<open>
  A kernel that keeps only what the calling convention asks for: it returns a module id in r3 and
  leaves junk in the other volatile registers, in r2, LR, CTR and CR, and in the memory outside the
  megabyte of stack from the stack pointer up.
\<close>

definition ex_kernel :: "cpu \<Rightarrow> cpu" where
  "ex_kernel s = s\<lparr>
     gpr := (\<lambda>r. if r = 1 \<or> 13 \<le> r then gpr s r else if r = 3 then 0x23010500 else 0xDEAD),
     lr := 0xDEAD, ctr := 0xDEAD, cr := 0xDEAD,
     mem := (\<lambda>x. if unat (x - gpr s 1) < 0x100000 then mem s x else 0xFF)\<rparr>"

lemma ex_abi: "lv2_abi ex_kernel"
  by (simp add: lv2_abi_def ex_kernel_def)

section \<open>The patched file as a whole\<close>

lemma ex_plain:
  "plain_patch ex_bytes ex_file ex_entry ''/dev_hdd0/a.sprx'' ex_trampoline 128"
proof -
  have "loadable ex_file" by (simp add: loadable_def ex_parts ex_phdr_read ex_raw)
  moreover have "plain_code ex_file 0x10008 4 128"
    by (simp add: plain_code_def ex_parts ex_phdr_read ex_header_read)
  ultimately show ?thesis
    using ex_patching ex_room by (simp add: plain_patch_def ex_trampoline_fields) (simp add: ex_entry_def)
qed

section \<open>The original program\<close>

lemma ex_words:
  "word_source ex_file 0x10008 = Some 128" "word_source ex_file 0x1000C = Some 132"
  "loaded_word ex_file 0x10008 = Some 0x60000000" "loaded_word ex_file 0x1000C = Some 0x4E800020"
proof -
  show src: "word_source ex_file 0x10008 = Some 128" "word_source ex_file 0x1000C = Some 132"
    by (simp_all add: word_source_def maps_word_def word_offset_def ex_parts ex_phdr_read ex_raw)
  have "slice 132 4 ex_bytes = [0x4E, 0x80, 0, 0x20]" by (simp add: ex_bytes_def slice_def ex_data_def)
  then show "loaded_word ex_file 0x10008 = Some 0x60000000" "loaded_word ex_file 0x1000C = Some 0x4E800020"
    by (simp_all add: loaded_word_def src ex_raw ex_slices be_word_4)
qed

lemma ex_nop_op: "decode_op 0x60000000 = Ori 0 0 0"
  by (simp add: decode_op_def Let_def)

lemma ex_blr: "exec lv2 0x4E800020 s = Some (s\<lparr>pc := lr s AND NOT (mask 2)\<rparr>)"
proof -
  have "decode_op 0x4E800020 = Bclr 20 0 False" by (simp add: decode_op_def Let_def xo10_of_def take_bit_eq_mask mask_eq_exp_minus_1)
  then show ?thesis by (simp add: exec_def branch_to_def bo_taken_def bo_ctr_def)
qed

text \<open>Two steps of the original program from its entry point: the \<open>nop\<close>, and the return.\<close>

lemma ex_steps:
  assumes "pc s = 0x10008"
  shows "steps (step lv2 (loaded_word ex_file)) (in_block lv2 (loaded_word ex_file) 0x10008 1) 1 s
      (next_pc (set_gpr 0 (gpr s 0) s))"
    and "steps (step lv2 (loaded_word ex_file)) (untouched ex_file 128 1) 1 (next_pc (set_gpr 0 (gpr s 0) s))
      (next_pc (set_gpr 0 (gpr s 0) s)\<lparr>pc := lr s AND NOT (mask 2)\<rparr>)"
proof -
  have "movable 0x10008 0x60000000" by (simp add: movable_def ex_nop_op classify_other default_branch_def)
  then have "in_block lv2 (loaded_word ex_file) 0x10008 1 s"
    using assms by (simp add: in_block_def block_has_def ex_words ex_nop_op jumps_def)
  then show "steps (step lv2 (loaded_word ex_file)) (in_block lv2 (loaded_word ex_file) 0x10008 1) 1 s
      (next_pc (set_gpr 0 (gpr s 0) s))"
    using assms by (simp add: steps_Suc step_def ex_words ex_nop One_nat_def)
  show "steps (step lv2 (loaded_word ex_file)) (untouched ex_file 128 1) 1 (next_pc (set_gpr 0 (gpr s 0) s))
      (next_pc (set_gpr 0 (gpr s 0) s)\<lparr>pc := lr s AND NOT (mask 2)\<rparr>)"
    using assms by (simp add: steps_Suc step_def ex_words ex_blr untouched_def next_pc_def set_gpr_def)
qed

end
