(* ===== verification/FarExample.thy ===== *)
theory FarExample
  imports Example
begin

text \<open>
  A second executable, with a segment at \<open>0x10000000\<close>, so that its trampoline is out of reach of a
  direct branch: five instructions are displaced, and both jumps are the long ones.
\<close>

section \<open>The file\<close>

definition far_header :: bytes where
  "far_header =
     [0x7F, 0x45, 0x4C, 0x46, 2, 2, 1, 0x66, 0, 0, 0, 0, 0, 0, 0, 0,
      0, 2, 0, 21, 0, 0, 0, 1, 0, 0, 0, 0, 0, 1, 0, 0,
      0, 0, 0, 0, 0, 0, 0, 64, 0, 0, 0, 0, 0, 0, 0, 0,
      0, 0, 0, 0, 0, 64, 0, 56, 0, 2, 0, 64, 0, 0, 0, 0]"

definition far_text :: bytes where
  "far_text =
     [0, 0, 0, 1, 0, 0, 0, 5, 0, 0, 0, 0, 0, 0, 0, 176,
      0, 0, 0, 0, 0, 1, 0, 0, 0, 0, 0, 0, 0, 1, 0, 0,
      0, 0, 0, 0, 0, 0, 0, 32, 0, 0, 0, 0, 0, 0, 0, 32,
      0, 0, 0, 0, 0, 1, 0, 0]"

definition far_bss :: bytes where
  "far_bss =
     [0, 0, 0, 1, 0, 0, 0, 6, 0, 0, 0, 0, 0, 0, 0, 0,
      0, 0, 0, 0, 0x10, 0, 0, 0, 0, 0, 0, 0, 0x10, 0, 0, 0,
      0, 0, 0, 0, 0, 0, 0, 0, 0, 0, 0, 0, 0, 0, 0x10, 0,
      0, 0, 0, 0, 0, 1, 0, 0]"

text \<open>The descriptor, five \<open>nop\<close>s, \<open>blr\<close>.\<close>

definition far_data :: bytes where
  "far_data =
     [0, 1, 0, 8, 0, 1, 0x80, 0, 0x60, 0, 0, 0, 0x60, 0, 0, 0, 0x60, 0, 0, 0, 0x60, 0, 0, 0,
      0x60, 0, 0, 0, 0x4E, 0x80, 0, 0x20]"

definition far_bytes :: bytes where
  "far_bytes = far_header @ far_text @ far_bss @ far_data"

definition far_file :: Ps3ElfFile where "far_file = parsed_elf Ps3 far_bytes"

lemma far_lengths [simp]:
  "length far_header = 64" "length far_text = 56" "length far_bss = 56" "length far_data = 32"
  by (simp_all add: far_header_def far_text_def far_bss_def far_data_def)

lemma far_header_read:
  "e_entry Ps3 (ehdr_load Ps3 far_header) = 0x10000" "e_phoff Ps3 (ehdr_load Ps3 far_header) = 64"
  "e_shoff Ps3 (ehdr_load Ps3 far_header) = 0" "e_ehsize Ps3 (ehdr_load Ps3 far_header) = 64"
  "e_phentsize Ps3 (ehdr_load Ps3 far_header) = 56" "e_phnum Ps3 (ehdr_load Ps3 far_header) = 2"
  "e_shentsize Ps3 (ehdr_load Ps3 far_header) = 64" "e_shnum Ps3 (ehdr_load Ps3 far_header) = 0"
  "get16 Big (e_machine64 (ehdr_load Ps3 far_header)) = 21"
  by (subst elf64_ehdr_read; simp add: far_header_def slice_def be_word_def word_in_order_def)+

lemma far_phdrs_read:
  "p_type Ps3 (phdr_load Ps3 far_text) = PT_LOAD" "p_offset Ps3 (phdr_load Ps3 far_text) = 176"
  "p_vaddr Ps3 (phdr_load Ps3 far_text) = 0x10000" "p_filesz Ps3 (phdr_load Ps3 far_text) = 32"
  "p_memsz Ps3 (phdr_load Ps3 far_text) = 32"
  "p_type Ps3 (phdr_load Ps3 far_bss) = PT_LOAD" "p_offset Ps3 (phdr_load Ps3 far_bss) = 0"
  "p_vaddr Ps3 (phdr_load Ps3 far_bss) = 0x10000000" "p_filesz Ps3 (phdr_load Ps3 far_bss) = 0"
  "p_memsz Ps3 (phdr_load Ps3 far_bss) = 0x1000"
  by (subst elf64_phdr_read; simp add: far_text_def far_bss_def slice_def be_word_def word_in_order_def PT_LOAD_def)+

lemma far_raw:
  "raw far_file = far_bytes" "length far_bytes = 208" "slice 176 32 far_bytes = far_data"
  "take 64 far_bytes = far_header" "slice 64 56 far_bytes = far_text" "slice 120 56 far_bytes = far_bss"
  by (simp_all add: far_file_def parsed_elf_def Let_def far_bytes_def slice_def)

lemma far_parts:
  "header far_file = ehdr_load Ps3 far_header" "sections far_file = []"
  "segments far_file = [phdr_load Ps3 far_text, phdr_load Ps3 far_bss]"
  by (simp_all add: far_file_def parsed_elf_def Let_def far_raw far_header_read table_at_def upt_rec)

lemma far_parse: "parse Ps3 far_bytes = Inr far_file"
proof -
  have "take 4 far_bytes = [0x7F, of_char CHR ''E'', of_char CHR ''L'', of_char CHR ''F'']"
    "far_bytes ! 4 = ELFCLASS64" "far_bytes ! 5 = ELFDATA2MSB"
    by (simp_all add: far_bytes_def far_header_def elf_const_defs)
  then have "header_defect Ps3 far_bytes = None" by (simp add: header_defect_def Let_def far_raw far_header_read)
  then show ?thesis by (subst elf64.parse_Inr) (simp_all add: far_raw far_file_def)
qed

lemma far_lookup:
  "vaddrToFileOffset Ps3 0x10000 far_file = Inr 176" "vaddrToFileOffset Ps3 0x10008 far_file = Inr 184"
  by (simp_all add: vaddrToFileOffset_def far_parts far_phdrs_read far_raw vsize_def)

lemma far_slices:
  "slice 176 4 far_bytes = [0, 1, 0, 8]" "slice 180 4 far_bytes = [0, 1, 0x80, 0]"
  "slice 184 20 far_bytes =
     [0x60, 0, 0, 0, 0x60, 0, 0, 0, 0x60, 0, 0, 0, 0x60, 0, 0, 0, 0x60, 0, 0, 0]"
  by (simp_all add: far_bytes_def slice_def far_data_def)

section \<open>Its patch\<close>

lemma far_resolve: "resolveEntryDescriptor far_file = Inr ex_entry"
  by (subst resolve_Inr)
    (simp_all add: far_raw far_parts far_header_read EM_PPC64_def entry_def far_lookup far_slices be_word_4
      ex_entry_def)

lemma far_placement: "placement far_file = 0x10010000"
  by (simp add: placement_def highestEnd_def far_parts far_phdrs_read alignUp_def Let_def)

lemma far_unpatched: "\<not> isAlreadyPatched far_file"
proof -
  have "slice 176 8 far_bytes = [0, 1, 0, 8, 0, 1, 0x80, 0]"
    by (simp add: far_bytes_def slice_def far_data_def)
  moreover have "readAt 176 8 far_file = Inr (slice 176 8 far_bytes)"
    by (subst readAt_eq) (simp_all add: far_raw)
  ultimately show ?thesis
    by (simp add: isAlreadyPatched_def far_parts far_phdrs_read vsize_def TRAMPOLINE_MAGIC_def)
qed

lemma far_not_near:
  "\<not> jump_near 0x10008 0x10010008" "\<not> jump_near (resume_addr 0x10010000 + 20) 0x1001C"
  by (simp_all add: jump_near_def Let_def resume_addr_def)

lemma far_jump_in: "length (jump_in ex_entry 0x10010000) = 5"
  using makeMinimalJump_far [OF far_not_near(1)] by (simp add: jump_in_def ex_entry_def)

lemma far_displaced: "readInstructions 5 (slice 184 20 far_bytes) = replicate 5 0x60000000"
proof -
  have "[0..<5] = [0, 1, 2, 3, 4]" by (simp add: upt_rec)
  moreover have "replicate 5 w = [w, w, w, w, w]" for w :: u32 by (simp add: eval_nat_numeral)
  ultimately show ?thesis by (simp add: far_slices readInstructions_def)
qed

lemma relocated_nops: "relocateDisplacedInstructions (replicate n 0x60000000) oa na = Inr (replicate n 0x60000000)"
  by (subst relocateDisplaced_Inr) (simp add: relocated_ix_def ex_relocated_at)

definition far_trampoline :: TrampolineResult where
  "far_trampoline = trampoline_of ex_entry 0x10010000 ''/dev_hdd0/a.sprx'' (replicate 5 0x60000000)"

lemma far_fields:
  "entryPatchAddr far_trampoline = 0x10008" "displacedInstructionCount far_trampoline = 5"
  "trampolineAddr far_trampoline = 0x10010000"
  using far_jump_in by (simp_all add: far_trampoline_def trampoline_of_def ex_entry_def)

lemma far_build:
  "buildTrampoline far_file ex_entry 0x10010000 ''/dev_hdd0/a.sprx'' = Inr (Inr far_trampoline)"
  by (subst build_Inr)
    (use far_jump_in far_unpatched far_displaced in
      \<open>simp_all add: far_raw far_lookup ex_entry_def far_trampoline_def relocated_nops\<close>)

lemma far_plain:
  "plain_patch far_bytes far_file ex_entry ''/dev_hdd0/a.sprx'' far_trampoline 184"
proof -
  have "patching far_bytes far_file ex_entry ''/dev_hdd0/a.sprx'' far_trampoline 184"
    unfolding patching_def far_placement
    by (simp add: far_raw far_parse far_resolve far_build) (simp add: ex_entry_def far_lookup)
  moreover have "room far_file" by (simp add: room_def far_parts)
  moreover have "loadable far_file" by (simp add: loadable_def far_parts far_phdrs_read far_raw)
  moreover have "plain_code far_file 0x10008 20 184"
    by (simp add: plain_code_def far_parts far_phdrs_read far_header_read block_off_def)
  ultimately show ?thesis by (simp add: plain_patch_def far_fields) (simp add: ex_entry_def)
qed

section \<open>Running it\<close>

lemma nop_next: "exec lv2 0x60000000 s = Some (next_pc s)"
  unfolding ex_nop by (simp add: set_gpr_def next_pc_def)

lemma exec_nops: "exec_seq lv2 (replicate n 0x60000000) s = Some (s\<lparr>pc := pc s + 4 * of_nat n\<rparr>)"
  by (induction n arbitrary: s) (simp_all add: nop_next next_pc_def algebra_simps)

lemma far_blr: "word_source far_file 0x1001C = Some 204" "loaded_word far_file 0x1001C = Some 0x4E800020"
proof -
  show src: "word_source far_file 0x1001C = Some 204"
    by (simp add: word_source_def maps_word_def word_offset_def far_parts far_phdrs_read far_raw)
  have "slice 204 4 far_bytes = [0x4E, 0x80, 0, 0x20]" by (simp add: far_bytes_def slice_def far_data_def)
  then show "loaded_word far_file 0x1001C = Some 0x4E800020" by (simp add: loaded_word_def src far_raw be_word_4)
qed

text \<open>
  From the entry point through both system calls, the five displaced instructions and the jump back
  to the return: r2 is the program's TOC, but r12 and the count register, which the original program
  keeps, hold the address the jump back went to.
\<close>

theorem far_detour_overwrites:
  "\<exists>g k v. parse Ps3 (patched_bytes far_file far_trampoline 184) = Inr g \<and>
     run ex_kernel (loaded_word g) k ex_cpu = Some v \<and> pc v = 0 \<and> gpr v 2 = 0x18000 \<and>
     gpr ex_cpu 12 = 7 \<and> gpr v 12 = 0x1001C \<and> ctr ex_cpu = 0 \<and> ctr v = 0x1001C"
proof -
  note P = plain_patchD [OF far_plain]
  let ?g = "patched_file far_file far_trampoline 184" and ?nops = "replicate 5 0x60000000 :: u32 list"
  let ?r = "resumed ex_kernel ex_entry 0x10010000 5 (jumped 0x10008 (0x10010000 + 8) ex_cpu)"
  have g: "parse Ps3 (patched_bytes far_file far_trampoline 184) = Inr ?g"
    using patched_reparse [OF P(1,2)] by (simp add: patched_file_def)
  have code: "code_at (loaded_word ?g) (ucast (resume_addr 0x10010000)) ?nops"
    using patched_image_code(3) [OF far_plain, of ?nops]
    by (simp add: far_placement far_trampoline_def [symmetric] far_fields)
  have ok: "jump_ok 0x10008 (0x10010000 + 8)" "jump_ok (resume_addr 0x10010000 + of_nat (5 * 4)) (0x10008 + of_nat (5 * 4))"
    by (simp_all add: jump_ok_def)
  have c: "codeAddress ex_entry = 0x10008" by (simp add: ex_entry_def)
  have pc: "pc ex_cpu = codeAddress ex_entry" by (simp add: ex_cpu_def c)
  obtain k where k: "run ex_kernel (loaded_word ?g) k ex_cpu =
      Some (jumped (resume_addr 0x10010000 + of_nat (5 * 4)) (0x10008 + of_nat (5 * 4)) (?r\<lparr>pc := pc ?r + 4 * of_nat 5\<rparr>))"
    using patched_returns [OF ex_abi far_plain _ pc, of ?nops] ok code exec_nops [of ex_kernel 5 ?r]
    unfolding far_placement far_fields c by auto
  let ?u = "jumped (resume_addr 0x10010000 + of_nat (5 * 4)) (0x10008 + of_nat (5 * 4)) (?r\<lparr>pc := pc ?r + 4 * of_nat 5\<rparr>)"
  have "pc ?u = 0x1001C" by simp
  then have "steps (step ex_kernel (loaded_word far_file)) (untouched far_file 184 5) 1 ?u
      (?u\<lparr>pc := lr ?u AND NOT (mask 2)\<rparr>)"
    by (simp add: steps_Suc step_def far_blr ex_blr untouched_def)
  then have "run ex_kernel (loaded_word ?g) 1 ?u = Some (?u\<lparr>pc := lr ?u AND NOT (mask 2)\<rparr>)"
    using patched_follows [OF far_plain, of ex_kernel 1 ?u] by (simp only: far_fields)
  then have "run ex_kernel (loaded_word ?g) (k + 1) ex_cpu = Some (?u\<lparr>pc := lr ?u AND NOT (mask 2)\<rparr>)"
    using k by (simp only: run_add bind.bind_lunit)
  then show ?thesis using g far_not_near
    by (intro exI [of _ ?g] exI [of _ "k + 1"] exI conjI)
      (assumption | simp add: resumed_def jumped_def ex_cpu_def ex_entry_def mask_eq_exp_minus_1)+
qed

end
