(* ===== verification/BranchExample.thy ===== *)
theory BranchExample
  imports Example
begin

text \<open>
  A third executable, whose first instruction is a relative branch: it is re-encoded for its place
  in the trampoline, and the patched program arrives where the branch led.
\<close>

section \<open>The file\<close>

definition branch_phdr :: bytes where
  "branch_phdr =
     [0, 0, 0, 1, 0, 0, 0, 5, 0, 0, 0, 0, 0, 0, 0, 120,
      0, 0, 0, 0, 0, 1, 0, 0, 0, 0, 0, 0, 0, 1, 0, 0,
      0, 0, 0, 0, 0, 0, 0, 20, 0, 0, 0, 0, 0, 0, 0, 20,
      0, 0, 0, 0, 0, 1, 0, 0]"

text \<open>The descriptor; \<open>b .+8\<close>, \<open>nop\<close>, \<open>blr\<close>.\<close>

definition branch_data :: bytes where
  "branch_data =
     [0, 1, 0, 8, 0, 1, 0x80, 0, 0x48, 0, 0, 8, 0x60, 0, 0, 0, 0x4E, 0x80, 0, 0x20]"

definition branch_bytes :: bytes where
  "branch_bytes = ex_header @ branch_phdr @ branch_data"

definition branch_file :: Ps3ElfFile where "branch_file = parsed_elf Ps3 branch_bytes"

lemma branch_lengths [simp]: "length branch_phdr = 56" "length branch_data = 20"
  by (simp_all add: branch_phdr_def branch_data_def)

lemma branch_phdr_read:
  "p_type Ps3 (phdr_load Ps3 branch_phdr) = PT_LOAD" "p_offset Ps3 (phdr_load Ps3 branch_phdr) = 120"
  "p_vaddr Ps3 (phdr_load Ps3 branch_phdr) = 0x10000" "p_filesz Ps3 (phdr_load Ps3 branch_phdr) = 20"
  "p_memsz Ps3 (phdr_load Ps3 branch_phdr) = 20"
  by (subst elf64_phdr_read; simp add: branch_phdr_def slice_def be_word_def word_in_order_def PT_LOAD_def)+

lemma branch_raw:
  "raw branch_file = branch_bytes" "length branch_bytes = 140" "take 64 branch_bytes = ex_header"
  "slice 64 56 branch_bytes = branch_phdr"
  by (simp_all add: branch_file_def parsed_elf_def Let_def branch_bytes_def slice_def)

lemma branch_parts:
  "header branch_file = ehdr_load Ps3 ex_header" "segments branch_file = [phdr_load Ps3 branch_phdr]"
  "sections branch_file = []"
  by (simp_all add: branch_file_def parsed_elf_def Let_def branch_raw ex_header_read table_at_def)

lemma branch_parse: "parse Ps3 branch_bytes = Inr branch_file"
proof -
  have "take 4 branch_bytes = [0x7F, of_char CHR ''E'', of_char CHR ''L'', of_char CHR ''F'']"
    "branch_bytes ! 4 = ELFCLASS64" "branch_bytes ! 5 = ELFDATA2MSB"
    by (simp_all add: branch_bytes_def ex_header_def elf_const_defs)
  then have "header_defect Ps3 branch_bytes = None"
    by (simp add: header_defect_def Let_def branch_raw ex_header_read)
  then show ?thesis by (subst elf64.parse_Inr) (simp_all add: branch_raw branch_file_def)
qed

lemma branch_lookup:
  "vaddrToFileOffset Ps3 0x10000 branch_file = Inr 120" "vaddrToFileOffset Ps3 0x10008 branch_file = Inr 128"
  by (simp_all add: vaddrToFileOffset_def branch_parts branch_phdr_read branch_raw vsize_def)

lemma branch_slices:
  "slice 120 4 branch_bytes = [0, 1, 0, 8]" "slice 124 4 branch_bytes = [0, 1, 0x80, 0]"
  "slice 128 4 branch_bytes = [0x48, 0, 0, 8]" "slice 136 4 branch_bytes = [0x4E, 0x80, 0, 0x20]"
  "slice 120 8 branch_bytes = [0, 1, 0, 8, 0, 1, 0x80, 0]"
  by (simp_all add: branch_bytes_def slice_def branch_data_def)

section \<open>Its patch\<close>

lemma branch_resolve: "resolveEntryDescriptor branch_file = Inr ex_entry"
  by (subst resolve_Inr)
    (simp_all add: branch_raw branch_parts ex_header_read EM_PPC64_def entry_def branch_lookup branch_slices
      be_word_4 ex_entry_def)

lemma branch_placement: "placement branch_file = 0x20000"
  by (simp add: placement_def highestEnd_def branch_parts branch_phdr_read alignUp_def Let_def)

lemma branch_unpatched: "\<not> isAlreadyPatched branch_file"
proof -
  have "readAt 120 8 branch_file = Inr (slice 120 8 branch_bytes)"
    by (subst readAt_eq) (simp_all add: branch_raw)
  then show ?thesis
    by (simp add: isAlreadyPatched_def branch_parts branch_phdr_read branch_slices vsize_def TRAMPOLINE_MAGIC_def)
qed

lemma branch_op: "decode_op 0x48000008 = Branch 8 False False"
  by (simp add: decode_op_def Let_def mask_eq_exp_minus_1)

lemma branch_word: "classify 0x48000008 = default_branch\<lparr>kind := DirectRelative, displacement := 8\<rparr>"
  by (simp add: classify_decode branch_op as_branch_def default_branch_def)

text \<open>From \<open>0x200CC\<close> the target \<open>0x10010\<close> is \<open>0x100BC\<close> bytes back.\<close>

lemma branch_moved: "relocated_at 0x10008 (resume_addr 0x20000) 0x48000008 = Some 0x4BFEFF44"
  by (simp add: relocated_at_def relocateBranch_eq branch_word new_distance_def distance_fits_def
      default_branch_def Let_def resume_addr_def take_bit_eq_mask mask_eq_exp_minus_1)

definition branch_trampoline :: TrampolineResult where
  "branch_trampoline = trampoline_of ex_entry 0x20000 ''/dev_hdd0/a.sprx'' [0x4BFEFF44]"

lemma branch_build:
  "buildTrampoline branch_file ex_entry 0x20000 ''/dev_hdd0/a.sprx'' = Inr (Inr branch_trampoline)"
proof -
  have "readInstructions 1 (slice 128 4 branch_bytes) = [0x48000008]"
    by (simp add: branch_slices readInstructions_def)
  moreover have "relocateDisplacedInstructions [0x48000008] 0x10008 (resume_addr 0x20000) = Inr [0x4BFEFF44]"
    by (subst relocateDisplaced_Inr) (simp add: relocated_ix_def branch_moved)
  ultimately show ?thesis
    by (subst build_Inr)
      (use ex_jump_in branch_unpatched in
        \<open>simp_all add: branch_raw branch_lookup ex_entry_def branch_trampoline_def\<close>)
qed

lemma branch_fields:
  "entryPatchAddr branch_trampoline = 0x10008" "displacedInstructionCount branch_trampoline = 1"
  "trampolineAddr branch_trampoline = 0x20000"
  using ex_jump_in by (simp_all add: branch_trampoline_def trampoline_of_def ex_entry_def)

lemma branch_plain:
  "plain_patch branch_bytes branch_file ex_entry ''/dev_hdd0/a.sprx'' branch_trampoline 128"
proof -
  have "patching branch_bytes branch_file ex_entry ''/dev_hdd0/a.sprx'' branch_trampoline 128"
    unfolding patching_def branch_placement
    by (simp add: branch_raw branch_parse branch_resolve branch_build) (simp add: ex_entry_def branch_lookup)
  moreover have "room branch_file" by (simp add: room_def branch_parts)
  moreover have "loadable branch_file" by (simp add: loadable_def branch_parts branch_phdr_read branch_raw)
  moreover have "plain_code branch_file 0x10008 4 128"
    by (simp add: plain_code_def branch_parts branch_phdr_read ex_header_read)
  ultimately show ?thesis by (simp add: plain_patch_def branch_fields) (simp add: ex_entry_def)
qed

section \<open>Running it\<close>

lemma branch_words:
  "loaded_word branch_file 0x10008 = Some 0x48000008" "word_source branch_file 0x10010 = Some 136"
  "loaded_word branch_file 0x10010 = Some 0x4E800020"
proof -
  have src: "word_source branch_file 0x10008 = Some 128" "word_source branch_file 0x10010 = Some 136"
    by (simp_all add: word_source_def maps_word_def word_offset_def branch_parts branch_phdr_read branch_raw)
  then show "loaded_word branch_file 0x10008 = Some 0x48000008" "word_source branch_file 0x10010 = Some 136"
    "loaded_word branch_file 0x10010 = Some 0x4E800020"
    by (simp_all add: loaded_word_def branch_raw branch_slices be_word_4)
qed

text \<open>One step of the original program: out of the block, to the \<open>blr\<close>.\<close>

lemma branch_step:
  assumes "pc s = 0x10008"
  shows "steps (step lv2 (loaded_word branch_file)) (in_block lv2 (loaded_word branch_file) 0x10008 1) 1 s
      (s\<lparr>pc := 0x10010\<rparr>)"
proof -
  have go: "exec lv2 0x48000008 s = Some (s\<lparr>pc := 0x10010\<rparr>)"
    using assms by (simp add: exec_def branch_op branch_to_def)
  have "movable 0x10008 0x48000008" by (simp add: movable_def branch_op branch_word default_branch_def)
  then have "in_block lv2 (loaded_word branch_file) 0x10008 1 s"
    using assms go by (simp add: in_block_def block_has_def branch_words)
  then show ?thesis using assms go by (simp add: steps_Suc step_def branch_words One_nat_def)
qed

text \<open>
  Through the trampoline and over the re-encoded branch to the return of the original program, with
  the registers the kernel destroyed restored and r2 the program's TOC.
\<close>

theorem displaced_branch_lands:
  "\<exists>g k v. parse Ps3 (patched_bytes branch_file branch_trampoline 128) = Inr g \<and>
     loaded_word g 0x200CC = Some 0x4BFEFF44 \<and>
     run ex_kernel (loaded_word g) k ex_cpu = Some v \<and> pc v = 0x10010 \<and>
     gpr v = (gpr ex_cpu)(2 := 0x18000) \<and> lr v = lr ex_cpu \<and> ctr v = ctr ex_cpu"
proof -
  note P = plain_patchD [OF branch_plain]
  let ?g = "patched_file branch_file branch_trampoline 128"
  have g: "parse Ps3 (patched_bytes branch_file branch_trampoline 128) = Inr ?g"
    using patched_reparse [OF P(1,2)] by (simp add: patched_file_def)
  have "code_at (loaded_word ?g) (ucast (resume_addr 0x20000)) [0x4BFEFF44]"
    using patched_image_code(3) [OF branch_plain, of "[0x4BFEFF44]"]
    by (simp add: branch_placement branch_trampoline_def [symmetric] branch_fields)
  then have word: "loaded_word ?g 0x200CC = Some 0x4BFEFF44" by (simp add: code_at_def resume_addr_def)
  have c: "codeAddress ex_entry = 0x10008" by (simp add: ex_entry_def)
  have near: "jump_near 0x10008 (0x20000 + 8)" using ex_jump_near by simp
  let ?t = "(resumed ex_kernel ex_entry 0x20000 1 (jumped 0x10008 (0x20000 + 8) ex_cpu))\<lparr>pc := 0x10008\<rparr>"
  have ok: "jump_ok 0x10008 (0x20000 + 8)" "jump_ok (resume_addr 0x20000 + of_nat (1 * 4)) (0x10008 + of_nat (1 * 4))"
    using near ex_back_near by (simp_all add: jump_ok_def)
  have "steps (step ex_kernel (loaded_word branch_file)) (in_block ex_kernel (loaded_word branch_file) 0x10008 1) 1
      ?t (?t\<lparr>pc := 0x10010\<rparr>)" by (rule branch_step) simp
  moreover have "pc ex_cpu = codeAddress ex_entry" by (simp add: ex_cpu_def c)
  ultimately obtain k where "run ex_kernel (loaded_word ?g) k ex_cpu = Some (?t\<lparr>pc := 0x10010\<rparr>)"
    using patched_simulates [OF ex_abi branch_plain, of ex_cpu 1 "?t\<lparr>pc := 0x10010\<rparr>"] ok
    by (auto simp: branch_placement branch_fields c block_has_def)
  then show ?thesis using g word near
    by (intro exI [of _ ?g] exI [of _ k] exI conjI)
      (assumption | simp add: resumed_def jumped_def ex_cpu_def ex_entry_def mask_eq_exp_minus_1)+
qed

end
