(* ===== verification/PpcTests.thy ===== *)
theory PpcTests
  imports Syscalls PpcProperties Trampoline
begin

text \<open>
  The unit tests of the instruction layers (\<open>tests/ppc_encode_test.cpp\<close>, \<open>ppc_decode_test.cpp\<close>,
  \<open>ps3_syscalls_test.cpp\<close>) on the model: each suite is the list of the conditions of its checks, in
  the order of the file, and the theorems say that none of them fails.
\<close>

definition failures :: "bool list \<Rightarrow> nat" where
  "failures checks = length (filter Not checks)"

text \<open>A check on the word an encoder returns fails when the encoder throws.\<close>

definition on_word :: "instruction throws \<Rightarrow> (instruction \<Rightarrow> bool) \<Rightarrow> bool" where
  "on_word r P = (case r of Inl _ \<Rightarrow> False | Inr w \<Rightarrow> P w)"

definition on_some :: "'a option \<Rightarrow> ('a \<Rightarrow> bool) \<Rightarrow> bool" where
  "on_some r P = (case r of None \<Rightarrow> False | Some w \<Rightarrow> P w)"

section \<open>The encoders\<close>

definition encoded_field_checks :: "bool list" where
  "encoded_field_checks =
     (let clr = encodeClrldi 3 3 32; trampoline = makeAbsoluteJump 0x80010000 12;
          field = (\<lambda>w k m. drop_bit k w AND m); store = encodeStd 3 1 128; ld = encodeLd 4 1 (- 8);
          upd = encodeStdu 1 1 (- 256) in
      [encodeBctr = 0x4E800420, encodeMtctr 0 = 0x7C0903A6, encodeLis 3 0x1234 = 0x3C601234,
       field clr 26 0x3F = 30, field clr 21 0x1F = 3, field clr 16 0x1F = 3, field clr 11 0x1F = 0,
       field clr 1 0x1 = 0, field clr 5 0x3F = 32, field clr 2 0x7 = 0, field clr 0 0x1 = 0,
       length trampoline = 5, trampoline ! 0 = encodeLis 12 0x8001, trampoline ! 1 = encodeOri 12 12 0,
       trampoline ! 2 = encodeClrldi 12 12 32, trampoline ! 3 = encodeMtctr 12, trampoline ! 4 = encodeBctr,
       isl (encodeBranch 0x10000000 False False),
       \<not> isl (encodeBranch 33554428 False False), isl (encodeBranch 33554432 False False),
       encodeMflr 0 = 0x7C0802A6, encodeMtlr 0 = 0x7C0803A6, encodeMfctr 0 = 0x7C0902A6,
       on_word store (\<lambda>w. field w 26 0x3F = 62), on_word store (\<lambda>w. field w 21 0x1F = 3),
       on_word store (\<lambda>w. field w 16 0x1F = 1),
       on_word store (\<lambda>w. signExtend (field w 2 0x3FFF) 14 = 32), on_word store (\<lambda>w. w AND 0x3 = 0),
       on_word ld (\<lambda>w. field w 26 0x3F = 58), on_word ld (\<lambda>w. signExtend (field w 2 0x3FFF) 14 = - 2),
       on_word upd (\<lambda>w. w AND 0x3 = 1)])"

lemma encoded_field_checks_pass: "failures encoded_field_checks = 0"
  by code_simp

text \<open>The DS field read back; the loop over displacements at the end of the suite rests on it.\<close>

lemma ds_field_read:
  assumes "ds_ok d"
  shows "signExtend (drop_bit 2 (ppc_word op rs ra d) AND 0x3FFF) 14 * 4 = d"
proof -
  have "drop_bit 2 (ppc_word op rs ra d) AND 0x3FFF = take_bit 14 (drop_bit 2 (ppc_word op rs ra d))"
    by (simp add: take_bit_eq_mask mask_eq_exp_minus_1)
  also have "\<dots> = take_bit 14 (drop_bit 2 d)"
    by (rule bit_word_eqI) (auto simp: ppc_word_def bit_simps)
  finally have read: "signExtend (drop_bit 2 (ppc_word op rs ra d) AND 0x3FFF) 14 = signed_take_bit 13 (drop_bit 2 d)"
    using signExtend_eq [of 13 "take_bit 14 (drop_bit 2 d)"] by (simp add: signed_take_bit_take_bit)
  have sign: "bit d n = bit d (min n 15)" if "n < 32" for n
  proof -
    have "bit (sint d) n = bit (signed_take_bit 15 (sint d)) n"
      using assms by (simp add: ds_ok_def signed_take_bit_int_eq_self)
    moreover have "bit (sint d) m = bit d m" if "m < 32" for m
      using that by (cases "m = 31") (simp_all add: bit_sint_iff)
    ultimately show ?thesis using that by (simp add: bit_signed_take_bit_iff min.commute)
  qed
  have "push_bit 2 (signed_take_bit 13 (drop_bit 2 d)) = d"
  proof (rule bit_word_eqI)
    fix n assume n: "n < LENGTH(32)"
    show "bit (push_bit 2 (signed_take_bit 13 (drop_bit 2 d))) n = bit d n"
    proof (cases "n < 2")
      case True
      then show ?thesis using low_bits_clear [of d n] assms by (simp add: ds_ok_def bit_simps)
    next
      case False
      then obtain m where m: "n = m + 2" by (metis add.commute le_Suc_ex not_less)
      then have "bit d n = bit d (min m 13 + 2)" using n sign [of n] by (simp add: min_add_distrib_left)
      then show ?thesis using n m by (simp add: bit_simps min.commute)
    qed
  qed
  then show ?thesis by (simp add: read push_bit_eq_mult mult.commute)
qed

definition std_round_trips :: bool where
  "std_round_trips = list_all (\<lambda>d. on_word (encodeStd 5 1 (word_of_int d))
     (\<lambda>w. signExtend (drop_bit 2 w AND 0x3FFF) 14 * 4 = word_of_int d)) (map (\<lambda>k. 4 * k - 256) [0..128])"

lemma std_round_trips_hold: "std_round_trips"
proof -
  have ok: "ds_ok (word_of_int (4 * k - 256))" if "0 \<le> k" "k \<le> 128" for k
  proof -
    have "sint (word_of_int (4 * k - 256) :: i32) = 4 * k - 256"
      using that by (simp only: sint_sbintrunc') (simp add: signed_take_bit_int_eq_self)
    moreover have "4 dvd 4 * k - 256" by presburger
    ultimately show ?thesis using that by (simp add: ds_ok_def)
  qed
  then show ?thesis
    by (simp add: std_round_trips_def list_all_iff encodeStd_def encodeStdForm_eq on_word_def ds_field_read
        del: wi_hom_syms of_int_diff of_int_mult)
qed

definition ppc_encode_test :: "bool list" where
  "ppc_encode_test = encoded_field_checks @ [std_round_trips]"

lemma ppc_encode_test_passes: "failures ppc_encode_test = 0"
  using encoded_field_checks_pass std_round_trips_hold by (simp add: ppc_encode_test_def failures_def)

section \<open>The decoder\<close>

definition ppc_decode_test :: "bool list" where
  "ppc_decode_test =
     (let rel = encodeBranch 0x40 False False; ab = encodeBranch 0x8000 True True;
          bc = encodeBranchConditional 12 2 0x20 False False;
          bclr = push_bit 26 19 OR push_bit 21 20 OR push_bit 1 16;
          moved = (\<lambda>w a b P. on_word w (\<lambda>i. on_some (relocateBranch (classify i) a b) P));
          cond = encodeBranchConditional 4 7 0x20 False False in
      [kind (classify (encodeLis 3 0x1234)) = NotABranch, kind (classify (encodeMtctr 12)) = NotABranch,
       on_word rel (\<lambda>w. kind (classify w) = DirectRelative), on_word rel (\<lambda>w. displacement (classify w) = 0x40),
       on_word rel (\<lambda>w. \<not> isConditionalForm (classify w)),
       on_word ab (\<lambda>w. kind (classify w) = DirectAbsolute), on_word ab (\<lambda>w. absoluteTarget (classify w) = 0x8000),
       on_word ab (\<lambda>w. link (classify w)),
       on_word bc (\<lambda>w. kind (classify w) = DirectRelative), on_word bc (\<lambda>w. isConditionalForm (classify w)),
       on_word bc (\<lambda>w. bo (classify w) = 12 \<and> bi (classify w) = 2),
       kind (classify bclr) = ToLinkRegister, kind (classify encodeBctr) = ToCountRegister,
       moved rel 0x1000 0x2000 (\<lambda>_. True),
       moved rel 0x1000 0x2000 (\<lambda>w. 0x2000 + displacement (classify w) = 0x1040),
       on_word cond (\<lambda>w. bo (classify w) = 4 \<and> bi (classify w) = 7),
       moved cond 0x1000 0x1800 (\<lambda>_. True), moved cond 0x1000 0x1800 (\<lambda>w. isConditionalForm (classify w)),
       moved cond 0x1000 0x1800 (\<lambda>w. bo (classify w) = 4 \<and> bi (classify w) = 7),
       moved cond 0x1000 0x1800 (\<lambda>w. 0x1800 + displacement (classify w) = 0x1020),
       on_word (encodeBranch 0x100 True False) (\<lambda>w. relocateBranch (classify w) 0x1000 0x9000 = None),
       on_word rel (\<lambda>w. relocateBranch (classify w) 0x1000 (0x1000 + 64 * 1024 * 1024) = None)])"

lemma ppc_decode_test_passes: "failures ppc_decode_test = 0"
  by code_simp

section \<open>The system calls\<close>

definition ps3_syscalls_test :: "bool list" where
  "ps3_syscalls_test =
     (let trap = makeSyscallTrap 480 11; ld = makeLoadModuleCall 0x30100; ptr = loadImmediate32 REG_ARG0 0x30100;
          start = makeStartModuleCall; combined = makeLoadAndStartModule 0x30100 in
      [encodeSc = 0x44000002, length trap = 2, trap ! 0 = encodeLi 11 480, trap ! 1 = encodeSc,
       length ld = 7, ld ! 0 = ptr ! 0 \<and> ld ! 1 = ptr ! 1 \<and> ld ! 2 = ptr ! 2,
       ld ! 3 = encodeLi REG_ARG1 0, ld ! 4 = encodeLi REG_ARG2 0,
       ld ! 5 = encodeLi REG_SYSCALL_NUMBER_DEFAULT (ucast SYS_PRX_LOAD_MODULE), ld ! 6 = encodeSc,
       length start = 7, start ! 0 = encodeLi REG_ARG1 0, start ! 1 = encodeLi REG_ARG2 0,
       start ! 2 = encodeLi REG_ARG3 0, start ! 3 = encodeLi REG_ARG4 0, start ! 4 = encodeLi REG_ARG5 0,
       start ! 5 = encodeLi REG_SYSCALL_NUMBER_DEFAULT (ucast SYS_PRX_START_MODULE), start ! 6 = encodeSc,
       length combined = 14, list_all (\<lambda>i. kind (classify i) = NotABranch) combined])"

lemma ps3_syscalls_test_passes: "failures ps3_syscalls_test = 0"
  by code_simp

end
