(* ===== verification/Suites.thy ===== *)
theory Suites
  imports PatchMain PpcTests "HOL-Library.Sublist"
begin

text \<open>
  The test programs that read a file (\<open>tests/elf_roundtrip_test.cpp\<close>, \<open>ps3_toc_test.cpp\<close>,
  \<open>ps3_trampoline_test.cpp\<close>, \<open>ps3_info_test.cpp\<close>, \<open>ps3_integration_test.cpp\<close>) as functions of the
  contents of their fixture.  The result of a program is the list of the conditions its checks saw,
  in their order, and its exit code, or \<open>None\<close> when it ends by an exception.
\<close>

type_synonym suite = "bool list \<times> int option"

definition suite_ends :: "bool list \<Rightarrow> suite" where
  "suite_ends checks = (checks, Some (if failures checks = 0 then 0 else 1))"

definition suite_stops :: "bool list \<Rightarrow> suite" where
  "suite_stops checks = (checks, Some 1)"

definition suite_throws :: "bool list \<Rightarrow> suite" where
  "suite_throws checks = (checks, None)"

text \<open>Checks made only when a result is a value, or an error.\<close>

definition on_ok :: "'a result \<Rightarrow> ('a \<Rightarrow> bool list) \<Rightarrow> bool list" where
  "on_ok r checks = (case r of Inl _ \<Rightarrow> [] | Inr v \<Rightarrow> checks v)"

definition fails_with :: "'a result \<Rightarrow> error_code \<Rightarrow> bool list" where
  "fails_with r c = (case r of Inl e \<Rightarrow> [True, code e = c] | Inr _ \<Rightarrow> [False])"

text \<open>The big-endian word at an index, put together byte by byte in the tests.\<close>

definition word_in :: "bytes \<Rightarrow> nat \<Rightarrow> u32" where
  "word_in bs i =
     push_bit 24 (ucast (bs ! i)) OR push_bit 16 (ucast (bs ! (i + 1))) OR
     push_bit 8 (ucast (bs ! (i + 2))) OR ucast (bs ! (i + 3))"

section \<open>elf\_roundtrip\_test\<close>

definition elf_roundtrip_main :: "bytes \<Rightarrow> suite" where
  "elf_roundtrip_main bytes =
     (case parseAny bytes of
        Inl _ \<Rightarrow> suite_stops [bytes \<noteq> [], False]
      | Inr (AnyElf64BE file) \<Rightarrow>
          suite_ends (
            [bytes \<noteq> [], True, True,
             entry Ps3 file = 0x10000, length (segments file) = 1, length (sections file) = 2,
             result_ok (segmentData Ps3 0 file)] @
            on_ok (segmentData Ps3 0 file) (\<lambda>s. [s = map of_char ''HELLO_PS3_SEGMENT_DATA_PADDING_'']) @
            [serialize Ps3 file = Some bytes] @
            fails_with (parseAny (take 10 bytes)) TruncatedFile @
            fails_with (parseAny (bytes[0 := 0])) BadMagic @
            [\<not> result_ok (parseAny (bytes[0x20 := 0xFF, 0x21 := 0xFF]))])
      | Inr _ \<Rightarrow> suite_throws [bytes \<noteq> [], True, False])"

section \<open>ps3\_toc\_test\<close>

definition toc_descriptor_checks :: "Ps3ElfFile \<Rightarrow> bool list" where
  "toc_descriptor_checks file =
     (let descResult = resolveEntryDescriptor file in
      [result_ok descResult] @
      on_ok descResult (\<lambda>d. [codeAddress d = 0x10008, tocValue d = 0x30000, envPointer d = 0]))"

definition toc_lookup_checks :: "Ps3ElfFile \<Rightarrow> bool list" where
  "toc_lookup_checks file =
     (let codeOffset = vaddrToFileOffset Ps3 0x10008 file; opdOffset = vaddrToFileOffset Ps3 0x20000 file in
      [result_ok codeOffset \<and> result_ok opdOffset] @
      on_ok codeOffset (\<lambda>c. on_ok opdOffset (\<lambda>d. [c \<noteq> d])))"

definition toc_error_checks :: "bytes \<Rightarrow> bool list" where
  "toc_error_checks bytes =
     (let reparsed = parse Ps3 (put_at 24 (be_bytes 8 (0xDEADBEEF00 :: u64)) bytes) in
      [result_ok reparsed] @ on_ok reparsed (\<lambda>g. [\<not> result_ok (resolveEntryDescriptor g)])) @
     (let reparsed = parse Ps3 (bytes[18 := 0, 19 := 3]) in
      [result_ok reparsed] @ on_ok reparsed (\<lambda>g. [\<not> result_ok (validatePs3Executable g)])) @
     (case parse Ps3 (take (length bytes - 10) bytes) of
        Inr g \<Rightarrow> [\<not> result_ok (resolveEntryDescriptor g)] | Inl _ \<Rightarrow> [True])"

definition toc_flags_checks :: "Ps3ElfFile \<Rightarrow> bytes \<Rightarrow> bool list" where
  "toc_flags_checks file bytes =
     (let reparsed = parse Ps3 (bytes[48 := 0, 49 := 0, 50 := 0, 51 := 1]) in
      [hasTypicalEFlags file, result_ok reparsed] @
      on_ok reparsed (\<lambda>g. [\<not> hasTypicalEFlags g, result_ok (validatePs3Executable g),
        result_ok (resolveEntryDescriptor g)]))"

definition ps3_toc_main :: "bytes \<Rightarrow> suite" where
  "ps3_toc_main bytes =
     (case parse Ps3 bytes of
        Inl _ \<Rightarrow> suite_stops [bytes \<noteq> [], False]
      | Inr file \<Rightarrow>
          suite_ends ([bytes \<noteq> [], True, result_ok (validatePs3Executable file)] @
            toc_descriptor_checks file @ toc_lookup_checks file @ toc_error_checks bytes @
            toc_flags_checks file bytes))"

section \<open>ps3\_trampoline\_test\<close>

definition debug_path :: string where "debug_path = ''/dev_hdd0/tmp/debug.sprx''"

text \<open>The path in the blob, and the byte behind it.\<close>

definition path_checks :: "bytes \<Rightarrow> bool list" where
  "path_checks b =
     (let path = map of_char debug_path in
      case find (\<lambda>i. slice i (length path) b = path) [0..<length b] of
        None \<Rightarrow> [False] | Some pos \<Rightarrow> [True, b ! (pos + length path) = 0])"

definition near_checks :: "EntryDescriptor \<Rightarrow> u32 \<Rightarrow> TrampolineResult \<Rightarrow> bool list" where
  "near_checks ent trampAddr r =
     (let decodedJumpIn = classify (word_in (entryPatchBytes r) 0);
          expectedInstrCount = 16 + 14 + 16 + 3 + 1 + 1; codeBytes = 8 + expectedInstrCount * 4 in
      [displacedInstructionCount r = 1, length (entryPatchBytes r) = 4,
       ucast (entryPatchAddr r) = codeAddress ent, length (blob r) mod 4 = 0,
       kind decodedJumpIn = DirectRelative] @
      (if kind decodedJumpIn = DirectRelative
       then [ucast (codeAddress ent) + displacement decodedJumpIn = trampAddr + 8] else []) @
      path_checks (blob r) @
      [length (blob r) \<ge> codeBytes + length debug_path + 1])"

definition far_checks :: "u32 \<Rightarrow> TrampolineResult \<Rightarrow> bool list" where
  "far_checks trampAddr r =
     (let expectedJump = makeAbsoluteJump (trampAddr + 8) 12 in
      [displacedInstructionCount r = 5, length (entryPatchBytes r) = 20,
       list_all (\<lambda>i. word_in (entryPatchBytes r) (i * 4) = expectedJump ! i) [0..<5]])"

definition refusal_check :: "bool list" where
  "refusal_check =
     (case encodeBranchConditional 4 2 0x100 False False of
        Inl _ \<Rightarrow> [False]
      | Inr bc \<Rightarrow> fails_with (relocateDisplacedInstructions [bc] 0x10000 (0x10000 + 1024 * 1024)) RelocationFailed)"

definition ps3_trampoline_main :: "bytes \<Rightarrow> suite" where
  "ps3_trampoline_main bytes =
     (case parse Ps3 bytes of
        Inl _ \<Rightarrow> suite_stops [bytes \<noteq> [], False]
      | Inr file \<Rightarrow>
      case resolveEntryDescriptor file of
        Inl _ \<Rightarrow> suite_stops [bytes \<noteq> [], True, False]
      | Inr ent \<Rightarrow>
      let loaded = [bytes \<noteq> [], True, True]; near = ucast (codeAddress ent) + 0x1000;
          far = ucast (codeAddress ent) + 0x10000000 in
      case buildTrampoline file ent near debug_path of
        Inl _ \<Rightarrow> suite_throws loaded
      | Inr (Inl _) \<Rightarrow> suite_stops (loaded @ [False])
      | Inr (Inr r) \<Rightarrow>
      let case1 = loaded @ [True] @ near_checks ent near r in
      case buildTrampoline file ent far debug_path of
        Inl _ \<Rightarrow> suite_throws case1
      | Inr r2 \<Rightarrow>
      let case2 = case1 @ [result_ok r2] @ on_ok r2 (far_checks far) in
      case (buildTrampoline file ent near [], buildTrampoline file ent near (replicate 2000 CHR ''a''),
            buildTrampoline file ent (ucast (codeAddress ent) + 0x1001) debug_path) of
        (Inr emptyPath, Inr longPath, Inr misaligned) \<Rightarrow>
          suite_ends (case2 @ fails_with emptyPath InvalidArgument @ [\<not> result_ok longPath] @
            [\<not> result_ok misaligned] @ refusal_check)
      | _ \<Rightarrow> suite_throws case2)"

section \<open>ps3\_info\_test\<close>

definition info_checks :: "string result \<Rightarrow> bool list" where
  "info_checks r =
     [result_ok r] @
     on_ok r (\<lambda>text. [sublist ''EM_PPC64'' text, sublist ''0x10008'' text, sublist ''0x30000'' text,
       sublist ''Already patched by ps3patch: no'' text, sublist ''480'' text \<and> sublist ''481'' text])"

definition ps3_info_main :: "bytes \<Rightarrow> suite" where
  "ps3_info_main bytes =
     (case parse Ps3 bytes of
        Inl _ \<Rightarrow> suite_stops [False]
      | Inr file \<Rightarrow>
      let before = [True, \<not> isAlreadyPatched file] @ info_checks (formatInfo file) in
      case resolveEntryDescriptor file of
        Inl _ \<Rightarrow> suite_stops (before @ [False])
      | Inr ent \<Rightarrow>
      case buildTrampoline file ent 0x40000 debug_path of
        Inl _ \<Rightarrow> suite_throws (before @ [True])
      | Inr (Inl _) \<Rightarrow> suite_stops (before @ [True, False])
      | Inr (Inr tramp) \<Rightarrow>
      let added = addLoadSegment Ps3 0x40000 (blob tramp) (PF_R OR PF_X) 0x10000 file;
          file = (case added of Inl _ \<Rightarrow> file | Inr g \<Rightarrow> g);
          offset = vaddrToFileOffset Ps3 (ucast (entryPatchAddr tramp)) file;
          patched = (case offset of Inl e \<Rightarrow> Inl e | Inr off \<Rightarrow> patchBytesAt off (entryPatchBytes tramp) file);
          file = (case patched of Inl _ \<Rightarrow> file | Inr g \<Rightarrow> g);
          after = before @ [True, True, result_ok added, result_ok offset] @
            on_ok offset (\<lambda>_. [result_ok patched]) @ [isAlreadyPatched file] in
      case buildTrampoline file ent (0x40000 + 0x10000) ''/dev_hdd0/tmp/other.sprx'' of
        Inl _ \<Rightarrow> suite_throws after
      | Inr secondAttempt \<Rightarrow>
      suite_ends (after @ fails_with secondAttempt AlreadyPatched @ [result_ok (formatInfo file)] @
        on_ok (formatInfo file) (\<lambda>text. [sublist ''Already patched by ps3patch: YES'' text])))"

section \<open>ps3\_integration\_test\<close>

text \<open>
  The commands the test runs: their exit code, the text of both streams, which the shell sends to
  one file, and the files after them.
\<close>

definition exit_of :: "run_result \<Rightarrow> int" where
  "exit_of r = (case r of Returned x \<Rightarrow> exit_code x | _ \<Rightarrow> 134)"

definition text_of :: "run_result \<Rightarrow> string" where
  "text_of r = (case r of Returned x \<Rightarrow> out_text x @ err_text x | _ \<Rightarrow> [])"

definition files_after :: "readable \<Rightarrow> run_result \<Rightarrow> readable" where
  "files_after fs r =
     (case r of Returned x \<Rightarrow> (case written x of None \<Rightarrow> fs | Some (path, bs) \<Rightarrow> fs(path \<mapsto> bs)) | _ \<Rightarrow> fs)"

definition contents :: "readable \<Rightarrow> string \<Rightarrow> bytes" where
  "contents fs path = (case fs path of None \<Rightarrow> [] | Some bs \<Rightarrow> bs)"

definition fixture_path :: string where "fixture_path = ''tests/fixtures/synthetic_ps3_opd.elf''"
definition patched_path :: string where "patched_path = ''/tmp/integration_patched.elf''"

definition segment_checks :: "Ps3ElfFile \<Rightarrow> Ps3ElfFile \<Rightarrow> bool list" where
  "segment_checks original patched =
     (let newSeg = last (segments patched) in
      [length (segments patched) = length (segments original) + 1, p_type Ps3 newSeg = PT_LOAD,
       get32 Big (p_flags64 newSeg) AND (PF_R OR PF_X) = PF_R OR PF_X])"

definition entry_checks :: "Ps3ElfFile \<Rightarrow> Ps3ElfFile \<Rightarrow> bool list" where
  "entry_checks original patched =
     (let origEntry = resolveEntryDescriptor original; patchedEntry = resolveEntryDescriptor patched in
      [result_ok origEntry \<and> result_ok patchedEntry] @
      on_ok origEntry (\<lambda>d. on_ok patchedEntry (\<lambda>e. [codeAddress d = codeAddress e, tocValue d = tocValue e])))"

definition jump_in_checks :: "u64 \<Rightarrow> u64 \<Rightarrow> u32 \<Rightarrow> bool list" where
  "jump_in_checks codeAddr newSegVaddr firstWord =
     (let decoded = classify firstWord in
      [kind decoded = DirectRelative] @
      (if kind decoded = DirectRelative
       then [codeAddr + scast (displacement decoded) = newSegVaddr + 8] else []))"

definition jump_back_checks :: "Ps3ElfFile \<Rightarrow> u64 \<Rightarrow> u64 \<Rightarrow> bool list" where
  "jump_back_checks patched codeAddr backAddr =
     (let jumpBackOffset = vaddrToFileOffset Ps3 backAddr patched in
      [result_ok jumpBackOffset] @
      on_ok jumpBackOffset (\<lambda>off.
        let jbBytes = readAt off 4 patched in
        [result_ok jbBytes] @
        on_ok jbBytes (\<lambda>jb.
          let jbDecoded = classify (word_in jb 0) in
          [kind jbDecoded = DirectRelative] @
          (if kind jbDecoded = DirectRelative
           then [backAddr + scast (displacement jbDecoded) = codeAddr + 4] else []))))"

definition resume_checks :: "Ps3ElfFile \<Rightarrow> u64 \<Rightarrow> u64 \<Rightarrow> bool list" where
  "resume_checks patched codeAddr resumeAddr =
     (let resumeOffset = vaddrToFileOffset Ps3 resumeAddr patched in
      [result_ok resumeOffset] @
      on_ok resumeOffset (\<lambda>off.
        (let resumeInstrBytes = readAt off 4 patched in
         [result_ok resumeInstrBytes] @ on_ok resumeInstrBytes (\<lambda>rb. [word_in rb 0 = 0x60000000])) @
        jump_back_checks patched codeAddr (resumeAddr + 4)))"

definition ps3_integration_main :: "bytes \<Rightarrow> suite" where
  "ps3_integration_main bytes =
     (let fs = [fixture_path \<mapsto> bytes]; cli = (\<lambda>fs. main fs (\<lambda>_ _. True) ''ps3patch'');
          run = cli fs [fixture_path, patched_path, debug_path] in
      if exit_of run \<noteq> 0 then suite_stops [False]
      else
      let fs = files_after fs run; originalBytes = contents fs fixture_path; patchedBytes = contents fs patched_path;
          originalParsed = parse Ps3 originalBytes; patchedParsed = parse Ps3 patchedBytes;
          c1 = [True, patchedBytes \<noteq> [], length originalBytes < length patchedBytes,
                result_ok originalParsed, result_ok patchedParsed] in
      case originalParsed of Inl _ \<Rightarrow> suite_stops c1 | Inr original \<Rightarrow>
      case patchedParsed of Inl _ \<Rightarrow> suite_stops c1 | Inr patched \<Rightarrow>
      let newSegVaddr = p_vaddr Ps3 (last (segments patched));
          c2 = c1 @ segment_checks original patched @ entry_checks original patched in
      case resolveEntryDescriptor patched of Inl _ \<Rightarrow> suite_stops c2 | Inr ent \<Rightarrow>
      case vaddrToFileOffset Ps3 (codeAddress ent) patched of
        Inl _ \<Rightarrow> suite_stops (c2 @ [False])
      | Inr codeOffset \<Rightarrow>
      case readAt codeOffset 4 patched of
        Inl _ \<Rightarrow> suite_stops (c2 @ [True, False])
      | Inr fb \<Rightarrow>
      let c3 = c2 @ [True, True] @ jump_in_checks (codeAddress ent) newSegVaddr (word_in fb 0) @
            resume_checks patched (codeAddress ent) (newSegVaddr + 8 + 49 * 4);
          run2 = cli fs [patched_path, ''/tmp/integration_patched_twice.elf'', ''/dev_hdd0/tmp/other.sprx''];
          fs = files_after fs run2; run3 = cli fs [''--info'', patched_path] in
      suite_ends (c3 @
        [exit_of run2 \<noteq> 0, sublist ''already been patched'' (text_of run2),
         exit_of run3 = 0, sublist ''Already patched by ps3patch: YES'' (text_of run3)]))"

end
