(* ===== verification/Fixtures.thy ===== *)
theory Fixtures
  imports ElfProperties PatchLemmas
begin

text \<open>
  The two files the tests read, as the scripts \<open>tests/gen_fixture.py\<close> and
  \<open>tests/gen_ps3_fixture.py\<close> build them: \<open>struct.pack\<close> with \<open>>\<close> puts each number down big-endian.
\<close>

section \<open>The files\<close>

definition fixture_ident :: bytes where
  "fixture_ident = [0x7F, of_char CHR ''E'', of_char CHR ''L'', of_char CHR ''F'', 2, 2, 1, 0] @ replicate 8 0"

text \<open>The layouts \<open>HHIQQQIHHHHHH\<close>, \<open>IIQQQQQQ\<close> and \<open>IIQQQQIIQQ\<close>.\<close>

definition pack_ehdr :: "u16 \<Rightarrow> u16 \<Rightarrow> u32 \<Rightarrow> u64 list \<Rightarrow> u32 \<Rightarrow> u16 list \<Rightarrow> bytes" where
  "pack_ehdr ty machine version addrs flags sizes =
     be_bytes 2 ty @ be_bytes 2 machine @ be_bytes 4 version @ concat (map (be_bytes 8) addrs) @
     be_bytes 4 flags @ concat (map (be_bytes 2) sizes)"

definition pack_phdr :: "u32 \<Rightarrow> u32 \<Rightarrow> u64 list \<Rightarrow> bytes" where
  "pack_phdr ty flags addrs = be_bytes 4 ty @ be_bytes 4 flags @ concat (map (be_bytes 8) addrs)"

definition pack_shdr :: "u32 \<Rightarrow> u32 \<Rightarrow> u64 list \<Rightarrow> u32 list \<Rightarrow> u64 list \<Rightarrow> bytes" where
  "pack_shdr name ty addrs links rest =
     be_bytes 4 name @ be_bytes 4 ty @ concat (map (be_bytes 8) addrs) @ concat (map (be_bytes 4) links) @
     concat (map (be_bytes 8) rest)"

definition segment_data :: bytes where
  "segment_data = map of_char ''HELLO_PS3_SEGMENT_DATA_PADDING_''"

definition make_be_elf64 :: bytes where
  "make_be_elf64 =
     (let phoff = 64; data_off = phoff + 56 * 1; n = of_nat (length segment_data); shoff = data_off + n in
      fixture_ident @ pack_ehdr 2 21 1 [0x10000, phoff, shoff] 0 [64, 56, 1, 64, 2, 0] @
      pack_phdr 1 5 [data_off, 0x10000, 0x10000, n, n, 0x10] @ segment_data @
      pack_shdr 0 0 [0, 0, 0, 0] [0, 0] [0, 0] @ pack_shdr 0 1 [2, 0x10000, data_off, n] [0, 0] [1, 0])"

definition make_ps3_fixture :: bytes where
  "make_ps3_fixture =
     (let text_vaddr = 0x10000; code_entry = text_vaddr + 8; opd_vaddr = 0x20000; toc_value = 0x30000;
          phoff = 64; text_off = phoff + 56 * 2; text_data = concat (replicate 8 [0x60, 0, 0, 0]);
          opd_off = text_off + of_nat (length text_data);
          opd = concat (map (be_bytes 8) [code_entry :: u64, toc_value, 0]);
          shoff = opd_off + of_nat (length opd);
          phdr = (\<lambda>flags off vaddr size. pack_phdr 1 flags [off, vaddr, vaddr, size, size, 0x10]) in
      fixture_ident @ pack_ehdr 2 21 1 [opd_vaddr, phoff, shoff] 0 [64, 56, 2, 64, 1, 0] @
      phdr 5 text_off text_vaddr (of_nat (length text_data)) @ phdr 6 opd_off opd_vaddr (of_nat (length opd)) @
      text_data @ opd @ pack_shdr 0 0 [0, 0, 0, 0] [0, 0] [0, 0])"

section \<open>Their parts\<close>

named_theorems pack_defs \<open>the bytes of packed structures\<close>

declare fixture_ident_def [pack_defs] pack_ehdr_def [pack_defs] pack_phdr_def [pack_defs]
  pack_shdr_def [pack_defs] be_bytes_def [pack_defs] le_bytes_def [pack_defs] upt_rec [pack_defs]

lemma replicate_8 [pack_defs]: "replicate 8 x = [x, x, x, x, x, x, x, x]"
  by (simp add: eval_nat_numeral)

lemma replicate_64 [pack_defs]: "replicate 64 x = concat (replicate 8 (replicate 8 x))"
  by (simp add: eval_nat_numeral)

definition be64_header :: bytes where
  "be64_header =
    [0x7F, 0x45, 0x4C, 0x46, 2, 2, 1, 0, 0, 0, 0, 0, 0, 0, 0, 0, 0, 2, 0, 0x15, 0, 0, 0, 1, 0, 0,
     0, 0, 0, 1, 0, 0, 0, 0, 0, 0, 0, 0, 0, 0x40, 0, 0, 0, 0, 0, 0, 0, 0x97, 0, 0, 0, 0, 0, 0x40,
     0, 0x38, 0, 1, 0, 0x40, 0, 2, 0, 0]"

definition be64_phdr :: bytes where
  "be64_phdr =
    [0, 0, 0, 1, 0, 0, 0, 5, 0, 0, 0, 0, 0, 0, 0, 0x78, 0, 0, 0, 0, 0, 1, 0, 0, 0, 0, 0, 0, 0, 1,
     0, 0, 0, 0, 0, 0, 0, 0, 0, 0x1F, 0, 0, 0, 0, 0, 0, 0, 0x1F, 0, 0, 0, 0, 0, 0, 0, 0x10]"

definition be64_shdr :: bytes where
  "be64_shdr =
    [0, 0, 0, 0, 0, 0, 0, 1, 0, 0, 0, 0, 0, 0, 0, 2, 0, 0, 0, 0, 0, 1, 0, 0, 0, 0, 0, 0, 0, 0, 0,
     0x78, 0, 0, 0, 0, 0, 0, 0, 0x1F, 0, 0, 0, 0, 0, 0, 0, 0, 0, 0, 0, 0, 0, 0, 0, 1, 0, 0, 0, 0,
     0, 0, 0, 0]"

lemma make_be_elf64_parts:
  "make_be_elf64 = be64_header @ be64_phdr @ segment_data @ replicate 64 0 @ be64_shdr"
  by (simp add: make_be_elf64_def Let_def segment_data_def pack_defs be64_header_def be64_phdr_def
      be64_shdr_def)

definition opd_header :: bytes where
  "opd_header =
    [0x7F, 0x45, 0x4C, 0x46, 2, 2, 1, 0, 0, 0, 0, 0, 0, 0, 0, 0, 0, 2, 0, 0x15, 0, 0, 0, 1, 0, 0,
     0, 0, 0, 2, 0, 0, 0, 0, 0, 0, 0, 0, 0, 0x40, 0, 0, 0, 0, 0, 0, 0, 0xE8, 0, 0, 0, 0, 0, 0x40,
     0, 0x38, 0, 2, 0, 0x40, 0, 1, 0, 0]"

definition opd_phdr1 :: bytes where
  "opd_phdr1 =
    [0, 0, 0, 1, 0, 0, 0, 5, 0, 0, 0, 0, 0, 0, 0, 0xB0, 0, 0, 0, 0, 0, 1, 0, 0, 0, 0, 0, 0, 0, 1,
     0, 0, 0, 0, 0, 0, 0, 0, 0, 0x20, 0, 0, 0, 0, 0, 0, 0, 0x20, 0, 0, 0, 0, 0, 0, 0, 0x10]"

definition opd_phdr2 :: bytes where
  "opd_phdr2 =
    [0, 0, 0, 1, 0, 0, 0, 6, 0, 0, 0, 0, 0, 0, 0, 0xD0, 0, 0, 0, 0, 0, 2, 0, 0, 0, 0, 0, 0, 0, 2,
     0, 0, 0, 0, 0, 0, 0, 0, 0, 0x18, 0, 0, 0, 0, 0, 0, 0, 0x18, 0, 0, 0, 0, 0, 0, 0, 0x10]"

definition opd_data :: bytes where
  "opd_data =
    [0, 0, 0, 0, 0, 1, 0, 8, 0, 0, 0, 0, 0, 3, 0, 0, 0, 0, 0, 0, 0, 0, 0, 0]"

lemma make_ps3_fixture_parts:
  "make_ps3_fixture = opd_header @ opd_phdr1 @ opd_phdr2 @ concat (replicate 8 [0x60, 0, 0, 0]) @ opd_data @
     replicate 64 0"
  by (simp add: make_ps3_fixture_def Let_def pack_defs opd_header_def opd_phdr1_def opd_phdr2_def opd_data_def)

lemma part_lengths [simp]:
  "length be64_header = 64" "length be64_phdr = 56" "length be64_shdr = 64" "length segment_data = 31"
  "length opd_header = 64" "length opd_phdr1 = 56" "length opd_phdr2 = 56" "length opd_data = 24"
  by (simp_all add: be64_header_def be64_phdr_def be64_shdr_def segment_data_def opd_header_def
      opd_phdr1_def opd_phdr2_def opd_data_def)

lemma be64_slices:
  "length make_be_elf64 = 279" "take 64 make_be_elf64 = be64_header" "slice 64 56 make_be_elf64 = be64_phdr"
  "slice 120 31 make_be_elf64 = segment_data" "slice 151 64 make_be_elf64 = replicate 64 0"
  "slice 215 64 make_be_elf64 = be64_shdr"
  by (simp_all add: make_be_elf64_parts slice_skip slice_hit)

lemma opd_slices:
  "length make_ps3_fixture = 296" "take 64 make_ps3_fixture = opd_header"
  "slice 64 56 make_ps3_fixture = opd_phdr1" "slice 120 56 make_ps3_fixture = opd_phdr2"
  "slice 208 24 make_ps3_fixture = opd_data"
  by (simp_all add: make_ps3_fixture_parts slice_skip slice_hit length_concat sum_list_replicate)

lemma be64_header_read:
  "e_entry (Elf64 Big) (ehdr_load (Elf64 Big) be64_header) = 0x10000"
  "e_phoff (Elf64 Big) (ehdr_load (Elf64 Big) be64_header) = 64"
  "e_shoff (Elf64 Big) (ehdr_load (Elf64 Big) be64_header) = 151"
  "e_ehsize (Elf64 Big) (ehdr_load (Elf64 Big) be64_header) = 64"
  "e_phentsize (Elf64 Big) (ehdr_load (Elf64 Big) be64_header) = 56"
  "e_phnum (Elf64 Big) (ehdr_load (Elf64 Big) be64_header) = 1"
  "e_shentsize (Elf64 Big) (ehdr_load (Elf64 Big) be64_header) = 64"
  "e_shnum (Elf64 Big) (ehdr_load (Elf64 Big) be64_header) = 2"
  "e_shstrndx (Elf64 Big) (ehdr_load (Elf64 Big) be64_header) = 0"
  by (subst elf64_ehdr_read; simp add: be64_header_def slice_def be_word_def word_in_order_def)+

lemma opd_header_read:
  "e_entry Ps3 (ehdr_load Ps3 opd_header) = 0x20000" "e_phoff Ps3 (ehdr_load Ps3 opd_header) = 64"
  "e_shoff Ps3 (ehdr_load Ps3 opd_header) = 232" "e_ehsize Ps3 (ehdr_load Ps3 opd_header) = 64"
  "e_phentsize Ps3 (ehdr_load Ps3 opd_header) = 56" "e_phnum Ps3 (ehdr_load Ps3 opd_header) = 2"
  "e_shentsize Ps3 (ehdr_load Ps3 opd_header) = 64" "e_shnum Ps3 (ehdr_load Ps3 opd_header) = 1"
  "e_shstrndx Ps3 (ehdr_load Ps3 opd_header) = 0"
  "get16 Big (e_machine64 (ehdr_load Ps3 opd_header)) = 21"
  by (subst elf64_ehdr_read; simp add: opd_header_def slice_def be_word_def word_in_order_def)+

lemma phdrs_read:
  "p_offset (Elf64 Big) (phdr_load (Elf64 Big) be64_phdr) = 120"
  "p_filesz (Elf64 Big) (phdr_load (Elf64 Big) be64_phdr) = 31"
  "p_type Ps3 (phdr_load Ps3 opd_phdr1) = PT_LOAD" "p_offset Ps3 (phdr_load Ps3 opd_phdr1) = 176"
  "p_vaddr Ps3 (phdr_load Ps3 opd_phdr1) = 0x10000" "p_filesz Ps3 (phdr_load Ps3 opd_phdr1) = 32"
  "p_memsz Ps3 (phdr_load Ps3 opd_phdr1) = 32"
  "p_type Ps3 (phdr_load Ps3 opd_phdr2) = PT_LOAD" "p_offset Ps3 (phdr_load Ps3 opd_phdr2) = 208"
  "p_vaddr Ps3 (phdr_load Ps3 opd_phdr2) = 0x20000" "p_filesz Ps3 (phdr_load Ps3 opd_phdr2) = 24"
  "p_memsz Ps3 (phdr_load Ps3 opd_phdr2) = 24"
  by (subst elf64_phdr_read; simp add: be64_phdr_def opd_phdr1_def opd_phdr2_def slice_def be_word_def
      word_in_order_def PT_LOAD_def)+

end
