(* ===== verification/FixtureTests.thy ===== *)
theory FixtureTests
  imports Fixtures InfoReport
begin

text \<open>
  The two fixtures of the tests as parsed files, and the operations the tests apply to them.  What
  \<open>tests/elf_roundtrip_test.cpp\<close> expects of the ELF library holds.  What the other tests expect of
  the PS3 fixture does not: its entry descriptor has 8-byte fields, and \<open>resolveEntryDescriptor\<close>
  reads two 4-byte fields.
\<close>

section \<open>Reading and writing an ELF file\<close>

definition be64_file :: Ps3ElfFile where "be64_file = parsed_elf Ps3 make_be_elf64"

lemma be64_defect: "header_defect Ps3 make_be_elf64 = None"
proof -
  have "take 4 make_be_elf64 = [0x7F, of_char CHR ''E'', of_char CHR ''L'', of_char CHR ''F'']"
    "make_be_elf64 ! 4 = ELFCLASS64" "make_be_elf64 ! 5 = ELFDATA2MSB"
    by (simp_all add: make_be_elf64_parts be64_header_def elf_const_defs)
  then show ?thesis by (simp add: header_defect_def Let_def be64_slices be64_header_read)
qed

lemma be64_parse: "parse Ps3 make_be_elf64 = Inr be64_file" "parseAny make_be_elf64 = Inr (AnyElf64BE be64_file)"
proof -
  show "parse Ps3 make_be_elf64 = Inr be64_file"
    using be64_defect by (subst elf64.parse_Inr) (simp_all add: be64_slices be64_file_def)
  then show "parseAny make_be_elf64 = Inr (AnyElf64BE be64_file)" by (simp add: parseAny_ps3 be64_slices)
qed

lemma be64_fields:
  "raw be64_file = make_be_elf64" "header be64_file = ehdr_load Ps3 be64_header"
  "segments be64_file = [phdr_load Ps3 be64_phdr]"
  "sections be64_file = [shdr_load Ps3 (replicate 64 0), shdr_load Ps3 be64_shdr]"
  by (simp_all add: be64_file_def parsed_elf_def Let_def be64_slices be64_header_read table_at_def upt_rec)

lemma elf_roundtrip_test:
  "entry Ps3 be64_file = 0x10000" "length (segments be64_file) = 1" "length (sections be64_file) = 2"
  "segmentData Ps3 0 be64_file = Inr (map of_char ''HELLO_PS3_SEGMENT_DATA_PADDING_'')"
  "serialize Ps3 be64_file = Some make_be_elf64"
proof -
  show "entry Ps3 be64_file = 0x10000" by (simp add: entry_def be64_fields be64_header_read)
  show "length (segments be64_file) = 1" "length (sections be64_file) = 2" by (simp_all add: be64_fields)
  show "segmentData Ps3 0 be64_file = Inr (map of_char ''HELLO_PS3_SEGMENT_DATA_PADDING_'')"
    by (subst segmentData_Inr)
      (simp_all add: be64_fields be64_slices phdrs_read segment_data_def)
  show "serialize Ps3 be64_file = Some make_be_elf64"
    unfolding be64_file_def by (rule elf64.serialize_parsed) (simp_all add: be64_defect be64_slices)
qed

text \<open>A damaged file: cut short, without the magic bytes, with a table outside the file.\<close>

lemma be64_bad_phoff:
  defines "h \<equiv> ehdr_load Ps3 (be64_header[0x20 := 0xFF, 0x21 := 0xFF])"
  shows "e_phoff Ps3 h = 0xFFFF000000000040" "e_ehsize Ps3 h = 64" "e_phentsize Ps3 h = 56" "e_phnum Ps3 h = 1"
    "e_shentsize Ps3 h = 64" "e_shnum Ps3 h = 2"
  unfolding h_def
  by (subst elf64_ehdr_read; simp add: be64_header_def slice_def be_word_def word_in_order_def)+

lemma elf_roundtrip_test_errors:
  "\<exists>e. parseAny (take 10 make_be_elf64) = Inl e \<and> code e = TruncatedFile"
  "\<exists>e. parseAny (make_be_elf64[0 := 0]) = Inl e \<and> code e = BadMagic"
  "\<exists>e. parse Ps3 (make_be_elf64[0x20 := 0xFF, 0x21 := 0xFF]) = Inl e \<and> code e = OffsetOutOfBounds"
proof -
  show "\<exists>e. parseAny (take 10 make_be_elf64) = Inl e \<and> code e = TruncatedFile"
    by (simp add: parseAny_def be64_slices EI_NIDENT_def make_error_def)
  show "\<exists>e. parseAny (make_be_elf64[0 := 0]) = Inl e \<and> code e = BadMagic"
    by (simp add: parseAny_def be64_slices EI_NIDENT_def make_error_def ident_index_defs elf_const_defs Let_def)
  let ?bs = "make_be_elf64[0x20 := 0xFF, 0x21 := 0xFF]"
  have head: "take 64 ?bs = be64_header[0x20 := 0xFF, 0x21 := 0xFF]"
    by (simp add: take_update_swap be64_slices)
  have "take 4 ?bs = [0x7F, of_char CHR ''E'', of_char CHR ''L'', of_char CHR ''F'']"
    "?bs ! 4 = ELFCLASS64" "?bs ! 5 = ELFDATA2MSB"
    by (simp_all add: take_update_swap make_be_elf64_parts be64_header_def elf_const_defs)
  then have "header_defect Ps3 ?bs = Some OffsetOutOfBounds"
    by (simp add: header_defect_def Let_def be64_slices head be64_bad_phoff)
  then show "\<exists>e. parse Ps3 ?bs = Inl e \<and> code e = OffsetOutOfBounds"
    using elf64.parse_eq [of ?bs Big] by (simp add: be64_slices)
qed

section \<open>The PS3 fixture\<close>

definition opd_file :: Ps3ElfFile where "opd_file = parsed_elf Ps3 make_ps3_fixture"

lemma opd_defect: "header_defect Ps3 make_ps3_fixture = None"
proof -
  have "take 4 make_ps3_fixture = [0x7F, of_char CHR ''E'', of_char CHR ''L'', of_char CHR ''F'']"
    "make_ps3_fixture ! 4 = ELFCLASS64" "make_ps3_fixture ! 5 = ELFDATA2MSB"
    by (simp_all add: make_ps3_fixture_parts opd_header_def elf_const_defs)
  then show ?thesis by (simp add: header_defect_def Let_def opd_slices opd_header_read)
qed

lemma opd_parse: "parse Ps3 make_ps3_fixture = Inr opd_file" "parseAny make_ps3_fixture = Inr (AnyElf64BE opd_file)"
proof -
  show "parse Ps3 make_ps3_fixture = Inr opd_file"
    using opd_defect by (subst elf64.parse_Inr) (simp_all add: opd_slices opd_file_def)
  then show "parseAny make_ps3_fixture = Inr (AnyElf64BE opd_file)" by (simp add: parseAny_ps3 opd_slices)
qed

lemma opd_fields:
  "raw opd_file = make_ps3_fixture" "header opd_file = ehdr_load Ps3 opd_header"
  "segments opd_file = [phdr_load Ps3 opd_phdr1, phdr_load Ps3 opd_phdr2]"
  by (simp_all add: opd_file_def parsed_elf_def Let_def opd_slices opd_header_read table_at_def upt_rec)

lemma opd_lookup:
  "vaddrToFileOffset Ps3 0x10008 opd_file = Inr 184" "vaddrToFileOffset Ps3 0x20000 opd_file = Inr 208"
  "\<exists>e. vaddrToFileOffset Ps3 0 opd_file = Inl e"
  by (simp_all add: vaddrToFileOffset_def opd_fields phdrs_read opd_slices vsize_def)

text \<open>The upper half of the code address is taken for the address, the lower half for the TOC.\<close>

lemma opd_resolve:
  "resolveEntryDescriptor opd_file = Inr \<lparr>codeAddress = 0, tocValue = 0x10008, envPointer = 0\<rparr>"
proof -
  have "slice 208 4 make_ps3_fixture = slice 0 4 opd_data" "slice 212 4 make_ps3_fixture = slice 4 4 opd_data"
    by (simp_all flip: opd_slices(5) add: slice_slice)
  then have "slice 208 4 make_ps3_fixture = [0, 0, 0, 0]" "slice 212 4 make_ps3_fixture = [0, 1, 0, 8]"
    by (simp_all add: opd_data_def slice_def)
  then show ?thesis
    by (subst resolve_Inr)
      (simp_all add: opd_fields opd_slices opd_header_read EM_PPC64_def entry_def opd_lookup be_word_4)
qed

lemma ps3_toc_test:
  "validatePs3Executable opd_file = Inr ()" "hasTypicalEFlags opd_file"
  "vaddrToFileOffset Ps3 0x10008 opd_file \<noteq> vaddrToFileOffset Ps3 0x20000 opd_file"
proof -
  have "get32 Big (e_flags64 (ehdr_load Ps3 opd_header)) = word_in_order Big (slice 48 4 opd_header)"
    by (simp add: Elf64_def Elf64_Ehdr_load_def load32_def endianed_read)
  also have "\<dots> = 0" by (simp add: opd_header_def slice_def be_word_def word_in_order_def)
  finally have "get32 Big (e_flags64 (ehdr_load Ps3 opd_header)) = 0" .
  then show "hasTypicalEFlags opd_file" by (simp add: hasTypicalEFlags_def opd_fields)
qed (simp_all add: validatePs3Executable_def opd_fields opd_header_read EM_PPC64_def opd_lookup ok_unit_def)

lemma opd_unpatched: "\<not> isAlreadyPatched opd_file"
proof -
  have "slice 176 8 make_ps3_fixture = [0x60, 0, 0, 0, 0x60, 0, 0, 0]"
    by (simp add: make_ps3_fixture_parts slice_def eval_nat_numeral)
  moreover have "slice 208 8 make_ps3_fixture = [0, 0, 0, 0, 0, 1, 0, 8]"
  proof -
    have "slice 208 8 make_ps3_fixture = slice 0 8 opd_data" by (simp flip: opd_slices(5) add: slice_slice)
    then show ?thesis by (simp add: opd_data_def slice_def)
  qed
  moreover have "readAt 176 8 opd_file = Inr (slice 176 8 make_ps3_fixture)"
    "readAt 208 8 opd_file = Inr (slice 208 8 make_ps3_fixture)"
    by (subst readAt_eq; simp add: opd_fields opd_slices)+
  ultimately show ?thesis
    by (simp add: isAlreadyPatched_def opd_fields phdrs_read TRAMPOLINE_MAGIC_def vsize_def)
qed

text \<open>The refusals the trampoline test asks for.\<close>

lemma ps3_trampoline_test_arguments:
  "\<exists>e. buildTrampoline file ent a [] = Inr (Inl e) \<and> code e = InvalidArgument"
  "\<exists>e. buildTrampoline file ent a (replicate 2000 CHR ''a'') = Inr (Inl e)"
  "\<exists>e. buildTrampoline opd_file \<lparr>codeAddress = 0, tocValue = 0x10008, envPointer = 0\<rparr> 0x1001
     ''/dev_hdd0/tmp/debug.sprx'' = Inr (Inl e)"
  by (simp_all add: buildTrampoline_def kMaxPathLength_def make_error_def)

lemma ps3_trampoline_test_refusal:
  "\<exists>bc e. encodeBranchConditional 4 2 0x100 False False = Inr bc \<and>
     relocateDisplacedInstructions [bc] 0x10000 (0x10000 + 1024 * 1024) = Inl e \<and> code e = RelocationFailed"
proof -
  have "encodeBranchConditional 4 2 0x100 False False = Inr 0x40820100"
    "kind (classify 0x40820100) = DirectRelative" "relocateBranch (classify 0x40820100) 0x10000 0x110000 = None"
    by code_simp+
  then show ?thesis by (simp add: relocateDisplacedInstructions_def make_error_def)
qed

section \<open>Descriptors with 8-byte fields\<close>

lemma be_bytes_halves:
  "be_bytes 8 (c :: u64) = be_bytes 4 (ucast (drop_bit 32 c) :: u32) @ be_bytes 4 (ucast c :: u32)"
proof -
  have le: "le_bytes 8 c = le_bytes 4 (ucast c :: u32) @ le_bytes 4 (ucast (drop_bit 32 c) :: u32)"
    unfolding le_bytes_def
    by (simp add: upt_rec) (intro conjI bit_word_eqI; simp add: bit_simps)
  show ?thesis by (simp add: be_bytes_def le)
qed

lemma wide_resolve:
  assumes "length (raw f) < 2 ^ 64" "get16 Big (e_machine64 (header f)) = 21"
    and "vaddrToFileOffset Ps3 (entry Ps3 f) f = Inr off"
    and "slice (unat off) 8 (raw f) = be_bytes 8 (c :: u64)"
  shows "resolveEntryDescriptor f = Inr \<lparr>codeAddress = drop_bit 32 c, tocValue = take_bit 32 c, envPointer = 0\<rparr>"
proof -
  have "length (slice (unat off) 8 (raw f)) = 8" using assms(4) by simp
  then have fits: "unat off + 8 \<le> length (raw f)" by (simp add: slice_def)
  have "slice (unat off) 4 (raw f) = slice 0 4 (be_bytes 8 c)" "slice (unat off + 4) 4 (raw f) = slice 4 4 (be_bytes 8 c)"
    by (simp_all flip: assms(4) add: slice_slice)
  then have halves: "slice (unat off) 4 (raw f) = be_bytes 4 (ucast (drop_bit 32 c) :: u32)"
    "slice (unat off + 4) 4 (raw f) = be_bytes 4 (ucast c :: u32)"
    unfolding be_bytes_halves by (simp_all add: slice_hit slice_skip)
  have "ucast (ucast (drop_bit 32 c) :: u32) = drop_bit 32 c" "ucast (ucast c :: u32) = take_bit 32 c"
    by (rule bit_word_eqI; auto simp: bit_simps dest: bit_imp_le_length)+
  then show ?thesis
    using assms(2,3) fits by (subst resolve_Inr [OF assms(1)]) (simp add: EM_PPC64_def halves)
qed

lemma placement_aligned: "placement f mod 4 = 0"
proof -
  let ?q = "(highestEnd (segments f) + 0x10000 - 1) div 0x10000"
  have "alignUp (highestEnd (segments f)) 0x10000 = push_bit 16 ?q"
    by (simp add: alignUp_def push_bit_eq_mult)
  then have "take_bit 2 (placement f) = 0"
    by (intro bit_word_eqI) (auto simp: placement_def bit_simps)
  then show ?thesis by (simp add: take_bit_eq_mod)
qed

lemma wide_refused:
  assumes "length bs < 2 ^ 64" "rd i = Some bs" "parse Ps3 bs = Inr f" "\<not> isAlreadyPatched f"
    and "resolveEntryDescriptor f = Inr d" "codeAddress d = 0" "vaddrToFileOffset Ps3 0 f = Inl e"
    and "p \<noteq> []" "length p \<le> 1023"
  shows "\<exists>so. main rd wr prog [i, o_path, p] =
    failed so (''error: failed to build trampoline: entry.codeAddress does not resolve to a file-backed segment: '' @
      message e @ newline)"
proof -
  have "parseAny bs = Inr (AnyElf64BE f)" using assms(1,3) by (simp add: parseAny_ps3)
  moreover have "buildTrampoline f d (placement f) p =
      Inr (Inl (make_error OffsetOutOfBounds
        (''entry.codeAddress does not resolve to a file-backed segment: '' @ message e)))"
    using assms(4,6-9) placement_aligned [of f]
    by (simp add: buildTrampoline_def kMaxPathLength_def not_less del: mod_0_imp_dvd)
  ultimately show ?thesis using assms(2,4,5)
    by (simp add: main_def main_patch_def readFile_def Let_def placement_def [symmetric] make_error_def)
      (simp add: failed_def)
qed

text \<open>
  C40. An \<open>EM_PPC64\<close> program whose entry descriptor has the 8-byte fields of the standard PPC64 ABI (as section 6.1 of
  the write-up and the fixture of the tests have it) is misread, for every code address \<open>c\<close> and every
  file: the upper half of \<open>c\<close> is taken for the code address and the lower half for the TOC value. For
  an address below \<open>2 ^ 32\<close>, patching it with a module path of a supported length then fails with the
  message that the code address is not backed by a segment, and writes nothing, unless the file is marked as patched or a segment backs
  the address 0 with file bytes.
\<close>

theorem wide_descriptor_misread:
  assumes "length bs < 2 ^ 64" "rd i = Some bs" "parse Ps3 bs = Inr f"
    and "get16 Big (e_machine64 (header f)) = 21" "vaddrToFileOffset Ps3 (entry Ps3 f) f = Inr off"
    and "slice (unat off) 8 bs = be_bytes 8 (c :: u64)"
  shows "resolveEntryDescriptor f =
      Inr \<lparr>codeAddress = drop_bit 32 c, tocValue = take_bit 32 c, envPointer = 0\<rparr> \<and>
    (unat c < 2 ^ 32 \<and> \<not> isAlreadyPatched f \<and> (\<nexists>k. vaddrToFileOffset Ps3 0 f = Inr k) \<and>
       p \<noteq> [] \<and> length p \<le> 1023 \<longrightarrow>
     (\<exists>x rest. main rd wr prog [i, o_path, p] = Returned x \<and> exit_code x = 1 \<and> written x = None \<and>
        err_text x =
          ''error: failed to build trampoline: entry.codeAddress does not resolve to a file-backed segment: '' @ rest))"
proof (rule conjI, goal_cases)
  have raw: "raw f = bs" using elf64.parse_Inr [OF assms(1)] assms(3) by (auto simp: parsed_elf_def Let_def)
  show d: "resolveEntryDescriptor f = Inr \<lparr>codeAddress = drop_bit 32 c, tocValue = take_bit 32 c, envPointer = 0\<rparr>"
    using wide_resolve [OF _ assms(4,5)] assms(1,6) raw by simp
  case 2
  show ?case
  proof (intro impI, elim conjE)
    assume small: "unat c < 2 ^ 32" and free: "\<not> isAlreadyPatched f" "\<nexists>k. vaddrToFileOffset Ps3 0 f = Inr k"
      and p: "p \<noteq> []" "length p \<le> 1023"
    have "drop_bit 32 c = 0"
      using small by (simp add: word_unat_eq_iff drop_bit_eq_div unat_div)
    moreover obtain e where "vaddrToFileOffset Ps3 0 f = Inl e"
      using free(2) by (cases "vaddrToFileOffset Ps3 0 f") auto
    ultimately show "\<exists>x rest. main rd wr prog [i, o_path, p] = Returned x \<and> exit_code x = 1 \<and> written x = None \<and>
        err_text x =
          ''error: failed to build trampoline: entry.codeAddress does not resolve to a file-backed segment: '' @ rest"
      using wide_refused [where rd = rd and i = i and wr = wr and prog = prog and o_path = o_path,
          OF assms(1-3) free(1) d _ _ p] by (auto simp: failed_def)
  qed
qed

theorem wide_descriptor_misread_witness:
  "resolveEntryDescriptor opd_file = Inr \<lparr>codeAddress = 0, tocValue = 0x10008, envPointer = 0\<rparr> \<and>
   (\<exists>x. main (\<lambda>_. Some make_ps3_fixture) (\<lambda>_ _. True) ''ps3patch''
      [''tests/fixtures/synthetic_ps3_opd.elf'', ''/tmp/integration_patched.elf'', ''/dev_hdd0/tmp/debug.sprx''] =
     Returned x \<and> exit_code x = 1 \<and> written x = None)"
proof -
  have "slice 208 8 make_ps3_fixture = slice 0 8 opd_data" by (simp flip: opd_slices(5) add: slice_slice)
  also have "\<dots> = be_bytes 8 (0x10008 :: u64)"
    by (simp add: opd_data_def slice_def be_bytes_def le_bytes_def upt_rec)
  finally have "slice (unat (208 :: u64)) 8 make_ps3_fixture = be_bytes 8 (0x10008 :: u64)" by simp
  moreover have "vaddrToFileOffset Ps3 (entry Ps3 opd_file) opd_file = Inr 208"
    by (simp add: entry_def opd_fields opd_header_read opd_lookup)
  moreover have "get16 Big (e_machine64 (header opd_file)) = 21" by (simp add: opd_fields opd_header_read)
  moreover have "length make_ps3_fixture < 2 ^ 64" by (simp add: opd_slices)
  moreover have "\<nexists>k. vaddrToFileOffset Ps3 0 opd_file = Inr k" using opd_lookup(3) by auto
  ultimately show ?thesis
    using wide_descriptor_misread [where rd = "\<lambda>_. Some make_ps3_fixture" and bs = make_ps3_fixture and f = opd_file
        and c = "0x10008" and off = 208 and p = "''/dev_hdd0/tmp/debug.sprx''"] opd_parse(1) opd_unpatched
    by fastforce
qed

end
