(* ===== verification/FixtureSuites.thy ===== *)
theory FixtureSuites
  imports FixtureTests Suites
begin

text \<open>
  The five test programs on the files the generators write.  \<open>elf_roundtrip_test\<close> passes; the
  four that read the PS3 fixture fail, because its entry descriptor has 8-byte fields.
\<close>

section \<open>elf\_roundtrip\_test\<close>

lemma be64_bad_phoff_any: "\<not> result_ok (parseAny (make_be_elf64[0x20 := 0xFF, 0x21 := 0xFF]))"
proof -
  obtain e where "parse Ps3 (make_be_elf64[0x20 := 0xFF, 0x21 := 0xFF]) = Inl e"
    using elf_roundtrip_test_errors(3) by blast
  moreover have "make_be_elf64 ! 4 = ELFCLASS64" "make_be_elf64 ! 5 = ELFDATA2MSB"
    by (simp_all add: make_be_elf64_parts be64_header_def elf_const_defs)
  ultimately show ?thesis
    by (auto simp: parseAny_def Let_def result_ok_def result_bind_def ident_index_defs elf_const_defs be64_slices)
qed

lemma elf_roundtrip_suite: "elf_roundtrip_main make_be_elf64 = (replicate 14 True, Some 0)"
proof -
  have "make_be_elf64 \<noteq> []" using be64_slices(1) by auto
  moreover have "fails_with (parseAny (take 10 make_be_elf64)) TruncatedFile = [True, True]"
    "fails_with (parseAny (make_be_elf64[0 := 0])) BadMagic = [True, True]"
    using elf_roundtrip_test_errors(1,2) by (auto simp: fails_with_def)
  ultimately show ?thesis
    using be64_bad_phoff_any
    by (simp add: elf_roundtrip_main_def be64_parse elf_roundtrip_test on_ok_def suite_ends_def failures_def
        result_ok_def) (simp add: eval_nat_numeral)
qed

section \<open>The PS3 fixture with another header\<close>

lemma opd_rest: "make_ps3_fixture = opd_header @ drop 64 make_ps3_fixture"
  using opd_slices(2) by (metis append_take_drop_id)

text \<open>A header that keeps the identification and the table fields keeps the segments.\<close>

lemma opd_variant:
  assumes "length h = 64" "take 6 h = take 6 opd_header" "slice 32 16 h = slice 32 16 opd_header"
    and "slice 52 12 h = slice 52 12 opd_header"
  defines "bs \<equiv> h @ drop 64 make_ps3_fixture"
  shows "parse Ps3 bs = Inr (parsed_elf Ps3 bs)" "header (parsed_elf Ps3 bs) = ehdr_load Ps3 h"
    and "segments (parsed_elf Ps3 bs) = segments opd_file" "raw (parsed_elf Ps3 bs) = bs" "length bs = 296"
    and "\<And>k n. 64 \<le> k \<Longrightarrow> slice k n bs = slice k n make_ps3_fixture"
proof -
  show len: "length bs = 296" using assms(1) opd_slices(1) by (simp add: bs_def)
  have head: "take 64 bs = h" using assms(1) by (simp add: bs_def)
  show rest: "slice k n bs = slice k n make_ps3_fixture" if "64 \<le> k" for k n
    using that assms(1) by (simp add: bs_def slice_skip slice_def)
  have part: "slice k m h = slice k m opd_header"
    if "slice j n h = slice j n opd_header" "j \<le> k" "k + m \<le> j + n" for j n k m
    using slice_slice [of "k - j" m n j h] slice_slice [of "k - j" m n j opd_header] that by simp
  have fields: "e_phoff Ps3 (ehdr_load Ps3 h) = 64" "e_shoff Ps3 (ehdr_load Ps3 h) = 232"
    "e_ehsize Ps3 (ehdr_load Ps3 h) = 64" "e_phentsize Ps3 (ehdr_load Ps3 h) = 56"
    "e_phnum Ps3 (ehdr_load Ps3 h) = 2" "e_shentsize Ps3 (ehdr_load Ps3 h) = 64"
    "e_shnum Ps3 (ehdr_load Ps3 h) = 1" "e_shstrndx Ps3 (ehdr_load Ps3 h) = 0"
    using elf64_ehdr_read(2-9) [OF assms(1), of Big] elf64_ehdr_read(2-9) [of opd_header Big] opd_header_read
      part [OF assms(3), of 32 8] part [OF assms(3), of 40 8] part [OF assms(4)] by simp_all
  have "take 4 bs = [0x7F, of_char CHR ''E'', of_char CHR ''L'', of_char CHR ''F'']"
    "bs ! 4 = ELFCLASS64" "bs ! 5 = ELFDATA2MSB"
  proof -
    have "take 6 bs = take 6 opd_header" using assms(1,2) by (simp add: bs_def)
    moreover have "take 4 bs = take 4 (take 6 bs)" "bs ! 4 = take 6 bs ! 4" "bs ! 5 = take 6 bs ! 5" by simp_all
    ultimately show "take 4 bs = [0x7F, of_char CHR ''E'', of_char CHR ''L'', of_char CHR ''F'']"
      "bs ! 4 = ELFCLASS64" "bs ! 5 = ELFDATA2MSB"
      by (simp_all add: opd_header_def elf_const_defs)
  qed
  then have "header_defect Ps3 bs = None" by (simp add: header_defect_def Let_def len head fields)
  then show "parse Ps3 bs = Inr (parsed_elf Ps3 bs)" by (subst elf64.parse_Inr) (simp_all add: len)
  show "header (parsed_elf Ps3 bs) = ehdr_load Ps3 h" "raw (parsed_elf Ps3 bs) = bs"
    by (simp_all add: parsed_elf_def Let_def head)
  show "segments (parsed_elf Ps3 bs) = segments opd_file"
    by (simp add: parsed_elf_def Let_def head fields table_at_def upt_rec rest opd_slices opd_fields)
qed

text \<open>The three edits of the test: another entry point, another machine, other flags.\<close>

definition opd_entry_moved :: bytes where
  "opd_entry_moved = put_at 24 (be_bytes 8 (0xDEADBEEF00 :: u64)) opd_header"
definition opd_other_machine :: bytes where "opd_other_machine = opd_header[18 := 0, 19 := 3]"
definition opd_other_flags :: bytes where "opd_other_flags = opd_header[48 := 0, 49 := 0, 50 := 0, 51 := 1]"

lemmas opd_edits = opd_entry_moved_def opd_other_machine_def opd_other_flags_def

lemma opd_edited_bytes:
  "opd_entry_moved = take 24 opd_header @ [0, 0, 0, 0xDE, 0xAD, 0xBE, 0xEF, 0] @ drop 32 opd_header"
  "opd_other_machine = take 18 opd_header @ [0, 3] @ drop 20 opd_header"
  "opd_other_flags = take 48 opd_header @ [0, 0, 0, 1] @ drop 52 opd_header"
  by (simp_all add: opd_edits put_at_def pack_defs opd_header_def)

lemma opd_edited:
  "put_at 24 (be_bytes 8 (0xDEADBEEF00 :: u64)) make_ps3_fixture = opd_entry_moved @ drop 64 make_ps3_fixture"
  "make_ps3_fixture[18 := 0, 19 := 3] = opd_other_machine @ drop 64 make_ps3_fixture"
  "make_ps3_fixture[48 := 0, 49 := 0, 50 := 0, 51 := 1] = opd_other_flags @ drop 64 make_ps3_fixture"
proof -
  have "put_at 24 (be_bytes 8 (0xDEADBEEF00 :: u64)) (opd_header @ xs) = opd_entry_moved @ xs"
    "(opd_header @ xs)[18 := 0, 19 := 3] = opd_other_machine @ xs"
    "(opd_header @ xs)[48 := 0, 49 := 0, 50 := 0, 51 := 1] = opd_other_flags @ xs" for xs
    by (simp_all add: opd_edits put_at_append list_update_append1)
  then show "put_at 24 (be_bytes 8 (0xDEADBEEF00 :: u64)) make_ps3_fixture = opd_entry_moved @ drop 64 make_ps3_fixture"
    "make_ps3_fixture[18 := 0, 19 := 3] = opd_other_machine @ drop 64 make_ps3_fixture"
    "make_ps3_fixture[48 := 0, 49 := 0, 50 := 0, 51 := 1] = opd_other_flags @ drop 64 make_ps3_fixture"
    by (metis opd_rest)+
qed

lemma opd_edited_read:
  "e_entry Ps3 (ehdr_load Ps3 opd_entry_moved) = 0xDEADBEEF00"
  "get16 Big (e_machine64 (ehdr_load Ps3 opd_entry_moved)) = 21"
  "get16 Big (e_machine64 (ehdr_load Ps3 opd_other_machine)) = 3"
  "get32 Big (e_flags64 (ehdr_load Ps3 opd_other_flags)) = 1"
  "e_entry Ps3 (ehdr_load Ps3 opd_other_flags) = 0x20000"
  "get16 Big (e_machine64 (ehdr_load Ps3 opd_other_flags)) = 21"
proof -
  have len: "length opd_entry_moved = 64" "length opd_other_machine = 64" "length opd_other_flags = 64"
    by (simp_all add: opd_edits pack_defs)
  note read = elf64_ehdr_read(1,10) [where E = Big]
  show "e_entry Ps3 (ehdr_load Ps3 opd_entry_moved) = 0xDEADBEEF00"
    "get16 Big (e_machine64 (ehdr_load Ps3 opd_entry_moved)) = 21"
    "get16 Big (e_machine64 (ehdr_load Ps3 opd_other_machine)) = 3"
    "e_entry Ps3 (ehdr_load Ps3 opd_other_flags) = 0x20000"
    "get16 Big (e_machine64 (ehdr_load Ps3 opd_other_flags)) = 21"
    by (simp_all add: read len, simp_all add: opd_edited_bytes opd_header_def slice_def be_word_def word_in_order_def)
  have "get32 Big (e_flags64 (ehdr_load Ps3 opd_other_flags)) = word_in_order Big (slice 48 4 opd_other_flags)"
    by (simp add: Elf64_def Elf64_Ehdr_load_def load32_def endianed_read len)
  then show "get32 Big (e_flags64 (ehdr_load Ps3 opd_other_flags)) = 1"
    by (simp add: opd_edited_bytes opd_header_def slice_def be_word_def word_in_order_def)
qed

section \<open>ps3\_toc\_test\<close>

lemma opd_edited_tables:
  "h \<in> {opd_entry_moved, opd_other_machine, opd_other_flags} \<Longrightarrow>
   length h = 64 \<and> take 6 h = take 6 opd_header \<and> slice 32 16 h = slice 32 16 opd_header \<and>
   slice 52 12 h = slice 52 12 opd_header"
  by (elim insertE emptyE) (simp_all add: opd_edited_bytes opd_header_def slice_def)

definition opd_edit_file :: "bytes \<Rightarrow> Ps3ElfFile" where
  "opd_edit_file h = parsed_elf Ps3 (h @ drop 64 make_ps3_fixture)"

lemma opd_edited_parse:
  assumes "h \<in> {opd_entry_moved, opd_other_machine, opd_other_flags}"
  shows "parse Ps3 (h @ drop 64 make_ps3_fixture) = Inr (opd_edit_file h)"
    "header (opd_edit_file h) = ehdr_load Ps3 h" "segments (opd_edit_file h) = segments opd_file"
    "length (raw (opd_edit_file h)) = 296"
    "64 \<le> k \<Longrightarrow> slice k n (raw (opd_edit_file h)) = slice k n make_ps3_fixture"
  using opd_variant [of h] opd_edited_tables [OF assms] by (simp_all add: opd_edit_file_def)

lemmas opd_moved = opd_edited_parse [of opd_entry_moved, OF insertI1]
lemmas opd_machine = opd_edited_parse [of opd_other_machine, OF insertI2, OF insertI1]
lemmas opd_flags = opd_edited_parse [of opd_other_flags, OF insertI2, OF insertI2, OF singletonI]

lemma opd_truncated: "\<exists>e. parse Ps3 (take 286 make_ps3_fixture) = Inl e"
proof -
  let ?bs = "take 286 make_ps3_fixture"
  have "take 64 ?bs = opd_header" by (simp add: opd_slices min_def)
  moreover have len: "length ?bs = 286" by (simp add: opd_slices)
  ultimately have "header_defect Ps3 ?bs \<noteq> None"
    by (simp add: header_defect_def Let_def opd_header_read)
  moreover have lim: "length ?bs < 2 ^ 64" using len by simp
  ultimately have "parse Ps3 ?bs \<noteq> Inr g" for g unfolding elf64.parse_Inr [OF lim] by simp
  then show ?thesis by (cases "parse Ps3 ?bs") blast+
qed

lemma toc_errors: "toc_error_checks make_ps3_fixture = [True, True, True, True, True]"
proof -
  obtain e where "vaddrToFileOffset Ps3 0xDEADBEEF00 (opd_edit_file opd_entry_moved) = Inl e"
    by (simp add: vaddrToFileOffset_def opd_moved opd_fields phdrs_read)
  then have "\<not> result_ok (resolveEntryDescriptor (opd_edit_file opd_entry_moved))"
    by (simp add: resolveEntryDescriptor_def validatePs3Executable_def ok_unit_def opd_edited_read EM_PPC64_def
        entry_def make_error_def opd_moved result_ok_def)
  moreover have "\<not> result_ok (validatePs3Executable (opd_edit_file opd_other_machine))"
    by (simp add: validatePs3Executable_def opd_machine opd_edited_read EM_PPC64_def result_ok_def)
  moreover obtain e where "parse Ps3 (take 286 make_ps3_fixture) = Inl e" using opd_truncated by blast
  ultimately show ?thesis
    by (simp add: toc_error_checks_def opd_edited on_ok_def Let_def opd_slices opd_moved(1) opd_machine(1))
      (simp add: result_ok_def)
qed

lemma toc_flags: "toc_flags_checks opd_file make_ps3_fixture = [True, True, True, True, True]"
proof -
  let ?g = "opd_edit_file opd_other_flags"
  have "vaddrToFileOffset Ps3 0x20000 ?g = Inr 208"
    by (simp add: vaddrToFileOffset_def opd_flags opd_fields phdrs_read vsize_def)
  then have "\<exists>d. resolveEntryDescriptor ?g = Inr d"
    by (subst resolve_Inr) (simp_all add: EM_PPC64_def entry_def opd_edited_read opd_flags)
  then have "result_ok (resolveEntryDescriptor ?g)" by (auto simp: result_ok_def)
  moreover have "\<not> hasTypicalEFlags ?g" "result_ok (validatePs3Executable ?g)"
    by (simp_all add: hasTypicalEFlags_def validatePs3Executable_def EM_PPC64_def ok_unit_def opd_edited_read
        opd_flags result_ok_def)
  ultimately show ?thesis
    using ps3_toc_test(2) by (simp add: toc_flags_checks_def opd_edited on_ok_def Let_def opd_flags(1))
      (simp add: result_ok_def)
qed

text \<open>The fifth and the sixth check fail: the code address and the TOC value.\<close>

lemma ps3_toc_suite:
  "ps3_toc_main make_ps3_fixture = (replicate 4 True @ [False, False] @ replicate 13 True, Some 1)"
proof -
  have "toc_descriptor_checks opd_file = [True, False, False, True]"
    by (simp add: toc_descriptor_checks_def opd_resolve on_ok_def result_ok_def)
  moreover have "toc_lookup_checks opd_file = [True, True]"
    by (simp add: toc_lookup_checks_def opd_lookup on_ok_def result_ok_def)
  moreover have "make_ps3_fixture \<noteq> []" using opd_slices(1) by auto
  moreover have "result_ok (validatePs3Executable opd_file)" by (simp only: ps3_toc_test(1) result_ok_def) simp
  ultimately show ?thesis
    using toc_errors toc_flags
    by (simp add: ps3_toc_main_def opd_parse suite_ends_def failures_def) (simp add: eval_nat_numeral)
qed

section \<open>The suites that build a trampoline\<close>

text \<open>No trampoline can be built for the address 0: no segment has it.\<close>

abbreviation opd_entry :: EntryDescriptor where
  "opd_entry \<equiv> \<lparr>codeAddress = 0, tocValue = 0x10008, envPointer = 0\<rparr>"

lemma opd_no_trampoline:
  assumes "p \<noteq> []" "length p \<le> 1023" "a mod 4 = 0"
  shows "\<exists>e. buildTrampoline opd_file opd_entry a p = Inr (Inl e) \<and> code e = OffsetOutOfBounds"
  using opd_lookup(3) assms
  by (auto simp: buildTrampoline_def kMaxPathLength_def opd_unpatched make_error_def simp del: mod_0_imp_dvd)

lemma ps3_trampoline_suite: "ps3_trampoline_main make_ps3_fixture = ([True, True, True, False], Some 1)"
proof -
  have "make_ps3_fixture \<noteq> []" using opd_slices(1) by auto
  moreover obtain e where "buildTrampoline opd_file opd_entry 0x1000 debug_path = Inr (Inl e)"
    using opd_no_trampoline [of debug_path "0x1000"] by (auto simp: debug_path_def)
  ultimately show ?thesis
    by (simp add: ps3_trampoline_main_def opd_parse opd_resolve suite_stops_def Let_def)
qed

lemma ps3_integration_suite: "ps3_integration_main make_ps3_fixture = ([False], Some 1)"
proof -
  have "highestEnd (segments opd_file) = 0x20018" by (simp add: highestEnd_def opd_fields phdrs_read Let_def)
  then have place: "ucast (alignUp (highestEnd (segments opd_file)) 0x10000) = (0x30000 :: u32)"
    by (simp add: alignUp_def)
  obtain e where "buildTrampoline opd_file opd_entry 0x30000 debug_path = Inr (Inl e)"
    using opd_no_trampoline [of debug_path "0x30000"] by (auto simp: debug_path_def)
  then show ?thesis
    by (simp add: ps3_integration_main_def main_def main_patch_def readFile_def opd_parse opd_resolve opd_unpatched
        place failed_def exit_of_def suite_stops_def Let_def)
qed

text \<open>The checks on the report come first; the suite stops where the trampoline is built.\<close>

lemma ps3_info_suite: "\<exists>cs. ps3_info_main make_ps3_fixture = (cs @ [True, False], Some 1)"
proof -
  obtain e where "buildTrampoline opd_file opd_entry 0x40000 debug_path = Inr (Inl e)"
    using opd_no_trampoline [of debug_path "0x40000"] by (auto simp: debug_path_def)
  then show ?thesis by (simp add: ps3_info_main_def opd_parse opd_resolve suite_stops_def Let_def)
qed

section \<open>All of them\<close>

text \<open>
  The test programs on the files of the repository: \<open>elf_roundtrip_test\<close> passes; the four that
  read the PS3 fixture fail. In \<open>ps3_toc_test\<close> exactly the checks of the code address and of the TOC
  value fail, \<open>ps3_trampoline_test\<close> and \<open>ps3_info_test\<close> stop where they build a trampoline, and
  \<open>ps3_integration_test\<close> stops because the command it runs fails.
\<close>

theorem suites_on_fixtures:
  "elf_roundtrip_main make_be_elf64 = (replicate 14 True, Some 0) \<and>
   ps3_toc_main make_ps3_fixture = (replicate 4 True @ [False, False] @ replicate 13 True, Some 1) \<and>
   ps3_trampoline_main make_ps3_fixture = ([True, True, True, False], Some 1) \<and>
   (\<exists>cs. ps3_info_main make_ps3_fixture = (cs @ [True, False], Some 1)) \<and>
   ps3_integration_main make_ps3_fixture = ([False], Some 1)"
  using elf_roundtrip_suite ps3_toc_suite ps3_trampoline_suite ps3_info_suite ps3_integration_suite by blast

end
