(* ===== verification/Spec2Isabelle.thy ===== *)
theory Spec2Isabelle
  imports ElfProperties PpcProperties InfoReport FarExample BranchExample IntegrationSuite FixtureSuites
begin

text \<open>
  \<^bold>\<open>Elf-Craft: a verification of the PS3 executable patcher.\<close>

  The program \<open>ps3patch\<close> takes a PlayStation 3 executable (ELF64, big-endian, PPC64), adds a
  loadable segment holding a small payload, and overwrites the first instructions of the entry
  function with a jump into it.  The payload (the trampoline) saves the volatile registers, asks
  the kernel to load and start a module, restores the registers, runs the overwritten instructions
  and jumps back behind them.  With \<open>--info\<close> the program prints a report about the file instead.

  \<^bold>\<open>The parts of the program and the theories that model them.\<close>

  \<^item> \<open>libelf/include/elf/endian.hpp\<close>: \<open>Endian\<close>.  The byte swaps, and \<open>Endianed<T, Order>\<close> as the
    storage word of the file's bytes with a get and a set that take the order.  The locale
    \<open>endian_scalar\<close> is the interface a stored scalar offers to the structures; it is interpreted
    for the three widths.
  \<^item> \<open>libelf/include/elf/types.hpp\<close>: \<open>ElfTypes\<close>.  The six on-disk structures as records with a load
    and a store, which stand for the \<open>memcpy\<close> of the packed structures.  \<open>ElfLayout\<close> is the template
    parameter: a record \<open>layout\<close> of sizes, loads, stores and field accessors, instantiated by
    \<open>Elf32 E\<close> and \<open>Elf64 E\<close>.  The locale \<open>elf_layout\<close> states what the generic code relies on.
  \<^item> \<open>libelf/include/elf/errors.hpp\<close>: \<open>ElfErrors\<close>.  \<open>Result<T>\<close> is \<open>error + 'a\<close>, with \<open>Inl\<close> the
    error; the theory also has the decimal and hexadecimal text of the C++ formatting functions.
  \<^item> \<open>libelf/include/elf/file.hpp\<close>: \<open>ElfFile\<close>.  One definition per member of \<open>ElfFile<Is64, E>\<close> over
    the record \<open>elf_file\<close> (header, segments, sections, raw bytes), and \<open>parseAny\<close>.
    A write outside a \<open>std::vector\<close> is \<open>None\<close>.
  \<^item> \<open>ppc/include/ppc/encode.hpp\<close> and \<open>decode.hpp\<close>: \<open>PpcEncode\<close> and \<open>PpcDecode\<close>.  An instruction is
    a 32-bit word; \<open>std::invalid_argument\<close> is the left side of \<open>'a throws\<close>.  The locale
    \<open>direct_branch\<close> of \<open>PpcBranch\<close> is the contract of the two direct branch encoders.
  \<^item> \<open>ps3patch/include/ps3patch/toc.hpp\<close>, \<open>syscalls.hpp\<close>, \<open>trampoline.hpp\<close>, \<open>info.hpp\<close>: \<open>Toc\<close>,
    \<open>Syscalls\<close>, \<open>Trampoline\<close>, \<open>Info\<close>.
  \<^item> \<open>ps3patch/src/main.cpp\<close>: \<open>PatchMain\<close>.  A run of \<open>main\<close> returns its exit code, the text of each
    output stream and the call of \<open>writeFile\<close> it made, or says that an exception left \<open>main\<close>
    (\<open>Terminated\<close>) or that the code wrote outside a buffer (\<open>Undefined\<close>).

  \<open>main\<close> reads the input, parses it (\<open>parseAny\<close>), resolves the function descriptor at \<open>e_entry\<close>
  (\<open>resolveEntryDescriptor\<close>), refuses files that carry the marker of an earlier run
  (\<open>isAlreadyPatched\<close>), chooses an address above every loaded segment, builds the trampoline
  (\<open>buildTrampoline\<close>, which uses the encoders, the relocation of the overwritten instructions and
  the module calls), adds it as a segment (\<open>addLoadSegment\<close>), overwrites the entry code
  (\<open>patchBytesAt\<close>) and writes the result of \<open>serialize\<close>.

  \<^bold>\<open>The specifications.\<close>

  \<^item> \<open>PpcMachine\<close> is a decoder and an interpreter for the part of the 64-bit PowerPC ISA that the
    injected code uses.  It is written from the ISA and not from the encoders.
  \<^item> \<open>ElfFileInv\<close> gives the parser's contract: \<open>header_defect\<close>, the first check a byte string fails,
    \<open>parsed_elf\<close>, the object an accepted one denotes, and \<open>file_inv\<close>, the class invariant.
  \<^item> \<open>PpcBranch\<close> says what a relocated branch must do (\<open>redirected\<close>, \<open>new_distance\<close>), and
    \<open>TrampolineExec\<close>, \<open>TrampolineLayout\<close> what the payload does and where its parts lie.
  \<^item> \<open>PatchLemmas\<close> names the stages of a patching run: \<open>placement\<close>, \<open>patching\<close>, \<open>injected_file\<close>,
    \<open>patched_bytes\<close>.
  \<^item> \<open>Loader\<close> is the image of an executable: the word at a virtual address once its \<open>PT_LOAD\<close> segments
    are mapped (\<open>loaded_word\<close>), and what a linker guarantees of a program (\<open>loadable\<close>, \<open>plain_code\<close>).
  \<^item> Two conditions on the input recur; the code checks neither.  \<open>room\<close>: fewer than 65535 segments
    (\<open>e_phnum\<close> is a 16-bit counter) and no section headers over the ELF header (\<open>serialize\<close> writes them
    last).  \<open>plain_patch\<close>: \<open>room\<close>, \<open>loadable\<close> and \<open>plain_code\<close> for the entry code.  \<open>jump_ok\<close> is what a jump
    needs to arrive: reach of a direct branch, or a target below \<open>2 ^ 31\<close>.  What happens otherwise is
    in C1 (a jump that does not arrive), C10 (section headers at offset 0), C39 (\<open>e_phentsize\<close>) and
    \<open>segment_count_wraps\<close> of \<open>ElfProperties\<close>.
\<close>

text \<open>
  \<^bold>\<open>The groups of lemmas.\<close>

  \<^item> \<open>Prelude\<close>: ranges of a buffer read and overwritten (\<open>slice\<close>, \<open>put_at\<close>), and words as bytes.
  \<^item> \<open>ElfFileLemmas\<close>, \<open>ElfFileInv\<close>, \<open>ElfEdits\<close>: the bounds checks against plain arithmetic, the table
    loops, parsing against its contract, the invariant under every sequence of edits,
    serialization and reparsing.  The inductive relation \<open>edited\<close> holds those sequences.
  \<^item> \<open>ElfQueries\<close>: the read side, in particular the address lookup against the covering segments.
  \<^item> \<open>PpcSemantics\<close>, \<open>PpcBranch\<close>, \<open>PpcJump\<close>: what each encoded word decodes to, that the classifier
    agrees with the ISA on every word, the relocation of a branch, and the execution of the loads
    of a 32-bit constant and of the absolute jump.
  \<^item> \<open>TrampolineExec\<close>, \<open>TrampolineRun\<close>, \<open>Detour\<close>: the stack frame, the payload as a state transformer,
    and the run from the entry point to the displaced instructions and back, over any image that
    holds the code, for jumps of one and of five instructions.
  \<^item> \<open>PatchedImage\<close>, \<open>PatchedRun\<close>: the image of the file \<open>main\<close> writes holds that code, and otherwise
    agrees with the image of the input; a five-instruction jump to \<open>2 ^ 31\<close> or above leaves it.
  \<^item> \<open>Simulation\<close>, \<open>Displaced\<close>: executions of the machine as counted paths, the locale \<open>simulation\<close>
    that turns a step-wise correspondence of two machines into one of their paths, and its
    interpretation on the original and the displaced copy of the overwritten instructions; from it,
    the patched program simulates the original one.
  \<^item> \<open>InfoReport\<close>: the \<open>--info\<close> report on an input and on its patched output.
  \<^item> \<open>TrampolineLayout\<close>, \<open>PatchLemmas\<close>: the exact result of \<open>buildTrampoline\<close> and of \<open>main\<close>.
  \<^item> \<open>Example\<close>: a complete 136-byte executable, patched inside the logic, and a kernel that changes
    everything the calling convention lets it change; the witnesses use both.
    \<open>BranchExample\<close>: one whose displaced instruction is a branch.  \<open>FarExample\<close>: one of 208 bytes whose trampoline is out of the reach of a direct branch, and the
    two registers the five-instruction jumps do not preserve.
  \<^item> \<open>PpcTests\<close>: the unit tests of the encoders, the decoder and the system calls, evaluated on the
    model.  \<open>Suites\<close>: the five test programs that read a file, as functions of its contents.
    \<open>IntegrationSuite\<close>: the integration test passes on ordinary programs.  \<open>Fixtures\<close>: the two files
    the tests read, as the scripts under \<open>tests\<close> build them; \<open>FixtureTests\<close>, \<open>FixtureSuites\<close>: the
    result of every test program on them, and which checks fail, because of the layout of the entry
    descriptor.

  The properties C1 to C40 are in \<open>PpcProperties\<close> (C17 to C19, C32 to C35), in \<open>ElfProperties\<close>
  (C20 to C26, C31, C38, C39), in \<open>IntegrationSuite\<close> (C36), in \<open>FixtureTests\<close> (C40) and in this
  theory (the others).  C1 to C4 say what a patched program does when it runs, C5 to C10 what a run of
  the patcher writes and reports, C11 to C19 what the payload and the relocated code do, C20 to C27
  what the library reads and writes, C28 and C30 the report and the rest of the command line, C36 the
  integration test, C40 entry descriptors of another layout; the others are bounds, encodings and layouts.

  \<^bold>\<open>Bounds.\<close>  No definition uses fuel except \<open>run\<close>, which is told how many instructions to execute;
  the theorems about it give the number.  The loops of the code are structural recursions or
  functions with a measure (\<open>readTable\<close>, \<open>pad_to_4\<close>).  Machine integers keep their width, and
  their wrap-around is the code's.  Lengths of buffers are natural numbers, and where the code keeps
  one in a \<open>uint64_t\<close> the theorems assume that it is below \<open>2 ^ 64\<close>, or, for runs of \<open>main\<close>, that the
  input file is below \<open>2 ^ 62\<close> bytes (\<open>input_limit\<close>, \<open>patching\<close>).

  \<^bold>\<open>Not modelled.\<close>  The file system is two arguments of \<open>main\<close>, one that gives the contents
  of a path and one that says whether a write succeeds; partial writes and read errors after
  opening are not distinguished.  The kernel is an argument of the machine (\<open>lv2\<close>): the theorems
  that run code assume the calling convention: it returns behind the call and
  keeps the stack, the saved registers and the stack frame.  The order in which the text of the two
  output streams is interleaved is not kept.  The host is little-endian, as \<open>endian.hpp\<close> assumes.  Memory exhaustion,
  \<open>argc = 0\<close>, the floating-point and vector state and the instruction cache are left out.  The
  program image is fixed while the machine runs: code that modifies itself, and a module that patches
  the program once it is started, are not covered.  The data the machine starts with is its
  state's and not the file's: that a program finds other bytes when it reads its own entry code or ELF
  header as data is not covered.  The test programs are functions of the contents of their fixture: what they
  print is left out, and an element the test takes from an empty vector is unspecified.
\<close>

section \<open>Running a patched program\<close>

text \<open>
  End to end: in a program patched with a one-instruction jump, execution from the entry point
  goes through the trampoline, which makes both system calls, and arrives at the displaced
  instruction (re-encoded if it is a relative branch) with every register, LR and CTR as at entry
  and the TOC register loaded; after it, if it falls through, at the instruction that originally
  followed. The kernel is any function that keeps the calling convention.
\<close>

theorem patched_program_runs:
  assumes "lv2_abi lv2" "length (raw f) < 2 ^ 64" "unat a + 212 < 2 ^ 32"
    and "buildTrampoline f d a p = Inr (Inr t)" "displacedInstructionCount t = 1"
    and "jump_near (resume_addr a + 4) (ucast (codeAddress d) + 4)"
    and "code_at img (ucast (entryPatchAddr t)) (readInstructions 1 (entryPatchBytes t))"
    and "code_at img (ucast (a + 8)) (readInstructions 51 (drop 8 (blob t)))"
  shows "\<exists>off w v. vaddrToFileOffset Ps3 (codeAddress d) f = Inr off \<and>
    readInstructions 1 (slice (unat off) 4 (raw f)) = [w] \<and>
    relocated_at (entryPatchAddr t) (resume_addr a) w = Some v \<and>
    (\<forall>s u. pc s = ucast (entryPatchAddr t) \<and> exec lv2 v (resumed lv2 d a 1 s) = Some u \<longrightarrow>
       run lv2 img 51 s = Some u \<and>
       (pc u = ucast (resume_addr a) + 4 \<longrightarrow>
          run lv2 img 52 s = Some (u\<lparr>pc := ucast (entryPatchAddr t + 4)\<rparr>)))"
proof -
  obtain off vs where t: "vaddrToFileOffset Ps3 (codeAddress d) f = Inr off"
    "relocateDisplacedInstructions
       (readInstructions (length (jump_in d a)) (slice (unat off) (length (jump_in d a) * 4) (raw f)))
       (ucast (codeAddress d)) (resume_addr a) = Inr vs" "t = trampoline_of d a p vs"
    using assms(4) unfolding build_Inr [OF assms(2)] by blast
  then have one: "length (jump_in d a) = 1" and addr: "entryPatchAddr t = ucast (codeAddress d)"
    using assms(5) by (simp_all add: trampoline_of_def)
  obtain w where w: "readInstructions 1 (slice (unat off) 4 (raw f)) = [w]"
    by (simp add: readInstructions_def)
  then obtain v where v: "vs = [v]" "relocated_at (entryPatchAddr t) (resume_addr a) w = Some v"
    using t(2) one addr
    by (auto simp: relocateDisplaced_Inr relocated_ix_def length_Suc_conv)
  have near: "jump_near (ucast (codeAddress d)) (a + 8)"
    using one length_one_near by (simp add: jump_in_def)
  have ret: "length (jump_back d a 1) = 1"
    using assms(6) length_one_near by (simp add: jump_back_def)
  have "readInstructions (length (jump_in d a)) (toBigEndianBytes (jump_in d a)) = jump_in d a"
    using readInstructions_toBigEndianBytes [of "jump_in d a" "[]"] by simp
  then have entry: "code_at img (ucast (ucast (codeAddress d) :: u32)) (jump_in d a)"
    using assms(7) one t(3) addr by (simp add: trampoline_of_def)
  have "length (blob_words d a [v]) = 51" using ret by (simp add: length_blob_words)
  then have code: "code_at img (ucast (a + 8)) (blob_words d a [v])"
    using assms(8) blob_parts(2) [where d = d and a = a and p = p and vs = "[v]"] t(3) v(1) by simp
  have "run lv2 img 51 s = Some u \<and> (pc u = ucast (resume_addr a) + 4 \<longrightarrow>
      run lv2 img 52 s = Some (u\<lparr>pc := ucast (entryPatchAddr t + 4)\<rparr>))"
    if "pc s = ucast (entryPatchAddr t)" "exec lv2 v (resumed lv2 d a 1 s) = Some u" for s u
    using that run_to_displaced [OF assms(1,3) near entry code]
      run_detour [OF assms(1,3) near assms(6) entry code] unfolding addr by blast
  then show ?thesis using t(1) w v(2) by blast
qed

theorem patched_program_runs_witness:
  "\<exists>u. run ex_kernel ex_image 52 ex_cpu = Some u \<and> pc u = 0x1000C \<and> gpr u 2 = 0x18000 \<and> gpr u 12 = 7"
proof -
  have c: "codeAddress ex_entry = 0x10008" by (simp add: ex_entry_def)
  have "\<exists>off w v. vaddrToFileOffset Ps3 0x10008 ex_file = Inr off \<and>
    readInstructions 1 (slice (unat off) 4 ex_bytes) = [w] \<and>
    relocated_at 0x10008 (resume_addr 0x20000) w = Some v \<and>
    (\<forall>s u. pc s = 0x10008 \<and> exec ex_kernel v (resumed ex_kernel ex_entry 0x20000 1 s) = Some u \<longrightarrow>
       run ex_kernel ex_image 51 s = Some u \<and>
       (pc u = ucast (resume_addr 0x20000) + 4 \<longrightarrow>
          run ex_kernel ex_image 52 s = Some (u\<lparr>pc := 0x1000C\<rparr>)))"
    using patched_program_runs [OF ex_abi _ _ ex_build ex_trampoline_fields(2), of ex_image]
      ex_back_near ex_code_entry ex_code_blob
    by (simp add: ex_trampoline_fields ex_raw c)
  then have run: "pc s = 0x10008 \<Longrightarrow> exec ex_kernel 0x60000000 (resumed ex_kernel ex_entry 0x20000 1 s) = Some u \<Longrightarrow>
      pc u = ucast (resume_addr 0x20000) + 4 \<Longrightarrow>
      run ex_kernel ex_image 52 s = Some (u\<lparr>pc := 0x1000C\<rparr>)" for s u
    by (auto simp: ex_lookup ex_displaced [simplified] ex_relocated_at)
  have "run ex_kernel ex_image 52 ex_cpu = Some (next_pc (set_gpr 0 7 (resumed ex_kernel ex_entry 0x20000 1 ex_cpu))
      \<lparr>pc := 0x1000C\<rparr>)"
    by (rule run) (simp_all add: ex_nop ex_cpu_def resumed_def next_pc_def set_gpr_def)
  then show ?thesis
    by (auto simp: next_pc_def set_gpr_def resumed_def ex_cpu_def ex_entry_def mask_eq_exp_minus_1)
qed

section \<open>The command line\<close>

lemma refused_returned:
  "refused r \<Longrightarrow> \<exists>x. r = Returned x \<and> exit_code x = 1 \<and> err_text x \<noteq> [] \<and> written x = None"
  by (auto simp: refused_def failed_def)

lemma main_info_returns:
  "\<exists>x. main_info rd i = Returned x \<and> written x = None \<and>
     (exit_code x = 0 \<and> err_text x = [] \<or> exit_code x = 1 \<and> err_text x \<noteq> [])"
  by (auto simp: main_info_def failed_def not_open_def not_ps3_def split: option.splits sum.splits any_elf.splits)

lemma apply_patch_returns:
  "patching bs f d p t off \<Longrightarrow>
   \<exists>x. apply_patch wr o_path p so f t = Returned x \<and> written x = Some (o_path, patched_bytes f t off) \<and>
     (if wr o_path (patched_bytes f t off) then exit_code x = 0 \<and> err_text x = []
      else exit_code x = 1 \<and> err_text x \<noteq> [])"
  by (simp add: apply_patch_eq Let_def)

lemma patching_run:
  assumes "rd i = Some bs" "patching bs f d p t off" "wr o_path (patched_bytes f t off)"
  shows "\<exists>x. main_patch rd wr i o_path p = Returned x \<and> exit_code x = 0 \<and>
    written x = Some (o_path, patched_bytes f t off)"
proof -
  obtain so where "main_patch rd wr i o_path p = apply_patch wr o_path p so f t"
    using main_patch_patching [where rd = rd and i = i, OF assms(1,2)] by blast
  then show ?thesis using assms(3) by (simp add: apply_patch_eq [OF assms(2)] Let_def)
qed

lemma patch_result:
  assumes "input_limit rd"
  shows "refused (main_patch rd wr i o_path p) \<or>
    (\<exists>bs f d t off x. rd i = Some bs \<and> patching bs f d p t off \<and>
       main_patch rd wr i o_path p = Returned x \<and> written x = Some (o_path, patched_bytes f t off) \<and>
       (if wr o_path (patched_bytes f t off) then exit_code x = 0 \<and> err_text x = []
        else exit_code x = 1 \<and> err_text x \<noteq> []))"
  using main_patch_cases [OF assms, of wr i o_path p] apply_patch_returns by metis

lemma main_three: "main rd wr prog [i, o_path, p] = main_patch rd wr i o_path p"
  by (simp add: main_def)

lemma main_args:
  "main rd wr prog args = failed [] (printUsage prog) \<or> (\<exists>i. main rd wr prog args = main_info rd i) \<or>
   (\<exists>i o_path p. main rd wr prog args = main_patch rd wr i o_path p)"
  by (auto simp: main_def split: list.splits)

text \<open>
  C5. The program never ends by an exception and never writes outside a buffer, whatever the
  arguments and the contents of the input file: every run returns 0 with nothing on the error
  stream, or 1 with a message on it.
\<close>

theorem main_total:
  assumes "input_limit rd"
  shows "\<exists>x. main rd wr prog args = Returned x \<and>
    (exit_code x = 0 \<and> err_text x = [] \<or> exit_code x = 1 \<and> err_text x \<noteq> [])"
proof -
  consider "main rd wr prog args = failed [] (printUsage prog)"
    | (info) i where "main rd wr prog args = main_info rd i"
    | (patch) i o_path p where "main rd wr prog args = main_patch rd wr i o_path p"
    using main_args by metis
  then show ?thesis
  proof cases
    case (patch i o_path p)
    then show ?thesis using patch_result [OF assms, of wr i o_path p] refused_returned
      by (metis (no_types, lifting))
  qed (use main_info_returns in \<open>auto simp: failed_def printUsage_def\<close>)
qed

theorem main_total_witness:
  "\<exists>x. main (\<lambda>_. None) (\<lambda>_ _. True) ''ps3patch'' [''a.elf'', ''b.elf'', ''/c.sprx''] = Returned x \<and>
     (exit_code x = 0 \<or> exit_code x = 1)"
  using main_total [of "\<lambda>_. None"] by (fastforce simp: input_limit_def)

text \<open>
  C6. A patch run reports success exactly when the input can be read, is a 64-bit big-endian PS3
  executable with a resolvable entry descriptor, a trampoline can be built for it, and the output
  can be written; what it then writes is \<open>patched_bytes\<close>, to the path asked for.
\<close>

theorem main_success:
  assumes "input_limit rd"
  shows "(\<exists>x. main rd wr prog [i, o_path, p] = Returned x \<and> exit_code x = 0 \<and>
        written x = Some (o_path, out)) \<longleftrightarrow>
    (\<exists>bs f d t off. rd i = Some bs \<and> patching bs f d p t off \<and> out = patched_bytes f t off \<and>
        wr o_path out)"
proof
  assume "\<exists>x. main rd wr prog [i, o_path, p] = Returned x \<and> exit_code x = 0 \<and> written x = Some (o_path, out)"
  then obtain x where x: "main_patch rd wr i o_path p = Returned x" "exit_code x = 0"
    "written x = Some (o_path, out)" by (auto simp: main_three)
  then have "\<not> refused (main_patch rd wr i o_path p)" by (auto dest: refused_returned)
  then show "\<exists>bs f d t off. rd i = Some bs \<and> patching bs f d p t off \<and> out = patched_bytes f t off \<and> wr o_path out"
    using patch_result [OF assms, of wr i o_path p] x by (auto split: if_splits)
next
  assume "\<exists>bs f d t off. rd i = Some bs \<and> patching bs f d p t off \<and> out = patched_bytes f t off \<and> wr o_path out"
  then obtain bs f d t off where r: "rd i = Some bs" "patching bs f d p t off"
    "out = patched_bytes f t off" "wr o_path out" by blast
  then show "\<exists>x. main rd wr prog [i, o_path, p] = Returned x \<and> exit_code x = 0 \<and> written x = Some (o_path, out)"
    using patching_run [where rd = rd and i = i and wr = wr, OF r(1,2)] r(3,4) by (simp add: main_three)
qed

lemma ex_input: "input_limit (\<lambda>_. Some ex_bytes)"
  by (simp add: input_limit_def ex_raw)

theorem main_success_witness:
  "\<exists>x. main (\<lambda>_. Some ex_bytes) (\<lambda>_ _. True) ''ps3patch'' [''a.elf'', ''b.elf'', ''/dev_hdd0/a.sprx''] =
     Returned x \<and> exit_code x = 0"
  using main_success [OF ex_input, where out = "patched_bytes ex_file ex_trampoline 128" and
      wr = "\<lambda>_ _. True" and prog = "''ps3patch''" and i = "''a.elf''" and o_path = "''b.elf''"] ex_patching
  by blast

text \<open>
  C8. A successful run changes only what it has to. Behind the input's bytes the output has exactly the
  trampoline built for the path and the input's program headers followed by the trampoline's. Of the
  input's bytes, all are copied but \<open>e_phoff\<close> and \<open>e_phnum\<close> (bytes 32 to 39 and 56 to 57) and the 4 or 20
  bytes at the file offset of the entry code; there lies the jump, if the entry code is apart from the
  ELF header and the section headers. (For input files below \<open>2 ^ 62\<close> bytes.)
\<close>

theorem output_keeps_input:
  assumes "input_limit rd" "rd i = Some bs"
    and "main rd wr prog [i, o_path, p] = Returned x" "exit_code x = 0"
  shows "\<exists>f d t off out n. parse Ps3 bs = Inr f \<and> resolveEntryDescriptor f = Inr d \<and>
    buildTrampoline f d (placement f) p = Inr (Inr t) \<and>
    vaddrToFileOffset Ps3 (codeAddress d) f = Inr off \<and> written x = Some (o_path, out) \<and>
    n = length (entryPatchBytes t) \<and> (n = 4 \<or> n = 20) \<and> unat off + n \<le> length bs \<and>
    drop (length bs) out = blob t @ concat (map (phdr_store Ps3) (segments f @ [new_segment f t])) \<and>
    (\<forall>k<length bs. k \<notin> {32..<40} \<and> k \<notin> {56, 57} \<and> (k < unat off \<or> unat off + n \<le> k) \<longrightarrow>
       out ! k = bs ! k) \<and>
    (64 \<le> unat off \<and> (unat off + n \<le> unat (e_shoff Ps3 (header f)) \<or>
        unat (e_shoff Ps3 (header f)) + length (sections f) * 64 \<le> unat off) \<longrightarrow>
       slice (unat off) n out = entryPatchBytes t)"
proof -
  have "\<not> refused (main_patch rd wr i o_path p)" using assms(3,4) by (auto simp: main_three dest: refused_returned)
  then obtain f d t off where r: "patching bs f d p t off" "written x = Some (o_path, patched_bytes f t off)"
    using patch_result [OF assms(1), of wr i o_path p] assms(2,3) by (auto simp: main_three)
  have "length (entryPatchBytes t) = 4 \<or> length (entryPatchBytes t) = 20"
    using patchingD(7) [OF r(1)] length_jump_in [of d "placement f"] by auto
  moreover have "patched_bytes f t off ! k = bs ! k"
    if "k < length bs" "k \<notin> {32..<40}" "k \<notin> {56, 57}"
      "k < unat off \<or> unat off + length (entryPatchBytes t) \<le> k" for k
    using that patched_header_frame [OF r(1), of k] patched_frame [OF r(1), of k]
    by (cases "k < 64") auto
  moreover have "parse Ps3 bs = Inr f" "resolveEntryDescriptor f = Inr d"
    "buildTrampoline f d (placement f) p = Inr (Inr t)" "vaddrToFileOffset Ps3 (codeAddress d) f = Inr off"
    using r(1) by (simp_all add: patching_def)
  ultimately show ?thesis
    using r(2) patchingD(8) [OF r(1)] patched_tail [OF r(1)] patched_entry [OF r(1)]
    by (intro exI [of _ f] exI [of _ d] exI [of _ t] exI [of _ off] exI [of _ "patched_bytes f t off"]
        exI [of _ "length (entryPatchBytes t)"] conjI) blast+
qed

theorem output_keeps_input_witness:
  "\<exists>x out. main (\<lambda>_. Some ex_bytes) (\<lambda>_ _. True) ''ps3patch'' [''a.elf'', ''b.elf'', ''/dev_hdd0/a.sprx''] =
     Returned x \<and> written x = Some (''b.elf'', out) \<and> take 32 out = take 32 ex_bytes \<and>
     (\<exists>t. drop 136 out = blob t @ concat (map (phdr_store Ps3) (segments ex_file @ [new_segment ex_file t])))"
proof -
  obtain x where x: "main (\<lambda>_. Some ex_bytes) (\<lambda>_ _. True) ''ps3patch''
      [''a.elf'', ''b.elf'', ''/dev_hdd0/a.sprx''] = Returned x" "exit_code x = 0"
    unfolding main_three using patching_run [where rd = "\<lambda>_. Some ex_bytes" and wr = "\<lambda>_ _. True", OF refl ex_patching TrueI] by blast
  obtain f d t off out n where r: "parse Ps3 ex_bytes = Inr f" "resolveEntryDescriptor f = Inr d"
    "vaddrToFileOffset Ps3 (codeAddress d) f = Inr off" "written x = Some (''b.elf'', out)"
    "drop (length ex_bytes) out = blob t @ concat (map (phdr_store Ps3) (segments f @ [new_segment f t]))"
    "\<And>k. k < length ex_bytes \<Longrightarrow> k \<notin> {32..<40} \<and> k \<notin> {56, 57} \<and> (k < unat off \<or> unat off + n \<le> k) \<Longrightarrow>
       out ! k = ex_bytes ! k"
    using output_keeps_input [OF ex_input refl x] by blast
  have f: "f = ex_file" "d = ex_entry" using r(1,2) ex_parse ex_resolve by simp_all
  then have off: "off = 128" using r(3) ex_lookup by (simp add: ex_entry_def)
  have "length out \<ge> 136"
  proof (rule ccontr)
    assume "\<not> 136 \<le> length out"
    then have "drop (length ex_bytes) out = []" by (simp add: ex_raw)
    then show False using r(5) by (simp add: elf64.length_phdr_store flip: length_0_conv)
  qed
  then have "take 32 out = take 32 ex_bytes"
    using r(6) off by (intro nth_take_lemma) (simp_all add: ex_raw)
  then show ?thesis using x(1) r(4,5) f by (auto simp: ex_raw)
qed

text \<open>
  C9. What a run writes is a well-formed PS3 executable again, for an input with fewer than 65535
  segments and its section headers, if any, behind the ELF header: it parses, with the input's segments
  and sections and one more \<open>PT_LOAD\<close> segment at the chosen address whose data is the trampoline,
  with the same entry point; and where the entry code lies apart from the ELF header and the section
  header table, before or behind it, the patched bytes are the jump.
\<close>

theorem output_reparses:
  assumes "patching bs f d p t off" "room f"
  shows "\<exists>g. parseAny (patched_bytes f t off) = Inr (AnyElf64BE g) \<and>
    segments g = segments f @ [new_segment f t] \<and> sections g = sections f \<and>
    entry Ps3 g = entry Ps3 f \<and> raw g = patched_bytes f t off \<and>
    p_type Ps3 (new_segment f t) = PT_LOAD \<and> p_vaddr Ps3 (new_segment f t) = ucast (placement f) \<and>
    segmentData Ps3 (vsize (segments f)) g = Inr (blob t) \<and>
    (64 \<le> unat off \<and> (unat off + length (entryPatchBytes t) \<le> unat (e_shoff Ps3 (header f)) \<or>
        unat (e_shoff Ps3 (header f)) + length (sections f) * 64 \<le> unat off) \<longrightarrow>
       readAt off (vsize (entryPatchBytes t)) g = Inr (entryPatchBytes t))"
proof -
  let ?out = "patched_bytes f t off"
  define g where "g = injected_file f t off\<lparr>raw := ?out\<rparr>"
  note N = new_segment_fields [OF assms(1)] and D = patchingD [OF assms(1)] and B = blob_bound [OF assms(1)]
  have out: "length ?out < 2 ^ 64" using length_patched_bytes [OF assms(1)] by simp
  have len: "length bs + length (blob t) \<le> length ?out" using length_patched_layers(3) [OF assms(1)] by simp
  have segs: "length (segments f) < 65536" using segments_bound [OF D(4)] .
  have g: "segments g = segments f @ [new_segment f t]" "sections g = sections f" "raw g = ?out"
    "entry Ps3 g = entry Ps3 f"
    using injected_header(5) [OF assms(1)] by (simp_all add: g_def injected_file_def entry_def)
  have "parseAny ?out = Inr (AnyElf64BE g)"
    using patched_reparse [OF assms] out by (simp add: parseAny_ps3 g_def)
  moreover have "segmentData Ps3 (vsize (segments f)) g = Inr (blob t)"
    using N(2,3) len out segs g patched_blob [OF assms] by (subst segmentData_Inr) simp_all
  moreover have "readAt off (vsize (entryPatchBytes t)) g = Inr (entryPatchBytes t)"
    if "64 \<le> unat off" "unat off + length (entryPatchBytes t) \<le> unat (e_shoff Ps3 (header f)) \<or>
      unat (e_shoff Ps3 (header f)) + length (sections f) * 64 \<le> unat off"
  proof -
    have "slice (unat off) (length (entryPatchBytes t)) ?out = entryPatchBytes t"
      using patched_entry [OF assms(1) that] .
    moreover have "unat off + length (entryPatchBytes t) \<le> length ?out" using D(8) len by simp
    ultimately show ?thesis using out g(3) by (subst readAt_eq) simp_all
  qed
  ultimately show ?thesis using g N(1,4) by blast
qed

theorem output_reparses_witness:
  "\<exists>g. parseAny (patched_bytes ex_file ex_trampoline 128) = Inr (AnyElf64BE g) \<and>
     length (segments g) = 2 \<and> segmentData Ps3 1 g = Inr (blob ex_trampoline) \<and>
     readAt 128 4 g = Inr (entryPatchBytes ex_trampoline)"
proof -
  have "length (entryPatchBytes ex_trampoline) = 4"
    using patchingD(7) [OF ex_patching] ex_jump_in by (simp add: ex_placement)
  then show ?thesis
    using output_reparses [OF ex_patching ex_room] by (auto simp: ex_parts ex_header_read vsize_def)
qed

text \<open>
  C10. The program recognises its own output: patching a file it has written for an input with fewer
  than 65535 segments and its section headers, if any, behind the ELF header is refused, whatever
  module path and names are given. Where the input's section headers begin at offset 0 instead,
  \<open>serialize\<close>, which writes them last, puts the old ELF header back: the output parses with that header
  and as many segments as the input has, the new one lost. (For input files below \<open>2 ^ 62\<close> bytes.)
\<close>

theorem own_output_refused:
  assumes "input_limit rd" "rd i = Some bs" "parse Ps3 bs = Inr f"
    and "main rd wr prog [i, o_path, p] = Returned x" "exit_code x = 0" "written x = Some (o_path, out)"
    and "rd' i' = Some out"
  shows "(length (segments f) < 65535 \<and> (sections f \<noteq> [] \<longrightarrow> 64 \<le> unat (e_shoff Ps3 (header f))) \<longrightarrow>
      (\<exists>y. main rd' wr' prog' [i', o', p'] = Returned y \<and> exit_code y = 1 \<and> written y = None)) \<and>
    (sections f \<noteq> [] \<and> e_shoff Ps3 (header f) = 0 \<longrightarrow>
      (\<exists>g. parse Ps3 out = Inr g \<and> header g = header f \<and> length (segments g) = length (segments f)))"
proof -
  have "\<not> refused (main_patch rd wr i o_path p)" using assms(4,5) by (auto simp: main_three dest: refused_returned)
  then obtain d t off where r: "patching bs f d p t off" "out = patched_bytes f t off"
    using patch_result [OF assms(1), of wr i o_path p] assms(2,3,4,6)
    by (auto simp: main_three patching_def)
  have "refused (main_patch rd' wr' i' o' p')" if "room f"
  proof (rule main_patch_marked [where rd = rd' and i = i', OF assms(7)])
    show "length out < 2 ^ 64" using length_patched_bytes [OF r(1)] r(2) by simp
    show "parse Ps3 out = Inr (injected_file f t off\<lparr>raw := out\<rparr>)"
      using patched_reparse [OF r(1) that] r(2) by simp
    show "isAlreadyPatched (injected_file f t off\<lparr>raw := out\<rparr>)"
      using patched_marked [OF r(1) that] r(2) by simp
  qed
  then have "room f \<longrightarrow> (\<exists>y. main rd' wr' prog' [i', o', p'] = Returned y \<and> exit_code y = 1 \<and> written y = None)"
    using refused_returned by (fastforce simp: main_three)
  then show ?thesis using patched_header_lost [OF r(1)] r(2) unfolding room_def by blast
qed

theorem own_output_refused_witness:
  "\<exists>y. main (\<lambda>_. Some (patched_bytes ex_file ex_trampoline 128)) (\<lambda>_ _. True) ''ps3patch''
     [''b.elf'', ''c.elf'', ''/d.sprx''] = Returned y \<and> exit_code y = 1 \<and> written y = None"
proof -
  obtain x where x: "main (\<lambda>_. Some ex_bytes) (\<lambda>_ _. True) ''ps3patch''
      [''a.elf'', ''b.elf'', ''/dev_hdd0/a.sprx''] = Returned x" "exit_code x = 0"
    "written x = Some (''b.elf'', patched_bytes ex_file ex_trampoline 128)"
    unfolding main_three
    using patching_run [where rd = "\<lambda>_. Some ex_bytes" and wr = "\<lambda>_ _. True", OF refl ex_patching TrueI] by blast
  show ?thesis
    using own_output_refused [OF ex_input refl ex_parse x,
        where rd' = "\<lambda>_. Some (patched_bytes ex_file ex_trampoline 128)" and i' = "''b.elf''"]
      ex_room unfolding room_def by blast
qed

text \<open>
  C7. Why a patch run fails: the message on the error stream is that of the first stage that failed
  (input, parsing, class, entry descriptor, marker, trampoline, output, in this order),
  and nothing is written before the last stage; adding the segment, finding the entry point and
  overwriting it, which come after the trampoline is built, never fail. (For input files below
  \<open>2 ^ 62\<close> bytes.)
\<close>

theorem main_failures:
  assumes "input_limit rd" "main rd wr prog [i, o_path, p] = Returned x" "exit_code x = 1"
  shows "rd i = None \<and> err_text x = not_open i \<and> written x = None \<or>
    (\<exists>bs. rd i = Some bs \<and> written x = None \<and>
      ((\<exists>e. parseAny bs = Inl e \<and>
          err_text x = ''error: failed to parse ELF: '' @ message e @ newline) \<or>
       (\<exists>h. parseAny bs = Inr h \<and> (\<forall>f. h \<noteq> AnyElf64BE f) \<and> err_text x = not_ps3) \<or>
       (\<exists>f. parseAny bs = Inr (AnyElf64BE f) \<and>
         ((\<exists>e. resolveEntryDescriptor f = Inl e \<and> err_text x =
            ''error: could not resolve the entry function descriptor: '' @ message e @ newline) \<or>
          (\<exists>d. resolveEntryDescriptor f = Inr d) \<and> isAlreadyPatched f \<and> (\<exists>rest. err_text x =
            ''error: '' @ [CHR 0x27] @ i @ [CHR 0x27] @ '' has already been patched by ps3patch.'' @ rest) \<or>
          (\<exists>d e. resolveEntryDescriptor f = Inr d \<and> \<not> isAlreadyPatched f \<and>
            buildTrampoline f d (placement f) p = Inr (Inl e) \<and>
            err_text x = ''error: failed to build trampoline: '' @ message e @ newline))))) \<or>
    (\<exists>bs f d t off. rd i = Some bs \<and> patching bs f d p t off \<and> \<not> wr o_path (patched_bytes f t off) \<and>
       written x = Some (o_path, patched_bytes f t off) \<and> err_text x =
         ''error: could not write output file '' @ [CHR 0x27] @ o_path @ [CHR 0x27] @ newline)"
proof -
  have run: "main_patch rd wr i o_path p = Returned x" using assms(2) by (simp add: main_def)
  show ?thesis
  proof (cases "\<exists>bs f d t off so. rd i = Some bs \<and> patching bs f d p t off \<and>
       main_patch rd wr i o_path p = apply_patch wr o_path p so f t")
    case True
    then obtain bs f d t off so where r: "rd i = Some bs" "patching bs f d p t off"
      "Returned x = apply_patch wr o_path p so f t" using run by auto
    then have "\<not> wr o_path (patched_bytes f t off) \<and> written x = Some (o_path, patched_bytes f t off) \<and>
        err_text x = ''error: could not write output file '' @ [CHR 0x27] @ o_path @ [CHR 0x27] @ newline"
      using assms(3) by (simp add: apply_patch_eq [OF r(2)] Let_def split: if_splits)
    then show ?thesis using r(1,2) by blast
  next
    case False
    have no_throw: "buildTrampoline g e a p \<noteq> Inl ex" for g e a ex
      using build_no_throw [of g e a p] by auto
    show ?thesis
    proof (cases "rd i")
      case None
      then show ?thesis using run by (simp add: main_patch_def readFile_def failed_def) auto
    next
      case (Some bs)
      then have lim: "length bs < 2 ^ 62" using assms(1) by (simp add: input_limit_def)
      have "\<nexists>f d t. parseAny bs = Inr (AnyElf64BE f) \<and> resolveEntryDescriptor f = Inr d \<and>
          \<not> isAlreadyPatched f \<and> buildTrampoline f d (placement f) p = Inr (Inr t)"
      proof
        assume "\<exists>f d t. parseAny bs = Inr (AnyElf64BE f) \<and> resolveEntryDescriptor f = Inr d \<and>
          \<not> isAlreadyPatched f \<and> buildTrampoline f d (placement f) p = Inr (Inr t)"
        then show False using built_patching [where rd = rd and i = i, OF Some lim] False Some by blast
      qed
      then show ?thesis using run Some
        by (auto simp: main_patch_def readFile_def Let_def placement_def [symmetric] failed_def no_throw
            split: sum.splits any_elf.splits if_splits)
    qed
  qed
qed


theorem main_failures_witness:
  "\<exists>x. main (\<lambda>_. Some []) (\<lambda>_ _. True) ''ps3patch'' [''a.elf'', ''b.elf'', ''/c.sprx''] = Returned x \<and>
     err_text x = ''error: failed to parse ELF: file smaller than e_ident (16 bytes)'' @ newline \<and> written x = None"
proof -
  let ?rd = "\<lambda>_ :: string. Some []" and ?args = "[''a.elf'', ''b.elf'', ''/c.sprx'']"
  have parse: "parseAny [] = Inl (make_error TruncatedFile ''file smaller than e_ident (16 bytes)'')"
    by (simp add: parseAny_def EI_NIDENT_def)
  obtain x where x: "main ?rd (\<lambda>_ _. True) ''ps3patch'' ?args = Returned x" "exit_code x = 1"
    by (simp add: main_def main_patch_def readFile_def parse failed_def Let_def)
  have "input_limit ?rd" by (simp add: input_limit_def)
  from main_failures [OF this x] parse show ?thesis
    using x(1) by (auto simp: make_error_def)
qed

text \<open>
  C30. The rest of the command line: \<open>--info\<close> ends with the report exactly for a readable 64-bit
  big-endian PS3 executable whose entry descriptor resolves, and the report shows the descriptor,
  whether the file is patched, and every segment; otherwise the message is that of the stage that
  failed. Any other arguments than these two or the three of a patch run get the usage. Nothing is
  written.
\<close>

theorem info_run:
  "(\<exists>x. main rd wr prog [''--info'', i] = Returned x \<and> written x = None \<and>
     exit_code x = (if err_text x = [] then 0 else 1) \<and>
     (case rd i of None \<Rightarrow> err_text x = not_open i
      | Some bs \<Rightarrow>
       (case parseAny bs of
          Inl e \<Rightarrow> err_text x = ''error: failed to parse ELF: '' @ message e @ newline
        | Inr (AnyElf64BE f) \<Rightarrow>
           (case resolveEntryDescriptor f of
              Inl e \<Rightarrow> err_text x = ''error: could not build info report: '' @ message e @ newline
            | Inr d \<Rightarrow> err_text x = [] \<and>
                reports_entry (out_text x) d (isAlreadyPatched f) (segmentLines 0 (segments f)))
        | Inr _ \<Rightarrow> err_text x = not_ps3))) \<and>
   (length args \<noteq> 3 \<and> (\<forall>j. args \<noteq> [''--info'', j]) \<longrightarrow>
     main rd wr prog args = failed [] (printUsage prog))" (is "?info \<and> ?usage")
proof (rule conjI)
  have texts: "not_open i \<noteq> []" "not_ps3 \<noteq> []" by (simp_all add: not_open_def not_ps3_def)
  note run = main_def main_info_def readFile_def failed_def texts
  show ?info
  proof (cases "rd i")
    case (Some bs)
    show ?thesis
    proof (cases "parseAny bs")
      case (Inr h)
      show ?thesis
      proof (cases h)
        case (AnyElf64BE f)
        from formatInfo_cases [of f] show ?thesis
          by (elim disjE exE conjE) (simp_all add: run Some Inr AnyElf64BE)
      qed (simp_all add: run Some Inr)
    qed (simp add: run Some)
  qed (simp add: run)
  show ?usage by (auto simp: main_def split: list.splits)
qed

theorem info_run_witness:
  "(\<exists>x. main (\<lambda>_. Some ex_bytes) (\<lambda>_ _. True) ''ps3patch'' [''--info'', ''a.elf''] = Returned x \<and>
     exit_code x = 0 \<and> reports_entry (out_text x) ex_entry False (segmentLines 0 (segments ex_file))) \<and>
   main (\<lambda>_. Some ex_bytes) (\<lambda>_ _. True) ''ps3patch'' [''a.elf''] = failed [] (printUsage ''ps3patch'')"
proof -
  have "parseAny ex_bytes = Inr (AnyElf64BE ex_file)" by (simp add: parseAny_ps3 ex_parse ex_raw)
  then show ?thesis
    using info_run [of "\<lambda>_. Some ex_bytes" "\<lambda>_ _. True" "''ps3patch''" "''a.elf''" "[''a.elf'']"]
    by (auto simp: ex_resolve ex_unpatched)
qed

text \<open>
  C28. The report tells the two apart: \<open>--info\<close> succeeds on the input and on the output of a patch run,
  says that the one is not patched and the other is, and lists the segments of the input, and for
  the output the trampoline's segment behind them. For an input with fewer than 65535 segments and
  its section headers, if any, behind the ELF header.
\<close>

theorem info_after_patch:
  assumes "patching bs f d p t off" "room f" "rd i = Some bs" "rd' i' = Some (patched_bytes f t off)"
  shows "\<exists>x y. main rd wr prog [''--info'', i] = Returned x \<and> exit_code x = 0 \<and>
    reports (out_text x) False (segmentLines 0 (segments f)) \<and>
    main rd' wr' prog' [''--info'', i'] = Returned y \<and> exit_code y = 0 \<and>
    reports (out_text y) True
      (segmentLines 0 (segments f) @ segmentLine (length (segments f)) (new_segment f t))"
proof -
  have f: "length bs < 2 ^ 64" "parse Ps3 bs = Inr f" "resolveEntryDescriptor f = Inr d"
    using assms(1) by (simp_all add: patching_def)
  obtain x where x: "main_info rd i = Returned x" "exit_code x = 0"
    "reports (out_text x) False (segmentLines 0 (segments f))"
    using main_info_reports [where rd = rd and i = i, OF assms(3) f] patchingD(5) [OF assms(1)] by auto
  let ?g = "injected_file f t off\<lparr>raw := patched_bytes f t off\<rparr>"
  obtain e where e: "resolveEntryDescriptor ?g = Inr e" using patched_resolves [OF assms(1)] by blast
  have out: "length (patched_bytes f t off) < 2 ^ 64" using length_patched_bytes [OF assms(1)] by simp
  obtain y where y: "main_info rd' i' = Returned y" "exit_code y = 0"
    "reports (out_text y) (isAlreadyPatched ?g) (segmentLines 0 (segments ?g))"
    using main_info_reports [where rd = rd' and i = i', OF assms(4) out patched_reparse [OF assms(1,2)] e] by blast
  have "isAlreadyPatched ?g" by (rule patched_marked [OF assms(1,2)])
  moreover have "segmentLines 0 (segments ?g) =
      segmentLines 0 (segments f) @ segmentLine (length (segments f)) (new_segment f t)"
    by (simp add: injected_file_def segmentLines_append)
  ultimately show ?thesis using x y by (simp add: main_def)
qed

theorem info_after_patch_witness:
  "\<exists>y. main (\<lambda>_. Some (patched_bytes ex_file ex_trampoline 128)) (\<lambda>_ _. True) ''ps3patch''
     [''--info'', ''b.elf''] = Returned y \<and> exit_code y = 0 \<and>
   reports (out_text y) True (segmentLines 0 [phdr_load Ps3 ex_phdr] @ segmentLine 1 (new_segment ex_file ex_trampoline))"
proof -
  let ?rd = "\<lambda>_ :: string. Some (patched_bytes ex_file ex_trampoline 128)"
  have "\<exists>x y. main (\<lambda>_. Some ex_bytes) (\<lambda>_ _. True) ''ps3patch'' [''--info'', ''a.elf''] = Returned x \<and>
      exit_code x = 0 \<and> reports (out_text x) False (segmentLines 0 (segments ex_file)) \<and>
      main ?rd (\<lambda>_ _. True) ''ps3patch'' [''--info'', ''b.elf''] = Returned y \<and> exit_code y = 0 \<and>
      reports (out_text y) True (segmentLines 0 (segments ex_file) @
        segmentLine (length (segments ex_file)) (new_segment ex_file ex_trampoline))"
    by (rule info_after_patch [OF ex_patching ex_room]) (rule refl)+
  then show ?thesis by (auto simp: ex_parts)
qed

section \<open>Running the output\<close>

text \<open>
  C1. End to end, for a plain program whose trampoline can be built: a patch run writes a file that parses. In its image, if the
  trampoline is in reach of a direct branch or below \<open>2 ^ 31\<close>, execution from the entry point goes
  through the two system calls of a kernel that keeps the calling convention and arrives at the
  displaced instructions with every register, LR and CTR as the jump in left them (a jump of five
  instructions sets r12 and CTR), but r2: the TOC value, and above it sixteen one bits if it is
  \<open>2 ^ 31\<close> or more. There lie the original instructions, each relative branch re-encoded. A trampoline
  out of reach and at or above \<open>2 ^ 31\<close> is missed: after five instructions the processor is outside the
  image. (Plain: fewer than 65535 segments; section
  headers behind the ELF header; loaded segments inside the file, no larger there than in memory,
  ending 128 KB or more below \<open>2 ^ 32\<close>; entry code inside one of them, apart from the others, the ELF
  header and the section headers.)
\<close>

theorem patched_output_runs:
  assumes "lv2_abi lv2" "rd i = Some bs" "plain_patch bs f d p t off" "wr o_path (patched_bytes f t off)"
  defines "n \<equiv> displacedInstructionCount t" and "r \<equiv> resume_addr (trampolineAddr t)"
    and "jump \<equiv> jumped (entryPatchAddr t) (trampolineAddr t + 8)"
  shows "\<exists>x out g vs. main rd wr prog [i, o_path, p] = Returned x \<and> exit_code x = 0 \<and>
    written x = Some (o_path, out) \<and> parseAny out = Inr (AnyElf64BE g) \<and>
    (\<forall>s. pc s = codeAddress d \<longrightarrow>
       (if jump_ok (entryPatchAddr t) (trampolineAddr t + 8)
        then run lv2 (loaded_word g) (n + 49) s = Some (resumed lv2 d (trampolineAddr t) n (jump s))
        else \<exists>u. run lv2 (loaded_word g) 5 s = Some u \<and> 2 ^ 47 \<le> unat (pc u) \<and>
          run lv2 (loaded_word g) 6 s = None)) \<and>
    (\<forall>s. let u = resumed lv2 d (trampolineAddr t) n (jump s) in
       pc u = ucast r \<and> lr u = lr (jump s) \<and> ctr u = ctr (jump s) \<and>
       gpr u = (gpr (jump s))(2 :=
         if unat (tocValue d) < 2 ^ 31 then tocValue d else tocValue d OR push_bit 32 (mask 16))) \<and>
    length vs = n \<and> code_at (loaded_word g) (ucast r) vs \<and>
    (\<forall>k<n. \<exists>w. loaded_word f (codeAddress d + 4 * of_nat k) = Some w \<and>
       relocated_ix (entryPatchAddr t) r k w = Some (vs ! k))"
proof -
  note P = plain_patchD [OF assms(3)] and E = entry_address [OF assms(3)]
  obtain x where x: "main rd wr prog [i, o_path, p] = Returned x" "exit_code x = 0"
    "written x = Some (o_path, patched_bytes f t off)"
    unfolding main_three using patching_run [where rd = rd and i = i and wr = wr and o_path = o_path, OF assms(2) P(1) assms(4)] by blast
  have g: "parseAny (patched_bytes f t off) = Inr (AnyElf64BE (patched_file f t off))"
    using patched_reparse [OF P(1,2)] P(6) by (simp add: parseAny_ps3 patched_file_def)
  obtain vs where vs: "t = trampoline_of d (placement f) p vs" "length vs = n"
    "\<forall>k<n. relocated_ix (entryPatchAddr t) r k (readInstructions n (slice (unat off) (4 * n) bs) ! k) = Some (vs ! k)"
    using relocated_block_of [OF assms(3)] unfolding n_def r_def E by blast
  have "loaded_word f (codeAddress d + 4 * of_nat k) = Some (readInstructions n (slice (unat off) (4 * n) bs) ! k)"
    if "k < n" for k
    using original_entry_code [OF assms(3)] that P(5) by (simp add: code_at_def n_def)
  moreover have "code_at (loaded_word (patched_file f t off)) (ucast r) vs"
    using patched_image_code(3) [OF assms(3) vs(1) vs(2) [unfolded n_def]] by (simp only: r_def E)
  moreover have "run lv2 (loaded_word (patched_file f t off)) (n + 49) s =
      Some (resumed lv2 d (trampolineAddr t) n (jump s))"
    if "pc s = codeAddress d" "jump_ok (entryPatchAddr t) (trampolineAddr t + 8)" for s
    using patched_reaches [OF assms(1,3) _ that(1)] that(2) by (simp only: n_def jump_def E)
  moreover have "\<exists>u. run lv2 (loaded_word (patched_file f t off)) 5 s = Some u \<and> 2 ^ 47 \<le> unat (pc u) \<and>
      run lv2 (loaded_word (patched_file f t off)) 6 s = None"
    if "pc s = codeAddress d" "\<not> jump_ok (entryPatchAddr t) (trampolineAddr t + 8)" for s
    by (rule jump_in_lost [OF assms(3) that(2) [unfolded E(2,3)] that(1)])
  moreover note resumed_fields [OF toc_bound [OF assms(3)], folded r_def]
  ultimately show ?thesis using x g vs(2,3)
    by (intro exI [of _ x] exI [of _ "patched_bytes f t off"] exI [of _ "patched_file f t off"] exI [of _ vs])
      (simp add: r_def)
qed

theorem patched_output_runs_witness:
  "\<exists>x out g u. main (\<lambda>_. Some ex_bytes) (\<lambda>_ _. True) ''ps3patch'' [''a.elf'', ''b.elf'', ''/dev_hdd0/a.sprx''] =
     Returned x \<and> written x = Some (''b.elf'', out) \<and> parseAny out = Inr (AnyElf64BE g) \<and>
     run ex_kernel (loaded_word g) 50 ex_cpu = Some u \<and> pc u = 0x200CC \<and> gpr u 2 = 0x18000 \<and> gpr u 12 = 7"
proof -
  have ok: "jump_ok (entryPatchAddr ex_trampoline) (trampolineAddr ex_trampoline + 8)"
    using ex_jump_near by (simp add: jump_ok_def ex_trampoline_fields) (simp add: ex_trampoline_def trampoline_of_def)
  have a: "trampolineAddr ex_trampoline = 0x20000" by (simp add: ex_trampoline_def trampoline_of_def)
  obtain x out g where x: "main (\<lambda>_. Some ex_bytes) (\<lambda>_ _. True) ''ps3patch''
      [''a.elf'', ''b.elf'', ''/dev_hdd0/a.sprx''] = Returned x" "written x = Some (''b.elf'', out)"
    "parseAny out = Inr (AnyElf64BE g)"
    "\<And>s. pc s = codeAddress ex_entry \<Longrightarrow> run ex_kernel (loaded_word g) (1 + 49) s =
       Some (resumed ex_kernel ex_entry 0x20000 1 (jumped 0x10008 (0x20000 + 8) s))"
    using patched_output_runs [where rd = "\<lambda>_. Some ex_bytes" and wr = "\<lambda>_ _. True" and i = "''a.elf''"
        and o_path = "''b.elf''" and prog = "''ps3patch''", OF ex_abi refl ex_plain TrueI,
        unfolded if_P [OF ok], unfolded a ex_trampoline_fields] by blast
  have "run ex_kernel (loaded_word g) (1 + 49) ex_cpu =
      Some (resumed ex_kernel ex_entry 0x20000 1 (jumped 0x10008 (0x20000 + 8) ex_cpu))"
    by (rule x(4)) (simp add: ex_cpu_def ex_entry_def)
  then have "run ex_kernel (loaded_word g) 50 ex_cpu =
      Some (resumed ex_kernel ex_entry 0x20000 1 (jumped 0x10008 (0x20000 + 8) ex_cpu))" by simp
  moreover have "jump_near 0x10008 (0x20000 + 8)" using ex_jump_near by simp
  ultimately show ?thesis using x(1-3)
    by (intro exI [of _ x] exI [of _ out] exI [of _ g] exI conjI)
      (assumption | simp add: resumed_def jumped_def ex_cpu_def ex_entry_def resume_addr_def mask_eq_exp_minus_1)+
qed

text \<open>
  C2. The patched program simulates the original, if each jump is in reach of a direct branch or
  goes below \<open>2 ^ 31\<close>, for a plain program and a kernel that keeps the calling convention. Take the
  state the payload restores at the entry point: if the original runs from it in \<open>m\<close> steps through
  its first instructions and leaves them in \<open>u\<close>, the patched program gets from its entry point to
  \<open>u\<close> with at most 59 more (\<open>u\<close> with r12 and CTR overwritten if it falls out behind them and the jump
  back takes five instructions). From there each path of the original off the ELF header and the
  overwritten instructions is one of the patched program. The displaced instructions must not
  call the system, set LR or branch among themselves. (Plain: fewer than 65535 segments; section
  headers behind the ELF header; loaded segments inside the file, no larger there than in memory,
  ending 128 KB or more below \<open>2 ^ 32\<close>; entry code inside one of them, apart from the others, the ELF
  header and the section headers.)
\<close>

theorem simulates_original:
  assumes "lv2_abi lv2" "plain_patch bs f d p t off" "parse Ps3 (patched_bytes f t off) = Inr g"
    and "pc s = codeAddress d"
  defines "n \<equiv> displacedInstructionCount t" and "a \<equiv> trampolineAddr t" and "c \<equiv> entryPatchAddr t"
  defines "behind \<equiv> resume_addr a + of_nat (n * 4)" and "resume \<equiv> c + of_nat (n * 4)"
  assumes "jump_ok c (a + 8)" "jump_ok behind resume"
    and "steps (step lv2 (loaded_word f)) (in_block lv2 (loaded_word f) c n) m
      ((resumed lv2 d a n (jumped c (a + 8) s))\<lparr>pc := codeAddress d\<rparr>) u"
    and "\<not> block_has (codeAddress d) n (pc u)"
  shows "\<exists>k\<le>m + 59. \<exists>u'. run lv2 (loaded_word g) k s = Some u' \<and>
    (u' = u \<or> \<not> jump_near behind resume \<and> pc u = codeAddress d + 4 * of_nat n \<and> u' = jumped behind resume u) \<and>
    (\<forall>j v. steps (step lv2 (loaded_word f)) (untouched f off n) j u' v \<longrightarrow>
       run lv2 (loaded_word g) j u' = Some v)"
proof -
  note P = plain_patchD [OF assms(2)] and E = entry_address [OF assms(2)]
  have g: "g = patched_file f t off"
    using patched_reparse [OF P(1,2)] assms(3) by (simp add: patched_file_def)
  obtain k u' where k: "k \<le> m + 59" "run lv2 (loaded_word g) k s = Some u'"
    "u' = u \<or> pc u = codeAddress d + 4 * of_nat n \<and> u' = jumped behind resume u"
    using patched_simulates [OF assms(1,2,4), of m u] assms(10-13)
    unfolding g n_def a_def c_def behind_def resume_def E by blast
  have "jumped behind resume u = u" if "jump_near behind resume" "pc u = codeAddress d + 4 * of_nat n"
    using that patched_block_moved [OF assms(2)] nth_address [of "ucast (codeAddress d)" n n] E(1)
    by (simp add: jumped_def resume_def c_def E n_def block_moved_def)
  then have "u' = u \<or> \<not> jump_near behind resume \<and> pc u = codeAddress d + 4 * of_nat n \<and> u' = jumped behind resume u"
    using k(3) by auto
  moreover have "run lv2 (loaded_word g) j u' = Some v"
    if "steps (step lv2 (loaded_word f)) (untouched f off n) j u' v" for j v
    using patched_follows [OF assms(2)] that unfolding g n_def by blast
  ultimately show ?thesis using k(1,2) by blast
qed

theorem simulates_original_witness:
  "\<exists>g k v. parse Ps3 (patched_bytes ex_file ex_trampoline 128) = Inr g \<and>
     run ex_kernel (loaded_word g) k ex_cpu = Some v \<and> pc v = 0 \<and> gpr v 2 = 0x18000 \<and> gpr v 12 = 7"
proof -
  note P = plain_patchD [OF ex_plain]
  have g: "parse Ps3 (patched_bytes ex_file ex_trampoline 128) = Inr (patched_file ex_file ex_trampoline 128)"
    using patched_reparse [OF P(1,2)] by (simp add: patched_file_def)
  have a: "trampolineAddr ex_trampoline = 0x20000" by (simp add: ex_trampoline_def trampoline_of_def)
  have near: "jump_near 0x10008 (0x20000 + 8)" using ex_jump_near by simp
  define t where "t = (resumed ex_kernel ex_entry 0x20000 1 (jumped 0x10008 (0x20000 + 8) ex_cpu))\<lparr>pc := 0x10008\<rparr>"
  let ?u = "next_pc (set_gpr 0 (gpr t 0) t)"
  have c: "codeAddress ex_entry = 0x10008" by (simp add: ex_entry_def)
  have pcs: "pc ex_cpu = codeAddress ex_entry" "pc t = 0x10008" by (simp_all add: c ex_cpu_def t_def)
  have ok: "jump_ok 0x10008 (0x20000 + 8)" "jump_ok (resume_addr 0x20000 + of_nat (1 * 4)) (0x10008 + of_nat (1 * 4))"
    using near ex_back_near by (simp_all add: jump_ok_def)
  have near_back: "jump_near (resume_addr 0x20000 + of_nat (1 * 4)) (0x10008 + of_nat (1 * 4))"
    using ex_back_near by simp
  have out: "\<not> block_has 0x10008 1 (pc ?u)" using pcs(2) by (simp add: block_has_def next_pc_def set_gpr_def)
  obtain k u' where "run ex_kernel (loaded_word (patched_file ex_file ex_trampoline 128)) k ex_cpu = Some u'" "u' = ?u"
    "\<And>j v. steps (step ex_kernel (loaded_word ex_file)) (untouched ex_file 128 1) j u' v \<Longrightarrow>
       run ex_kernel (loaded_word (patched_file ex_file ex_trampoline 128)) j u' = Some v"
    using simulates_original [OF ex_abi ex_plain g pcs(1), unfolded a c ex_trampoline_fields,
        folded t_def, OF ok ex_steps(1) [OF pcs(2)] out] near_back by blast
  then have "run ex_kernel (loaded_word (patched_file ex_file ex_trampoline 128)) (k + 1) ex_cpu =
      Some (?u\<lparr>pc := lr t AND NOT (mask 2)\<rparr>)"
    using ex_steps(2) [OF pcs(2)] by (simp only: run_add bind.bind_lunit)
  then show ?thesis using g near
    by (intro exI [of _ "patched_file ex_file ex_trampoline 128"] exI [of _ "k + 1"] exI conjI)
      (assumption | simp add: t_def resumed_def jumped_def next_pc_def set_gpr_def ex_cpu_def ex_entry_def mask_eq_exp_minus_1)+
qed

text \<open>
  C3. The detour ends: when the displaced instructions run through, at most 64 instructions after the
  entry point execution is back in the original program, behind what was overwritten, in the state
  the displaced instructions left, except that a jump back of five instructions leaves its target in
  r12 and CTR. For a plain program and a kernel that keeps the calling convention, if each of the two
  jumps is in reach of a direct branch or goes below \<open>2 ^ 31\<close>. (Plain: fewer than 65535 segments; section
  headers behind the ELF header; loaded segments inside the file, no larger there than in memory,
  ending 128 KB or more below \<open>2 ^ 32\<close>; entry code inside one of them, apart from the others, the ELF
  header and the section headers.)
\<close>

theorem detour_returns:
  assumes "lv2_abi lv2" "plain_patch bs f d p t off" "pc s = codeAddress d"
    and "parse Ps3 (patched_bytes f t off) = Inr g"
  defines "n \<equiv> displacedInstructionCount t" and "a \<equiv> trampolineAddr t" and "c \<equiv> entryPatchAddr t"
  assumes "jump_ok c (a + 8)" "jump_ok (resume_addr a + of_nat (n * 4)) (c + of_nat (n * 4))"
    and "code_at (loaded_word g) (ucast (resume_addr a)) vs" "length vs = n"
    and "exec_seq lv2 vs (resumed lv2 d a n (jumped c (a + 8) s)) = Some u"
  shows "\<exists>k\<le>64. run lv2 (loaded_word g) k s =
    Some (jumped (resume_addr a + of_nat (n * 4)) (c + of_nat (n * 4)) u)"
proof -
  note E = entry_address [OF assms(2)] and P = plain_patchD [OF assms(2)]
  have "g = patched_file f t off"
    using patched_reparse [OF P(1,2)] assms(4) by (simp add: patched_file_def)
  then show ?thesis
    using patched_returns [OF assms(1,2) _ assms(3), of vs u] assms(8-12)
    unfolding n_def a_def c_def E by blast
qed

theorem detour_returns_witness:
  "\<exists>g k u. parse Ps3 (patched_bytes ex_file ex_trampoline 128) = Inr g \<and> k \<le> 64 \<and>
     run ex_kernel (loaded_word g) k ex_cpu = Some u \<and> pc u = 0x1000C \<and> gpr u 2 = 0x18000 \<and> gpr u 12 = 7"
proof -
  let ?g = "patched_file ex_file ex_trampoline 128"
  note P = plain_patchD [OF ex_plain]
  have a: "trampolineAddr ex_trampoline = 0x20000" by (simp add: ex_trampoline_def trampoline_of_def)
  have g: "parse Ps3 (patched_bytes ex_file ex_trampoline 128) = Inr ?g"
    using patched_reparse [OF P(1,2)] by (simp add: patched_file_def)
  have near: "jump_near 0x10008 (0x20000 + 8)" using ex_jump_near by simp
  let ?r = "resumed ex_kernel ex_entry 0x20000 1 (jumped 0x10008 (0x20000 + 8) ex_cpu)"
  have code: "code_at (loaded_word ?g) (ucast (resume_addr 0x20000)) [0x60000000]"
    using patched_image_code(3) [OF ex_plain, of "[0x60000000]"]
    by (simp add: ex_placement ex_trampoline_def [symmetric] ex_trampoline_fields)
  have nop: "exec_seq ex_kernel [0x60000000] ?r = Some (next_pc (set_gpr 0 (gpr ?r 0) ?r))"
    by (simp add: ex_nop next_pc_def set_gpr_def)
  have pc: "pc ex_cpu = codeAddress ex_entry" by (simp add: ex_cpu_def ex_entry_def)
  obtain k where "k \<le> 64" "run ex_kernel (loaded_word ?g) k ex_cpu =
      Some (jumped (resume_addr 0x20000 + 4) (0x10008 + 4) (next_pc (set_gpr 0 (gpr ?r 0) ?r)))"
    using detour_returns [OF ex_abi ex_plain pc g, of "[0x60000000]"] near ex_back_near code nop
    by (auto simp: a ex_trampoline_fields jump_ok_def)
  then show ?thesis using g near ex_back_near
    by (intro exI [of _ ?g] exI [of _ k] exI conjI)
      (assumption | simp add: resumed_def jumped_def next_pc_def set_gpr_def ex_cpu_def ex_entry_def mask_eq_exp_minus_1)+
qed

text \<open>
  C4. Patching leaves the rest of a plain program alone: every word of the input's image that does not
  come from the ELF header or the overwritten instructions is the same in the image of the output, and
  every address that was not mapped before and now is lies in the trampoline. (Where segments overlap,
  an image takes the first.) (Plain: fewer than 65535 segments; section
  headers behind the ELF header; loaded segments inside the file, no larger there than in memory,
  ending 128 KB or more below \<open>2 ^ 32\<close>; entry code inside one of them, apart from the others, the ELF
  header and the section headers.)
\<close>

theorem image_preserved:
  assumes "plain_patch bs f d p t off" "parse Ps3 (patched_bytes f t off) = Inr g"
  shows "(\<forall>x k. word_source f x = Some k \<and> 64 \<le> unat k \<and>
      (unat k + 4 \<le> unat off \<or> unat off + 4 * displacedInstructionCount t \<le> unat k) \<longrightarrow>
      loaded_word g x = loaded_word f x) \<and>
    (\<forall>x. loaded_word f x = None \<and> loaded_word g x \<noteq> None \<longrightarrow>
      unat (trampolineAddr t) \<le> unat x \<and> unat x + 4 \<le> unat (trampolineAddr t) + length (blob t))"
proof -
  note P = plain_patchD [OF assms(1)]
  have "g = patched_file f t off"
    using patched_reparse [OF P(1,2)] assms(2) by (simp add: patched_file_def)
  then show ?thesis
    using loaded_word_patched [OF assms(1)] loaded_word_new [OF assms(1)]
    unfolding entry_address(3) [OF assms(1)] by blast
qed

theorem image_preserved_witness:
  "\<exists>g. parse Ps3 (patched_bytes ex_file ex_trampoline 128) = Inr g \<and>
     loaded_word g 0x1000C = Some 0x4E800020 \<and> loaded_word g 0x10000 = Some 0x10008"
proof -
  let ?g = "patched_file ex_file ex_trampoline 128"
  have g: "parse Ps3 (patched_bytes ex_file ex_trampoline 128) = Inr ?g"
    using patched_reparse [OF ex_patching ex_room] by (simp add: patched_file_def)
  have src: "word_source ex_file 0x1000C = Some 132" "word_source ex_file 0x10000 = Some 120"
    by (simp_all add: word_source_def maps_word_def word_offset_def ex_parts ex_phdr_read ex_raw)
  moreover have "slice 132 4 ex_bytes = [0x4E, 0x80, 0, 0x20]"
    by (simp add: ex_bytes_def slice_def ex_data_def)
  ultimately have "loaded_word ex_file 0x1000C = Some 0x4E800020" "loaded_word ex_file 0x10000 = Some 0x10008"
    by (simp_all add: loaded_word_def ex_raw ex_slices be_word_4)
  then show ?thesis using g src image_preserved [OF ex_plain g] by (auto simp: ex_trampoline_fields)
qed

section \<open>The injected code\<close>

text \<open>
  C11. The code between the marker and the displaced instructions is transparent: prologue, system
  calls, epilogue and TOC load end with every general register except r2, the link register and the
  count register as they were, whatever the kernel did to the volatile ones; the prologue writes
  only inside its own 256-byte frame.
\<close>

theorem injected_code_transparent:
  assumes "lv2_abi lv2"
  shows "\<exists>pro epi. buildPrologue = Inr pro \<and> buildEpilogue = Inr epi \<and>
    length pro = PROLOGUE_INSTR_COUNT \<and> length epi = EPILOGUE_INSTR_COUNT \<and>
    exec_seq lv2 (pro @ makeLoadAndStartModule path @ epi @ loadImmediate32 2 toc) s =
      Some ((module_started lv2 path s)
        \<lparr>gpr := (gpr s)(2 := scast toc AND mask 48), lr := lr s, ctr := ctr s, pc := pc s + 196\<rparr>) \<and>
    (\<forall>x. 256 \<le> unat (x - (gpr s 1 - 256)) \<longrightarrow> mem (after_prologue s) x = mem s x)"
  using exec_injected [OF assms, of path toc s] pushed_outside [of _ s]
  by (auto simp: buildPrologue_eq buildEpilogue_eq injected_words_def after_prologue_def
      PROLOGUE_INSTR_COUNT_def EPILOGUE_INSTR_COUNT_def)
    (simp_all add: prologue_words_def epilogue_words_def)

theorem injected_code_transparent_witness:
  "\<exists>pro epi t. buildPrologue = Inr pro \<and> buildEpilogue = Inr epi \<and>
     exec_seq ex_kernel (pro @ makeLoadAndStartModule 0x20100 @ epi @ loadImmediate32 2 0x18000) ex_cpu = Some t \<and>
     gpr t 2 = 0x18000 \<and> gpr t 3 = 7 \<and> gpr t 1 = 0xD0000000"
proof -
  obtain pro epi where r: "buildPrologue = Inr pro" "buildEpilogue = Inr epi"
    "exec_seq ex_kernel (pro @ makeLoadAndStartModule 0x20100 @ epi @ loadImmediate32 2 0x18000) ex_cpu =
      Some ((module_started ex_kernel 0x20100 ex_cpu)
        \<lparr>gpr := (gpr ex_cpu)(2 := scast (0x18000 :: u32) AND mask 48), lr := lr ex_cpu, ctr := ctr ex_cpu,
         pc := pc ex_cpu + 196\<rparr>)"
    using injected_code_transparent [OF ex_abi, of "0x20100" "0x18000" ex_cpu] by blast
  show ?thesis
    by (rule exI [of _ pro], rule exI [of _ epi], rule exI, intro conjI, rule r(1), rule r(2), rule r(3))
      (simp_all add: ex_cpu_def mask_eq_exp_minus_1)
qed

text \<open>
  C12. The kernel is called twice with the arguments LV2 documents: first number 480 in r11, the path
  pointer in r3, zero in r4 and r5; then number 481 in r11, r3 as the first call returned it, zero
  in r4 to r8. For a path below \<open>2 ^ 31\<close>.
\<close>

theorem module_calls:
  assumes "lv2_returns lv2" "unat path < 2 ^ 31"
  shows "\<exists>c1 c2. exec_seq lv2 (makeLoadAndStartModule path) s = Some (lv2 c2) \<and>
    c1 = s\<lparr>gpr := (gpr s)(3 := ucast path, 4 := 0, 5 := 0, 11 := 480), pc := pc s + 28\<rparr> \<and>
    c2 = (lv2 c1)\<lparr>gpr := (gpr (lv2 c1))(4 := 0, 5 := 0, 6 := 0, 7 := 0, 8 := 0, 11 := 481),
      pc := pc (lv2 c1) + 28\<rparr>"
proof -
  have "\<not> bit path 31" using assms(2) by (simp add: top_bit_iff)
  then show ?thesis using exec_makeLoadAndStartModule [OF assms(1), of path s]
    by (simp add: loaded_low load_call_def start_call_def)
qed

theorem module_calls_witness:
  "\<exists>c. exec_seq ex_kernel (makeLoadAndStartModule 0x20100) ex_cpu = Some (ex_kernel c) \<and>
     gpr c 11 = 481 \<and> gpr c 3 = 0x23010500 \<and> gpr c 8 = 0 \<and> pc c = 0x10008 + 56"
proof -
  have "lv2_returns ex_kernel" by (simp add: lv2_returns_def ex_kernel_def)
  moreover have "unat (0x20100 :: u32) < 2 ^ 31" by simp
  ultimately obtain c1 c2 where c: "exec_seq ex_kernel (makeLoadAndStartModule 0x20100) ex_cpu = Some (ex_kernel c2)"
    "c1 = ex_cpu\<lparr>gpr := (gpr ex_cpu)(3 := ucast (0x20100 :: u32), 4 := 0, 5 := 0, 11 := 480), pc := pc ex_cpu + 28\<rparr>"
    "c2 = (ex_kernel c1)\<lparr>gpr := (gpr (ex_kernel c1))(4 := 0, 5 := 0, 6 := 0, 7 := 0, 8 := 0, 11 := 481),
      pc := pc (ex_kernel c1) + 28\<rparr>"
    using module_calls [of ex_kernel "0x20100" ex_cpu] by blast
  then show ?thesis by (intro exI [of _ c2] conjI) (simp_all add: ex_kernel_def ex_cpu_def)
qed

section \<open>The trampoline\<close>

text \<open>
  C13. When a trampoline is built: exactly for a path of 1 to 1023 characters, aligned addresses, a file
  not patched before, an entry point backed by enough file bytes for the instructions the jump
  displaces, and displaced instructions that can all be relocated; no run throws.
\<close>

theorem trampoline_built_iff:
  fixes d :: EntryDescriptor and a :: u32
  assumes "length (raw f) < 2 ^ 64"
  defines "n \<equiv> length (jump_in d a)"
  shows "(\<exists>r. buildTrampoline f d a p = Inr r) \<and>
    ((\<exists>t. buildTrampoline f d a p = Inr (Inr t)) \<longleftrightarrow>
      p \<noteq> [] \<and> length p \<le> 1023 \<and> a mod 4 = 0 \<and> codeAddress d mod 4 = 0 \<and> \<not> isAlreadyPatched f \<and>
      (\<exists>off. vaddrToFileOffset Ps3 (codeAddress d) f = Inr off \<and>
         unat off + n * 4 \<le> length (raw f) \<and>
         (\<exists>vs. relocateDisplacedInstructions
            (readInstructions n (slice (unat off) (n * 4) (raw f)))
            (ucast (codeAddress d)) (resume_addr a) = Inr vs)))"
proof (rule conjI)
  show "\<exists>r. buildTrampoline f d a p = Inr r" by (rule build_no_throw)
qed (unfold n_def build_Inr [OF assms(1)], blast del: mod_0_imp_dvd)

theorem trampoline_built_iff_witness:
  "(\<exists>t. buildTrampoline ex_file ex_entry 0x20000 ''/dev_hdd0/a.sprx'' = Inr (Inr t)) \<and>
   buildTrampoline ex_file ex_entry 0x20002 ''/a'' \<noteq> Inr (Inr ex_trampoline)"
  using trampoline_built_iff [of ex_file ex_entry "0x20000" "''/dev_hdd0/a.sprx''"]
    trampoline_built_iff [of ex_file ex_entry "0x20002" "''/a''"] ex_build by (auto simp: ex_raw)

text \<open>
  C14. What a trampoline consists of: the marker; then, as big-endian words, the injected code, the
  instructions at the entry point as relocated from there to their place in the trampoline, and the
  jump back, as many words as the plan says; then the path, exactly
  at the address the injected code passes to the kernel, with its terminator; padded to a multiple
  of four. The entry patch is the jump to the word after the marker.
\<close>

theorem trampoline_layout:
  assumes "length (raw f) < 2 ^ 64" "buildTrampoline f d a p = Inr (Inr t)"
  defines "n \<equiv> displacedInstructionCount t"
  shows "\<exists>off vs. vaddrToFileOffset Ps3 (codeAddress d) f = Inr off \<and>
    relocateDisplacedInstructions (readInstructions n (slice (unat off) (n * 4) (raw f)))
      (ucast (codeAddress d)) (resume_addr a) = Inr vs \<and>
    length vs = n \<and> (n = 1 \<or> n = 5) \<and> slice 0 8 (blob t) = map of_char ''SP3PATCH'' \<and>
    readInstructions (49 + n + length (jump_back d a n)) (drop 8 (blob t)) =
      injected_words (path_addr d a n) (ucast (tocValue d)) @ vs @ jump_back d a n \<and>
    slice (unat (path_addr d a n - a)) (length p + 1) (blob t) = map of_char p @ [0] \<and>
    length (blob t) mod 4 = 0 \<and> trampolineAddr t = a \<and> entryPatchAddr t = ucast (codeAddress d) \<and>
    entryPatchBytes t = toBigEndianBytes (makeMinimalJump (entryPatchAddr t) (a + 8))"
proof -
  obtain off vs where t: "relocateDisplacedInstructions
      (readInstructions (length (jump_in d a)) (slice (unat off) (length (jump_in d a) * 4) (raw f)))
      (ucast (codeAddress d)) (resume_addr a) = Inr vs" "t = trampoline_of d a p vs"
    and off: "vaddrToFileOffset Ps3 (codeAddress d) f = Inr off"
    using assms(2) unfolding build_Inr [OF assms(1)] by blast
  from length_relocated [OF t(1)] have vs: "length vs = length (jump_in d a)" by simp
  have n: "n = length vs" using t(2) vs by (simp add: n_def trampoline_of_def)
  have reloc: "relocateDisplacedInstructions (readInstructions n (slice (unat off) (n * 4) (raw f)))
      (ucast (codeAddress d)) (resume_addr a) = Inr vs"
    using t(1) n vs by simp
  note words = length_blob_words [of d a vs, folded n]
  let ?m = "49 + n + length (jump_back d a n)"
  have "?m \<le> 59" using n vs length_jump_in [of d a] length_jump_back [of d a n] by auto
  then have "unat (of_nat (8 + 4 * ?m) :: u32) = 8 + 4 * ?m"
    by (simp only: unat_of_nat) (simp add: take_bit_nat_eq_self)
  moreover have "path_addr d a n - a = of_nat (8 + 4 * ?m)" by (simp add: path_addr_def)
  ultimately have path: "unat (path_addr d a n - a) = 8 + 4 * ?m" by (simp only:)
  note parts = blob_parts [where d = d and a = a and p = p and vs = vs, folded t(2), unfolded words]
  have "slice 0 8 (blob t) = map of_char ''SP3PATCH''" using parts(1) by (simp only: TRAMPOLINE_MAGIC_def)
  moreover have "readInstructions ?m (drop 8 (blob t)) =
      injected_words (path_addr d a n) (ucast (tocValue d)) @ vs @ jump_back d a n"
    using parts(2) by (simp only: blob_words_def n)
  moreover have "slice (unat (path_addr d a n - a)) (length p + 1) (blob t) = map of_char p @ [0]"
    using parts(3) by (simp only: path)
  moreover have "n = 1 \<or> n = 5" using n vs length_jump_in [of d a] by simp
  ultimately show ?thesis using parts(4) n t(2) off reloc
    by (intro exI [of _ off] exI [of _ vs] conjI) (simp_all add: trampoline_of_def jump_in_def)
qed

theorem trampoline_layout_witness:
  "slice 0 8 (blob ex_trampoline) = map of_char ''SP3PATCH'' \<and> length (blob ex_trampoline) mod 4 = 0"
  using trampoline_layout [OF _ ex_build] by (auto simp: ex_raw)

text \<open>
  C15. Why a trampoline is not built: the error a refusal carries names the first check that failed, in
  the order arguments, earlier patch, entry address, entry bytes, relocation.
\<close>

theorem trampoline_errors:
  "case buildTrampoline f d a p of
     Inl _ \<Rightarrow> False
   | Inr (Inr _) \<Rightarrow> True
   | Inr (Inl e) \<Rightarrow> code e =
       (if p = [] \<or> 1023 < length p \<or> a mod 4 \<noteq> 0 \<or> codeAddress d mod 4 \<noteq> 0 then InvalidArgument
        else if isAlreadyPatched f then AlreadyPatched
        else (case vaddrToFileOffset Ps3 (codeAddress d) f of
            Inl _ \<Rightarrow> OffsetOutOfBounds
          | Inr off \<Rightarrow>
              if result_ok (readAt off (of_nat (length (jump_in d a) * 4)) f) then RelocationFailed
              else TruncatedFile))"
  using relocateDisplaced_Inl
  by (auto simp: buildTrampoline_def Let_def kMaxPathLength_def jump_in_def [symmetric]
      assembleTrampoline_eq result_ok_def result_bind_eq_Inl not_less split: sum.splits
      del: mod_0_imp_dvd)

theorem trampoline_errors_witness:
  "\<exists>e. buildTrampoline ex_file ex_entry 0x20002 ''/a'' = Inr (Inl e) \<and> code e = InvalidArgument"
proof -
  obtain e where "buildTrampoline ex_file ex_entry 0x20002 ''/a'' = Inr (Inl e)"
    by (simp add: buildTrampoline_def kMaxPathLength_def)
  then show ?thesis using trampoline_errors [where f = ex_file and d = ex_entry and a = "0x20002" and p = "''/a''"] by simp
qed

text \<open>
  C16. Relocating the displaced instructions: a block comes out exactly when every relative branch in it
  can be re-encoded, with each relative branch corrected for its own old and new address and every
  other instruction copied; otherwise the error is \<open>RelocationFailed\<close>.
\<close>

theorem relocated_block:
  "(relocateDisplacedInstructions ws oldBase newBase = Inr vs \<longleftrightarrow>
      length vs = length ws \<and>
      (\<forall>k<length ws.
         if kind (classify (ws ! k)) = DirectRelative
         then relocateBranch (classify (ws ! k)) (oldBase + of_nat (k * 4)) (newBase + of_nat (k * 4)) = Some (vs ! k)
         else vs ! k = ws ! k)) \<and>
   (\<forall>e. relocateDisplacedInstructions ws oldBase newBase = Inl e \<longrightarrow>
      code e = RelocationFailed \<and>
      (\<exists>k<length ws. kind (classify (ws ! k)) = DirectRelative \<and>
         relocateBranch (classify (ws ! k)) (oldBase + of_nat (k * 4)) (newBase + of_nat (k * 4)) = None))"
proof -
  have ix: "relocated_ix ob nb k w = Some v \<longleftrightarrow>
      (if kind (classify w) = DirectRelative
       then relocateBranch (classify w) (ob + of_nat (k * 4)) (nb + of_nat (k * 4)) = Some v else v = w)"
    "relocated_ix ob nb k w = None \<longleftrightarrow> kind (classify w) = DirectRelative \<and>
       relocateBranch (classify w) (ob + of_nat (k * 4)) (nb + of_nat (k * 4)) = None" for ob nb k w v
    by (auto simp: relocated_ix_def relocated_at_def)
  show ?thesis unfolding relocateDisplaced_Inr ix(1) using relocateDisplaced_Inl [unfolded ix(2)] by blast
qed

theorem relocated_block_witness:
  "relocateDisplacedInstructions [0x60000000] 0x10008 0x200CC = Inr [0x60000000]"
  using relocated_block [of "[0x60000000]" "0x10008" "0x200CC" "[0x60000000]"]
  by (simp add: classify_other default_branch_def)

section \<open>The entry point and the place of the trampoline\<close>

text \<open>
  C27. The entry descriptor: it resolves exactly for an \<open>EM_PPC64\<close> file whose \<open>e_entry\<close> lies in a
  file-backed segment with 8 bytes there, and is then the two 32-bit big-endian words at that place.
\<close>

theorem entry_descriptor:
  assumes "length (raw f) < 2 ^ 64"
  shows "resolveEntryDescriptor f = Inr d \<longleftrightarrow>
    get16 Big (e_machine64 (header f)) = 21 \<and>
    (\<exists>off. vaddrToFileOffset Ps3 (entry Ps3 f) f = Inr off \<and> unat off + 8 \<le> length (raw f) \<and>
       d = \<lparr>codeAddress = ucast (be_word (slice (unat off) 4 (raw f)) :: u32),
            tocValue = ucast (be_word (slice (unat off + 4) 4 (raw f)) :: u32), envPointer = 0\<rparr>)"
  using resolve_Inr [OF assms] by (simp only: EM_PPC64_def)

theorem entry_descriptor_witness:
  "resolveEntryDescriptor ex_file = Inr \<lparr>codeAddress = 0x10008, tocValue = 0x18000, envPointer = 0\<rparr>"
  using entry_descriptor [of ex_file "\<lparr>codeAddress = 0x10008, tocValue = 0x18000, envPointer = 0\<rparr>"]
  by (simp add: ex_raw ex_parts ex_header_read entry_def ex_lookup ex_slices be_word_4)


text \<open>A program with a segment in the last 64 KB of the 32-bit address space.\<close>

definition high_file :: Ps3ElfFile where
  "high_file = ex_file\<lparr>segments :=
     [make_phdr Ps3 PT_LOAD 5 0 0 0 0x1000 0x1000 0x10000,
      make_phdr Ps3 PT_LOAD 6 0x1000 0xFFFF0000 0xFFFF0000 16 0x8000 0x10000]\<rparr>"

lemma high_end: "highestEnd (segments high_file) = 0xFFFF8000"
  using elf64.made_phdr [where E = Big] by (simp add: highestEnd_def high_file_def Let_def)


text \<open>There it lies inside a segment of the program.\<close>

theorem trampoline_address_wraps:
  "\<exists>ph\<in>set (segments high_file). p_type Ps3 ph = PT_LOAD \<and>
     p_vaddr Ps3 ph \<le> ucast (placement high_file) \<and>
     ucast (placement high_file) < p_vaddr Ps3 ph + p_memsz Ps3 ph"
proof -
  have "placement high_file = 0" by (simp add: placement_def alignUp_def high_end)
  then show ?thesis using elf64.made_phdr [where E = Big] by (simp add: high_file_def)
qed

text \<open>
  C37. A jump to an aligned address below \<open>2 ^ 31\<close> gets there from anywhere: in one instruction and
  without touching a register when the distance fits, otherwise in five that leave the target in r12
  and CTR (before the prologue of the trampoline saves them, and after its epilogue restored them).
\<close>

theorem minimal_jump_reaches:
  assumes "code_at img (ucast fromAddr) (makeMinimalJump fromAddr toAddr)"
    and "4 dvd unat toAddr" "unat toAddr < 2 ^ 31"
  shows "run lv2 img (length (makeMinimalJump fromAddr toAddr)) (s\<lparr>pc := ucast fromAddr\<rparr>) =
    Some (if jump_near fromAddr toAddr then s\<lparr>pc := ucast toAddr\<rparr>
      else s\<lparr>gpr := (gpr s)(12 := ucast toAddr), ctr := ucast toAddr, pc := ucast toAddr\<rparr>)"
  using assms by (rule run_makeMinimalJump)

theorem minimal_jump_reaches_witness:
  "\<exists>t. run ex_kernel ex_image 1 ex_cpu = Some t \<and> pc t = 0x20008 \<and> gpr t 12 = 7"
proof -
  have jump: "makeMinimalJump 0x10008 0x20008 = jump_in ex_entry 0x20000"
    by (simp add: jump_in_def ex_entry_def)
  then have one: "length (makeMinimalJump 0x10008 0x20008) = 1" using ex_jump_in by simp
  have "readInstructions 1 (entryPatchBytes ex_trampoline) = makeMinimalJump 0x10008 0x20008"
    using readInstructions_toBigEndianBytes [of "jump_in ex_entry 0x20000" "[]"] ex_jump_in jump
    by (simp add: ex_trampoline_def trampoline_of_def)
  then have "code_at ex_image (ucast (0x10008 :: u32)) (makeMinimalJump 0x10008 0x20008)"
    using ex_code_entry by simp
  then have "run ex_kernel ex_image (length (makeMinimalJump 0x10008 0x20008)) (ex_cpu\<lparr>pc := ucast (0x10008 :: u32)\<rparr>) =
      Some (if jump_near 0x10008 0x20008 then ex_cpu\<lparr>pc := ucast (0x20008 :: u32)\<rparr> else
        ex_cpu\<lparr>gpr := (gpr ex_cpu)(12 := ucast (0x20008 :: u32)), ctr := ucast (0x20008 :: u32), pc := ucast (0x20008 :: u32)\<rparr>)"
    by (rule minimal_jump_reaches) simp_all
  moreover have "ex_cpu\<lparr>pc := ucast (0x10008 :: u32)\<rparr> = ex_cpu" by (simp add: ex_cpu_def)
  ultimately have "run ex_kernel ex_image 1 ex_cpu = Some (ex_cpu\<lparr>pc := 0x20008\<rparr>)"
    unfolding one using ex_jump_near by simp
  then show ?thesis by (simp add: ex_cpu_def)
qed

section \<open>Reports and messages\<close>

text \<open>
  No line of the segment table is cut off by the 256-byte buffer: each of the seven columns is
  printed whole, for every segment index an ELF file can have.
\<close>

theorem segment_line_complete:
  assumes "idx < 65536"
  shows "segmentLine idx ph =
    ''  '' @ pad_right 3 (to_string idx) @ '' '' @
    pad_right 9 (segmentTypeToString (p_type Ps3 ph)) @ '' '' @
    pad_right 6 (segmentFlagsToString (get32 Big (p_flags64 ph))) @ '' '' @
    pad_right 18 (''0x'' @ hex_digits (unat (p_vaddr Ps3 ph))) @ '' '' @
    pad_right 18 (''0x'' @ hex_digits (unat (p_offset Ps3 ph))) @ '' '' @
    pad_right 11 (''0x'' @ hex_digits (unat (p_filesz Ps3 ph))) @ '' '' @
    ''0x'' @ hex_digits (unat (p_memsz Ps3 ph)) @ newline"
proof -
  have idx: "length (to_string idx) \<le> 5" using assms by (intro length_to_string) simp_all
  have flags: "length (segmentFlagsToString fl) = 3" for fl by (simp add: segmentFlagsToString_def)
  have hex_len: "length (''0x'' @ hex_digits (unat v)) \<le> 18" for v :: u64
    using hex_eq(2) [of v] by (simp only: hex_eq(1))
  have col: "length (pad_right m (''0x'' @ hex_digits (unat v))) \<le> 18" if "m \<le> 18" for m and v :: u64
    using hex_len [of v] that by (simp add: length_pad_right)
  have ty: "length (pad_right 9 (segmentTypeToString (p_type Ps3 ph))) \<le> 10"
    "length (pad_right 3 (to_string idx)) \<le> 5" "length (pad_right 6 (segmentFlagsToString fl)) = 6" for fl
    using length_segmentTypeToString [of "p_type Ps3 ph"] idx flags by (simp_all add: length_pad_right)
  let ?cols = "''  '' @ pad_right 3 (to_string idx) @ '' '' @
    pad_right 9 (segmentTypeToString (p_type Ps3 ph)) @ '' '' @
    pad_right 6 (segmentFlagsToString (get32 Big (p_flags64 ph))) @ '' '' @
    pad_right 18 (''0x'' @ hex_digits (unat (p_vaddr Ps3 ph))) @ '' '' @
    pad_right 18 (''0x'' @ hex_digits (unat (p_offset Ps3 ph))) @ '' '' @
    pad_right 11 (''0x'' @ hex_digits (unat (p_filesz Ps3 ph))) @ '' '' @
    (''0x'' @ hex_digits (unat (p_memsz Ps3 ph))) @ newline"
  have "length ?cols < 256"
    using ty(1,2) ty(3) [of "get32 Big (p_flags64 ph)"] col [of 18 "p_vaddr Ps3 ph"] col [of 18 "p_offset Ps3 ph"]
      col [of 11 "p_filesz Ps3 ph"] hex_len [of "p_memsz Ps3 ph"]
    by (simp only: length_append newline_def list.size) simp
  then have "snprintf_to 256 ?cols = ?cols" by (rule snprintf_to_id)
  then show ?thesis unfolding segmentLine_def hex_eq(1) append_assoc .
qed

theorem segment_line_complete_witness:
  "take 6 (segmentLine 7 (phdr_load Ps3 ex_phdr)) = ''  7   ''"
proof -
  have seven: "to_string 7 = ''7''" by (simp add: to_string_def digits.simps digit_char_def char_of_def bit_0)
  show ?thesis using segment_line_complete [of 7 "phdr_load Ps3 ex_phdr"] by (simp add: seven pad_right_def numeral_2_eq_2)
qed

text \<open>
  The numbers in reports and messages can be read back: the hexadecimal text of a 64-bit value,
  after its prefix, and the decimal text of a size denote that number.
\<close>

theorem numbers_read_back:
  "take 2 (hex v) = ''0x'' \<and> read_digits 16 (map char_digit (drop 2 (hex v))) = unat v \<and>
   read_digits 10 (map char_digit (to_string n)) = n"
  by (simp add: hex_eq(1) read_hex_digits read_to_string)

text \<open>
  The message for an unresolvable entry point misreports the address: it prints decimal digits
  after the prefix \<open>0x\<close>.
\<close>

theorem entry_message_decimal:
  "entry Ps3 (ex_file\<lparr>segments := []\<rparr>) = 0x10000 \<and>
   (\<exists>e. resolveEntryDescriptor (ex_file\<lparr>segments := []\<rparr>) = Inl e \<and>
      take 18 (message e) = ''e_entry (0x65536) '')"
proof -
  have dec: "to_string 65536 = ''65536''" by (simp add: to_string_def digits.simps digit_char_def char_of_def bit_0)
  have "entry Ps3 (ex_file\<lparr>segments := []\<rparr>) = 0x10000" by (simp add: entry_def ex_parts ex_header_read)
  then show ?thesis
    by (simp add: resolveEntryDescriptor_def validatePs3Executable_def ok_unit_def ex_parts ex_header_read
        EM_PPC64_def vaddrToFileOffset_def Let_def dec)
qed

text \<open>
  Instructions survive the trip through bytes: reading back as many big-endian words as were
  written gives the instructions written, whatever follows them.
\<close>

theorem instruction_bytes_roundtrip:
  "length (toBigEndianBytes ws) = 4 * length ws \<and>
   readInstructions (length ws) (toBigEndianBytes ws @ rest) = ws"
  by (simp add: readInstructions_toBigEndianBytes)

end
